(* ===== verification/Prelude.thy ===== *)
theory Prelude
  imports Main "HOL-Library.Char_ord" "HOL-Library.List_Lexorder"
begin

section \<open>Prelude: the vocabulary the component theories share\<close>

text \<open>
  This theory holds what every component of the gateway uses of Rust and its standard
  library: \<open>Result\<close> as a sum type, \<open>i64\<close> arithmetic with its wrap-around,
  \<open>Iterator::find_map\<close>, decimal rendering, and \<open>BTreeMap\<close> with the contract its
  clients rely on (the locale \<open>ordered_map\<close>, interpreted on the sorted association
  lists that model it).
\<close>

text \<open>\<open>slug\<close> collects the equations of the machine-readable codes, \<open>i64s\<close> the facts
  about wrapping arithmetic, \<open>btree\<close> those about ordered maps.\<close>

named_theorems slug
named_theorems i64s
named_theorems btree

subsection \<open>Results\<close>

text \<open>A fallible function returns \<open>Result\<close>: the error on the left, the value on the right.\<close>

abbreviation Err :: "'e \<Rightarrow> 'e + 'a" where "Err \<equiv> Inl"
abbreviation Ok :: "'a \<Rightarrow> 'e + 'a" where "Ok \<equiv> Inr"

text \<open>The \<open>?\<close> operator: go on with the value, or return the error at once.\<close>

definition try_bind :: "'e + 'a \<Rightarrow> ('a \<Rightarrow> 'e + 'b) \<Rightarrow> 'e + 'b" where
  "try_bind r k = (case r of Inl e \<Rightarrow> Inl e | Inr a \<Rightarrow> k a)"

lemma try_bind_simps [simp]:
  "try_bind (Inl e) k = Inl e"
  "try_bind (Inr a) k = k a"
  by (simp_all add: try_bind_def)

lemma try_bind_Ok: "try_bind r k = Inr b \<longleftrightarrow> (\<exists>a. r = Inr a \<and> k a = Inr b)"
  by (cases r) auto

definition is_ok :: "'e + 'a \<Rightarrow> bool" where
  "is_ok r = (case r of Inl _ \<Rightarrow> False | Inr _ \<Rightarrow> True)"

lemma is_ok_simps [simp]: "is_ok (Inl e) = False" "is_ok (Inr a) = True"
  by (simp_all add: is_ok_def)

text \<open>A computation that can panic is an \<open>option\<close>; \<open>returns\<close> says that it does not.\<close>

definition returns :: "'a option \<Rightarrow> bool" where
  "returns m = (case m of None \<Rightarrow> False | Some _ \<Rightarrow> True)"

lemma returns_simps [simp]: "returns (Some a)" "\<not> returns None" "returns (map_option f m) = returns m"
  by (simp_all add: returns_def split: option.split)

lemma returns_bind: "returns (Option.bind m f) \<longleftrightarrow> returns m \<and> (\<forall>a. m = Some a \<longrightarrow> returns (f a))"
  by (cases m) simp_all

lemma returns_iff: "returns m \<longleftrightarrow> (\<exists>a. m = Some a)"
  by (cases m) simp_all

lemma returnsI: "m = Some a \<Longrightarrow> returns m"
  by simp

subsection \<open>Sixty-four-bit signed integers\<close>

text \<open>
  An \<open>i64\<close> is an \<open>int\<close> in range; the operations that can leave the range are written
  with the two's-complement wrap-around of a release build.
\<close>

definition wrap_i64 :: "int \<Rightarrow> int" where
  "wrap_i64 x = (x + 2 ^ 63) mod 2 ^ 64 - 2 ^ 63"

definition in_i64 :: "int \<Rightarrow> bool" where
  "in_i64 x \<longleftrightarrow> - (2 ^ 63) \<le> x \<and> x < 2 ^ 63"

text \<open>Rust's \<open>as i64\<close> from a float saturates at the ends of the range.\<close>

definition sat_i64 :: "int \<Rightarrow> int" where
  "sat_i64 x = max (- (2 ^ 63)) (min (2 ^ 63 - 1) x)"

lemma wrap_i64_in_range [i64s]: "in_i64 (wrap_i64 x)"
proof -
  have "0 \<le> (x + 2 ^ 63) mod 2 ^ 64" "(x + 2 ^ 63) mod 2 ^ 64 < (2::int) ^ 64"
    by (rule pos_mod_sign, simp) (rule pos_mod_bound, simp)
  then show ?thesis by (simp add: wrap_i64_def in_i64_def)
qed

lemma wrap_i64_id [i64s]: "in_i64 x \<Longrightarrow> wrap_i64 x = x"
  by (simp add: wrap_i64_def in_i64_def)

lemma wrap_i64_add_left [i64s]: "wrap_i64 (wrap_i64 x + y) = wrap_i64 (x + y)"
proof -
  have "((x + 2 ^ 63) mod 2 ^ 64 - 2 ^ 63 + y + 2 ^ 63) mod 2 ^ 64
        = ((x + 2 ^ 63) mod 2 ^ 64 + y) mod (2::int) ^ 64"
    by (simp add: algebra_simps)
  also have "\<dots> = (x + 2 ^ 63 + y) mod 2 ^ 64"
    by (rule mod_add_left_eq)
  finally show ?thesis by (simp add: wrap_i64_def algebra_simps)
qed

lemma sat_i64_in_range [i64s]: "in_i64 (sat_i64 x)"
  by (auto simp: sat_i64_def in_i64_def)

lemma sat_i64_id [i64s]: "in_i64 x \<Longrightarrow> sat_i64 x = x"
  by (auto simp: sat_i64_def in_i64_def)

text \<open>\<open>iter().sum()\<close> over \<open>i64\<close>: a left fold of wrapping additions.\<close>

definition i64_sum :: "int list \<Rightarrow> int" where
  "i64_sum xs = foldl (\<lambda>acc x. wrap_i64 (acc + x)) 0 xs"

lemma i64_fold_wrap:
  "wrap_i64 (foldl (\<lambda>acc x. wrap_i64 (acc + x)) a xs) = wrap_i64 (a + sum_list xs)"
proof (induction xs arbitrary: a)
  case Nil
  then show ?case by simp
next
  case (Cons x xs)
  then show ?case by (simp add: wrap_i64_add_left add.assoc)
qed

lemma i64_fold_in_range:
  "in_i64 a \<Longrightarrow> in_i64 (foldl (\<lambda>acc x. wrap_i64 (acc + x)) a xs)"
  by (induction xs arbitrary: a) (auto intro: wrap_i64_in_range)

lemma i64_sum_wrap [i64s]: "i64_sum xs = wrap_i64 (sum_list xs)"
proof -
  have "in_i64 (i64_sum xs)"
    unfolding i64_sum_def by (rule i64_fold_in_range) (simp add: in_i64_def)
  then have "i64_sum xs = wrap_i64 (i64_sum xs)"
    by (simp add: wrap_i64_id)
  also have "\<dots> = wrap_i64 (sum_list xs)"
    using i64_fold_wrap [of 0 xs] by (simp add: i64_sum_def)
  finally show ?thesis .
qed

lemma i64_sum_exact: "in_i64 (sum_list xs) \<Longrightarrow> i64_sum xs = sum_list xs"
  by (simp add: i64_sum_wrap wrap_i64_id)

subsection \<open>Iterators\<close>

fun find_map :: "('a \<Rightarrow> 'b option) \<Rightarrow> 'a list \<Rightarrow> 'b option" where
  "find_map f [] = None"
| "find_map f (x # xs) = (case f x of None \<Rightarrow> find_map f xs | Some y \<Rightarrow> Some y)"

lemma find_map_None: "find_map f xs = None \<longleftrightarrow> (\<forall>x \<in> set xs. f x = None)"
  by (induction xs) (auto split: option.splits)

lemma find_map_append:
  "find_map f (xs @ ys) = (case find_map f xs of None \<Rightarrow> find_map f ys | Some y \<Rightarrow> Some y)"
  by (induction xs) (auto split: option.splits)

lemma find_map_Some_in: "find_map f xs = Some y \<Longrightarrow> \<exists>x \<in> set xs. f x = Some y"
  by (induction xs) (auto split: option.splits)

text \<open>\<open>Vec::join\<close>.\<close>

fun join_with :: "string \<Rightarrow> string list \<Rightarrow> string" where
  "join_with sep [] = []"
| "join_with sep [x] = x"
| "join_with sep (x # y # ys) = x @ sep @ join_with sep (y # ys)"

subsection \<open>Decimal rendering\<close>

definition digit_char :: "nat \<Rightarrow> char" where
  "digit_char d = char_of (48 + d)"

definition char_digit :: "char \<Rightarrow> nat" where
  "char_digit c = of_char c - 48"

definition is_digit :: "char \<Rightarrow> bool" where
  "is_digit c \<longleftrightarrow> 48 \<le> (of_char c :: nat) \<and> (of_char c :: nat) \<le> 57"

fun show_nat :: "nat \<Rightarrow> string" where
  "show_nat n = (if n < 10 then [digit_char n] else show_nat (n div 10) @ [digit_char (n mod 10)])"

declare show_nat.simps [simp del]

definition show_int :: "int \<Rightarrow> string" where
  "show_int i = (if i < 0 then CHR ''-'' # show_nat (nat (- i)) else show_nat (nat i))"

text \<open>Reading digits back, the inverse used by the round trips.\<close>

definition digits_value :: "string \<Rightarrow> nat" where
  "digits_value s = foldl (\<lambda>acc c. 10 * acc + char_digit c) 0 s"

text \<open>\<open>{:0w}\<close>: left-pad with zeros to the width.\<close>

definition pad_zeros :: "nat \<Rightarrow> string \<Rightarrow> string" where
  "pad_zeros w s = replicate (w - length s) (CHR ''0'') @ s"

lemma of_char_digit_char: "d < 10 \<Longrightarrow> of_char (digit_char d) = 48 + d"
  by (simp add: digit_char_def)

lemma is_digit_digit_char: "d < 10 \<Longrightarrow> is_digit (digit_char d)"
  by (simp add: is_digit_def of_char_digit_char)

lemma char_digit_digit_char [simp]: "d < 10 \<Longrightarrow> char_digit (digit_char d) = d"
  by (simp add: char_digit_def of_char_digit_char)

lemma show_nat_digits: "c \<in> set (show_nat n) \<Longrightarrow> is_digit c"
proof (induction n rule: show_nat.induct)
  case (1 n)
  then show ?case
    by (auto simp: show_nat.simps [of n] is_digit_digit_char split: if_splits)
qed

lemma show_nat_nonempty [simp]: "show_nat n \<noteq> []"
  by (subst show_nat.simps) simp

lemma digits_value_snoc: "digits_value (s @ [c]) = 10 * digits_value s + char_digit c"
  by (simp add: digits_value_def)

lemma digits_value_show_nat [simp]: "digits_value (show_nat n) = n"
proof (induction n rule: show_nat.induct)
  case (1 n)
  show ?case
  proof (cases "n < 10")
    case True
    then show ?thesis by (simp add: show_nat.simps [of n] digits_value_def)
  next
    case False
    with "1.IH" show ?thesis
      by (simp add: show_nat.simps [of n] digits_value_snoc)
  qed
qed

lemma show_nat_inject: "show_nat m = show_nat n \<longleftrightarrow> m = n"
  by (metis digits_value_show_nat)

lemma foldl_zeros:
  "foldl (\<lambda>acc c. 10 * acc + char_digit c) 0 (replicate k (CHR ''0'') @ s)
   = foldl (\<lambda>acc c. 10 * acc + char_digit c) 0 s"
  by (induction k) (simp_all add: char_digit_def)

lemma digits_value_pad_zeros [simp]: "digits_value (pad_zeros w s) = digits_value s"
  unfolding digits_value_def pad_zeros_def by (rule foldl_zeros)

lemma is_digit_pad_zeros: "(\<forall>c \<in> set s. is_digit c) \<Longrightarrow> \<forall>c \<in> set (pad_zeros w s). is_digit c"
  by (auto simp: pad_zeros_def is_digit_def)

lemma length_pad_zeros: "length (pad_zeros w s) = max w (length s)"
  by (auto simp: pad_zeros_def)

lemma length_show_nat_le: "n < 10 ^ Suc k \<Longrightarrow> length (show_nat n) \<le> Suc k"
proof (induction k arbitrary: n)
  case 0
  then show ?case by (simp add: show_nat.simps [of n])
next
  case (Suc k)
  show ?case
  proof (cases "n < 10")
    case True
    then show ?thesis by (simp add: show_nat.simps [of n])
  next
    case False
    have "n div 10 < 10 ^ Suc k"
      using Suc.prems by (simp add: less_mult_imp_div_less)
    then have "length (show_nat (n div 10)) \<le> Suc k" by (rule Suc.IH)
    with False show ?thesis by (simp add: show_nat.simps [of n])
  qed
qed

subsection \<open>Ordered maps\<close>

text \<open>
  What the code relies on when it holds tags, environments and counters in a
  \<open>BTreeMap\<close>: lookups see the last insertion, and iteration visits the keys in
  ascending order whatever the insertion order was. The last point is what makes a
  scope's rendering canonical.
\<close>

lemma assoc_rebuild: "distinct (map fst xs) \<Longrightarrow> xs = map (\<lambda>k. (k, the (map_of xs k))) (map fst xs)"
proof (rule nth_equalityI)
  fix i
  assume d: "distinct (map fst xs)" and i: "i < length xs"
  then have "map_of xs (fst (xs ! i)) = Some (snd (xs ! i))"
    by (simp add: map_of_eq_Some_iff)
  with i show "xs ! i = map (\<lambda>k. (k, the (map_of xs k))) (map fst xs) ! i"
    by (simp add: prod_eq_iff)
qed simp

locale ordered_map =
  fixes entries :: "'m \<Rightarrow> ('k::linorder \<times> 'v) list"
    and get :: "'m \<Rightarrow> 'k \<Rightarrow> 'v option"
    and insert :: "'k \<Rightarrow> 'v \<Rightarrow> 'm \<Rightarrow> 'm"
    and invar :: "'m \<Rightarrow> bool"
  assumes invar_insert: "invar m \<Longrightarrow> invar (insert k v m)"
    and get_insert: "invar m \<Longrightarrow> get (insert k v m) = (get m)(k \<mapsto> v)"
    and entries_sorted: "invar m \<Longrightarrow> sorted_wrt (<) (map fst (entries m))"
    and entries_get: "invar m \<Longrightarrow> map_of (entries m) = get m"
begin

lemma entries_distinct: "invar m \<Longrightarrow> distinct (map fst (entries m))"
  using entries_sorted strict_sorted_iff by blast

lemma in_entries_iff: "invar m \<Longrightarrow> (k, v) \<in> set (entries m) \<longleftrightarrow> get m k = Some v"
  using entries_distinct entries_get by (metis map_of_eq_Some_iff)

text \<open>Iteration depends only on what lookups see.\<close>

lemma entries_canonical:
  assumes "invar m" and "invar m'" and "get m = get m'"
  shows "entries m = entries m'"
proof -
  have ks: "map fst (entries m) = map fst (entries m')"
  proof (rule strict_sorted_equal)
    show "sorted_wrt (<) (map fst (entries m))" "sorted_wrt (<) (map fst (entries m'))"
      using assms entries_sorted by auto
    have "set (map fst (entries m)) = dom (get m)"
      using assms(1) by (metis dom_map_of_conv_image_fst entries_get list.set_map)
    moreover have "set (map fst (entries m')) = dom (get m')"
      using assms(2) by (metis dom_map_of_conv_image_fst entries_get list.set_map)
    ultimately show "set (map fst (entries m)) = set (map fst (entries m'))"
      using assms(3) by simp
  qed
  have "entries m = map (\<lambda>k. (k, the (get m k))) (map fst (entries m))"
    using assoc_rebuild [OF entries_distinct] entries_get assms(1) by metis
  also have "\<dots> = map (\<lambda>k. (k, the (get m' k))) (map fst (entries m'))"
    by (simp only: ks assms(3))
  also have "\<dots> = entries m'"
    using assoc_rebuild [OF entries_distinct] entries_get assms(2) by metis
  finally show ?thesis .
qed

lemma insert_commute:
  assumes "invar m" and "k \<noteq> k'"
  shows "entries (insert k v (insert k' v' m)) = entries (insert k' v' (insert k v m))"
  using assms by (intro entries_canonical) (auto simp: invar_insert get_insert fun_upd_twist)

end

text \<open>\<open>BTreeMap\<close> as the association list its iterator yields.\<close>

type_synonym ('k, 'v) btree = "('k \<times> 'v) list"

fun bt_insert :: "'k::linorder \<Rightarrow> 'v \<Rightarrow> ('k, 'v) btree \<Rightarrow> ('k, 'v) btree" where
  "bt_insert k v [] = [(k, v)]"
| "bt_insert k v ((k', v') # m) =
     (if k < k' then (k, v) # (k', v') # m
      else if k = k' then (k, v) # m
      else (k', v') # bt_insert k v m)"

definition bt_ok :: "('k::linorder, 'v) btree \<Rightarrow> bool" where
  "bt_ok m \<longleftrightarrow> sorted_wrt (<) (map fst m)"

lemma bt_ok_Nil [simp]: "bt_ok []"
  by (simp add: bt_ok_def)

lemma bt_insert_keys: "fst ` set (bt_insert k v m) = Set.insert k (fst ` set m)"
proof (induction m)
  case Nil
  then show ?case by simp
next
  case (Cons p m)
  then show ?case by (cases p) (simp add: insert_commute)
qed

lemma bt_insert_ok [btree]: "bt_ok m \<Longrightarrow> bt_ok (bt_insert k v m)"
proof (induction m)
  case Nil
  then show ?case by (simp add: bt_ok_def)
next
  case (Cons p m)
  obtain k' v' where p: "p = (k', v')" by (cases p)
  from Cons.prems have "bt_ok m" and lt: "\<forall>x \<in> fst ` set m. k' < x"
    by (auto simp: bt_ok_def p)
  with Cons.IH have "bt_ok (bt_insert k v m)" by simp
  moreover have "k' < k \<Longrightarrow> \<forall>x \<in> fst ` set (bt_insert k v m). k' < x"
    using lt by (auto simp: bt_insert_keys)
  ultimately show ?case
    using Cons.prems lt by (auto simp: bt_ok_def p)
qed

lemma bt_insert_get [btree]: "map_of (bt_insert k v m) = (map_of m)(k \<mapsto> v)"
  by (induction m) (auto simp: fun_eq_iff)

interpretation bt: ordered_map "\<lambda>m. m" map_of bt_insert bt_ok
  by unfold_locales (auto simp: btree bt_ok_def [symmetric])

text \<open>A map collected from an iterator of pairs: the later pair wins.\<close>

definition bt_collect :: "('k::linorder \<times> 'v) list \<Rightarrow> ('k, 'v) btree" where
  "bt_collect kvs = foldl (\<lambda>m (k, v). bt_insert k v m) [] kvs"

lemma bt_fold_ok: "bt_ok m \<Longrightarrow> bt_ok (foldl (\<lambda>m (k, v). bt_insert k v m) m kvs)"
  by (induction kvs arbitrary: m) (auto intro: bt_insert_ok)

lemma bt_collect_ok [btree]: "bt_ok (bt_collect kvs)"
  unfolding bt_collect_def by (rule bt_fold_ok) simp

end
