(* ===== verification/Rust_Str.thy ===== *)
theory Rust_Str
  imports Prelude "HOL-Library.Sublist"
begin

section \<open>Rust strings\<close>

text \<open>
  A Rust \<open>str\<close> is a sequence of UTF-8 bytes, and so is an Isabelle \<open>string\<close>: \<open>length\<close>
  is \<open>str::len\<close> and a byte index is a list index. A Rust \<open>char\<close> is modelled as the one
  to four bytes that encode it, and \<open>chars\<close> splits a string into them. The functions
  below are the ones the gateway calls on strings.
\<close>

named_theorems strs

subsection \<open>Bytes and characters\<close>

definition byte :: "char \<Rightarrow> nat" where
  "byte c = of_char c"

text \<open>A continuation byte \<open>10xxxxxx\<close>.\<close>

definition is_cont :: "char \<Rightarrow> bool" where
  "is_cont c \<longleftrightarrow> 128 \<le> byte c \<and> byte c < 192"

text \<open>How many bytes the character introduced by a leading byte has.\<close>

definition char_width :: "char \<Rightarrow> nat" where
  "char_width c =
     (if byte c < 192 then 1 else if byte c < 224 then 2 else if byte c < 240 then 3 else 4)"

lemma char_width_bounds: "1 \<le> char_width c" "char_width c \<le> 4"
  by (auto simp: char_width_def)

fun chars :: "string \<Rightarrow> string list" where
  "chars [] = []"
| "chars (b # bs) = (b # take (char_width b - 1) bs) # chars (drop (char_width b - 1) bs)"

lemma concat_chars [strs, simp]: "concat (chars s) = s"
  by (induction s rule: chars.induct) auto

lemma chars_Nil_iff [simp]: "chars s = [] \<longleftrightarrow> s = []"
  by (cases s) auto

lemma chars_nonempty: "c \<in> set (chars s) \<Longrightarrow> c \<noteq> []"
  by (induction s rule: chars.induct) auto

lemma chars_length_le4: "c \<in> set (chars s) \<Longrightarrow> length c \<le> 4"
proof (induction s rule: chars.induct)
  case (2 b bs)
  then show ?case using char_width_bounds(2) [of b] by auto
qed simp

text \<open>Well-formed UTF-8, as every Rust \<open>str\<close> is: each character is a leading byte
  followed by exactly the continuation bytes it announces.\<close>

definition valid_char :: "string \<Rightarrow> bool" where
  "valid_char u \<longleftrightarrow>
     (case u of [] \<Rightarrow> False
      | b # bs \<Rightarrow> \<not> is_cont b \<and> length u = char_width b \<and> list_all is_cont bs)"

definition valid_utf8 :: "string \<Rightarrow> bool" where
  "valid_utf8 s \<longleftrightarrow> list_all valid_char (chars s)"

definition is_ascii :: "char \<Rightarrow> bool" where
  "is_ascii c \<longleftrightarrow> byte c < 128"

lemma chars_ascii: "list_all is_ascii s \<Longrightarrow> chars s = map (\<lambda>c. [c]) s"
  by (induction s) (auto simp: is_ascii_def char_width_def)

lemma chars_append_char:
  "valid_char u \<Longrightarrow> chars (u @ s) = u # chars s"
  by (cases u) (auto simp: valid_char_def)

lemma chars_concat: "list_all valid_char us \<Longrightarrow> chars (concat us) = us"
  by (induction us) (auto simp: chars_append_char)

lemma chars_append_valid: "valid_utf8 s \<Longrightarrow> chars (s @ t) = chars s @ chars t"
proof -
  have "list_all valid_char us \<Longrightarrow> chars (concat us @ t) = us @ chars t" for us
    by (induction us) (auto simp: chars_append_char)
  from this [of "chars s"] show "valid_utf8 s \<Longrightarrow> chars (s @ t) = chars s @ chars t"
    by (simp add: valid_utf8_def)
qed

lemma valid_utf8_concat: "list_all valid_char us \<Longrightarrow> valid_utf8 (concat us)"
  by (simp add: valid_utf8_def chars_concat)

lemma valid_char_ascii: "is_ascii c \<Longrightarrow> valid_char [c]"
  by (simp add: valid_char_def is_ascii_def is_cont_def char_width_def)

lemma valid_utf8_ascii: "list_all is_ascii s \<Longrightarrow> valid_utf8 s"
  by (auto simp: valid_utf8_def chars_ascii list_all_iff intro: valid_char_ascii)

text \<open>\<open>str::is_char_boundary\<close>.\<close>

definition is_char_boundary :: "string \<Rightarrow> nat \<Rightarrow> bool" where
  "is_char_boundary s i \<longleftrightarrow> i = 0 \<or> i = length s \<or> (i < length s \<and> \<not> is_cont (s ! i))"

text \<open>A boundary is where the characters split: the two halves are again whole.\<close>

lemma boundary_split:
  assumes "list_all valid_char us" and "i \<le> length (concat us)"
    and "is_char_boundary (concat us) i"
  shows "\<exists>k. take i (concat us) = concat (take k us) \<and> drop i (concat us) = concat (drop k us)"
  using assms
proof (induction us arbitrary: i)
  case Nil
  then show ?case by simp
next
  case (Cons u us)
  show ?case
  proof (cases "i = 0")
    case True
    then show ?thesis by (intro exI [of _ 0]) simp
  next
    case False
    have v: "valid_char u" using Cons.prems by simp
    have ge: "length u \<le> i"
    proof (rule ccontr)
      assume "\<not> length u \<le> i"
      then have lt: "i < length u" by simp
      then have "is_cont (concat (u # us) ! i)"
        using v False by (cases u) (auto simp: valid_char_def nth_append list_all_length nth_Cons'
            split: if_splits)
      with False lt Cons.prems(3) show False
        by (auto simp: is_char_boundary_def)
    qed
    have "is_char_boundary (concat us) (i - length u)"
      using Cons.prems(2,3) ge by (auto simp: is_char_boundary_def nth_append)
    moreover have "i - length u \<le> length (concat us)" using Cons.prems(2) ge by simp
    ultimately obtain k where "take (i - length u) (concat us) = concat (take k us)"
      "drop (i - length u) (concat us) = concat (drop k us)"
      using Cons.IH Cons.prems(1) by auto
    with ge show ?thesis by (intro exI [of _ "Suc k"]) simp
  qed
qed

subsection \<open>Classes of characters\<close>

text \<open>\<open>char::is_whitespace\<close>: the Unicode \<open>White_Space\<close> characters, by their encodings.\<close>

definition is_whitespace :: "string \<Rightarrow> bool" where
  "is_whitespace u \<longleftrightarrow>
     (case map byte u of
        [b] \<Rightarrow> (9 \<le> b \<and> b \<le> 13) \<or> b = 32
      | [a, b] \<Rightarrow> a = 194 \<and> (b = 133 \<or> b = 160)
      | [a, b, c] \<Rightarrow>
          (a = 225 \<and> b = 154 \<and> c = 128)
        \<or> (a = 226 \<and> b = 128 \<and> ((128 \<le> c \<and> c \<le> 138) \<or> c = 168 \<or> c = 169 \<or> c = 175))
        \<or> (a = 226 \<and> b = 129 \<and> c = 159)
        \<or> (a = 227 \<and> b = 128 \<and> c = 128)
      | _ \<Rightarrow> False)"

text \<open>\<open>char::is_control\<close>: the category Cc.\<close>

definition is_control :: "string \<Rightarrow> bool" where
  "is_control u \<longleftrightarrow>
     (case map byte u of
        [b] \<Rightarrow> b < 32 \<or> b = 127
      | [a, b] \<Rightarrow> a = 194 \<and> 128 \<le> b \<and> b \<le> 159
      | _ \<Rightarrow> False)"

definition is_ascii_digit :: "char \<Rightarrow> bool" where
  "is_ascii_digit c \<longleftrightarrow> 48 \<le> byte c \<and> byte c \<le> 57"

definition is_ascii_alpha :: "char \<Rightarrow> bool" where
  "is_ascii_alpha c \<longleftrightarrow> (65 \<le> byte c \<and> byte c \<le> 90) \<or> (97 \<le> byte c \<and> byte c \<le> 122)"

definition is_ascii_alnum :: "char \<Rightarrow> bool" where
  "is_ascii_alnum c \<longleftrightarrow> is_ascii_digit c \<or> is_ascii_alpha c"

lemma is_ascii_digit_is_digit: "is_ascii_digit c = is_digit c"
  by (simp add: is_ascii_digit_def is_digit_def byte_def)

subsection \<open>Case\<close>

definition ascii_lower :: "char \<Rightarrow> char" where
  "ascii_lower c = (if 65 \<le> byte c \<and> byte c \<le> 90 then char_of (byte c + 32) else c)"

definition ascii_upper :: "char \<Rightarrow> char" where
  "ascii_upper c = (if 97 \<le> byte c \<and> byte c \<le> 122 then char_of (byte c - 32) else c)"

definition to_ascii_uppercase :: "string \<Rightarrow> string" where
  "to_ascii_uppercase s = map ascii_upper s"

text \<open>
  \<open>str::to_lowercase\<close>. On ASCII text it lowers each letter; on text with a non-ASCII
  character it follows the Unicode tables (final sigma included), which are the
  parameter \<open>ulc\<close>.
\<close>

definition to_lowercase :: "(string \<Rightarrow> string) \<Rightarrow> string \<Rightarrow> string" where
  "to_lowercase ulc s = (if list_all is_ascii s then map ascii_lower s else ulc s)"

subsection \<open>Trimming\<close>

definition trim_start :: "string \<Rightarrow> string" where
  "trim_start s = concat (dropWhile is_whitespace (chars s))"

definition trim_end :: "string \<Rightarrow> string" where
  "trim_end s = concat (rev (dropWhile is_whitespace (rev (chars s))))"

definition trim :: "string \<Rightarrow> string" where
  "trim s = trim_end (trim_start s)"

text \<open>\<open>trim_end_matches\<close> with an array of characters.\<close>

definition trim_end_matches :: "string list \<Rightarrow> string \<Rightarrow> string" where
  "trim_end_matches cs s = concat (rev (dropWhile (\<lambda>u. u \<in> set cs) (rev (chars s))))"

lemma concat_length_dropWhile: "length (concat (dropWhile P us)) \<le> length (concat us)"
  by (induction us) auto

lemma trim_start_length: "length (trim_start s) \<le> length s"
  using concat_length_dropWhile [of is_whitespace "chars s"] by (simp add: trim_start_def)

subsection \<open>Searching\<close>

fun str_find :: "string \<Rightarrow> string \<Rightarrow> nat option" where
  "str_find pat [] = (if pat = [] then Some 0 else None)"
| "str_find pat (c # cs) =
     (if take (length pat) (c # cs) = pat then Some 0 else map_option Suc (str_find pat cs))"

definition str_contains :: "string \<Rightarrow> string \<Rightarrow> bool" where
  "str_contains pat s \<longleftrightarrow> str_find pat s \<noteq> None"

definition starts_with :: "string \<Rightarrow> string \<Rightarrow> bool" where
  "starts_with pat s \<longleftrightarrow> take (length pat) s = pat"

definition strip_prefix :: "string \<Rightarrow> string \<Rightarrow> string option" where
  "strip_prefix pat s = (if starts_with pat s then Some (drop (length pat) s) else None)"

lemma str_find_Some:
  "str_find pat s = Some i \<Longrightarrow> i + length pat \<le> length s \<and> take (length pat) (drop i s) = pat"
proof (induction pat s arbitrary: i rule: str_find.induct)
  case (1 pat)
  then show ?case by (simp split: if_splits)
next
  case (2 pat c cs)
  show ?case
  proof (cases "take (length pat) (c # cs) = pat")
    case True
    then have "length pat \<le> length (c # cs)" by (metis length_take min.cobounded1)
    with True "2.prems" show ?thesis by simp
  next
    case False
    with "2" show ?thesis by auto
  qed
qed

lemma str_find_append:
  "str_find pat s \<noteq> None \<longleftrightarrow> (\<exists>l r. s = l @ pat @ r)"
proof
  assume "str_find pat s \<noteq> None"
  then obtain i where "str_find pat s = Some i" by auto
  then have "take (length pat) (drop i s) = pat" by (simp add: str_find_Some)
  then have "s = take i s @ pat @ drop (length pat) (drop i s)"
    by (metis append_take_drop_id)
  then show "\<exists>l r. s = l @ pat @ r" by blast
next
  assume "\<exists>l r. s = l @ pat @ r"
  then obtain l r where "s = l @ pat @ r" by blast
  then show "str_find pat s \<noteq> None"
  proof (induction l arbitrary: s)
    case Nil
    then have "take (length pat) s = pat" by simp
    then show ?case by (cases s) auto
  next
    case (Cons c l)
    then show ?case by auto
  qed
qed

lemma str_contains_iff [strs]: "str_contains pat s \<longleftrightarrow> (\<exists>l r. s = l @ pat @ r)"
  using str_find_append [of pat s] by (simp only: str_contains_def)

text \<open>The first occurrence, when nothing before it starts one.\<close>

lemma str_find_first:
  "pat \<noteq> [] \<Longrightarrow> str_find pat (s @ butlast pat) = None \<Longrightarrow> str_find pat (s @ pat @ t) = Some (length s)"
proof (induction s)
  case Nil
  then show ?case by (cases pat) simp_all
next
  case (Cons c s)
  let ?n = "length pat"
  from Cons.prems have hd: "take ?n (c # s @ butlast pat) \<noteq> pat" and tl: "str_find pat (s @ butlast pat) = None"
    by (auto split: if_splits)
  have "take ?n (c # s @ pat @ t) = take ?n (c # s @ butlast pat)"
  proof -
    have "take ?n (c # s @ pat @ t) = c # take (?n - 1) (s @ pat)" using Cons.prems(1)
      by (cases ?n) auto
    also have "take (?n - 1) (s @ pat) = take (?n - 1) (s @ butlast pat)"
      by (auto simp: butlast_conv_take min_def)
    finally show ?thesis using Cons.prems(1) by (cases ?n) auto
  qed
  with hd Cons.IH [OF Cons.prems(1) tl] show ?case by simp
qed

lemma str_contains_appendI1: "str_contains pat s \<Longrightarrow> str_contains pat (s @ t)"
  unfolding str_contains_iff by (metis append.assoc)

lemma str_contains_appendI2: "str_contains pat t \<Longrightarrow> str_contains pat (s @ t)"
  unfolding str_contains_iff by (metis append.assoc)

lemma str_contains_self [simp]: "str_contains pat pat"
  unfolding str_contains_iff by (metis append.left_neutral append.right_neutral)

text \<open>\<open>s.split(c)\<close> for a single-byte separator, and \<open>s.split_whitespace()\<close>.\<close>

fun split_on :: "char \<Rightarrow> string \<Rightarrow> string list" where
  "split_on sep [] = [[]]"
| "split_on sep (c # cs) =
     (if c = sep then [] # split_on sep cs
      else case split_on sep cs of [] \<Rightarrow> [[c]] | s # ss \<Rightarrow> (c # s) # ss)"

fun words_of :: "string \<Rightarrow> string list \<Rightarrow> string list" where
  "words_of word [] = (if word = [] then [] else [word])"
| "words_of word (u # us) =
     (if is_whitespace u then (if word = [] then words_of [] us else word # words_of [] us)
      else words_of (word @ u) us)"

definition split_whitespace :: "string \<Rightarrow> string list" where
  "split_whitespace s = words_of [] (chars s)"

definition strip_suffix :: "string \<Rightarrow> string \<Rightarrow> string option" where
  "strip_suffix pat s =
     (if length pat \<le> length s \<and> drop (length s - length pat) s = pat then Some (take (length s - length pat) s)
      else None)"

text \<open>\<open>lines\<close>: the pieces between line ends, a carriage return before one dropped, and no last
  empty piece.\<close>

definition lines_of :: "string \<Rightarrow> string list" where
  "lines_of s =
     (let ps = split_on (CHR 0x0A) s;
          ps' = (if last ps = [] then butlast ps else ps);
          chop = (\<lambda>l. if l \<noteq> [] \<and> last l = CHR 0x0D then butlast l else l)
      in if last ps = [] then map chop ps' else map chop (butlast ps') @ [last ps'])"

text \<open>\<open>split_once\<close>, and \<open>trim_start_matches\<close> with a closure.\<close>

definition split_once :: "string \<Rightarrow> string \<Rightarrow> (string \<times> string) option" where
  "split_once pat s = map_option (\<lambda>i. (take i s, drop (i + length pat) s)) (str_find pat s)"

definition trim_start_while :: "(string \<Rightarrow> bool) \<Rightarrow> string \<Rightarrow> string" where
  "trim_start_while P s = concat (dropWhile P (chars s))"

text \<open>\<open>String::from_utf8\<close>: neither overlong forms nor surrogates nor anything past the last plane.\<close>

definition valid_scalar :: "string \<Rightarrow> bool" where
  "valid_scalar u =
     (case u of
        [b] \<Rightarrow> byte b < 0x80
      | [b, c] \<Rightarrow> 0xC2 \<le> byte b \<and> byte b \<le> 0xDF \<and> is_cont c
      | [b, c, d] \<Rightarrow> 0xE0 \<le> byte b \<and> byte b \<le> 0xEF \<and> is_cont c \<and> is_cont d
          \<and> (byte b = 0xE0 \<longrightarrow> 0xA0 \<le> byte c) \<and> (byte b = 0xED \<longrightarrow> byte c < 0xA0)
      | [b, c, d, e] \<Rightarrow> 0xF0 \<le> byte b \<and> byte b \<le> 0xF4 \<and> is_cont c \<and> is_cont d \<and> is_cont e
          \<and> (byte b = 0xF0 \<longrightarrow> 0x90 \<le> byte c) \<and> (byte b = 0xF4 \<longrightarrow> byte c < 0x90)
      | _ \<Rightarrow> False)"

definition from_utf8 :: "string \<Rightarrow> string option" where
  "from_utf8 s = (if list_all valid_scalar (chars s) then Some s else None)"

text \<open>\<open>parse::<u64>()\<close>: decimal digits, at least one, with an optional plus sign, in range.\<close>

definition parse_u64 :: "string \<Rightarrow> nat option" where
  "parse_u64 s =
     (let ds = (case s of c # cs \<Rightarrow> if c = CHR ''+'' then cs else s | [] \<Rightarrow> s)
      in if ds \<noteq> [] \<and> list_all is_digit ds \<and> digits_value ds < 2 ^ 64 then Some (digits_value ds) else None)"

text \<open>\<open>parse::<i64>()\<close>: the same with either sign.\<close>

definition parse_i64 :: "string \<Rightarrow> int option" where
  "parse_i64 s =
     (let (neg, ds) = (case s of c # cs \<Rightarrow> if c = CHR ''-'' then (True, cs) else if c = CHR ''+'' then (False, cs)
                                       else (False, s) | [] \<Rightarrow> (False, s));
          v = (if neg then - int (digits_value ds) else int (digits_value ds))
      in if ds \<noteq> [] \<and> list_all is_digit ds \<and> in_i64 v then Some v else None)"

text \<open>\<open>s.split(c).next()\<close> for a single-byte separator.\<close>

definition split_first :: "char \<Rightarrow> string \<Rightarrow> string" where
  "split_first c s = takeWhile (\<lambda>d. d \<noteq> c) s"

text \<open>\<open>rfind(char::is_whitespace)\<close>: the byte offset of the last whitespace character.\<close>

fun rfind_ws_from :: "nat \<Rightarrow> string list \<Rightarrow> nat option" where
  "rfind_ws_from pos [] = None"
| "rfind_ws_from pos (u # us) =
     (case rfind_ws_from (pos + length u) us of
        Some i \<Rightarrow> Some i
      | None \<Rightarrow> if is_whitespace u then Some pos else None)"

definition rfind_ws :: "string \<Rightarrow> nat option" where
  "rfind_ws s = rfind_ws_from 0 (chars s)"

lemma rfind_ws_from_Some:
  assumes "rfind_ws_from pos us = Some i"
  shows "\<exists>k u. k < length us \<and> us ! k = u \<and> is_whitespace u
    \<and> i = pos + length (concat (take k us))"
  using assms
proof (induction pos us arbitrary: i rule: rfind_ws_from.induct)
  case (1 pos)
  then show ?case by simp
next
  case (2 pos u us)
  show ?case
  proof (cases "rfind_ws_from (pos + length u) us")
    case None
    with "2.prems" show ?thesis by (auto split: if_splits intro: exI [of _ 0])
  next
    case (Some j)
    with "2" obtain k where "k < length us" "is_whitespace (us ! k)"
      "i = pos + length u + length (concat (take k us))" by auto
    then show ?thesis by (intro exI [of _ "Suc k"]) auto
  qed
qed

text \<open>A few non-ASCII characters the gateway writes in its messages.\<close>

definition bullet :: string where
  "bullet = [CHR 0xE2, CHR 0x80, CHR 0xA2]"

definition em_dash :: string where
  "em_dash = [CHR 0xE2, CHR 0x80, CHR 0x94]"

definition newline :: string where
  "newline = [CHR 0x0A]"

end
