(* ===== verification/F64.thy ===== *)
theory F64
  imports Complex_Main Rust_Str
begin

section \<open>Double-precision floats\<close>

text \<open>
  Money crosses the boundary to quarry as an IEEE 754 double, and the code's claims about
  it ("a micro-unit survives the round trip") are claims about rounding. An \<open>f64\<close> is
  modelled by the rational it stands for, an infinity or NaN (the sign of zero is not
  kept: nothing modelled here observes it). Every operation rounds the exact result to the
  nearest double, ties to even, with 53 significant bits, gradual underflow at
  \<open>2 ^ -1074\<close> and overflow at \<open>2 ^ 1024\<close>.
\<close>

datatype f64 = Fin rat | Inf bool \<comment> \<open>negative?\<close> | NaN

subsection \<open>Powers of two and the binade of a rational\<close>

definition pow2 :: "int \<Rightarrow> rat" where
  "pow2 e = (if 0 \<le> e then 2 ^ nat e else 1 / 2 ^ nat (- e))"

lemma pow2_pos [simp]: "0 < pow2 e"
  by (simp add: pow2_def)

lemma pow2_nonzero [simp]: "pow2 e \<noteq> 0"
  using pow2_pos [of e] by linarith

lemma abs_pow2 [simp]: "\<bar>pow2 e\<bar> = pow2 e"
  by (simp add: less_imp_le)

lemma pow2_Suc: "pow2 (e + 1) = 2 * pow2 e"
proof (cases "0 \<le> e")
  case True
  then have "nat (e + 1) = Suc (nat e)" by simp
  with True show ?thesis by (simp add: pow2_def)
next
  case False
  then have "nat (- e) = Suc (nat (- (e + 1)))" by simp
  with False show ?thesis by (simp add: pow2_def)
qed

lemma pow2_add_nat: "pow2 (e + int k) = 2 ^ k * pow2 e"
proof (induction k)
  case (Suc k)
  have "pow2 (e + int (Suc k)) = pow2 ((e + int k) + 1)" by (simp add: algebra_simps)
  with Suc show ?case by (simp add: pow2_Suc)
qed simp

lemma pow2_mono: "e \<le> f \<Longrightarrow> pow2 e \<le> pow2 f"
  using pow2_add_nat [of e "nat (f - e)"] by simp

lemma pow2_lessD: "pow2 e < pow2 f \<Longrightarrow> e < f"
  using pow2_mono [of f e] by linarith

lemma pow2_nat: "pow2 (int k) = 2 ^ k"
  by (simp add: pow2_def)

lemma pow2_diff: "pow2 (int a - int b) = 2 ^ a / 2 ^ b"
proof -
  have "2 ^ b * pow2 (int a - int b) = 2 ^ a"
    using pow2_add_nat [of "int a - int b" b] pow2_nat [of a] by simp
  then show ?thesis by (simp add: field_simps)
qed

fun bitlen :: "nat \<Rightarrow> nat" where
  "bitlen n = (if n = 0 then 0 else Suc (bitlen (n div 2)))"

declare bitlen.simps [simp del]

lemma bitlen_bounds: "0 < n \<Longrightarrow> 2 ^ (bitlen n - 1) \<le> n \<and> n < 2 ^ bitlen n \<and> 0 < bitlen n"
proof (induction n rule: bitlen.induct)
  case (1 n)
  show ?case
  proof (cases "n = 1")
    case True
    then show ?thesis by (simp add: bitlen.simps)
  next
    case False
    with "1.prems" have h: "0 < n div 2" by simp
    then obtain k where k: "bitlen (n div 2) = Suc k" "2 ^ k \<le> n div 2" "n div 2 < 2 ^ Suc k"
      using "1.IH" "1.prems" by (cases "bitlen (n div 2)") auto
    have "bitlen n = Suc (Suc k)" using "1.prems" k(1) by (simp add: bitlen.simps [of n])
    with k(2,3) show ?thesis by auto
  qed
qed

text \<open>The exponent \<open>e\<close> with \<open>2 ^ e \<le> x < 2 ^ (e + 1)\<close>, for positive \<open>x\<close>.\<close>

definition binade :: "rat \<Rightarrow> int" where
  "binade x =
     (let (n, d) = quotient_of x;
          e = int (bitlen (nat n)) - int (bitlen (nat d))
      in if pow2 e \<le> x then e else e - 1)"

lemma binade_bounds:
  assumes "0 < x"
  shows "pow2 (binade x) \<le> x" and "x < pow2 (binade x + 1)"
proof -
  obtain n d where q: "quotient_of x = (n, d)" by (cases "quotient_of x")
  have x: "x = of_int n / of_int d" and d: "0 < d"
    using q quotient_of_div quotient_of_denom_pos by auto
  have n: "0 < n" using assms x d by (auto simp: zero_less_divide_iff)
  let ?N = "nat n" and ?D = "nat d"
  let ?a = "bitlen ?N" and ?b = "bitlen ?D"
  have N: "2 ^ (?a - 1) \<le> ?N" "?N < 2 ^ ?a" "0 < ?a" using bitlen_bounds [of ?N] n by auto
  have D: "2 ^ (?b - 1) \<le> ?D" "?D < 2 ^ ?b" "0 < ?b" using bitlen_bounds [of ?D] d by auto
  have x': "x = of_nat ?N / of_nat ?D" using x n d by simp
  have Dp: "(0::rat) < of_nat ?D" using d by simp
  have N1: "(2::rat) ^ (?a - 1) \<le> of_nat ?N" and N2: "(of_nat ?N :: rat) < 2 ^ ?a"
    using N by (metis of_nat_le_iff of_nat_less_iff of_nat_numeral of_nat_power)+
  have D1: "(2::rat) ^ (?b - 1) \<le> of_nat ?D" and D2: "(of_nat ?D :: rat) < 2 ^ ?b"
    using D by (metis of_nat_le_iff of_nat_less_iff of_nat_numeral of_nat_power)+
  have a2: "(2::rat) ^ ?a = 2 * 2 ^ (?a - 1)" using N(3) by (cases ?a) auto
  have b2: "(2::rat) ^ ?b = 2 * 2 ^ (?b - 1)" using D(3) by (cases ?b) auto
  let ?e = "int ?a - int ?b"
  have pe: "pow2 ?e = 2 ^ ?a / 2 ^ ?b" by (rule pow2_diff)
  have hi: "x < pow2 (?e + 1)"
  proof -
    have "of_nat ?N * (2::rat) ^ (?b - 1) < 2 ^ ?a * of_nat ?D"
      using N2 D1 Dp by (intro mult_less_le_imp_less) auto
    then have "of_nat ?N / of_nat ?D < 2 * (2 ^ ?a / (2::rat) ^ ?b)"
      using Dp by (simp add: b2 field_simps)
    then show ?thesis by (simp only: x' pow2_Suc pe)
  qed
  have lo: "pow2 (?e - 1) \<le> x"
  proof -
    have "2 ^ (?a - 1) * of_nat ?D \<le> of_nat ?N * (2::rat) ^ ?b"
      using N1 D2 by (intro mult_mono) auto
    then have "2 ^ (?a - 1) / 2 ^ ?b \<le> of_nat ?N / (of_nat ?D :: rat)"
      using Dp by (simp add: field_simps)
    moreover have "pow2 (?e - 1) = 2 ^ (?a - 1) / 2 ^ ?b"
      using pow2_Suc [of "?e - 1"] pe a2 by simp
    ultimately show ?thesis by (simp only: x')
  qed
  have be: "binade x = (if pow2 ?e \<le> x then ?e else ?e - 1)"
    by (simp add: binade_def q)
  show "pow2 (binade x) \<le> x" using lo be by simp
  show "x < pow2 (binade x + 1)" using hi be by (auto simp: not_le)
qed

subsection \<open>Rounding to integers\<close>

definition round_half_even :: "rat \<Rightarrow> int" where
  "round_half_even x =
     (let f = \<lfloor>x\<rfloor>; r = x - of_int f
      in if r < 1 / 2 then f else if 1 / 2 < r then f + 1 else if even f then f else f + 1)"

definition round_half_away :: "rat \<Rightarrow> int" where
  "round_half_away x = (if 0 \<le> x then \<lfloor>x + 1 / 2\<rfloor> else - \<lfloor>- x + 1 / 2\<rfloor>)"

lemma round_half_even_error: "\<bar>of_int (round_half_even x) - x\<bar> \<le> 1 / 2"
proof -
  have "of_int \<lfloor>x\<rfloor> \<le> x" "x < of_int \<lfloor>x\<rfloor> + 1" by linarith+
  then show ?thesis by (auto simp: round_half_even_def Let_def)
qed

lemma round_half_even_near: "\<bar>x - of_int k\<bar> < 1 / 2 \<Longrightarrow> round_half_even x = k"
proof -
  assume "\<bar>x - of_int k\<bar> < 1 / 2"
  with round_half_even_error [of x] have "\<bar>of_int (round_half_even x) - (of_int k :: rat)\<bar> < 1"
    by linarith
  then have "\<bar>round_half_even x - k\<bar> < 1" by linarith
  then show ?thesis by linarith
qed

lemma round_half_away_near: "\<bar>x - of_int k\<bar> < 1 / 2 \<Longrightarrow> round_half_away x = k"
proof -
  assume near: "\<bar>x - of_int k\<bar> < 1 / 2"
  show "round_half_away x = k"
  proof (cases "0 \<le> x")
    case True
    have "\<lfloor>x + 1 / 2\<rfloor> = k" by (rule floor_unique) (use near in linarith)+
    with True show ?thesis by (simp add: round_half_away_def)
  next
    case False
    have "\<lfloor>- x + 1 / 2\<rfloor> = - k" by (rule floor_unique) (use near in \<open>simp, linarith\<close>)+
    with False show ?thesis unfolding round_half_away_def by simp
  qed
qed

subsection \<open>Rounding to doubles\<close>

definition fl :: "rat \<Rightarrow> f64" where
  "fl x =
     (if x = 0 then Fin 0
      else let u = max (binade \<bar>x\<bar> - 52) (- 1074);
               r = of_int (round_half_even (x / pow2 u)) * pow2 u
           in if pow2 1024 \<le> \<bar>r\<bar> then Inf (x < 0) else Fin r)"

lemma fl_error:
  assumes "pow2 (- 1022) \<le> \<bar>x\<bar>" and "\<bar>x\<bar> < pow2 1023"
  shows "\<exists>v. fl x = Fin v \<and> \<bar>v - x\<bar> \<le> \<bar>x\<bar> * pow2 (- 53)"
proof -
  have x0: "0 < \<bar>x\<bar>" using assms(1) pow2_pos [of "- 1022"] by linarith
  let ?e = "binade \<bar>x\<bar>"
  have lo: "pow2 ?e \<le> \<bar>x\<bar>" and hi: "\<bar>x\<bar> < pow2 (?e + 1)" using binade_bounds [OF x0] by auto
  have "- 1022 < ?e + 1" by (rule pow2_lessD) (use assms(1) hi in linarith)
  then have u: "max (?e - 52) (- 1074) = ?e - 52" by simp
  let ?u = "?e - 52"
  let ?r = "of_int (round_half_even (x / pow2 ?u)) * pow2 ?u"
  have p53: "pow2 ?e * pow2 (- 53) = pow2 ?u / 2"
    using pow2_add_nat [of ?u 52] by (simp add: pow2_def [of "- 53"])
  have "?r - x = (of_int (round_half_even (x / pow2 ?u)) - x / pow2 ?u) * pow2 ?u"
    by (simp add: left_diff_distrib)
  then have "\<bar>?r - x\<bar> = \<bar>of_int (round_half_even (x / pow2 ?u)) - x / pow2 ?u\<bar> * pow2 ?u"
    by (simp add: abs_mult)
  also have "\<dots> \<le> 1 / 2 * pow2 ?u"
    by (rule mult_right_mono [OF round_half_even_error]) (simp add: less_imp_le)
  also have "\<dots> = pow2 ?e * pow2 (- 53)" using p53 by simp
  also have "\<dots> \<le> \<bar>x\<bar> * pow2 (- 53)"
    using lo by (rule mult_right_mono) (simp add: less_imp_le)
  finally have err: "\<bar>?r - x\<bar> \<le> \<bar>x\<bar> * pow2 (- 53)" .
  have "\<bar>x\<bar> * pow2 (- 53) \<le> \<bar>x\<bar>" by (simp add: pow2_def field_simps)
  with err have "\<bar>?r\<bar> \<le> 2 * \<bar>x\<bar>" by linarith
  also have "\<dots> < pow2 1024" using assms(2) pow2_Suc [of 1023] by simp
  finally have "fl x = Fin ?r" using x0 by (simp add: fl_def u Let_def)
  with err show ?thesis by blast
qed

lemma fl_0 [simp]: "fl 0 = Fin 0"
  by (simp add: fl_def)

subsection \<open>Operations\<close>

fun f64_neg :: "f64 \<Rightarrow> f64" where
  "f64_neg (Fin x) = Fin (- x)"
| "f64_neg (Inf n) = Inf (\<not> n)"
| "f64_neg NaN = NaN"

fun f64_mul :: "f64 \<Rightarrow> f64 \<Rightarrow> f64" where
  "f64_mul (Fin x) (Fin y) = fl (x * y)"
| "f64_mul (Fin x) (Inf n) = (if x = 0 then NaN else Inf (n \<noteq> (x < 0)))"
| "f64_mul (Inf n) (Fin x) = (if x = 0 then NaN else Inf (n \<noteq> (x < 0)))"
| "f64_mul (Inf m) (Inf n) = Inf (m \<noteq> n)"
| "f64_mul _ _ = NaN"

text \<open>Division by a non-zero finite constant, the only kind the code has.\<close>

fun f64_div_const :: "f64 \<Rightarrow> rat \<Rightarrow> f64" where
  "f64_div_const (Fin x) c = fl (x / c)"
| "f64_div_const (Inf n) c = Inf (n \<noteq> (c < 0))"
| "f64_div_const NaN c = NaN"

text \<open>Ordered comparisons are false on NaN.\<close>

fun f64_le :: "f64 \<Rightarrow> f64 \<Rightarrow> bool" where
  "f64_le (Fin x) (Fin y) = (x \<le> y)"
| "f64_le (Fin _) (Inf n) = (\<not> n)"
| "f64_le (Inf n) (Fin _) = n"
| "f64_le (Inf m) (Inf n) = (m \<or> \<not> n)"
| "f64_le _ _ = False"

fun f64_round :: "f64 \<Rightarrow> f64" where
  "f64_round (Fin x) = Fin (of_int (round_half_away x))"
| "f64_round v = v"

text \<open>\<open>as i64\<close> truncates, saturates, and sends NaN to zero; \<open>as u64\<close> likewise.\<close>

definition trunc_rat :: "rat \<Rightarrow> int" where
  "trunc_rat x = (if 0 \<le> x then \<lfloor>x\<rfloor> else - \<lfloor>- x\<rfloor>)"

fun f64_as_i64 :: "f64 \<Rightarrow> int" where
  "f64_as_i64 (Fin x) = sat_i64 (trunc_rat x)"
| "f64_as_i64 (Inf n) = (if n then - (2 ^ 63) else 2 ^ 63 - 1)"
| "f64_as_i64 NaN = 0"

fun f64_as_u64 :: "f64 \<Rightarrow> nat" where
  "f64_as_u64 (Fin x) = min (2 ^ 64 - 1) (nat (trunc_rat x))"
| "f64_as_u64 (Inf n) = (if n then 0 else 2 ^ 64 - 1)"
| "f64_as_u64 NaN = 0"

lemma trunc_rat_of_int [simp]: "trunc_rat (of_int k) = k"
  by (auto simp: trunc_rat_def simp flip: of_int_minus)

text \<open>An integer converted with \<open>as f64\<close>.\<close>

definition f64_of_int :: "int \<Rightarrow> f64" where
  "f64_of_int i = fl (of_int i)"

text \<open>\<open>format!("{:.k}")\<close>: the value's exact decimal expansion cut to \<open>k\<close> places, ties to
  even.\<close>

definition fmt_decimal :: "nat \<Rightarrow> nat \<Rightarrow> string" where
  "fmt_decimal k q =
     show_nat (q div 10 ^ k) @ (if k = 0 then [] else CHR ''.'' # pad_zeros k (show_nat (q mod 10 ^ k)))"

fun fmt_fixed :: "nat \<Rightarrow> f64 \<Rightarrow> string" where
  "fmt_fixed k (Fin x) =
     (if x < 0 then ''-'' else []) @ fmt_decimal k (nat (round_half_even (\<bar>x\<bar> * 10 ^ k)))"
| "fmt_fixed k (Inf n) = (if n then ''-inf'' else ''inf'')"
| "fmt_fixed k NaN = ''NaN''"

text \<open>\<open>str::parse::<f64>\<close> on the text of an unsigned decimal number: the exact value of
  the digits, rounded once.\<close>

definition decimal_value :: "string \<Rightarrow> rat" where
  "decimal_value s =
     (let w = takeWhile (\<lambda>c. c \<noteq> CHR ''.'') s; f = drop (Suc (length w)) s
      in of_nat (digits_value (w @ f)) / 10 ^ length f)"

definition parse_f64 :: "string \<Rightarrow> f64" where
  "parse_f64 s = fl (decimal_value s)"

subsection \<open>Micro-dollars\<close>

text \<open>
  The numeric facts behind the money conversions: below \<open>2 ^ 50\<close> micro-dollars (over a
  billion dollars) neither dividing by a million nor multiplying back loses a unit.
\<close>

lemma fl_small:
  assumes "x = 0 \<or> 1 / 10 ^ 7 \<le> \<bar>x\<bar>" and "\<bar>x\<bar> \<le> 10 ^ 20"
  shows "\<exists>v. fl x = Fin v \<and> \<bar>v - x\<bar> \<le> \<bar>x\<bar> / 9007199254740992"
proof (cases "x = 0")
  case True
  then show ?thesis by simp
next
  case False
  have "pow2 (- 1022) \<le> pow2 (- 30)" "pow2 100 \<le> pow2 1023" by (rule pow2_mono, simp)+
  moreover have "pow2 (- 30) \<le> 1 / 10 ^ 7" "(10::rat) ^ 20 < pow2 100" by (simp_all add: pow2_def)
  ultimately have "pow2 (- 1022) \<le> \<bar>x\<bar>" "\<bar>x\<bar> < pow2 1023"
    using assms False by (auto intro: order_trans)
  from fl_error [OF this] show ?thesis by (simp add: pow2_def)
qed

lemma int_abs_ge1: "m \<noteq> 0 \<Longrightarrow> (1::rat) \<le> \<bar>of_int m\<bar>"
  by linarith

lemma micro_div:
  assumes "\<bar>m\<bar> \<le> 2 ^ 50"
  shows "\<exists>v. f64_div_const (f64_of_int m) 1000000 = Fin v
     \<and> \<bar>v - of_int m / 1000000\<bar> \<le> \<bar>of_int m / 1000000\<bar> / 4000000000000000"
proof (cases "m = 0")
  case True
  then show ?thesis by (simp add: f64_of_int_def)
next
  case False
  let ?m = "of_int m :: rat"
  have m1: "1 \<le> \<bar>?m\<bar>" using False by (rule int_abs_ge1)
  have m2: "\<bar>?m\<bar> \<le> 2 ^ 50"
    using assms by (metis of_int_abs of_int_le_iff of_int_numeral of_int_power)
  obtain a where a: "fl ?m = Fin a" "\<bar>a - ?m\<bar> \<le> \<bar>?m\<bar> / 9007199254740992"
    using fl_small [of ?m] m1 m2 by auto
  have a1: "1 / 2 \<le> \<bar>a\<bar>" "\<bar>a\<bar> \<le> 2 * 2 ^ 50" using a(2) m1 m2 by linarith+
  obtain v where v: "fl (a / 1000000) = Fin v" "\<bar>v - a / 1000000\<bar> \<le> \<bar>a / 1000000\<bar> / 9007199254740992"
    using fl_small [of "a / 1000000"] a1 by (auto simp: abs_divide)
  have "\<bar>v - ?m / 1000000\<bar> \<le> \<bar>v - a / 1000000\<bar> + \<bar>a / 1000000 - ?m / 1000000\<bar>"
    using abs_triangle_ineq [of "v - a / 1000000" "a / 1000000 - ?m / 1000000"] by simp
  moreover have "\<bar>a / 1000000 - ?m / 1000000\<bar> = \<bar>a - ?m\<bar> / 1000000"
    by (simp add: abs_divide flip: diff_divide_distrib)
  moreover have "\<bar>a\<bar> \<le> \<bar>?m\<bar> + \<bar>a - ?m\<bar>"
    using abs_triangle_ineq [of ?m "a - ?m"] by simp
  moreover have "\<bar>a / 1000000\<bar> = \<bar>a\<bar> / 1000000" "\<bar>?m / 1000000\<bar> = \<bar>?m\<bar> / 1000000"
    by (simp_all add: abs_divide)
  ultimately have "\<bar>v - ?m / 1000000\<bar> \<le> \<bar>?m / 1000000\<bar> / 4000000000000000"
    using v(2) a(2) by linarith
  with a(1) v(1) show ?thesis by (simp add: f64_of_int_def)
qed

lemma fmt_micro:
  assumes "0 \<le> m" and "m \<le> 2 ^ 50"
  shows "fmt_fixed 6 (f64_div_const (f64_of_int m) 1000000) = fmt_decimal 6 (nat m)"
proof -
  let ?m = "of_int m :: rat"
  obtain v where v: "f64_div_const (f64_of_int m) 1000000 = Fin v"
    "\<bar>v - ?m / 1000000\<bar> \<le> \<bar>?m / 1000000\<bar> / 4000000000000000"
    using micro_div [of m] assms by auto
  have "?m \<le> of_int (2 ^ 50)" using assms(2) by (simp only: of_int_le_iff)
  then have m: "0 \<le> ?m" "?m \<le> 2 ^ 50" using assms(1) by simp_all
  have v0: "0 \<le> v" using v(2) m(1) by linarith
  have "\<bar>?m / 1000000\<bar> = ?m / 1000000" using m(1) by simp
  then have "- (?m / 1000000 / 4000000000000000) \<le> v - ?m / 1000000"
    "v - ?m / 1000000 \<le> ?m / 1000000 / 4000000000000000"
    using v(2) by linarith+
  then have "\<bar>\<bar>v\<bar> * 10 ^ 6 - ?m\<bar> < 1 / 2"
    using m v0 unfolding abs_less_iff by simp
  then have "round_half_even (\<bar>v\<bar> * 10 ^ 6) = m" by (rule round_half_even_near)
  with v0 show ?thesis by (simp add: v(1))
qed

lemma decimal_value_fmt: "0 < k \<Longrightarrow> decimal_value (fmt_decimal k q) = of_nat q / 10 ^ k"
proof -
  assume k: "0 < k"
  let ?w = "show_nat (q div 10 ^ k)" and ?f = "pad_zeros k (show_nat (q mod 10 ^ k))"
  have nodot: "\<forall>c \<in> set ?w. c \<noteq> CHR ''.''"
    using show_nat_digits [of "CHR ''.''"] by (auto simp: is_digit_def)
  have tw: "takeWhile (\<lambda>c. c \<noteq> CHR ''.'') (fmt_decimal k q) = ?w"
    using k nodot by (simp add: fmt_decimal_def takeWhile_append)
  have len: "length ?f = k"
  proof -
    obtain j where j: "k = Suc j" using k by (cases k) auto
    have "q mod 10 ^ k < 10 ^ Suc j" using j by simp
    then have "length (show_nat (q mod 10 ^ k)) \<le> k" using j length_show_nat_le by metis
    then show ?thesis by (simp add: length_pad_zeros)
  qed
  have dv: "digits_value (u @ s) = digits_value u * 10 ^ length s + digits_value s" for u s
  proof (induction s rule: rev_induct)
    case (snoc c s)
    have "digits_value (u @ s @ [c]) = 10 * digits_value (u @ s) + char_digit c"
      using digits_value_snoc [of "u @ s" c] by simp
    with snoc show ?case by (simp add: digits_value_snoc algebra_simps)
  qed (simp add: digits_value_def)
  have "digits_value (?w @ ?f) = q"
    by (simp only: dv len digits_value_show_nat digits_value_pad_zeros div_mult_mod_eq)
  then show ?thesis
    unfolding decimal_value_def tw using k len by (simp add: fmt_decimal_def Let_def)
qed

lemma micro_back:
  assumes "0 \<le> m" and "m \<le> 2 ^ 50"
  shows "f64_as_i64 (f64_round (f64_mul (fl (of_int m / 1000000)) (Fin 1000000))) = m"
proof (cases "m = 0")
  case True
  have "round_half_away 0 = 0" by (rule round_half_away_near) simp
  with True show ?thesis by (simp add: sat_i64_def trunc_rat_def)
next
  case False
  let ?m = "of_int m :: rat"
  have "?m \<le> of_int (2 ^ 50)" using assms(2) by (simp only: of_int_le_iff)
  then have m: "1 \<le> ?m" "?m \<le> 2 ^ 50" using assms(1) False by simp_all
  obtain v where v: "fl (?m / 1000000) = Fin v" "\<bar>v - ?m / 1000000\<bar> \<le> \<bar>?m / 1000000\<bar> / 9007199254740992"
    using fl_small [of "?m / 1000000"] m by auto
  have "\<bar>?m / 1000000\<bar> = ?m / 1000000" using m(1) by simp
  then have v2: "- (?m / 1000000 / 9007199254740992) \<le> v - ?m / 1000000"
    "v - ?m / 1000000 \<le> ?m / 1000000 / 9007199254740992"
    using v(2) by linarith+
  then have b: "1 / 2 \<le> v * 1000000" "v * 1000000 \<le> 2 * 2 ^ 50" using m by simp_all
  obtain w where w: "fl (v * 1000000) = Fin w"
    "\<bar>w - v * 1000000\<bar> \<le> \<bar>v * 1000000\<bar> / 9007199254740992"
    using fl_small [of "v * 1000000"] b by auto
  have "\<bar>v * 1000000\<bar> = v * 1000000" using b(1) by simp
  then have "- (v * 1000000 / 9007199254740992) \<le> w - v * 1000000"
    "w - v * 1000000 \<le> v * 1000000 / 9007199254740992"
    using w(2) by linarith+
  then have "\<bar>w - ?m\<bar> < 1 / 2" using v2 m unfolding abs_less_iff by simp
  then have "round_half_away w = m" by (rule round_half_away_near)
  moreover have "in_i64 m" using assms by (simp add: in_i64_def)
  ultimately show ?thesis by (simp add: v(1) w(1) sat_i64_id)
qed

end
