(* ===== verification/Event.thy ===== *)
theory Event
  imports F64
begin

section \<open>quarry's event stream (\<open>src/quarry/event.rs\<close>)\<close>

text \<open>
  The wire types of quarry's NDJSON stream, the line parser, the record summary and the
  stream statistics. \<open>serde_json::from_str\<close>, which turns text into a JSON value, is third
  party and is the parameter \<open>parse_json\<close>; the deserialisers serde derives from the
  struct declarations are written out, with the declared defaults and nothing more. The
  text of a shape error is serde's own and is the parameter \<open>serde_msg\<close>.
\<close>

subsection \<open>JSON values and derived deserialisers\<close>

datatype json =
    JNull
  | JBool bool
  | JInt int
  | JFloat f64
  | JString string
  | JArray "json list"
  | JObject "(string \<times> json) list"

fun is_object :: "json \<Rightarrow> bool" where
  "is_object (JObject m) = True"
| "is_object _ = False"

fun json_get :: "string \<Rightarrow> json \<Rightarrow> json option" where
  "json_get k (JObject m) = map_of m k"
| "json_get k _ = None"

fun as_str :: "json \<Rightarrow> string option" where
  "as_str (JString s) = Some s"
| "as_str _ = None"

fun de_bool :: "json \<Rightarrow> bool option" where
  "de_bool (JBool b) = Some b"
| "de_bool _ = None"

fun de_f64 :: "json \<Rightarrow> f64 option" where
  "de_f64 (JFloat x) = Some x"
| "de_f64 (JInt i) = Some (f64_of_int i)"
| "de_f64 _ = None"

fun de_uint :: "nat \<Rightarrow> json \<Rightarrow> nat option" where
  "de_uint w (JInt i) = (if 0 \<le> i \<and> i < 2 ^ w then Some (nat i) else None)"
| "de_uint w _ = None"

fun de_i64 :: "json \<Rightarrow> int option" where
  "de_i64 (JInt i) = (if in_i64 i then Some i else None)"
| "de_i64 _ = None"

fun de_option :: "(json \<Rightarrow> 'a option) \<Rightarrow> json \<Rightarrow> 'a option option" where
  "de_option d JNull = Some None"
| "de_option d v = map_option Some (d v)"

fun all_some :: "'a option list \<Rightarrow> 'a list option" where
  "all_some [] = Some []"
| "all_some (x # xs) =
     (case x of None \<Rightarrow> None | Some a \<Rightarrow> map_option (\<lambda>as. a # as) (all_some xs))"

fun de_vec :: "(json \<Rightarrow> 'a option) \<Rightarrow> json \<Rightarrow> 'a list option" where
  "de_vec d (JArray xs) = all_some (map d xs)"
| "de_vec d _ = None"

text \<open>
  A derived struct visitor reads an object by field name (a repeated field is an error)
  or an array by position; \<open>names\<close> is the declaration order.
\<close>

fun de_fields :: "string list \<Rightarrow> json \<Rightarrow> (string \<times> json) list option" where
  "de_fields names (JObject m) =
     (if distinct (filter (\<lambda>k. k \<in> set names) (map fst m)) then Some m else None)"
| "de_fields names (JArray xs) = (if length xs \<le> length names then Some (zip names xs) else None)"
| "de_fields names _ = None"

definition req :: "(string \<times> json) list \<Rightarrow> string \<Rightarrow> (json \<Rightarrow> 'a option) \<Rightarrow> 'a option" where
  "req m k d = Option.bind (map_of m k) d"

text \<open>\<open>#[serde(default)]\<close>: the default fires for an absent key only.\<close>

definition dflt :: "(string \<times> json) list \<Rightarrow> string \<Rightarrow> (json \<Rightarrow> 'a option) \<Rightarrow> 'a \<Rightarrow> 'a option" where
  "dflt m k d x = (case map_of m k of None \<Rightarrow> Some x | Some v \<Rightarrow> d v)"

text \<open>The \<open>deserialize_with\<close> helper of the record's lists: a Go nil slice is \<open>null\<close>.\<close>

definition null_as_empty :: "(json \<Rightarrow> 'a option) \<Rightarrow> json \<Rightarrow> 'a list option" where
  "null_as_empty d v = map_option (\<lambda>o'. case o' of None \<Rightarrow> [] | Some xs \<Rightarrow> xs) (de_option (de_vec d) v)"

lemma null_as_empty_null [simp]: "null_as_empty d JNull = Some []"
  by (simp add: null_as_empty_def)

lemma null_as_empty_array [simp]: "null_as_empty d (JArray xs) = all_some (map d xs)"
  by (cases "all_some (map d xs)") (auto simp: null_as_empty_def)

subsection \<open>Cost conversion\<close>

definition usd_to_micro :: "f64 \<Rightarrow> int" where
  "usd_to_micro usd = f64_as_i64 (f64_round (f64_mul usd (Fin 1000000)))"

text \<open>quarry's side of the wire edge: micro-units divided by a million, correctly rounded.\<close>

definition wire_usd :: "int \<Rightarrow> f64" where
  "wire_usd micro = fl (of_int micro / 1000000)"

lemma usd_to_micro_wire: "0 \<le> m \<Longrightarrow> m \<le> 2 ^ 50 \<Longrightarrow> usd_to_micro (wire_usd m) = m"
  unfolding usd_to_micro_def wire_usd_def by (rule micro_back)

lemma usd_to_micro_in_i64: "in_i64 (usd_to_micro x)"
proof -
  have "in_i64 (f64_as_i64 v)" for v
    by (cases v) (auto simp: sat_i64_in_range, simp_all add: in_i64_def)
  then show ?thesis by (simp add: usd_to_micro_def)
qed

subsection \<open>Event types\<close>

record model_event =
  me_tier :: string
  me_label :: string
  me_state :: string
  me_cost :: f64

record answer_event =
  ans_title :: string
  ans_text :: string

record receipt_row =
  row_label :: string
  row_kind :: string
  row_cost :: f64

record receipt_event =
  rcpt_rows :: "receipt_row list"
  rcpt_total :: f64

record provenance =
  prov_record_hash :: string
  prov_verified :: nat
  prov_unverified :: nat
  prov_stability :: f64
  prov_adversarial_findings :: nat

record artifact_event =
  art_run_id :: string
  art_url :: string
  art_provenance :: "provenance option"

record stream_event =
  stm_version :: nat
  stm_producer :: string

record outcome_event =
  oc_outcome :: string
  oc_bound_by :: string
  oc_gaps :: nat
  oc_unfunded :: nat
  oc_total_micros :: int
  oc_cap_micros :: int

definition SUPPORTED_STREAM_VERSION :: nat where
  "SUPPORTED_STREAM_VERSION = 1"

text \<open>\<open>UNLIMITED_MICRO_USD\<close> of \<open>caps.rs\<close>: minus one, never zero.\<close>

definition UNLIMITED_MICRO_USD :: int where
  "UNLIMITED_MICRO_USD = - 1"

definition unlimited_cap :: int where
  "unlimited_cap = UNLIMITED_MICRO_USD"

definition default_outcome :: outcome_event where
  "default_outcome =
     \<lparr>oc_outcome = [], oc_bound_by = [], oc_gaps = 0, oc_unfunded = 0, oc_total_micros = 0,
      oc_cap_micros = unlimited_cap\<rparr>"

datatype run_event =
    Stream stream_event
  | Outcome outcome_event
  | Model model_event
  | Answer answer_event
  | Receipt receipt_event
  | Artifact artifact_event
  | Unknown string json

fun event_type :: "run_event \<Rightarrow> string" where
  "event_type (Stream _) = ''quarry_stream''"
| "event_type (Outcome _) = ''quarry_outcome''"
| "event_type (Model _) = ''model''"
| "event_type (Answer _) = ''answer''"
| "event_type (Receipt _) = ''receipt''"
| "event_type (Artifact _) = ''artifact''"
| "event_type (Unknown t _) = t"

definition model_cost_micro_usd :: "model_event \<Rightarrow> int" where
  "model_cost_micro_usd m = usd_to_micro (me_cost m)"

definition row_cost_micro_usd :: "receipt_row \<Rightarrow> int" where
  "row_cost_micro_usd r = usd_to_micro (row_cost r)"

definition total_micro_usd :: "receipt_event \<Rightarrow> int" where
  "total_micro_usd r = usd_to_micro (rcpt_total r)"

definition rows_micro_usd :: "receipt_event \<Rightarrow> int" where
  "rows_micro_usd r = i64_sum (map (\<lambda>x. usd_to_micro (row_cost x)) (rcpt_rows r))"

definition rows_reconcile :: "receipt_event \<Rightarrow> bool" where
  "rows_reconcile r \<longleftrightarrow> rows_micro_usd r = total_micro_usd r"

definition has_spend_cap :: "outcome_event \<Rightarrow> bool" where
  "has_spend_cap o' \<longleftrightarrow> oc_cap_micros o' \<noteq> UNLIMITED_MICRO_USD"

subsection \<open>Deserialising events\<close>

definition de_stream :: "json \<Rightarrow> stream_event option" where
  "de_stream v = Option.bind (de_fields [''version'', ''producer''] v) (\<lambda>m.
     Option.bind (req m ''version'' (de_uint 32)) (\<lambda>ver.
     Option.bind (dflt m ''producer'' as_str []) (\<lambda>prod.
     Some \<lparr>stm_version = ver, stm_producer = prod\<rparr>)))"

definition de_outcome :: "json \<Rightarrow> outcome_event option" where
  "de_outcome v = Option.bind (de_fields
       [''outcome'', ''bound_by'', ''gaps'', ''unfunded'', ''total_micros'', ''cap_micros''] v) (\<lambda>m.
     Option.bind (dflt m ''outcome'' as_str []) (\<lambda>oc.
     Option.bind (dflt m ''bound_by'' as_str []) (\<lambda>bb.
     Option.bind (dflt m ''gaps'' (de_uint 64) 0) (\<lambda>g.
     Option.bind (dflt m ''unfunded'' (de_uint 64) 0) (\<lambda>u.
     Option.bind (dflt m ''total_micros'' de_i64 0) (\<lambda>t.
     Option.bind (dflt m ''cap_micros'' de_i64 unlimited_cap) (\<lambda>c.
     Some \<lparr>oc_outcome = oc, oc_bound_by = bb, oc_gaps = g, oc_unfunded = u,
           oc_total_micros = t, oc_cap_micros = c\<rparr>)))))))"

definition de_model :: "json \<Rightarrow> model_event option" where
  "de_model v = Option.bind (de_fields [''tier'', ''label'', ''state'', ''cost''] v) (\<lambda>m.
     Option.bind (dflt m ''tier'' as_str []) (\<lambda>t.
     Option.bind (req m ''label'' as_str) (\<lambda>l.
     Option.bind (dflt m ''state'' as_str []) (\<lambda>s.
     Option.bind (dflt m ''cost'' de_f64 (Fin 0)) (\<lambda>c.
     Some \<lparr>me_tier = t, me_label = l, me_state = s, me_cost = c\<rparr>)))))"

definition de_answer :: "json \<Rightarrow> answer_event option" where
  "de_answer v = Option.bind (de_fields [''title'', ''text''] v) (\<lambda>m.
     Option.bind (dflt m ''title'' as_str []) (\<lambda>t.
     Option.bind (req m ''text'' as_str) (\<lambda>x.
     Some \<lparr>ans_title = t, ans_text = x\<rparr>)))"

definition de_receipt_row :: "json \<Rightarrow> receipt_row option" where
  "de_receipt_row v = Option.bind (de_fields [''label'', ''kind'', ''cost''] v) (\<lambda>m.
     Option.bind (req m ''label'' as_str) (\<lambda>l.
     Option.bind (req m ''kind'' as_str) (\<lambda>k.
     Option.bind (dflt m ''cost'' de_f64 (Fin 0)) (\<lambda>c.
     Some \<lparr>row_label = l, row_kind = k, row_cost = c\<rparr>))))"

definition de_receipt :: "json \<Rightarrow> receipt_event option" where
  "de_receipt v = Option.bind (de_fields [''rows'', ''total''] v) (\<lambda>m.
     Option.bind (dflt m ''rows'' (de_vec de_receipt_row) []) (\<lambda>r.
     Option.bind (dflt m ''total'' de_f64 (Fin 0)) (\<lambda>t.
     Some \<lparr>rcpt_rows = r, rcpt_total = t\<rparr>)))"

definition de_provenance :: "json \<Rightarrow> provenance option" where
  "de_provenance v = Option.bind (de_fields
       [''record_hash'', ''verified'', ''unverified'', ''stability'', ''adversarial_findings''] v) (\<lambda>m.
     Option.bind (req m ''record_hash'' as_str) (\<lambda>h.
     Option.bind (dflt m ''verified'' (de_uint 64) 0) (\<lambda>ve.
     Option.bind (dflt m ''unverified'' (de_uint 64) 0) (\<lambda>un.
     Option.bind (dflt m ''stability'' de_f64 (Fin 0)) (\<lambda>st.
     Option.bind (dflt m ''adversarial_findings'' (de_uint 64) 0) (\<lambda>af.
     Some \<lparr>prov_record_hash = h, prov_verified = ve, prov_unverified = un, prov_stability = st,
           prov_adversarial_findings = af\<rparr>))))))"

definition de_artifact :: "json \<Rightarrow> artifact_event option" where
  "de_artifact v = Option.bind (de_fields [''run_id'', ''url'', ''provenance''] v) (\<lambda>m.
     Option.bind (req m ''run_id'' as_str) (\<lambda>r.
     Option.bind (dflt m ''url'' as_str []) (\<lambda>u.
     Option.bind (dflt m ''provenance'' (de_option de_provenance) None) (\<lambda>p.
     Some \<lparr>art_run_id = r, art_url = u, art_provenance = p\<rparr>))))"

subsection \<open>Parsing a line\<close>

datatype line_error =
    NotJson string
  | NotObject
  | MissingType
  | BadShape string string

definition line_error_display :: "line_error \<Rightarrow> string" where
  "line_error_display e =
     (case e of
        NotJson d \<Rightarrow> ''not JSON: '' @ d
      | NotObject \<Rightarrow> ''JSON value is not an object''
      | MissingType \<Rightarrow> ''no string `type` field''
      | BadShape t d \<Rightarrow> ''malformed `'' @ t @ ''` event: '' @ d)"

definition shaped :: "(string \<Rightarrow> json \<Rightarrow> string) \<Rightarrow> string \<Rightarrow> json \<Rightarrow> 'a option \<Rightarrow> ('a \<Rightarrow> run_event)
    \<Rightarrow> line_error + run_event" where
  "shaped serde_msg t v r k =
     (case r of None \<Rightarrow> Err (BadShape t (serde_msg t v)) | Some a \<Rightarrow> Ok (k a))"

definition parse_line :: "(string \<Rightarrow> string + json) \<Rightarrow> (string \<Rightarrow> json \<Rightarrow> string) \<Rightarrow> string
    \<Rightarrow> line_error + run_event" where
  "parse_line parse_json serde_msg line =
     (case parse_json line of
        Inl e \<Rightarrow> Err (NotJson e)
      | Inr v \<Rightarrow>
          if \<not> is_object v then Err NotObject
          else (case Option.bind (json_get ''type'' v) as_str of
              None \<Rightarrow> Err MissingType
            | Some t \<Rightarrow>
                if t = ''quarry_stream'' then shaped serde_msg t v (de_stream v) Stream
                else if t = ''quarry_outcome'' then shaped serde_msg t v (de_outcome v) Outcome
                else if t = ''model'' then shaped serde_msg t v (de_model v) Model
                else if t = ''answer'' then shaped serde_msg t v (de_answer v) Answer
                else if t = ''receipt'' then shaped serde_msg t v (de_receipt v) Receipt
                else if t = ''artifact'' then shaped serde_msg t v (de_artifact v) Artifact
                else Ok (Unknown t v)))"

definition KNOWN_KINDS :: "string list" where
  "KNOWN_KINDS =
     [''quarry_stream'', ''quarry_outcome'', ''model'', ''answer'', ''receipt'', ''artifact'']"

lemma shaped_Ok: "shaped msg t v r k = Inr e \<longleftrightarrow> (\<exists>a. r = Some a \<and> e = k a)"
  by (auto simp: shaped_def split: option.splits)

lemma shaped_Err: "shaped msg t v r k = Inl e \<longleftrightarrow> r = None \<and> e = BadShape t (msg t v)"
  by (auto simp: shaped_def split: option.splits)

lemma parse_line_unknown:
  assumes "parse_json line = Inr (JObject m)" and "map_of m ''type'' = Some (JString t)"
    and "t \<notin> set KNOWN_KINDS"
  shows "parse_line parse_json msg line = Ok (Unknown t (JObject m))"
  using assms by (simp add: parse_line_def KNOWN_KINDS_def)

lemma parse_line_event_type:
  assumes "parse_line parse_json msg line = Ok e"
  shows "\<exists>m. parse_json line = Inr (JObject m) \<and> map_of m ''type'' = Some (JString (event_type e))"
proof -
  obtain v where v: "parse_json line = Inr v"
    using assms by (auto simp: parse_line_def split: sum.splits)
  obtain m where m: "v = JObject m"
    using assms v by (cases v) (auto simp: parse_line_def)
  obtain t where "map_of m ''type'' = Some (JString t)"
    using assms v m by (auto simp: parse_line_def bind_eq_Some_conv elim!: as_str.elims split: option.splits)
  with assms v m show ?thesis
    by (auto simp: parse_line_def shaped_Ok split: if_splits)
qed

subsection \<open>Reading the stream's verdict\<close>

fun outcome_of :: "run_event \<Rightarrow> outcome_event option" where
  "outcome_of (Outcome o') = Some o'"
| "outcome_of _ = None"

fun version_of :: "run_event \<Rightarrow> nat option" where
  "version_of (Stream s) = Some (stm_version s)"
| "version_of _ = None"

definition terminal_outcome :: "run_event list \<Rightarrow> outcome_event option" where
  "terminal_outcome events = find_map outcome_of (rev events)"

definition stream_version :: "run_event list \<Rightarrow> nat option" where
  "stream_version events = find_map version_of events"

lemma outcome_of_Some [simp]: "outcome_of e = Some o' \<longleftrightarrow> e = Outcome o'"
  by (cases e) auto

lemma terminal_outcome_snoc:
  "terminal_outcome (events @ [e]) =
     (case outcome_of e of None \<Rightarrow> terminal_outcome events | Some o' \<Rightarrow> Some o')"
  unfolding terminal_outcome_def by simp

lemma terminal_outcome_None_iff:
  "terminal_outcome events = None \<longleftrightarrow> (\<forall>o'. Outcome o' \<notin> set events)"
proof -
  have "outcome_of e = None \<longleftrightarrow> (\<forall>o'. e \<noteq> Outcome o')" for e by (cases e) auto
  then show ?thesis by (auto simp: terminal_outcome_def find_map_None)
qed

lemma terminal_outcome_append_other:
  "\<forall>o'. Outcome o' \<notin> set later \<Longrightarrow> terminal_outcome (events @ later) = terminal_outcome events"
proof (induction later rule: rev_induct)
  case (snoc e later)
  then have "outcome_of e = None" by (cases e) auto
  moreover from snoc have "terminal_outcome (events @ later) = terminal_outcome events" by auto
  ultimately show ?case
    by (simp add: terminal_outcome_snoc flip: append_assoc)
qed simp

subsection \<open>The run record\<close>

record record_caps =
  rc_spend :: int
  rc_latency_nanos :: int
  rc_due :: string

definition caps_spend_micro_usd :: "record_caps \<Rightarrow> int option" where
  "caps_spend_micro_usd c = (if rc_spend c = 0 then None else Some (rc_spend c))"

definition spend_unlimited :: "record_caps \<Rightarrow> bool" where
  "spend_unlimited c \<longleftrightarrow> rc_spend c = UNLIMITED_MICRO_USD"

text \<open>A \<open>Duration\<close> is a number of nanoseconds.\<close>

type_synonym duration = nat

definition caps_latency :: "record_caps \<Rightarrow> duration option" where
  "caps_latency c = (if rc_latency_nanos c \<le> 0 then None else Some (nat (rc_latency_nanos c)))"

definition caps_due :: "record_caps \<Rightarrow> string option" where
  "caps_due c =
     (if rc_due c = [] then None
      else if starts_with ''0001-01-01'' (rc_due c) then None
      else Some (rc_due c))"

record node_outcome =
  no_node_id :: string
  no_content :: string
  no_cost :: int
  no_gap :: bool
  no_cache_hit :: bool
  no_model :: string
  no_verified :: "bool option"
  no_children :: "string list"

record run_record =
  rr_run_id :: string
  rr_bound_by :: string
  rr_caps :: record_caps
  rr_unverified :: "string list"
  rr_outcomes :: "node_outcome list"

definition default_caps :: record_caps where
  "default_caps = \<lparr>rc_spend = 0, rc_latency_nanos = 0, rc_due = []\<rparr>"

definition de_record_caps :: "json \<Rightarrow> record_caps option" where
  "de_record_caps v = Option.bind (de_fields [''Spend'', ''Latency'', ''Due''] v) (\<lambda>m.
     Option.bind (dflt m ''Spend'' de_i64 0) (\<lambda>s.
     Option.bind (dflt m ''Latency'' de_i64 0) (\<lambda>l.
     Option.bind (dflt m ''Due'' as_str []) (\<lambda>d.
     Some \<lparr>rc_spend = s, rc_latency_nanos = l, rc_due = d\<rparr>))))"

definition de_node_outcome :: "json \<Rightarrow> node_outcome option" where
  "de_node_outcome v = Option.bind (de_fields
       [''NodeID'', ''Content'', ''Cost'', ''Gap'', ''CacheHit'', ''Model'', ''Verified'', ''Children''] v) (\<lambda>m.
     Option.bind (dflt m ''NodeID'' as_str []) (\<lambda>i.
     Option.bind (dflt m ''Content'' as_str []) (\<lambda>c.
     Option.bind (dflt m ''Cost'' de_i64 0) (\<lambda>x.
     Option.bind (dflt m ''Gap'' de_bool False) (\<lambda>g.
     Option.bind (dflt m ''CacheHit'' de_bool False) (\<lambda>h.
     Option.bind (dflt m ''Model'' as_str []) (\<lambda>mo.
     Option.bind (dflt m ''Verified'' (de_option de_bool) None) (\<lambda>ve.
     Option.bind (dflt m ''Children'' (null_as_empty as_str) []) (\<lambda>ch.
     Some \<lparr>no_node_id = i, no_content = c, no_cost = x, no_gap = g, no_cache_hit = h,
           no_model = mo, no_verified = ve, no_children = ch\<rparr>)))))))))"

definition de_run_record :: "json \<Rightarrow> run_record option" where
  "de_run_record v = Option.bind (de_fields
       [''RunID'', ''BoundBy'', ''Caps'', ''Unverified'', ''Outcomes''] v) (\<lambda>m.
     Option.bind (dflt m ''RunID'' as_str []) (\<lambda>i.
     Option.bind (dflt m ''BoundBy'' as_str []) (\<lambda>b.
     Option.bind (dflt m ''Caps'' de_record_caps default_caps) (\<lambda>c.
     Option.bind (dflt m ''Unverified'' (null_as_empty as_str) []) (\<lambda>u.
     Option.bind (dflt m ''Outcomes'' (null_as_empty de_node_outcome) []) (\<lambda>os.
     Some \<lparr>rr_run_id = i, rr_bound_by = b, rr_caps = c, rr_unverified = u, rr_outcomes = os\<rparr>))))))"

definition record_gaps :: "run_record \<Rightarrow> node_outcome list" where
  "record_gaps r = filter no_gap (rr_outcomes r)"

definition is_unfunded :: "node_outcome \<Rightarrow> bool" where
  "is_unfunded n \<longleftrightarrow>
     \<not> no_gap n \<and> \<not> no_cache_hit n \<and> no_children n = [] \<and> no_model n = []
     \<and> no_content n = [] \<and> no_verified n = None"

definition record_unfunded :: "run_record \<Rightarrow> node_outcome list" where
  "record_unfunded r = filter is_unfunded (rr_outcomes r)"

definition record_truncated :: "run_record \<Rightarrow> bool" where
  "record_truncated r \<longleftrightarrow>
     rr_bound_by r \<noteq> [] \<or> list_ex no_gap (rr_outcomes r) \<or> record_unfunded r \<noteq> []"

definition total_cost_micro_usd :: "run_record \<Rightarrow> int" where
  "total_cost_micro_usd r = i64_sum (map no_cost (filter (\<lambda>n. 0 \<le> no_cost n) (rr_outcomes r)))"

lemma record_truncated_iff:
  "record_truncated r \<longleftrightarrow> rr_bound_by r \<noteq> [] \<or> record_gaps r \<noteq> [] \<or> record_unfunded r \<noteq> []"
  by (auto simp: record_truncated_def record_gaps_def list_ex_iff filter_empty_conv)

subsection \<open>Stream statistics\<close>

record stream_stats =
  ss_lines :: nat
  ss_events :: nat
  ss_unknown_kinds :: "(string, nat) btree"
  ss_bad_lines :: "(nat \<times> line_error) list"
  ss_read_abandoned :: bool

definition default_stats :: stream_stats where
  "default_stats =
     \<lparr>ss_lines = 0, ss_events = 0, ss_unknown_kinds = [], ss_bad_lines = [],
      ss_read_abandoned = False\<rparr>"

definition stats_clean :: "stream_stats \<Rightarrow> bool" where
  "stats_clean s \<longleftrightarrow> ss_bad_lines s = []"

subsection \<open>Properties\<close>

text \<open>Costs of an integer ledger survive the wire, and so does their sum.\<close>

lemma ledger_back:
  assumes "\<forall>m \<in> set ms. 0 \<le> m" and "sum_list ms \<le> 2 ^ 50"
  shows "map usd_to_micro (map wire_usd ms) = ms"
proof -
  have "m \<le> sum_list ms" if "m \<in> set ms" for m
    using that assms(1) member_le_sum_list [of m ms] by auto
  then have "usd_to_micro (wire_usd m) = m" if "m \<in> set ms" for m
    using that assms by (intro usd_to_micro_wire) fastforce+
  then show ?thesis by (auto intro!: map_idI)
qed

lemma ledger_sum:
  assumes "\<forall>m \<in> set ms. 0 \<le> m" and "sum_list ms \<le> 2 ^ 50"
  shows "i64_sum ms = sum_list ms"
proof -
  have "0 \<le> sum_list ms" using assms(1) by (simp add: sum_list_nonneg)
  then show ?thesis using assms(2) by (intro i64_sum_exact) (simp add: in_i64_def)
qed

text \<open>A ledger whose rows add up reconciles on the wire. If quarry converts integer
  micro-unit costs \<open>ms\<close> and their total to doubles, each correctly rounded, then
  \<open>rows_reconcile\<close> holds of the received receipt, however the doubles themselves
  would add up.\<close>

theorem rows_reconcile_of_ledger:
  assumes "\<forall>m \<in> set ms. 0 \<le> m" and "sum_list ms \<le> 2 ^ 50"
    and "map row_cost (rcpt_rows r) = map wire_usd ms" and "rcpt_total r = wire_usd (sum_list ms)"
  shows "rows_reconcile r \<and> rows_micro_usd r = sum_list ms"
proof -
  have nn: "0 \<le> sum_list ms" using assms(1) by (simp add: sum_list_nonneg)
  have "map (\<lambda>x. usd_to_micro (row_cost x)) (rcpt_rows r) = map usd_to_micro (map wire_usd ms)"
    by (simp flip: assms(3))
  then have "rows_micro_usd r = sum_list ms"
    using ledger_back [OF assms(1,2)] ledger_sum [OF assms(1,2)] by (simp add: rows_micro_usd_def)
  then show ?thesis
    using nn assms(2,4) by (simp add: rows_reconcile_def total_micro_usd_def usd_to_micro_wire)
qed

theorem rows_reconcile_of_ledger_witness:
  "rows_reconcile \<lparr>rcpt_rows = [\<lparr>row_label = ''n0'', row_kind = ''llm'', row_cost = wire_usd 70000\<rparr>,
      \<lparr>row_label = ''n0.1'', row_kind = ''llm'', row_cost = wire_usd 290000\<rparr>],
      rcpt_total = wire_usd 360000\<rparr>"
  using rows_reconcile_of_ledger [of "[70000, 290000]"
      "\<lparr>rcpt_rows = [\<lparr>row_label = ''n0'', row_kind = ''llm'', row_cost = wire_usd 70000\<rparr>,
      \<lparr>row_label = ''n0.1'', row_kind = ''llm'', row_cost = wire_usd 290000\<rparr>],
      rcpt_total = wire_usd 360000\<rparr>"]
  by simp

text \<open>The event union is open. A line that parses to a JSON object whose \<open>type\<close> is any
  string outside the six known kinds becomes an \<open>Unknown\<close> event with its raw JSON kept;
  it is never an error, and the terminal outcome of the stream it is appended to does not
  change.\<close>

lemma unknown_kinds_are_tolerated:
  assumes "parse_json line = Inr (JObject m)" and "map_of m ''type'' = Some (JString t)"
    and "t \<notin> set KNOWN_KINDS"
  shows "parse_line parse_json msg line = Ok (Unknown t (JObject m))
    \<and> terminal_outcome (events @ [Unknown t (JObject m)]) = terminal_outcome events"
  using parse_line_unknown [of parse_json line m t msg] assms
  by (simp add: terminal_outcome_append_other)

definition demo_json :: "string \<Rightarrow> string + json" where
  "demo_json s = Inr (JObject [(''type'', JString s)])"

theorem unknown_kinds_are_tolerated_witness:
  "parse_line demo_json (\<lambda>_ _. []) ''verification''
     = Ok (Unknown ''verification'' (JObject [(''type'', JString ''verification'')]))"
  using unknown_kinds_are_tolerated
    [of demo_json "''verification''" "[(''type'', JString ''verification'')]" "''verification''"
        "\<lambda>_ _. []"]
  by (simp add: demo_json_def KNOWN_KINDS_def)

text \<open>The terminal outcome is the last outcome event of the stream, wherever it stands:
  events of other kinds after it do not hide it, and it is absent exactly when no outcome
  event arrived.\<close>

lemma terminal_outcome_is_last:
  "terminal_outcome events = Some o' \<longleftrightarrow>
     (\<exists>before after. events = before @ [Outcome o'] @ after \<and> (\<forall>x. Outcome x \<notin> set after))"
proof
  assume "\<exists>before after. events = before @ [Outcome o'] @ after \<and> (\<forall>x. Outcome x \<notin> set after)"
  then obtain b a where e: "events = (b @ [Outcome o']) @ a" "\<forall>x. Outcome x \<notin> set a" by auto
  then show "terminal_outcome events = Some o'"
    by (simp only: e(1) terminal_outcome_append_other [OF e(2)]) (simp add: terminal_outcome_snoc)
next
  assume "terminal_outcome events = Some o'"
  then show "\<exists>before after. events = before @ [Outcome o'] @ after \<and> (\<forall>x. Outcome x \<notin> set after)"
  proof (induction events rule: rev_induct)
    case Nil
    then show ?case by (simp add: terminal_outcome_def)
  next
    case (snoc e events)
    show ?case
    proof (cases "outcome_of e")
      case None
      with snoc obtain b a where "events = b @ [Outcome o'] @ a" "\<forall>x. Outcome x \<notin> set a"
        by (auto simp: terminal_outcome_snoc)
      with None show ?thesis by (intro exI [of _ b] exI [of _ "a @ [e]"]) auto
    next
      case (Some x)
      with snoc.prems have "e = Outcome o'" by (simp add: terminal_outcome_snoc)
      then show ?thesis by (intro exI [of _ events] exI [of _ "[]"]) simp
    qed
  qed
qed

lemma de_outcome_cap:
  "de_outcome v = Some oc \<Longrightarrow> v = JObject m
    \<Longrightarrow> dflt m ''cap_micros'' de_i64 unlimited_cap = Some (oc_cap_micros oc)"
  by (auto simp: de_outcome_def bind_eq_Some_conv split: if_splits)

lemma de_i64_Some: "de_i64 v = Some c \<longleftrightarrow> v = JInt c \<and> in_i64 c"
  by (cases v) auto

text \<open>An outcome event that omits \<open>cap_micros\<close> has no spend cap, while one that states a
  cap of zero has the tightest cap there is: absence never reads as zero.\<close>

lemma missing_cap_is_unlimited:
  assumes "de_outcome (JObject m) = Some oc"
  shows "has_spend_cap oc \<longleftrightarrow> (\<exists>c. map_of m ''cap_micros'' = Some (JInt c) \<and> c \<noteq> - 1)"
  using de_outcome_cap [OF assms refl]
  by (cases "map_of m ''cap_micros''")
    (auto simp: dflt_def has_spend_cap_def unlimited_cap_def UNLIMITED_MICRO_USD_def de_i64_Some)

theorem missing_cap_is_unlimited_witness:
  "\<exists>a b. de_outcome (JObject []) = Some a \<and> \<not> has_spend_cap a
     \<and> de_outcome (JObject [(''cap_micros'', JInt 0)]) = Some b \<and> has_spend_cap b"
proof -
  have "de_outcome (JObject []) = Some default_outcome"
    by (simp add: de_outcome_def dflt_def default_outcome_def)
  moreover obtain b where "de_outcome (JObject [(''cap_micros'', JInt 0)]) = Some b"
    by (simp add: de_outcome_def dflt_def in_i64_def)
  ultimately show ?thesis
    using missing_cap_is_unlimited [of "[]" default_outcome]
      missing_cap_is_unlimited [of "[(''cap_micros'', JInt 0)]" b] by auto
qed

text \<open>Gaps and unfunded nodes are two disjoint populations of the record's nodes, and the
  record is truncated exactly when a cap bit or one of the two is non-empty. In
  particular a run priced out of its nodes is truncated without having a single gap.\<close>

lemma gaps_and_unfunded_are_apart:
  "set (record_gaps r) \<inter> set (record_unfunded r) = {}
   \<and> length (record_gaps r) + length (record_unfunded r) \<le> length (rr_outcomes r)
   \<and> (record_truncated r \<longleftrightarrow>
        rr_bound_by r \<noteq> [] \<or> record_gaps r \<noteq> [] \<or> record_unfunded r \<noteq> [])"
proof -
  have "length (filter no_gap ns) + length (filter is_unfunded ns) \<le> length ns" for ns
    by (induction ns) (auto simp: is_unfunded_def)
  then show ?thesis
    by (auto simp: record_truncated_iff record_gaps_def record_unfunded_def is_unfunded_def)
qed

end
