(* ===== verification/Caps.thy ===== *)
theory Caps
  imports Event
begin

section \<open>Caps in a sender's words (\<open>src/quarry/caps.rs\<close>)\<close>

text \<open>
  The caps a sender asks for, their validation, and the parser that reads them out of a
  message. The parser slices the text at byte offsets, and a Rust slice that does not
  start and end on a character boundary panics; so every function that slices returns an
  \<open>option\<close> whose \<open>None\<close> is the panic. Time zones and calendar text come from
  \<open>chrono\<close> and \<open>chrono-tz\<close> and are the fields of the parameter \<open>tz\<close>; an instant is
  its nanoseconds since the Unix epoch, a wall-clock reading the nanoseconds since the
  epoch on that clock.
\<close>

subsection \<open>Units and requested caps\<close>

definition is_limited :: "int \<Rightarrow> bool" where
  "is_limited micro \<longleftrightarrow> 0 \<le> micro"

type_synonym instant = int

record requested_caps =
  rq_spend_micro_usd :: "int option"
  rq_latency :: "duration option"
  rq_due :: "instant option"

definition default_requested :: requested_caps where
  "default_requested = \<lparr>rq_spend_micro_usd = None, rq_latency = None, rq_due = None\<rparr>"

definition requested_any :: "requested_caps \<Rightarrow> bool" where
  "requested_any c \<longleftrightarrow>
     rq_spend_micro_usd c \<noteq> None \<or> rq_latency c \<noteq> None \<or> rq_due c \<noteq> None"

definition requested_deferrable :: "requested_caps \<Rightarrow> bool" where
  "requested_deferrable c \<longleftrightarrow> rq_due c \<noteq> None \<and> rq_latency c = None"

datatype caps_refusal = Uncapped | SpendNotPositive

definition validate :: "requested_caps \<Rightarrow> caps_refusal + unit" where
  "validate c =
     (case rq_spend_micro_usd c of
        Some s \<Rightarrow>
          if is_limited s \<and> s \<le> 0 then Err SpendNotPositive
          else if \<not> requested_any c then Err Uncapped else Ok ()
      | None \<Rightarrow> if \<not> requested_any c then Err Uncapped else Ok ())"

fun caps_refusal_code :: "caps_refusal \<Rightarrow> string" where
  "caps_refusal_code Uncapped = ''uncapped''"
| "caps_refusal_code SpendNotPositive = ''spend_not_positive''"

definition quote :: string where
  "quote = [CHR 0x22]"

fun caps_refusal_message :: "caps_refusal \<Rightarrow> string" where
  "caps_refusal_message Uncapped =
     ''planning is budget-conditioned (P9): a run needs at least one cap. Tell me a spend limit ('' @ quote @ ''up to $5''
     @ quote @ ''), a time limit ('' @ quote @ ''within 20 minutes'' @ quote @ ''), or a deadline ('' @ quote
     @ ''by 5pm'' @ quote @ '').''"
| "caps_refusal_message SpendNotPositive =
     ''a spend cap has to be positive '' @ em_dash @ '' quarry plans against the budget, so a cap of zero funds nothing and there is no run to plan.''"


subsection \<open>Disclosures, time zones and questions\<close>

datatype timezone_source = SenderPreference | ConfigDefault | UtcFallback

fun timezone_source_code :: "timezone_source \<Rightarrow> string" where
  "timezone_source_code SenderPreference = ''sender_preference''"
| "timezone_source_code ConfigDefault = ''config_default''"
| "timezone_source_code UtcFallback = ''utc_fallback''"

datatype disclosure =
    DueHasNoUpstreamFlag instant duration
  | DeadlineResolvedIn string timezone_source string

text \<open>What the parser uses of a zone: its name, the wall clock at an instant, the instants a
  wall-clock reading stands for, and two renderings.\<close>

datatype local_result = LNone | LSingle instant | LAmbiguous instant instant

record tz =
  tz_name :: string
  tz_to_local :: "instant \<Rightarrow> int"
  tz_from_local :: "int \<Rightarrow> local_result"
  tz_format :: "instant \<Rightarrow> string"
  tz_format_naive :: "int \<Rightarrow> string"

text \<open>\<open>parse_tz\<close> is \<open>str::parse::<Tz>\<close> of \<open>chrono-tz\<close> and \<open>utc\<close> its \<open>UTC\<close>.\<close>

definition resolve_timezone ::
    "(string \<Rightarrow> tz option) \<Rightarrow> tz \<Rightarrow> string option \<Rightarrow> string option \<Rightarrow> tz \<times> timezone_source" where
  "resolve_timezone parse_tz utc sender_pref config_default =
     (case Option.bind sender_pref parse_tz of
        Some z \<Rightarrow> (z, SenderPreference)
      | None \<Rightarrow>
         (case Option.bind config_default parse_tz of
            Some z \<Rightarrow> (z, ConfigDefault)
          | None \<Rightarrow> (utc, UtcFallback)))"

datatype question =
    NoCapFound
  | Ambiguous string "string list"
  | NotADenomination string string
  | UnusableSpend string string

fun question_code :: "question \<Rightarrow> string" where
  "question_code NoCapFound = ''no_cap_found''"
| "question_code (Ambiguous _ _) = ''ambiguous''"
| "question_code (NotADenomination _ _) = ''not_a_denomination''"
| "question_code (UnusableSpend _ _) = ''unusable_spend''"

fun question_message :: "question \<Rightarrow> string" where
  "question_message NoCapFound = caps_refusal_message Uncapped"
| "question_message (Ambiguous f rs) =
     quote @ f @ quote @ '' could mean '' @ join_with '' or '' rs @ '' '' @ em_dash @ '' which did you mean?''"
| "question_message (NotADenomination f r) = quote @ f @ quote @ '' is not something I can cap: '' @ r"
| "question_message (UnusableSpend f r) = quote @ f @ quote @ '' cannot fund a run: '' @ r"

datatype caps_parse = Caps requested_caps "disclosure list" | Ask "question list"

fun parsed_caps :: "caps_parse \<Rightarrow> requested_caps option" where
  "parsed_caps (Caps c _) = Some c"
| "parsed_caps (Ask _) = None"

fun parsed_questions :: "caps_parse \<Rightarrow> question list" where
  "parsed_questions (Ask qs) = qs"
| "parsed_questions (Caps _ _) = []"

fun parsed_disclosures :: "caps_parse \<Rightarrow> disclosure list" where
  "parsed_disclosures (Caps _ ds) = ds"
| "parsed_disclosures (Ask _) = []"

subsection \<open>Scanning bytes\<close>

text \<open>\<open>&s[i..j]\<close>: \<open>None\<close> is the panic on a bad range or inside a character.\<close>

definition slice :: "string \<Rightarrow> nat \<Rightarrow> nat \<Rightarrow> string option" where
  "slice s i j =
     (if i \<le> j \<and> j \<le> length s \<and> is_char_boundary s i \<and> is_char_boundary s j
      then Some (take (j - i) (drop i s)) else None)"

definition slice_from :: "string \<Rightarrow> nat \<Rightarrow> string option" where
  "slice_from s i = slice s i (length s)"

definition byte_at :: "string \<Rightarrow> nat \<Rightarrow> (char \<Rightarrow> bool) \<Rightarrow> bool" where
  "byte_at s i P \<longleftrightarrow> i < length s \<and> P (s ! i)"

fun back_over_spaces :: "string \<Rightarrow> nat \<Rightarrow> nat" where
  "back_over_spaces s 0 = 0"
| "back_over_spaces s (Suc j) = (if s ! j = CHR '' '' then back_over_spaces s j else Suc j)"

definition preceding_minus :: "string \<Rightarrow> nat \<Rightarrow> bool" where
  "preceding_minus s i = (let j = back_over_spaces s i in 0 < j \<and> s ! (j - 1) = CHR ''-'')"

definition skip_spaces :: "string \<Rightarrow> nat \<Rightarrow> nat" where
  "skip_spaces s i = i + length (takeWhile (\<lambda>c. c = CHR '' '') (drop i s))"

definition is_number_start :: "string \<Rightarrow> nat \<Rightarrow> bool" where
  "is_number_start s i = byte_at s i is_ascii_digit"

definition mid_token :: "string \<Rightarrow> nat \<Rightarrow> bool" where
  "mid_token s i \<longleftrightarrow>
     0 < i \<and> (is_ascii_alnum (s ! (i - 1)) \<or> s ! (i - 1) = CHR ''-'' \<or> s ! (i - 1) = CHR ''.'')"

text \<open>The loop of \<open>read_number\<close>: how many bytes of the number it consumes.\<close>

fun scan_number :: "bool \<Rightarrow> string \<Rightarrow> nat" where
  "scan_number seen_dot [] = 0"
| "scan_number seen_dot (c # cs) =
     (if is_ascii_digit c then Suc (scan_number seen_dot cs)
      else if c = CHR ''.'' \<and> \<not> seen_dot \<and> byte_at cs 0 is_ascii_digit
           then Suc (scan_number True cs)
      else 0)"

definition read_number :: "string \<Rightarrow> nat \<Rightarrow> (f64 \<times> nat) option" where
  "read_number s start =
     (let n = scan_number False (drop start s); text = take n (drop start s)
      in if list_ex is_ascii_digit text then Some (parse_f64 text, start + n) else None)"

lemma scan_number_le: "scan_number d s \<le> length s"
  by (induction d s rule: scan_number.induct) auto

lemma read_number_bounds:
  "read_number s i = Some (v, j) \<Longrightarrow> i < j \<and> j \<le> length s"
proof -
  assume r: "read_number s i = Some (v, j)"
  let ?n = "scan_number False (drop i s)"
  have "list_ex is_ascii_digit (take ?n (drop i s))" and j: "j = i + ?n"
    using r by (auto simp: read_number_def Let_def split: if_splits)
  then have "take ?n (drop i s) \<noteq> []" by (cases "take ?n (drop i s)") simp_all
  then have "0 < ?n" "i < length s" by auto
  with j scan_number_le [of False "drop i s"] show ?thesis by auto
qed

lemma skip_spaces_ge: "i \<le> skip_spaces s i"
  by (simp add: skip_spaces_def)

text \<open>Whether a word starts at a byte, on token boundaries; the comparison slices.\<close>

definition starts_word :: "string \<Rightarrow> nat \<Rightarrow> string \<Rightarrow> bool option" where
  "starts_word s i word =
     (if length s < i + length word then Some False
      else Option.bind (slice s i (i + length word)) (\<lambda>t.
        Some (t = word
          \<and> \<not> (0 < i \<and> is_ascii_alpha (s ! (i - 1)))
          \<and> \<not> byte_at s (i + length word) is_ascii_alnum)))"

subsection \<open>Spend\<close>

datatype spend_find = SpendNone | SpendMicro int | SpendUnlimited | SpendQuestion question

definition NO_SPEND_PHRASES :: "string list" where
  "NO_SPEND_PHRASES =
     [''don'' @ [CHR 0x27] @ ''t spend anything'', ''dont spend anything'', ''do not spend anything'',
      ''without spending anything'', ''spend nothing'', ''for free'', ''free of charge'',
      ''no money'']"

definition UNLIMITED_PHRASES :: "string list" where
  "UNLIMITED_PHRASES =
     [''unlimited'', ''no spend limit'', ''no budget limit'', ''whatever it costs'',
      ''whatever it takes'', ''money is no object'', ''spare no expense'']"

definition CURRENCY_WORDS :: "string list" where
  "CURRENCY_WORDS = [''dollars'', ''dollar'', ''usd'', ''bucks'']"

text \<open>The first word of a list that starts at a byte, trying them in order.\<close>

fun first_word :: "string \<Rightarrow> nat \<Rightarrow> string list \<Rightarrow> string option option" where
  "first_word s i [] = Some None"
| "first_word s i (w # ws) =
     Option.bind (starts_word s i w) (\<lambda>b. if b then Some (Some w) else first_word s i ws)"

text \<open>One iteration of \<open>find_spend_amounts\<close> at byte \<open>i\<close>: the amount it pushes, if any, and
  the next index. The three forms are \<open>$5\<close>, \<open>usd 5\<close> and \<open>5 dollars\<close>.\<close>

definition signed_amount :: "string \<Rightarrow> nat \<Rightarrow> nat \<Rightarrow> f64 \<Rightarrow> (string \<times> f64) option" where
  "signed_amount s i e v =
     (let negative = 0 < i \<and> preceding_minus s i
      in map_option (\<lambda>t. (trim t, if negative then f64_neg v else v))
           (slice s (if negative then i - 1 else i) e))"

definition dollar_at :: "string \<Rightarrow> nat \<Rightarrow> ((string \<times> f64) option \<times> nat) option" where
  "dollar_at s i =
     (case read_number s (skip_spaces s (i + 1)) of
        Some (v, e) \<Rightarrow> map_option (\<lambda>a. (Some a, e)) (signed_amount s i e v)
      | None \<Rightarrow> Some (None, i + 1))"

definition usd_at :: "string \<Rightarrow> nat \<Rightarrow> ((string \<times> f64) option \<times> nat) option" where
  "usd_at s i =
     (case read_number s (skip_spaces s (i + 3)) of
        Some (v, e) \<Rightarrow> map_option (\<lambda>t. (Some (trim t, v), e)) (slice s i e)
      | None \<Rightarrow> Some (None, i))"

definition unit_at :: "string \<Rightarrow> nat \<Rightarrow> ((string \<times> f64) option \<times> nat) option" where
  "unit_at s i =
     (if is_number_start s i \<and> \<not> mid_token s i then
        (case read_number s i of
           Some (v, e) \<Rightarrow>
             (let after = skip_spaces s e
              in Option.bind (first_word s after CURRENCY_WORDS) (\<lambda>w.
                   case w of
                     Some u \<Rightarrow>
                       map_option (\<lambda>a. (Some a, after + length u))
                         (signed_amount s i (after + length u) v)
                   | None \<Rightarrow> Some (None, e)))
         | None \<Rightarrow> Some (None, i + 1))
      else Some (None, i + 1))"

definition spend_at :: "string \<Rightarrow> nat \<Rightarrow> ((string \<times> f64) option \<times> nat) option" where
  "spend_at s i =
     (if s ! i = CHR ''$'' then dollar_at s i
      else Option.bind (starts_word s i ''usd'') (\<lambda>usd.
        Option.bind (if usd then usd_at s i else Some (None, i)) (\<lambda>(found, j).
          case found of Some _ \<Rightarrow> Some (found, j) | None \<Rightarrow> unit_at s i)))"

lemma dollar_at_advances: "dollar_at s i = Some (r, j) \<Longrightarrow> i < j"
  using read_number_bounds [of s "skip_spaces s (i + 1)"] skip_spaces_ge [of "i + 1" s]
  by (fastforce simp: dollar_at_def split: option.splits)

lemma usd_at_advances: "usd_at s i = Some (Some a, j) \<Longrightarrow> i < j"
  using read_number_bounds [of s "skip_spaces s (i + 3)"] skip_spaces_ge [of "i + 3" s]
  by (fastforce simp: usd_at_def split: option.splits)

lemma unit_at_advances: "unit_at s i = Some (r, j) \<Longrightarrow> i < j"
  using read_number_bounds [of s i]
  by (fastforce simp: unit_at_def bind_eq_Some_conv Let_def intro: less_le_trans trans_le_add1 skip_spaces_ge
      split: if_splits option.splits)

lemma spend_at_advances: "spend_at s i = Some (r, j) \<Longrightarrow> i < j"
  by (auto simp: spend_at_def bind_eq_Some_conv split: if_splits option.splits
      dest: dollar_at_advances usd_at_advances unit_at_advances)

text \<open>The scanning loop. The index moves forward in every iteration.\<close>

function spend_from :: "string \<Rightarrow> nat \<Rightarrow> (string \<times> f64) list option" where
  "spend_from s i =
     (if i < length s then
        (case spend_at s i of
           None \<Rightarrow> None
         | Some (found, j) \<Rightarrow>
             map_option (\<lambda>rest. case found of None \<Rightarrow> rest | Some a \<Rightarrow> a # rest) (spend_from s j))
      else Some [])"
  by pat_completeness auto
termination
  by (relation "measure (\<lambda>(s, i). length s - i)") (auto dest!: spend_at_advances)

declare spend_from.simps [simp del]

definition find_spend_amounts :: "string \<Rightarrow> (string \<times> f64) list option" where
  "find_spend_amounts lower = spend_from lower 0"

definition parse_spend :: "string \<Rightarrow> spend_find option" where
  "parse_spend lower =
     (case find (\<lambda>p. str_contains p lower) NO_SPEND_PHRASES of
        Some phrase \<Rightarrow> Some (SpendQuestion (UnusableSpend phrase
          (''quarry plans against a budget, so a run with no money to spend has nothing to plan. If you want the cheapest useful answer, give me a small cap like ''
           @ quote @ ''up to $0.25'' @ quote @ '' instead.'')))
      | None \<Rightarrow>
        if list_ex (\<lambda>p. str_contains p lower) UNLIMITED_PHRASES then Some SpendUnlimited
        else map_option (\<lambda>amounts.
          case amounts of
            [] \<Rightarrow> SpendNone
          | [(fragment, v)] \<Rightarrow>
              if f64_le v (Fin 0) then SpendQuestion (UnusableSpend fragment
                (''a spend cap has to be a positive amount '' @ em_dash
                 @ '' quarry divides the cap across the tree, and there is nothing to divide.''))
              else SpendMicro (usd_to_micro v)
          | _ \<Rightarrow> (let readings = map fst amounts
                  in SpendQuestion (Ambiguous (join_with '' / '' readings) readings)))
          (find_spend_amounts lower))"

subsection \<open>Latency\<close>

definition TIME_UNITS :: "(string \<times> nat) list" where
  "TIME_UNITS =
     [(''milliseconds'', 0), (''millisecond'', 0), (''seconds'', 1), (''second'', 1), (''secs'', 1),
      (''sec'', 1), (''s'', 1), (''minutes'', 60), (''minute'', 60), (''mins'', 60), (''min'', 60),
      (''m'', 60), (''hours'', 3600), (''hour'', 3600), (''hrs'', 3600), (''hr'', 3600), (''h'', 3600),
      (''days'', 86400), (''day'', 86400), (''d'', 86400)]"

definition LATENCY_TRIGGERS :: "string list" where
  "LATENCY_TRIGGERS = [''within'', ''in under'', ''under'', ''in less than'', ''in'', ''inside'']"

fun skip_fillers :: "string \<Rightarrow> nat \<Rightarrow> string list \<Rightarrow> nat option" where
  "skip_fillers s i [] = Some i"
| "skip_fillers s i (f # fs) =
     Option.bind (slice_from s i) (\<lambda>t.
       skip_fillers s (if starts_with f t then skip_spaces s (i + length f) else i) fs)"

text \<open>The longest unit word that starts at a byte.\<close>

fun best_unit :: "string \<Rightarrow> nat \<Rightarrow> (string \<times> nat) option \<Rightarrow> (string \<times> nat) list
    \<Rightarrow> (string \<times> nat) option option" where
  "best_unit s i best [] = Some best"
| "best_unit s i best ((w, secs) # us) =
     Option.bind (starts_word s i w) (\<lambda>b.
       best_unit s i
         (if b \<and> (case best of None \<Rightarrow> True | Some (bw, _) \<Rightarrow> length bw < length w)
          then Some (w, secs) else best) us)"

definition from_millis :: "nat \<Rightarrow> duration" where
  "from_millis ms = ms * 1000000"

definition read_duration :: "string \<Rightarrow> nat \<Rightarrow> duration option option" where
  "read_duration s i0 =
     Option.bind (skip_fillers s (skip_spaces s i0) [''the next '', ''next '', ''the '']) (\<lambda>i.
       case read_number s i of
         None \<Rightarrow> Some None
       | Some (v, e) \<Rightarrow>
           map_option (\<lambda>best.
             case best of
               None \<Rightarrow> None
             | Some (word, secs) \<Rightarrow>
                 if starts_with ''millisecond'' word then
                   Some (from_millis (f64_as_u64 (f64_round (f64_mul v (Fin 1000))) div 1000))
                 else
                   (let total = f64_mul v (Fin (of_nat secs))
                    in if f64_le total (Fin 0) then None
                       else Some (from_millis (f64_as_u64 (f64_round (f64_mul total (Fin 1000)))))))
             (best_unit s (skip_spaces s e) None TIME_UNITS))"

text \<open>The search loop for one trigger word; the constant triggers are non-empty, so each
  match moves the search forward.\<close>

function latency_from :: "string \<Rightarrow> string \<Rightarrow> nat \<Rightarrow> duration option option" where
  "latency_from s trigger search =
     (case slice_from s search of
        None \<Rightarrow> None
      | Some tail \<Rightarrow>
         (case str_find trigger tail of
            None \<Rightarrow> Some None
          | Some rel \<Rightarrow>
              if trigger = [] then Some None
              else (let pos = search + rel; after = pos + length trigger
               in case (if (pos = 0 \<or> \<not> is_ascii_alnum (s ! (pos - 1))) \<and> \<not> byte_at s after is_ascii_alnum
                        then read_duration s after else Some None) of
                    None \<Rightarrow> None
                  | Some (Some d) \<Rightarrow> Some (Some d)
                  | Some None \<Rightarrow> latency_from s trigger after)))"
  by pat_completeness auto

lemma slice_from_Some: "slice_from s i = Some t \<Longrightarrow> t = drop i s \<and> i \<le> length s"
  by (auto simp: slice_from_def slice_def split: if_splits)

lemma search_advances:
  assumes "slice_from s search = Some tail" and "str_find pat tail = Some rel" and "pat \<noteq> []"
  shows "length s - (search + rel + length pat) < length s - search"
proof -
  have "tail = drop search s" "search \<le> length s" using slice_from_Some assms(1) by auto
  moreover have "rel + length pat \<le> length tail" using str_find_Some assms(2) by auto
  ultimately have "rel + length pat \<le> length s - search" by simp
  moreover have "0 < length pat" using assms(3) by simp
  ultimately show ?thesis by arith
qed

termination latency_from
  by (relation "measure (\<lambda>(s, trigger, search). length s - search)") (auto dest: search_advances)

declare latency_from.simps [simp del]

fun latency_triggers :: "string \<Rightarrow> string list \<Rightarrow> duration option option" where
  "latency_triggers s [] = Some None"
| "latency_triggers s (t # ts) =
     (case latency_from s t 0 of
        None \<Rightarrow> None
      | Some (Some d) \<Rightarrow> Some (Some d)
      | Some None \<Rightarrow> latency_triggers s ts)"

text \<open>The source's type also has a question; no path of it builds one.\<close>

definition parse_latency :: "string \<Rightarrow> duration option option" where
  "parse_latency lower = latency_triggers lower LATENCY_TRIGGERS"

subsection \<open>Deadlines\<close>

definition DAY_PARTS :: "(string \<times> nat \<times> nat) list" where
  "DAY_PARTS =
     [(''tonight'', 23, 59), (''this evening'', 23, 59), (''end of day'', 23, 59), (''eod'', 23, 59),
      (''midnight'', 23, 59), (''morning'', 9, 0), (''noon'', 12, 0), (''midday'', 12, 0),
      (''afternoon'', 17, 0), (''evening'', 23, 59)]"

definition WEEKDAYS :: "(string \<times> nat) list" where
  "WEEKDAYS =
     [(''monday'', 0), (''tuesday'', 1), (''wednesday'', 2), (''thursday'', 3), (''friday'', 4),
      (''saturday'', 5), (''sunday'', 6)]"

definition minute_ns :: int where
  "minute_ns = 60 * 1000000000"

definition day_ns :: int where
  "day_ns = 86400 * 1000000000"

definition naive_date :: "int \<Rightarrow> int" where
  "naive_date n = n div day_ns"

definition naive_hour :: "int \<Rightarrow> nat" where
  "naive_hour n = nat (n mod day_ns div (60 * minute_ns))"

definition naive_minute :: "int \<Rightarrow> nat" where
  "naive_minute n = nat (n mod day_ns div minute_ns mod 60)"

text \<open>\<open>num_days_from_monday\<close>: the epoch, day zero, was a Thursday.\<close>

definition weekday :: "int \<Rightarrow> nat" where
  "weekday date = nat ((date + 3) mod 7)"

definition naive_at :: "int \<Rightarrow> nat \<Rightarrow> nat \<Rightarrow> int" where
  "naive_at date h m = date * day_ns + (60 * int h + int m) * minute_ns"

definition resolve_local :: "tz \<Rightarrow> int \<Rightarrow> nat \<Rightarrow> nat \<Rightarrow> question + instant" where
  "resolve_local z date hour minute =
     (if 23 < hour \<or> 59 < minute then
        Err (Ambiguous (show_nat hour @ '':'' @ pad_zeros 2 (show_nat minute)) [''a valid time of day''])
      else (let naive = naive_at date hour minute
        in case tz_from_local z naive of
             LSingle t \<Rightarrow> Ok t
           | LAmbiguous earlier later \<Rightarrow> Ok earlier
           | LNone \<Rightarrow>
               (case find_map (\<lambda>add. case tz_from_local z (naive + int add * minute_ns) of
                                       LSingle t \<Rightarrow> Some t | _ \<Rightarrow> None) [1..<181] of
                  Some t \<Rightarrow> Ok t
                | None \<Rightarrow> Err (Ambiguous (tz_format_naive z naive)
                    [''a time that exists in your timezone (this one falls in a daylight-saving gap)'']))))"

function by_from :: "string \<Rightarrow> string \<Rightarrow> nat \<Rightarrow> nat option option" where
  "by_from s trigger search =
     (case slice_from s search of
        None \<Rightarrow> None
      | Some tail \<Rightarrow>
         (case str_find trigger tail of
            None \<Rightarrow> Some None
          | Some rel \<Rightarrow>
              if trigger = [] then Some None
              else if search + rel = 0 \<or> \<not> is_ascii_alnum (s ! (search + rel - 1))
                then Some (Some (search + rel + length trigger))
              else by_from s trigger (search + rel + length trigger)))"
  by pat_completeness auto
termination
  by (relation "measure (\<lambda>(s, trigger, search). length s - search)") (auto dest: search_advances)

declare by_from.simps [simp del]

fun by_triggers :: "string \<Rightarrow> string list \<Rightarrow> nat option option" where
  "by_triggers s [] = Some None"
| "by_triggers s (t # ts) =
     (case by_from s t 0 of
        None \<Rightarrow> None
      | Some (Some i) \<Rightarrow> Some (Some i)
      | Some None \<Rightarrow> by_triggers s ts)"

definition find_by_trigger :: "string \<Rightarrow> nat option option" where
  "find_by_trigger lower = by_triggers lower [''by '', ''before '', ''due '', ''deadline '', ''done by '']"

definition strip_prefix_word :: "string \<Rightarrow> string \<Rightarrow> string option" where
  "strip_prefix_word s word =
     Option.bind (strip_prefix word s) (\<lambda>rest.
       if byte_at rest 0 is_ascii_alnum then None else Some (trim_start rest))"

fun day_part_best :: "string \<Rightarrow> (nat \<times> nat \<times> nat) option \<Rightarrow> (string \<times> nat \<times> nat) list
    \<Rightarrow> (nat \<times> nat) option" where
  "day_part_best s best [] = map_option snd best"
| "day_part_best s best ((name, h, m) # ps) =
     day_part_best s
       (if str_contains name s \<and> (case best of None \<Rightarrow> True | Some (l, _) \<Rightarrow> l < length name)
        then Some (length name, h, m) else best) ps"

definition day_part_in :: "string \<Rightarrow> (nat \<times> nat) option" where
  "day_part_in s = day_part_best s None DAY_PARTS"

definition day_part_or_end :: "string \<Rightarrow> nat \<times> nat" where
  "day_part_or_end s = (case day_part_in s of None \<Rightarrow> (23, 59) | Some p \<Rightarrow> p)"

fun has_fract :: "f64 \<Rightarrow> bool" where
  "has_fract (Fin x) = (x \<noteq> of_int (trunc_rat x))"
| "has_fract _ = True"

definition f64_as_u32 :: "f64 \<Rightarrow> nat" where
  "f64_as_u32 x = min (2 ^ 32 - 1) (f64_as_u64 x)"

text \<open>The later of two clock readings, compared as pairs.\<close>

definition clock_le :: "nat \<times> nat \<Rightarrow> nat \<times> nat \<Rightarrow> bool" where
  "clock_le a b \<longleftrightarrow> fst a < fst b \<or> (fst a = fst b \<and> snd a \<le> snd b)"

definition either_word :: "string \<Rightarrow> nat \<Rightarrow> string \<Rightarrow> string \<Rightarrow> bool option" where
  "either_word s i w1 w2 =
     Option.bind (starts_word s i w1) (\<lambda>b. if b then Some True else starts_word s i w2)"

definition clock_result ::
    "int \<Rightarrow> tz \<Rightarrow> nat \<Rightarrow> nat \<Rightarrow> bool \<Rightarrow> bool \<Rightarrow> bool \<Rightarrow> (question + instant) option" where
  "clock_result local_now z hour0 minute pm am bare =
     (if \<not> pm \<and> \<not> am \<and> hour0 < 13 \<and> bare then
        Some (Err (Ambiguous (''by '' @ show_nat hour0)
                     [show_nat hour0 @ ''am'', show_nat hour0 @ ''pm'']))
      else
        (let hour1 = (if pm \<and> hour0 < 12 then hour0 + 12 else hour0);
             hour = (if am \<and> hour1 = 12 then 0 else hour1)
         in if 23 < hour \<or> 59 < minute then None
            else
              (let date = naive_date local_now;
                   date' = (if clock_le (hour, minute) (naive_hour local_now, naive_minute local_now)
                            then date + 1 else date)
               in Some (resolve_local z date' hour minute))))"

definition parse_clock_time :: "string \<Rightarrow> int \<Rightarrow> tz \<Rightarrow> (question + instant) option option" where
  "parse_clock_time rest local_now z =
     (case read_number rest 0 of
        None \<Rightarrow> Some None
      | Some (hour_f, e) \<Rightarrow>
          if has_fract hour_f then Some None
          else
            (let (minute, i) =
               (if byte_at rest e (\<lambda>c. c = CHR '':'') then
                  (case read_number rest (e + 1) of
                     Some (m, mend) \<Rightarrow> (f64_as_u32 m, mend)
                   | None \<Rightarrow> (0, e))
                else (0, e));
               after = skip_spaces rest i
             in Option.bind (either_word rest after ''pm'' ''p.m'') (\<lambda>pm.
                Option.bind (either_word rest after ''am'' ''a.m'') (\<lambda>am.
                  Some (clock_result local_now z (f64_as_u32 hour_f) minute pm am (i = e))))))"

text \<open>How many days ahead a weekday is: one to seven, never today.\<close>

definition days_ahead :: "nat \<Rightarrow> nat \<Rightarrow> int" where
  "days_ahead target current =
     (let n = (target + 7 - current) mod 7 in if n = 0 then 7 else int n)"

fun named_weekday :: "string \<Rightarrow> (string \<times> nat) list \<Rightarrow> (nat \<times> string) option" where
  "named_weekday rest [] = None"
| "named_weekday rest ((name, target) # ws) =
     (case strip_prefix_word rest name of
        Some after \<Rightarrow> Some (target, after)
      | None \<Rightarrow> named_weekday rest ws)"

definition resolve_due :: "string \<Rightarrow> int \<Rightarrow> tz \<Rightarrow> (question + instant) option option" where
  "resolve_due rest local_now z =
     (let today = naive_date local_now in
      case strip_prefix_word rest ''tomorrow'' of
        Some after \<Rightarrow>
          (let (h, m) = day_part_or_end after in Some (Some (resolve_local z (today + 1) h m)))
      | None \<Rightarrow>
      case strip_prefix_word rest ''today'' of
        Some after \<Rightarrow>
          (let (h, m) = day_part_or_end after in Some (Some (resolve_local z today h m)))
      | None \<Rightarrow>
      case named_weekday rest WEEKDAYS of
        Some (target, after) \<Rightarrow>
          (let (h, m) = day_part_or_end after
           in Some (Some (resolve_local z (today + days_ahead target (weekday today)) h m)))
      | None \<Rightarrow>
      case find (\<lambda>(name, h, m). strip_prefix_word rest name \<noteq> None) DAY_PARTS of
        Some (name, h, m) \<Rightarrow>
          Some (Some (resolve_local z
            (if clock_le (h, m) (naive_hour local_now, naive_minute local_now) then today + 1 else today) h m))
      | None \<Rightarrow> parse_clock_time rest local_now z)"

definition parse_due :: "string \<Rightarrow> instant \<Rightarrow> tz \<Rightarrow> (question + instant) option option" where
  "parse_due lower now z =
     Option.bind (find_by_trigger lower) (\<lambda>found.
       case found of
         None \<Rightarrow> Some None
       | Some pos \<Rightarrow>
           Option.bind (slice_from lower pos) (\<lambda>tail.
             resolve_due (trim_start tail) (tz_to_local z now) z))"

subsection \<open>Limits that are not denominations\<close>

definition NON_DENOMINATION_NOUNS :: "string list" where
  "NON_DENOMINATION_NOUNS =
     [''agents'', ''agent'', ''workers'', ''worker'', ''subagents'', ''subagent'', ''nodes'', ''node'',
      ''tasks'', ''task'', ''steps'', ''step'', ''levels'', ''level'', ''calls'', ''call'',
      ''tokens'', ''token'']"

definition LIMIT_TRIGGERS :: "string list" where
  "LIMIT_TRIGGERS =
     [''at most'', ''no more than'', ''max'', ''maximum'', ''up to'', ''limit of'', ''no deeper than'']"

definition non_denomination_reason :: "string \<Rightarrow> string" where
  "non_denomination_reason noun =
     (if noun = ''tokens'' \<or> noun = ''token'' then
        ''quarry budgets in money, time, or a deadline '' @ em_dash
        @ '' not tokens. A spend cap covers token cost across every model it uses, which is the number you probably care about. Try ''
        @ quote @ ''up to $2'' @ quote @ ''.''
      else if noun = ''levels'' \<or> noun = ''level'' then
        ''recursion depth is a backstop, not a budget '' @ em_dash
        @ '' quarry stops recursing when it runs out of verifiers (P2), and a run bounded by depth is under-verified rather than complete. Cap the money or the time instead.''
      else
        ''quarry has no '' @ noun
        @ '' budget. How wide to go is the planner''
        @ [CHR 0x27] @ ''s decision under the budget you set, so capping it directly would bound the run by something quarry cannot report back. Give me money (''
        @ quote @ ''up to $5'' @ quote @ ''), time ('' @ quote @ ''within 20 minutes'' @ quote
        @ ''), or a deadline ('' @ quote @ ''by 5pm'' @ quote @ '') and it will spend that on as many ''
        @ noun @ '' as it can verify.'')"

function limit_from :: "string \<Rightarrow> string \<Rightarrow> nat \<Rightarrow> question option option" where
  "limit_from s trigger search =
     (case slice_from s search of
        None \<Rightarrow> None
      | Some tail0 \<Rightarrow>
         (case str_find trigger tail0 of
            None \<Rightarrow> Some None
          | Some rel \<Rightarrow>
              if trigger = [] then Some None
              else Option.bind (slice_from s (search + rel + length trigger)) (\<lambda>tail.
                Option.bind (slice tail 0 (min 40 (length tail))) (\<lambda>window.
                  case find (\<lambda>noun. str_contains noun window) NON_DENOMINATION_NOUNS of
                    Some noun \<Rightarrow>
                      Some (Some (NotADenomination (trim (trigger @ trim_end window))
                                    (non_denomination_reason noun)))
                  | None \<Rightarrow> limit_from s trigger (search + rel + length trigger)))))"
  by pat_completeness auto
termination
  by (relation "measure (\<lambda>(s, trigger, search). length s - search)") (auto dest: search_advances)

declare limit_from.simps [simp del]

fun limit_triggers :: "string \<Rightarrow> string list \<Rightarrow> question option option" where
  "limit_triggers s [] = Some None"
| "limit_triggers s (t # ts) =
     (case limit_from s t 0 of
        None \<Rightarrow> None
      | Some (Some q) \<Rightarrow> Some (Some q)
      | Some None \<Rightarrow> limit_triggers s ts)"

definition detect_non_denomination :: "string \<Rightarrow> question option option" where
  "detect_non_denomination lower =
     map_option (\<lambda>q.
       case q of
         Some x \<Rightarrow> Some x
       | None \<Rightarrow>
           if str_contains ''depth'' lower \<or> str_contains ''levels deep'' lower
           then Some (NotADenomination ''depth'' (non_denomination_reason ''levels''))
           else None)
     (limit_triggers lower LIMIT_TRIGGERS)"

subsection \<open>The parser\<close>

text \<open>What each part of the message contributes: caps, disclosures and questions.\<close>

definition assemble ::
    "string \<Rightarrow> instant \<Rightarrow> tz \<times> timezone_source \<Rightarrow> spend_find \<Rightarrow> duration option
     \<Rightarrow> (question + instant) option \<Rightarrow> question option \<Rightarrow> caps_parse" where
  "assemble text now z spend latency due non_denomination =
     (let spend_cap = (case spend of
            SpendMicro m \<Rightarrow> Some m | SpendUnlimited \<Rightarrow> Some UNLIMITED_MICRO_USD | _ \<Rightarrow> None);
          due_cap = (case due of Some (Inr t) \<Rightarrow> Some t | _ \<Rightarrow> None);
          caps = \<lparr>rq_spend_micro_usd = spend_cap, rq_latency = latency, rq_due = due_cap\<rparr>;
          questions =
            (case spend of SpendQuestion q \<Rightarrow> [q] | _ \<Rightarrow> [])
            @ (case due of Some (Inl q) \<Rightarrow> [q] | _ \<Rightarrow> [])
            @ (case non_denomination of Some q \<Rightarrow> [q] | None \<Rightarrow> []);
          disclosures =
            (case due_cap of
               None \<Rightarrow> []
             | Some t \<Rightarrow>
                 [DeadlineResolvedIn (tz_name (fst z)) (snd z) (tz_format (fst z) t),
                  DueHasNoUpstreamFlag t (nat (t - now))])
      in if questions \<noteq> [] then Ask questions
         else (case validate caps of
                 Inr _ \<Rightarrow> Caps caps disclosures
               | Inl Uncapped \<Rightarrow> Ask [NoCapFound]
               | Inl refusal \<Rightarrow>
                   Ask [UnusableSpend (trim text) (caps_refusal_message refusal)]))"

definition parse_caps ::
    "(string \<Rightarrow> string) \<Rightarrow> string \<Rightarrow> instant \<Rightarrow> tz \<times> timezone_source \<Rightarrow> caps_parse option" where
  "parse_caps ulc text now z =
     (let lower = to_lowercase ulc text in
      Option.bind (parse_spend lower) (\<lambda>spend.
      Option.bind (parse_latency lower) (\<lambda>latency.
      Option.bind (parse_due lower now (fst z)) (\<lambda>due.
      Option.bind (detect_non_denomination lower) (\<lambda>non_denomination.
      Some (assemble text now z spend latency due non_denomination))))))"

subsection \<open>ASCII text never panics\<close>

named_theorems no_panic

lemma boundary_ascii: "list_all is_ascii s \<Longrightarrow> i \<le> length s \<Longrightarrow> is_char_boundary s i"
  by (auto simp: is_char_boundary_def list_all_length is_ascii_def is_cont_def not_le)

lemma slice_ascii: "list_all is_ascii s \<Longrightarrow> i \<le> j \<Longrightarrow> j \<le> length s \<Longrightarrow> returns (slice s i j)"
  by (simp add: slice_def boundary_ascii)

lemma slice_from_ascii: "list_all is_ascii s \<Longrightarrow> i \<le> length s \<Longrightarrow> returns (slice_from s i)"
  by (simp add: slice_from_def slice_ascii)

lemma slice_from_eq: "list_all is_ascii s \<Longrightarrow> i \<le> length s \<Longrightarrow> slice_from s i = Some (drop i s)"
  by (simp add: slice_from_def slice_def boundary_ascii)

lemma starts_word_ascii [no_panic]: "list_all is_ascii s \<Longrightarrow> returns (starts_word s i w)"
  by (simp add: starts_word_def returns_bind slice_ascii)

lemma starts_word_True: "starts_word s i w = Some True \<Longrightarrow> i + length w \<le> length s"
  by (auto simp: starts_word_def bind_eq_Some_conv split: if_splits)

lemma skip_spaces_le: "i \<le> length s \<Longrightarrow> skip_spaces s i \<le> length s"
  using length_takeWhile_le [of "\<lambda>c. c = CHR '' ''" "drop i s"] by (simp add: skip_spaces_def)

lemma first_word_ascii [no_panic]: "list_all is_ascii s \<Longrightarrow> returns (first_word s i ws)"
  by (induction ws) (auto simp: returns_bind starts_word_ascii)

lemma first_word_fits: "first_word s i ws = Some (Some w) \<Longrightarrow> i + length w \<le> length s"
  by (induction ws) (auto simp: bind_eq_Some_conv dest: starts_word_True split: if_splits)

lemma signed_amount_ascii:
  "list_all is_ascii s \<Longrightarrow> i \<le> e \<Longrightarrow> e \<le> length s \<Longrightarrow> returns (signed_amount s i e v)"
  by (auto simp: signed_amount_def Let_def slice_ascii)

lemma read_number_le: "read_number s i = Some (v, e) \<Longrightarrow> i \<le> e \<and> e \<le> length s"
  using read_number_bounds [of s i v e] by simp

lemma number_after: "read_number s (skip_spaces s j) = Some (v, e) \<Longrightarrow> j \<le> e \<and> e \<le> length s"
  using read_number_bounds [of s "skip_spaces s j" v e] skip_spaces_ge [of j s] by simp

lemma dollar_at_ascii [no_panic]: "list_all is_ascii s \<Longrightarrow> returns (dollar_at s i)"
  unfolding dollar_at_def
  by (auto split: option.split dest!: number_after simp: signed_amount_ascii)

lemma usd_at_ascii [no_panic]: "list_all is_ascii s \<Longrightarrow> returns (usd_at s i)"
  unfolding usd_at_def
  by (auto split: option.split dest!: number_after simp: slice_ascii)

lemma unit_at_ascii [no_panic]: "list_all is_ascii s \<Longrightarrow> returns (unit_at s i)"
  unfolding unit_at_def
  by (auto simp: returns_bind Let_def first_word_ascii split: option.split dest!: read_number_le
      first_word_fits intro!: signed_amount_ascii intro: order_trans [OF _ trans_le_add1]
        order_trans [OF _ skip_spaces_ge])

lemma spend_at_ascii [no_panic]: "list_all is_ascii s \<Longrightarrow> returns (spend_at s i)"
  unfolding spend_at_def
  by (auto simp: returns_bind no_panic split: option.split)

lemma spend_from_ascii [no_panic]: "list_all is_ascii s \<Longrightarrow> returns (spend_from s i)"
proof (induction s i rule: spend_from.induct)
  case (1 s i)
  then show ?case
    using spend_at_ascii [of s i] by (subst spend_from.simps) (auto split: option.splits)
qed

lemma parse_spend_ascii [no_panic]: "list_all is_ascii s \<Longrightarrow> returns (parse_spend s)"
  by (auto simp: parse_spend_def find_spend_amounts_def no_panic split: option.split)

text \<open>The search loops slice at the end of a match, which is inside the text.\<close>

lemma search_fits:
  assumes "slice_from s search = Some tail" and "str_find pat tail = Some rel"
  shows "search + rel + length pat \<le> length s"
  using slice_from_Some [OF assms(1)] str_find_Some [OF assms(2)] by auto

lemma skip_fillers_ascii [no_panic]:
  "list_all is_ascii s \<Longrightarrow> i \<le> length s \<Longrightarrow> returns (skip_fillers s i fs)"
proof (induction fs arbitrary: i)
  case (Cons f fs)
  have "starts_with f (drop i s) \<Longrightarrow> i + length f \<le> length s"
    using Cons.prems by (metis le_add_diff_inverse length_drop length_take min.bounded_iff
        nat_add_left_cancel_le order_refl starts_with_def)
  with Cons show ?case
    by (auto simp: returns_bind slice_from_ascii skip_spaces_le dest!: slice_from_Some)
qed simp

lemma best_unit_ascii [no_panic]: "list_all is_ascii s \<Longrightarrow> returns (best_unit s i b us)"
  by (induction us arbitrary: b) (auto simp: returns_bind no_panic)

lemma read_duration_ascii [no_panic]:
  "list_all is_ascii s \<Longrightarrow> i \<le> length s \<Longrightarrow> returns (read_duration s i)"
  unfolding read_duration_def
  by (auto simp: returns_bind no_panic skip_spaces_le simp del: skip_fillers.simps best_unit.simps
      split: option.split)

lemma latency_from_ascii [no_panic]:
  "list_all is_ascii s \<Longrightarrow> i \<le> length s \<Longrightarrow> returns (latency_from s t i)"
proof (induction s t i rule: latency_from.induct)
  case (1 s t i)
  show ?case
  proof (cases "str_find t (drop i s) = None \<or> t = []")
    case True
    then show ?thesis
      using "1.prems" by (subst latency_from.simps) (auto simp: slice_from_eq split: option.split)
  next
    case False
    then obtain rel where rel: "str_find t (drop i s) = Some rel" and "t \<noteq> []" by auto
    have t: "slice_from s i = Some (drop i s)" using "1.prems" by (simp add: slice_from_eq)
    have fits: "i + rel + length t \<le> length s" using t rel by (rule search_fits)
    let ?read = "if (i + rel = 0 \<or> \<not> is_ascii_alnum (s ! (i + rel - 1)))
        \<and> \<not> byte_at s (i + rel + length t) is_ascii_alnum
      then read_duration s (i + rel + length t) else Some None"
    have "returns ?read" using "1.prems" fits by (simp add: read_duration_ascii)
    then obtain r where r: "?read = Some r" by (auto simp only: returns_iff)
    have "r = None \<Longrightarrow> returns (latency_from s t (i + rel + length t))"
      using "1.IH" [OF t rel \<open>t \<noteq> []\<close> refl refl] r "1.prems"(1) fits by simp
    then show ?thesis
      unfolding latency_from.simps [of s t i] t rel option.case Let_def r using \<open>t \<noteq> []\<close>
      by (cases r) simp_all
  qed
qed

lemma parse_latency_ascii [no_panic]: "list_all is_ascii s \<Longrightarrow> returns (parse_latency s)"
proof -
  assume a: "list_all is_ascii s"
  have "returns (latency_triggers s ts)" for ts
    using a latency_from_ascii [of s 0] by (induction ts) (auto split: option.split simp: returns_iff)
  then show ?thesis by (simp add: parse_latency_def)
qed

lemma by_from_ascii:
  assumes "list_all is_ascii s" and "i \<le> length s"
  shows "returns (by_from s t i) \<and> (\<forall>p. by_from s t i = Some (Some p) \<longrightarrow> p \<le> length s)"
  using assms
proof (induction s t i rule: by_from.induct)
  case (1 s t i)
  show ?case
  proof (cases "str_find t (drop i s) = None \<or> t = []")
    case True
    then show ?thesis
      using "1.prems" by (subst (1 2) by_from.simps) (auto simp: slice_from_eq split: option.split)
  next
    case False
    then obtain rel where rel: "str_find t (drop i s) = Some rel" and "t \<noteq> []" by auto
    have t: "slice_from s i = Some (drop i s)" using "1.prems" by (simp add: slice_from_eq)
    have fits: "i + rel + length t \<le> length s" using t rel by (rule search_fits)
    then show ?thesis
      using "1.IH" [OF t rel \<open>t \<noteq> []\<close>] "1.prems"(1) \<open>t \<noteq> []\<close>
      by (subst (1 2) by_from.simps) (simp add: t rel)
  qed
qed

lemma find_by_trigger_ascii:
  assumes "list_all is_ascii s"
  shows "returns (find_by_trigger s) \<and> (\<forall>p. find_by_trigger s = Some (Some p) \<longrightarrow> p \<le> length s)"
proof -
  have "returns (by_triggers s ts) \<and> (\<forall>p. by_triggers s ts = Some (Some p) \<longrightarrow> p \<le> length s)" for ts
  proof (induction ts)
    case (Cons t ts)
    then show ?case using by_from_ascii [OF assms, of 0 t]
      by (cases "by_from s t 0") (auto split: option.split)
  qed simp
  then show ?thesis by (simp add: find_by_trigger_def del: by_triggers.simps)
qed

lemma list_all_drop: "list_all P s \<Longrightarrow> list_all P (drop n s)"
  by (auto simp: list_all_iff dest: in_set_dropD)

lemma trim_start_ascii: "list_all is_ascii s \<Longrightarrow> list_all is_ascii (trim_start s)"
proof -
  have "concat (dropWhile P (map (\<lambda>c. [c]) s)) = dropWhile (\<lambda>c. P [c]) s" for P :: "string \<Rightarrow> bool"
    by (induction s) (auto simp: concat_map_singleton)
  moreover assume "list_all is_ascii s"
  ultimately show ?thesis
    by (auto simp: trim_start_def chars_ascii list_all_iff dest: set_dropWhileD)
qed

lemma parse_clock_time_ascii [no_panic]:
  "list_all is_ascii s \<Longrightarrow> returns (parse_clock_time s n z)"
  by (auto simp: parse_clock_time_def either_word_def returns_bind no_panic Let_def split: option.split prod.split)

lemma parse_due_ascii [no_panic]: "list_all is_ascii s \<Longrightarrow> returns (parse_due s now z)"
proof -
  assume a: "list_all is_ascii s"
  have "returns (resolve_due (trim_start (drop p s)) n z)" for p n
    unfolding resolve_due_def Let_def
    by (auto split: option.split prod.split
        intro!: parse_clock_time_ascii trim_start_ascii list_all_drop a)
  then show ?thesis
    using find_by_trigger_ascii [OF a]
    by (auto simp: parse_due_def returns_bind slice_from_eq [OF a] split: option.split)
qed

lemma limit_from_ascii [no_panic]:
  "list_all is_ascii s \<Longrightarrow> i \<le> length s \<Longrightarrow> returns (limit_from s t i)"
proof (induction s t i rule: limit_from.induct)
  case (1 s t i)
  show ?case
  proof (cases "str_find t (drop i s) = None \<or> t = []")
    case True
    then show ?thesis
      using "1.prems" by (subst limit_from.simps) (auto simp: slice_from_eq split: option.split)
  next
    case False
    then obtain rel where rel: "str_find t (drop i s) = Some rel" and ne: "t \<noteq> []" by auto
    have t: "slice_from s i = Some (drop i s)" using "1.prems" by (simp add: slice_from_eq)
    have fits: "i + rel + length t \<le> length s" using t rel by (rule search_fits)
    let ?tail = "drop (i + rel + length t) s"
    have tl: "slice_from s (i + rel + length t) = Some ?tail"
      using "1.prems"(1) fits by (rule slice_from_eq)
    have "returns (slice ?tail 0 (min 40 (length ?tail)))"
      using "1.prems"(1) by (intro slice_ascii list_all_drop) simp_all
    then obtain w where w: "slice ?tail 0 (min 40 (length ?tail)) = Some w" by (auto simp: returns_iff)
    show ?thesis
      unfolding limit_from.simps [of s t i] t rel option.case if_not_P [OF ne] tl bind.bind_lunit w
      using "1.IH" [OF t rel ne tl w] "1.prems"(1) fits by (auto split: option.split)
  qed
qed

lemma detect_non_denomination_ascii [no_panic]:
  "list_all is_ascii s \<Longrightarrow> returns (detect_non_denomination s)"
proof -
  assume a: "list_all is_ascii s"
  have "returns (limit_triggers s ts)" for ts
  proof (induction ts)
    case (Cons t ts)
    then show ?case using limit_from_ascii [OF a, of 0 t]
      by (cases "limit_from s t 0") (auto split: option.split)
  qed simp
  then show ?thesis by (simp add: detect_non_denomination_def)
qed

subsection \<open>The guarantees of the parser\<close>

lemma to_lowercase_ascii: "list_all is_ascii s \<Longrightarrow> list_all is_ascii (to_lowercase ulc s)"
  by (auto simp: to_lowercase_def list_all_iff is_ascii_def ascii_lower_def byte_def)


text \<open>C21: The caps parser never panics on ASCII text: every byte slice it takes of the
  lowered message is in range and on a character boundary, so it returns caps or
  questions.\<close>

theorem parse_caps_total_on_ascii:
  assumes "list_all is_ascii text"
  shows "\<exists>r. parse_caps ulc text now z = Some r"
proof -
  have "returns (parse_caps ulc text now z)"
    using to_lowercase_ascii [OF assms] by (simp add: parse_caps_def Let_def returns_bind no_panic)
  then show ?thesis by (simp add: returns_iff)
qed

lemma parse_caps_total_on_ascii_witness:
  "\<exists>r. parse_caps (\<lambda>s. s) ''up to $5 by noon'' 0
     (\<lparr>tz_name = ''UTC'', tz_to_local = (\<lambda>t. t), tz_from_local = LSingle, tz_format = (\<lambda>t. []),
       tz_format_naive = (\<lambda>n. [])\<rparr>, UtcFallback) = Some r"
  by (rule parse_caps_total_on_ascii) (simp add: is_ascii_def byte_def)



















text \<open>A named weekday is the next one, strictly in the future: from any date the parser
  moves one to seven days ahead, lands on that weekday, and passes over no earlier one.\<close>

theorem named_weekday_is_the_next_one:
  assumes "target < 7"
  shows "1 \<le> days_ahead target (weekday today) \<and> days_ahead target (weekday today) \<le> 7
    \<and> weekday (today + days_ahead target (weekday today)) = target
    \<and> (\<forall>k. 1 \<le> k \<and> k < days_ahead target (weekday today) \<longrightarrow> weekday (today + k) \<noteq> target)"
proof -
  have w: "int (weekday today) = (today + 3) mod 7" by (simp add: weekday_def)
  have lt: "weekday today < 7" using w by linarith
  have n: "int ((target + 7 - weekday today) mod 7) = (int target - (today + 3)) mod 7"
  proof -
    have "int ((target + 7 - weekday today) mod 7) = (int target + 7 - int (weekday today)) mod 7"
      using lt by (simp add: zmod_int of_nat_diff)
    also have "\<dots> = (int target + 7 - (today + 3)) mod 7"
      unfolding w by (rule mod_diff_right_eq)
    also have "\<dots> = (int target - (today + 3)) mod 7"
      using mod_add_self2 [of "int target - (today + 3)" 7] by (simp add: algebra_simps)
    finally show ?thesis .
  qed
  have da: "days_ahead target (weekday today)
      = (let d = (int target - (today + 3)) mod 7 in if d = 0 then 7 else d)"
    using n by (auto simp: days_ahead_def Let_def)
  define x where "x = int target - (today + 3)"
  have wd: "weekday (today + k) = target \<longleftrightarrow> k mod 7 = x mod 7" for k
  proof -
    have "weekday (today + k) = target \<longleftrightarrow> (today + 3 + k) mod 7 = int target mod 7"
      using assms by (auto simp: weekday_def algebra_simps)
    also have "\<dots> \<longleftrightarrow> (k - x) mod 7 = 0"
      by (simp add: mod_eq_dvd_iff x_def algebra_simps flip: dvd_eq_mod_eq_0)
    also have "\<dots> \<longleftrightarrow> k mod 7 = x mod 7"
      by (simp add: mod_eq_dvd_iff flip: dvd_eq_mod_eq_0)
    finally show ?thesis .
  qed
  have "0 \<le> x mod 7" "x mod 7 < 7" by simp_all
  then have "1 \<le> (if x mod 7 = 0 then 7 else x mod 7)" "(if x mod 7 = 0 then 7 else x mod 7) \<le> 7"
    "(if x mod 7 = 0 then 7 else x mod 7) mod 7 = x mod 7" by (auto simp del: pos_mod_sign)
  moreover have "k mod 7 \<noteq> x mod 7" if "1 \<le> k" "k < (if x mod 7 = 0 then 7 else x mod 7)" for k
    using that \<open>x mod 7 < 7\<close> by (auto split: if_splits)
  ultimately show ?thesis
    unfolding da Let_def x_def [symmetric] wd by blast
qed

lemma named_weekday_is_the_next_one_witness:
  "1 \<le> days_ahead 4 (weekday 1) \<and> days_ahead 4 (weekday 1) = 7"
  using named_weekday_is_the_next_one [of 4 1] by (simp add: weekday_def days_ahead_def)

subsection \<open>Reading back a written amount\<close>







lemma digit_ascii: "is_digit c \<Longrightarrow> is_ascii c"
  by (simp add: is_digit_def is_ascii_def byte_def)



















end
