(* ===== verification/Audit_Log.thy ===== *)
theory Audit_Log
  imports Event
begin

section \<open>The audit log (\<open>src/audit/mod.rs\<close>)\<close>

text \<open>
  Every variant of \<open>AuditEvent\<close> and the record it is written as: one JSON object per
  line, tagged with \<open>event\<close> and stamped with \<open>ts\<close>, an absent optional field left out.
  A component's effect on the log is the list of events it emits; \<open>Audit_Sink\<close> has the
  writer that brings them to the file.
\<close>

datatype audit_event =
    AuthRejected string string
  | RateLimitHit string string
  | MessageReceived string string nat
  | ToolExecuted string string bool
  | ConfigReloaded "string list"
  | AgentCreated string
  | LlmError string string
  | AdminAction string "string option" bool
  | QuarryRunStarted string string string string "string list" string bool
  | QuarryRunEnded string string string "string option" nat nat int nat
  | QuarryPolicyDecision string string "string option" bool "string option" "int option" "int option"
      "string list" "string option"
  | QuarryPlanDecision string string string string "int option" "nat option" "string option"
  | QuarryVerificationRefused string string string "string option" "string option" "string option"
  | QuarryVerificationPassed string string bool
  | QuarryRunFailed "string option" string string

text \<open>How serde writes the fields: a plain one always, an optional one only when present.\<close>

definition js :: "string \<Rightarrow> string \<Rightarrow> (string \<times> json) list" where
  "js k v = [(k, JString v)]"

definition jb :: "string \<Rightarrow> bool \<Rightarrow> (string \<times> json) list" where
  "jb k v = [(k, JBool v)]"

definition ji :: "string \<Rightarrow> int \<Rightarrow> (string \<times> json) list" where
  "ji k v = [(k, JInt v)]"

definition jl :: "string \<Rightarrow> string list \<Rightarrow> (string \<times> json) list" where
  "jl k vs = [(k, JArray (map JString vs))]"

definition js_opt :: "string \<Rightarrow> string option \<Rightarrow> (string \<times> json) list" where
  "js_opt k v = (case v of None \<Rightarrow> [] | Some x \<Rightarrow> js k x)"

definition ji_opt :: "string \<Rightarrow> int option \<Rightarrow> (string \<times> json) list" where
  "ji_opt k v = (case v of None \<Rightarrow> [] | Some x \<Rightarrow> ji k x)"

text \<open>The \<open>event\<close> tag, in snake case.\<close>

fun audit_tag :: "audit_event \<Rightarrow> string" where
  "audit_tag (AuthRejected _ _) = ''auth_rejected''"
| "audit_tag (RateLimitHit _ _) = ''rate_limit_hit''"
| "audit_tag (MessageReceived _ _ _) = ''message_received''"
| "audit_tag (ToolExecuted _ _ _) = ''tool_executed''"
| "audit_tag (ConfigReloaded _) = ''config_reloaded''"
| "audit_tag (AgentCreated _) = ''agent_created''"
| "audit_tag (LlmError _ _) = ''llm_error''"
| "audit_tag (AdminAction _ _ _) = ''admin_action''"
| "audit_tag (QuarryRunStarted _ _ _ _ _ _ _) = ''quarry_run_started''"
| "audit_tag (QuarryRunEnded _ _ _ _ _ _ _ _) = ''quarry_run_ended''"
| "audit_tag (QuarryPolicyDecision _ _ _ _ _ _ _ _ _) = ''quarry_policy_decision''"
| "audit_tag (QuarryPlanDecision _ _ _ _ _ _ _) = ''quarry_plan_decision''"
| "audit_tag (QuarryVerificationRefused _ _ _ _ _ _) = ''quarry_verification_refused''"
| "audit_tag (QuarryVerificationPassed _ _ _) = ''quarry_verification_passed''"
| "audit_tag (QuarryRunFailed _ _ _) = ''quarry_run_failed''"

text \<open>The fields, in declaration order.\<close>

fun audit_fields :: "audit_event \<Rightarrow> (string \<times> json) list" where
  "audit_fields (AuthRejected p r) = js ''path'' p @ js ''reason'' r"
| "audit_fields (RateLimitHit u c) = js ''user_id'' u @ js ''channel_id'' c"
| "audit_fields (MessageReceived u c n) =
     js ''user_id'' u @ js ''channel_id'' c @ ji ''bytes'' (int n)"
| "audit_fields (ToolExecuted u t s) =
     js ''user_id'' u @ js ''tool_name'' t @ jb ''success'' s"
| "audit_fields (ConfigReloaded fs) = jl ''changed_fields'' fs"
| "audit_fields (AgentCreated u) = js ''user_id'' u"
| "audit_fields (LlmError u e) = js ''user_id'' u @ js ''error'' e"
| "audit_fields (AdminAction e p s) = js ''endpoint'' e @ js_opt ''param'' p @ jb ''success'' s"
| "audit_fields (QuarryRunStarted r u c b ks d sc) =
     js ''run_id'' r @ js ''user_id'' u @ js ''channel_id'' c @ js ''binary_path'' b
     @ jl ''env_keys'' ks @ js ''binary_digest'' d @ jb ''signature_checked'' sc"
| "audit_fields (QuarryRunEnded r u t tb n bad cost ms) =
     js ''run_id'' r @ js ''user_id'' u @ js ''termination'' t @ js_opt ''truncated_by'' tb
     @ ji ''events'' (int n) @ ji ''bad_lines'' (int bad) @ ji ''cost_micro_usd'' cost
     @ ji ''duration_ms'' (int ms)"
| "audit_fields (QuarryPolicyDecision u c m g r asked got adj key) =
     js ''user_id'' u @ js ''channel_id'' c @ js_opt ''matched'' m @ jb ''granted'' g
     @ js_opt ''refusal'' r @ ji_opt ''requested_spend_micro_usd'' asked
     @ ji_opt ''granted_spend_micro_usd'' got @ jl ''adjustments'' adj @ js_opt ''scope_key'' key"
| "audit_fields (QuarryPlanDecision r u c d sp lat due) =
     js ''request_id'' r @ js ''user_id'' u @ js ''channel_id'' c @ js ''decision'' d
     @ ji_opt ''spend_micro_usd'' sp @ ji_opt ''latency_seconds'' (map_option int lat)
     @ js_opt ''due'' due"
| "audit_fields (QuarryVerificationRefused r d b dg i iss) =
     js ''reason'' r @ js ''detail'' d @ js ''binary_path'' b @ js_opt ''digest'' dg
     @ js_opt ''expected_identity'' i @ js_opt ''expected_issuer'' iss"
| "audit_fields (QuarryVerificationPassed b d sc) =
     js ''binary_path'' b @ js ''digest'' d @ jb ''signature_checked'' sc"
| "audit_fields (QuarryRunFailed r u why) =
     js_opt ''run_id'' r @ js ''user_id'' u @ js ''reason'' why"

text \<open>\<open>AuditRecord\<close>, the event flattened beside its timestamp.\<close>

definition audit_record :: "string \<Rightarrow> audit_event \<Rightarrow> json" where
  "audit_record ts e = JObject (js ''ts'' ts @ js ''event'' (audit_tag e) @ audit_fields e)"

lemmas audit_json_defs = js_def jb_def ji_def jl_def js_opt_def ji_opt_def

text \<open>No record repeats a field: the object a reader parses is the one that was written.\<close>

lemma audit_record_fields_distinct:
  "distinct (map fst (js ''ts'' ts @ js ''event'' (audit_tag e) @ audit_fields e))"
  by (cases e) (auto simp: audit_json_defs split: option.split)

text \<open>An absent optional field is left out, never written as null.\<close>

lemma audit_record_no_null: "json_get k (audit_record ts e) \<noteq> Some JNull"
proof -
  have "\<forall>(k, v) \<in> set (audit_fields e). v \<noteq> JNull"
    by (cases e) (auto simp: audit_json_defs split: option.splits)
  then show ?thesis by (auto simp: audit_record_def js_def dest!: map_of_SomeD)
qed

end
