(* ===== verification/Policy.thy ===== *)
theory Policy
  imports Caps Audit_Log
begin

section \<open>Operator policy (\<open>src/quarry/policy.rs\<close>)\<close>

text \<open>
  What a sender is allowed to spend and the scope a run carries: the scope tags and the
  cache key they render to, the grant or refusal a request resolves to, and the
  environment of the child. A decision returns its result together with the events it
  puts on the audit log. \<open>rfc3339\<close> is chrono's rendering of an instant; \<open>dbg\<close> and
  \<open>dbg_char\<close> are the \<open>{:?}\<close> renderings of text, which depend on Unicode's tables.
\<close>

named_theorems policy

subsection \<open>Scopes\<close>

definition forbidden_in_tag :: "string \<Rightarrow> string option" where
  "forbidden_in_tag s = find (\<lambda>u. u = ''='' \<or> u = '';'' \<or> is_control u) (chars s)"

datatype scope_error = ForbiddenCharacter string string | EmptyKey | Empty

fun scope_error_code :: "scope_error \<Rightarrow> string" where
  "scope_error_code (ForbiddenCharacter _ _) = ''scope_forbidden_character''"
| "scope_error_code EmptyKey = ''scope_empty_key''"
| "scope_error_code Empty = ''scope_empty''"

fun scope_error_message :: "(string \<Rightarrow> string) \<Rightarrow> (string \<Rightarrow> string) \<Rightarrow> scope_error \<Rightarrow> string" where
  "scope_error_message dbg dbg_char (ForbiddenCharacter k found) =
     ''scope tag '' @ dbg k @ '' contains '' @ dbg_char found
     @ '', which is one of quarry'' @ [CHR 0x27]
     @ ''s own cache-key separators. quarry'' @ [CHR 0x27]
     @ ''s Scope.Key() does not escape it, so a value containing it can render the same key as a different scope ''
     @ em_dash @ '' a cross-tenant cache read. Refused rather than escaped, because escaping would make this gateway''
     @ [CHR 0x27] @ ''s cache keys disagree with quarry'' @ [CHR 0x27] @ ''s.''"
| "scope_error_message dbg dbg_char EmptyKey = ''a scope tag key cannot be empty''"
| "scope_error_message dbg dbg_char Empty =
     ''a scope must carry at least one tag: quarry'' @ [CHR 0x27]
     @ ''s NarrowsTo is a subset check, so an empty scope narrows to every other scope and would pass any entitlement check.''"

text \<open>\<open>ScopeTags\<close>: a \<open>BTreeMap\<close>, so iteration is in key order.\<close>

type_synonym scope_tags = "(string, string) btree"

fun check_tags :: "(string \<times> string) list \<Rightarrow> scope_error option" where
  "check_tags [] = None"
| "check_tags ((k, v) # kvs) =
     (if k = [] then Some EmptyKey
      else case forbidden_in_tag k of
        Some found \<Rightarrow> Some (ForbiddenCharacter k found)
      | None \<Rightarrow>
         (case forbidden_in_tag v of
            Some found \<Rightarrow> Some (ForbiddenCharacter k found)
          | None \<Rightarrow> check_tags kvs))"

definition mint :: "(string, string) btree \<Rightarrow> scope_error + scope_tags" where
  "mint tags =
     (if tags = [] then Err Empty
      else case check_tags tags of Some e \<Rightarrow> Err e | None \<Rightarrow> Ok tags)"

definition scope_key :: "scope_tags \<Rightarrow> string" where
  "scope_key s = concat (map (\<lambda>(k, v). k @ ''='' @ v @ '';'') s)"

definition flag_value :: "scope_tags \<Rightarrow> string" where
  "flag_value s = join_with '','' (map (\<lambda>(k, v). k @ ''='' @ v) s)"

definition narrows_to :: "scope_tags \<Rightarrow> scope_tags \<Rightarrow> bool" where
  "narrows_to s other = list_all (\<lambda>(k, v). map_of other k = Some v) s"

subsection \<open>Denominations, adjustments and refusals\<close>

datatype denomination = Spend | Latency | Due

fun denomination_code :: "denomination \<Rightarrow> string" where
  "denomination_code Spend = ''spend''"
| "denomination_code Latency = ''latency''"
| "denomination_code Due = ''due''"

datatype cap_adjustment =
    Reduced denomination string string
  | Defaulted denomination string
  | NotPermitted denomination string string

fun adjustment_code :: "cap_adjustment \<Rightarrow> string" where
  "adjustment_code (Reduced _ _ _) = ''reduced''"
| "adjustment_code (Defaulted _ _) = ''defaulted''"
| "adjustment_code (NotPermitted _ _ _) = ''not_permitted''"

fun adjustment_denomination :: "cap_adjustment \<Rightarrow> denomination" where
  "adjustment_denomination (Reduced d _ _) = d"
| "adjustment_denomination (Defaulted d _) = d"
| "adjustment_denomination (NotPermitted d _ _) = d"

fun adjustment_message :: "cap_adjustment \<Rightarrow> string" where
  "adjustment_message (Reduced d asked granted) =
     ''you asked for '' @ denomination_code d @ '' '' @ asked @ '', policy allows '' @ granted
     @ '' '' @ em_dash @ '' proceeding with '' @ granted"
| "adjustment_message (Defaulted d granted) =
     ''no '' @ denomination_code d @ '' cap given, using the policy default of '' @ granted"
| "adjustment_message (NotPermitted d asked granted) =
     ''you are not permitted to set the '' @ denomination_code d @ '' cap (you asked for '' @ asked
     @ ''); policy'' @ [CHR 0x27] @ ''s '' @ granted @ '' applies''"

datatype policy_refusal =
    NoPolicy string string
  | OverLimit denomination string string
  | UnlimitedForbidden
  | NoCapGranted
  | Scope scope_error
  | NoProviderToken

fun policy_refusal_code :: "policy_refusal \<Rightarrow> string" where
  "policy_refusal_code (NoPolicy _ _) = ''no_policy''"
| "policy_refusal_code (OverLimit _ _ _) = ''over_limit''"
| "policy_refusal_code UnlimitedForbidden = ''unlimited_forbidden''"
| "policy_refusal_code NoCapGranted = ''no_cap_granted''"
| "policy_refusal_code (Scope e) = scope_error_code e"
| "policy_refusal_code NoProviderToken = ''no_provider_token''"

definition backtick :: string where
  "backtick = [CHR 0x60]"

fun policy_refusal_message ::
    "(string \<Rightarrow> string) \<Rightarrow> (string \<Rightarrow> string) \<Rightarrow> policy_refusal \<Rightarrow> string" where
  "policy_refusal_message dbg dbg_char (NoPolicy _ _) =
     ''quarry runs are not enabled for you. An operator has to grant a policy entry for your channel or user before you can start one.''"
| "policy_refusal_message dbg dbg_char (OverLimit d asked allowed) =
     ''you asked for '' @ denomination_code d @ '' '' @ asked @ '', and policy allows at most '' @ allowed
     @ ''. This limit refuses rather than reduces, so nothing was run '' @ em_dash
     @ '' ask again within '' @ allowed @ ''.''"
| "policy_refusal_message dbg dbg_char UnlimitedForbidden =
     ''an unlimited spend cap is not permitted. quarry divides the cap across the tree as it recurses, so an unlimited root cap has no bound at all ''
     @ em_dash @ '' name an amount.''"
| "policy_refusal_message dbg dbg_char NoCapGranted =
     ''policy granted no cap in any denomination, so there is nothing for quarry to plan against (P9). This is a policy misconfiguration, not something you did.''"
| "policy_refusal_message dbg dbg_char (Scope e) = scope_error_message dbg dbg_char e"
| "policy_refusal_message dbg dbg_char NoProviderToken =
     ''quarry runs need '' @ backtick @ ''gateway.api_token'' @ backtick
     @ '' set. The run would call the gateway'' @ [CHR 0x27]
     @ ''s own /v1 endpoint, and with no token configured that endpoint has no authentication at all ''
     @ em_dash @ '' so there is no credential to give the child, and nothing stopping anything else on the host from calling it either.''"

subsection \<open>Grants and the child's environment\<close>

record grant =
  g_spend_micro_usd :: "int option"
  g_latency :: "duration option"
  g_due :: "instant option"
  g_scope :: scope_tags
  g_adjustments :: "cap_adjustment list"

definition any_cap :: "grant \<Rightarrow> bool" where
  "any_cap g \<longleftrightarrow> g_spend_micro_usd g \<noteq> None \<or> g_latency g \<noteq> None \<or> g_due g \<noteq> None"

definition grant_deferrable :: "grant \<Rightarrow> bool" where
  "grant_deferrable g \<longleftrightarrow> g_due g \<noteq> None \<and> g_latency g = None"

type_synonym env = "(string, string) btree"

definition mint_child_env :: "string option \<Rightarrow> string \<Rightarrow> policy_refusal + env" where
  "mint_child_env api_token provider_url =
     (case api_token of
        Some t \<Rightarrow>
          if t = [] then Err NoProviderToken
          else Ok (bt_insert ''QUARRY_PROVIDER_TOKEN'' t
                     (bt_insert ''QUARRY_PROVIDER_URL'' provider_url []))
      | None \<Rightarrow> Err NoProviderToken)"

subsection \<open>The config-backed policy\<close>

datatype over_limit = Reduce | Refuse

definition over_limit_from_config :: "string \<Rightarrow> over_limit" where
  "over_limit_from_config s = (if s = ''reduce'' then Reduce else Refuse)"

record policy_entry =
  pe_allowed_denominations :: "string list"
  pe_max_spend_micro_usd :: "int option"
  pe_default_spend_micro_usd :: "int option"
  pe_max_latency_seconds :: "nat option"
  pe_default_latency_seconds :: "nat option"
  pe_allow_unlimited :: bool
  pe_on_over_limit :: string
  pe_scope_tags :: "(string, string) btree"

definition default_policy_entry :: policy_entry where
  "default_policy_entry =
     \<lparr>pe_allowed_denominations = [], pe_max_spend_micro_usd = None, pe_default_spend_micro_usd = None,
      pe_max_latency_seconds = None, pe_default_latency_seconds = None, pe_allow_unlimited = False,
      pe_on_over_limit = [], pe_scope_tags = []\<rparr>"

record policy_config =
  pc_default :: "policy_entry option"
  pc_channels :: "(string, policy_entry) btree"
  pc_senders :: "(string, policy_entry) btree"

definition default_policy_config :: policy_config where
  "default_policy_config = \<lparr>pc_default = None, pc_channels = [], pc_senders = []\<rparr>"

definition entry_for :: "policy_config \<Rightarrow> string \<Rightarrow> string \<Rightarrow> (policy_entry \<times> string) option" where
  "entry_for cfg user_id channel_id =
     (case map_of (pc_senders cfg) user_id of
        Some e \<Rightarrow> Some (e, ''sender'')
      | None \<Rightarrow>
         (case map_of (pc_channels cfg) channel_id of
            Some e \<Rightarrow> Some (e, ''channel'')
          | None \<Rightarrow> map_option (\<lambda>e. (e, ''default'')) (pc_default cfg)))"

definition scope_tags_for :: "string \<Rightarrow> string \<Rightarrow> policy_entry \<Rightarrow> (string, string) btree" where
  "scope_tags_for user_id channel_id entry =
     foldl (\<lambda>tags (k, v). if k = ''user'' \<or> k = ''channel'' then tags else bt_insert k v tags)
       (bt_insert ''channel'' channel_id (bt_insert ''user'' user_id []))
       (pe_scope_tags entry)"

definition mint_scope :: "string \<Rightarrow> string \<Rightarrow> policy_entry \<Rightarrow> scope_error + scope_tags" where
  "mint_scope user_id channel_id entry = mint (scope_tags_for user_id channel_id entry)"

definition render_micro :: "int \<Rightarrow> string" where
  "render_micro micro =
     (if \<not> is_limited micro then ''unlimited''
      else ''$'' @ fmt_fixed 4 (f64_div_const (f64_of_int micro) 1000000))"

definition as_secs :: "duration \<Rightarrow> nat" where
  "as_secs d = d div 1000000000"

definition from_secs :: "nat \<Rightarrow> duration" where
  "from_secs s = s * 1000000000"

definition render_duration :: "duration \<Rightarrow> string" where
  "render_duration d =
     (let secs = as_secs d
      in if 0 < secs \<and> secs mod 3600 = 0 then show_nat (secs div 3600) @ ''h''
         else if 0 < secs \<and> secs mod 60 = 0 then show_nat (secs div 60) @ ''m''
         else show_nat secs @ ''s'')"

definition permits :: "policy_entry \<Rightarrow> denomination \<Rightarrow> bool" where
  "permits entry d = list_ex (\<lambda>s. s = denomination_code d) (pe_allowed_denominations entry)"

text \<open>The spend block of \<open>resolve\<close>: the cap and the adjustments it pushes, or a refusal.\<close>

definition resolve_spend :: "policy_entry \<Rightarrow> int option \<Rightarrow> policy_refusal + (int option \<times> cap_adjustment list)" where
  "resolve_spend entry requested =
     (case requested of
        Some asked \<Rightarrow>
          if \<not> permits entry Spend then
            (case pe_default_spend_micro_usd entry of
               Some dv \<Rightarrow> Ok (Some dv, [NotPermitted Spend (render_micro asked) (render_micro dv)])
             | None \<Rightarrow> Ok (None, []))
          else if \<not> is_limited asked then
            (if \<not> pe_allow_unlimited entry then Err UnlimitedForbidden
             else Ok (Some UNLIMITED_MICRO_USD, []))
          else
            (case pe_max_spend_micro_usd entry of
               Some mx \<Rightarrow>
                 if is_limited mx \<and> mx < asked then
                   (case over_limit_from_config (pe_on_over_limit entry) of
                      Refuse \<Rightarrow> Err (OverLimit Spend (render_micro asked) (render_micro mx))
                    | Reduce \<Rightarrow> Ok (Some mx, [Reduced Spend (render_micro asked) (render_micro mx)]))
                 else Ok (Some asked, [])
             | None \<Rightarrow> Ok (Some asked, []))
      | None \<Rightarrow>
          (case pe_default_spend_micro_usd entry of
             Some dv \<Rightarrow> Ok (Some dv, [Defaulted Spend (render_micro dv)])
           | None \<Rightarrow> Ok (None, [])))"

definition resolve_latency ::
    "policy_entry \<Rightarrow> duration option \<Rightarrow> policy_refusal + (duration option \<times> cap_adjustment list)" where
  "resolve_latency entry requested =
     (let default_latency = map_option from_secs (pe_default_latency_seconds entry) in
      case requested of
        Some asked \<Rightarrow>
          if \<not> permits entry Latency then
            (case default_latency of
               Some dv \<Rightarrow>
                 Ok (Some dv, [NotPermitted Latency (render_duration asked) (render_duration dv)])
             | None \<Rightarrow> Ok (None, []))
          else
            (case map_option from_secs (pe_max_latency_seconds entry) of
               Some mx \<Rightarrow>
                 if mx < asked then
                   (case over_limit_from_config (pe_on_over_limit entry) of
                      Refuse \<Rightarrow> Err (OverLimit Latency (render_duration asked) (render_duration mx))
                    | Reduce \<Rightarrow>
                        Ok (Some mx, [Reduced Latency (render_duration asked) (render_duration mx)]))
                 else Ok (Some asked, [])
             | None \<Rightarrow> Ok (Some asked, []))
      | None \<Rightarrow>
          (case default_latency of
             Some dv \<Rightarrow> Ok (Some dv, [Defaulted Latency (render_duration dv)])
           | None \<Rightarrow> Ok (None, [])))"

definition resolve_due_cap ::
    "(instant \<Rightarrow> string) \<Rightarrow> policy_entry \<Rightarrow> instant option \<Rightarrow> instant option \<times> cap_adjustment list" where
  "resolve_due_cap rfc3339 entry requested =
     (case requested of
        None \<Rightarrow> (None, [])
      | Some asked \<Rightarrow>
          if permits entry Due then (Some asked, [])
          else (None, [NotPermitted Due (rfc3339 asked) ''no deadline'']))"

definition decide ::
    "(instant \<Rightarrow> string) \<Rightarrow> policy_config \<Rightarrow> string \<Rightarrow> string \<Rightarrow> requested_caps \<Rightarrow> policy_refusal + grant" where
  "decide rfc3339 cfg user_id channel_id requested =
     (case entry_for cfg user_id channel_id of
        None \<Rightarrow> Err (NoPolicy user_id channel_id)
      | Some (entry, level) \<Rightarrow>
          try_bind (resolve_spend entry (rq_spend_micro_usd requested)) (\<lambda>(spend, adj1).
          try_bind (resolve_latency entry (rq_latency requested)) (\<lambda>(latency, adj2).
            (let (due, adj3) = resolve_due_cap rfc3339 entry (rq_due requested) in
             case mint_scope user_id channel_id entry of
               Inl e \<Rightarrow> Err (Scope e)
             | Inr scope \<Rightarrow>
                 (let g = \<lparr>g_spend_micro_usd = spend, g_latency = latency, g_due = due,
                           g_scope = scope, g_adjustments = adj1 @ adj2 @ adj3\<rparr>
                  in if any_cap g then Ok g else Err NoCapGranted)))))"

text \<open>The event every decision leaves on the audit log.\<close>

definition decision_event ::
    "policy_config \<Rightarrow> string \<Rightarrow> string \<Rightarrow> requested_caps \<Rightarrow> policy_refusal + grant \<Rightarrow> audit_event" where
  "decision_event cfg user_id channel_id requested d =
     (case d of
        Inl r \<Rightarrow>
          QuarryPolicyDecision user_id channel_id None False (Some (policy_refusal_code r))
            (rq_spend_micro_usd requested) None [] None
      | Inr g \<Rightarrow>
          QuarryPolicyDecision user_id channel_id (map_option snd (entry_for cfg user_id channel_id)) True
            None (rq_spend_micro_usd requested) (g_spend_micro_usd g)
            (map (\<lambda>a. denomination_code (adjustment_denomination a) @ '':'' @ adjustment_code a)
               (g_adjustments g))
            (Some (scope_key (g_scope g))))"

definition resolve ::
    "(instant \<Rightarrow> string) \<Rightarrow> bool \<Rightarrow> policy_config \<Rightarrow> string \<Rightarrow> string \<Rightarrow> requested_caps
     \<Rightarrow> (policy_refusal + grant) \<times> audit_event list" where
  "resolve rfc3339 audit cfg user_id channel_id requested =
     (let d = decide rfc3339 cfg user_id channel_id requested
      in (d, if audit then [decision_event cfg user_id channel_id requested d] else []))"

subsection \<open>Keys of minted scopes\<close>

text \<open>What minting guarantees of the bytes of a scope: separators appear only as
  separators, entries are in key order, and no key is empty.\<close>

definition clean :: "string \<Rightarrow> bool" where
  "clean s \<longleftrightarrow> CHR ''='' \<notin> set s \<and> CHR '';'' \<notin> set s"

definition scope_ok :: "scope_tags \<Rightarrow> bool" where
  "scope_ok s \<longleftrightarrow> s \<noteq> [] \<and> bt_ok s \<and> (\<forall>(k, v) \<in> set s. k \<noteq> [] \<and> clean k \<and> clean v)"

text \<open>In well-formed UTF-8 an ASCII byte is a character of its own.\<close>

lemma ascii_byte_is_char:
  assumes "valid_utf8 s" and "c \<in> set s" and "is_ascii c"
  shows "[c] \<in> set (chars s)"
proof -
  have "c \<in> set (concat (chars s))" using assms(2) by simp
  then obtain u where u: "u \<in> set (chars s)" "c \<in> set u" by (auto simp del: concat_chars)
  have v: "valid_char u" using assms(1) u(1) by (auto simp: valid_utf8_def list_all_iff)
  obtain b bs where b: "u = b # bs" using v by (cases u) (auto simp: valid_char_def)
  have "\<forall>x \<in> set bs. is_cont x" using v b by (auto simp: valid_char_def list_all_iff)
  with u(2) assms(3) b have "c = b" by (auto simp: is_cont_def is_ascii_def)
  moreover have "char_width c = 1" using assms(3) by (auto simp: is_ascii_def char_width_def)
  ultimately have "bs = []" using v b by (simp add: valid_char_def)
  with \<open>c = b\<close> b u(1) show ?thesis by simp
qed

lemma forbidden_None_clean: "valid_utf8 s \<Longrightarrow> forbidden_in_tag s = None \<Longrightarrow> clean s"
  using ascii_byte_is_char [of s "CHR ''=''"] ascii_byte_is_char [of s "CHR '';''"]
  by (auto simp: forbidden_in_tag_def find_None_iff clean_def is_ascii_def byte_def)

lemma check_tags_None:
  "check_tags kvs = None \<longleftrightarrow>
     (\<forall>(k, v) \<in> set kvs. k \<noteq> [] \<and> forbidden_in_tag k = None \<and> forbidden_in_tag v = None)"
  by (induction kvs rule: check_tags.induct) (auto split: option.split)

lemma mint_Ok: "mint tags = Inr s \<longleftrightarrow> s = tags \<and> tags \<noteq> [] \<and> check_tags tags = None"
  by (auto simp: mint_def split: option.split)

definition tags_utf8 :: "(string \<times> string) list \<Rightarrow> bool" where
  "tags_utf8 kvs \<longleftrightarrow> list_all (\<lambda>(k, v). valid_utf8 k \<and> valid_utf8 v) kvs"

lemma mint_scope_ok: "bt_ok tags \<Longrightarrow> tags_utf8 tags \<Longrightarrow> mint tags = Inr s \<Longrightarrow> scope_ok s"
  by (auto simp: mint_Ok check_tags_None scope_ok_def tags_utf8_def list_all_iff
      dest!: bspec intro: forbidden_None_clean)

text \<open>The first separator of two equal texts is at the same place.\<close>

lemma split_at_separator:
  assumes "k @ sep # r = k' @ sep # r'" and "sep \<notin> set k" and "sep \<notin> set k'"
  shows "k = k' \<and> r = r'"
proof -
  have "takeWhile (\<lambda>c. c \<noteq> sep) (k @ sep # r) = k" "takeWhile (\<lambda>c. c \<noteq> sep) (k' @ sep # r') = k'"
    using assms(2,3) by (auto simp: takeWhile_append)
  with assms(1) show ?thesis by auto
qed

lemma scope_key_inject:
  "\<forall>(k, v) \<in> set s. clean k \<and> clean v \<Longrightarrow> \<forall>(k, v) \<in> set s'. clean k \<and> clean v \<Longrightarrow>
   scope_key s = scope_key s' \<Longrightarrow> s = s'"
proof (induction s arbitrary: s')
  case Nil
  then show ?case by (cases s') (auto simp: scope_key_def)
next
  case (Cons p s)
  obtain k v where p: "p = (k, v)" by (cases p)
  obtain k' v' t where s': "s' = (k', v') # t"
    using Cons.prems(3) by (cases s') (auto simp: scope_key_def p)
  have "k @ CHR ''='' # v @ CHR '';'' # scope_key s = k' @ CHR ''='' # v' @ CHR '';'' # scope_key t"
    using Cons.prems(3) by (simp add: scope_key_def p s')
  then have "k = k' \<and> v @ CHR '';'' # scope_key s = v' @ CHR '';'' # scope_key t"
    by (rule split_at_separator) (use Cons.prems(1,2) p s' in \<open>auto simp: clean_def\<close>)
  moreover from this have "v = v' \<and> scope_key s = scope_key t"
    by (intro split_at_separator [of v "CHR '';''"]) (use Cons.prems(1,2) p s' in \<open>auto simp: clean_def\<close>)
  moreover from this have "s = t" using Cons.IH [of t] Cons.prems(1,2) by (simp add: s')
  ultimately show ?case by (simp add: p s')
qed

lemma scope_ok_key_inject: "scope_ok s \<Longrightarrow> scope_ok s' \<Longrightarrow> scope_key s = scope_key s' \<Longrightarrow> s = s'"
  by (rule scope_key_inject) (auto simp: scope_ok_def)

subsection \<open>The scope of a sender\<close>

lemma scope_fold_ok:
  "bt_ok m \<Longrightarrow> bt_ok (foldl (\<lambda>tags (k, v). if k = ''user'' \<or> k = ''channel'' then tags
      else bt_insert k v tags) m kvs)"
  by (induction kvs arbitrary: m) (auto simp: btree)

lemma scope_fold_identity:
  "k = ''user'' \<or> k = ''channel'' \<Longrightarrow>
   map_of (foldl (\<lambda>tags (k, v). if k = ''user'' \<or> k = ''channel'' then tags
      else bt_insert k v tags) m kvs) k = map_of m k"
  by (induction kvs arbitrary: m) (auto simp: btree)

lemma bt_insert_set: "set (bt_insert k v m) \<subseteq> insert (k, v) (set m)"
  by (induction m) (auto split: if_splits)

lemma scope_fold_set:
  "set (foldl (\<lambda>tags (k, v). if k = ''user'' \<or> k = ''channel'' then tags
      else bt_insert k v tags) m kvs) \<subseteq> set m \<union> set kvs"
proof (induction kvs arbitrary: m)
  case (Cons p kvs)
  obtain k v where p: "p = (k, v)" by (cases p)
  show ?case using Cons [of m] Cons [of "bt_insert k v m"] bt_insert_set [of k v m] by (auto simp: p)
qed simp

lemma ascii_literal_utf8: "valid_utf8 ''user''" "valid_utf8 ''channel''"
  by (simp_all add: valid_utf8_ascii is_ascii_def byte_def)

lemma scope_tags_for_facts:
  shows scope_tags_for_ok: "bt_ok (scope_tags_for u c e)"
    and scope_tags_for_user: "map_of (scope_tags_for u c e) ''user'' = Some u"
    and scope_tags_for_channel: "map_of (scope_tags_for u c e) ''channel'' = Some c"
  unfolding scope_tags_for_def
  by (rule scope_fold_ok, simp add: bt_ok_def, auto simp: scope_fold_identity)

lemma scope_tags_for_utf8:
  assumes "valid_utf8 u" and "valid_utf8 c" and "tags_utf8 (pe_scope_tags e)"
  shows "tags_utf8 (scope_tags_for u c e)"
proof -
  let ?m = "bt_insert ''channel'' c (bt_insert ''user'' u [])"
  have "set (scope_tags_for u c e) \<subseteq> set ?m \<union> set (pe_scope_tags e)"
    unfolding scope_tags_for_def by (rule scope_fold_set)
  moreover have "set ?m \<subseteq> {(''channel'', c), (''user'', u)}"
    using bt_insert_set [of "''channel''" c] bt_insert_set [of "''user''" u "[]"] by fastforce
  ultimately show ?thesis
    using assms ascii_literal_utf8 by (fastforce simp: tags_utf8_def list_all_iff)
qed

subsection \<open>What a grant says\<close>

lemma decide_Ok:
  assumes "decide rfc3339 cfg u c r = Inr g"
  obtains entry level adj1 adj2 adj3 where
    "entry_for cfg u c = Some (entry, level)"
    "resolve_spend entry (rq_spend_micro_usd r) = Inr (g_spend_micro_usd g, adj1)"
    "resolve_latency entry (rq_latency r) = Inr (g_latency g, adj2)"
    "resolve_due_cap rfc3339 entry (rq_due r) = (g_due g, adj3)"
    "mint_scope u c entry = Inr (g_scope g)"
    "g_adjustments g = adj1 @ adj2 @ adj3"
    "any_cap g"
proof -
  obtain entry level where e: "entry_for cfg u c = Some (entry, level)"
    using assms by (auto simp: decide_def split: option.splits)
  obtain sp adj1 where sp: "resolve_spend entry (rq_spend_micro_usd r) = Inr (sp, adj1)"
    using assms e by (auto simp: decide_def try_bind_Ok split: sum.splits)
  obtain la adj2 where la: "resolve_latency entry (rq_latency r) = Inr (la, adj2)"
    using assms e sp by (auto simp: decide_def try_bind_Ok)
  obtain du adj3 where du: "resolve_due_cap rfc3339 entry (rq_due r) = (du, adj3)"
    by (cases "resolve_due_cap rfc3339 entry (rq_due r)")
  obtain sc where sc: "mint_scope u c entry = Inr sc"
    using assms e sp la du by (auto simp: decide_def split: sum.splits)
  from assms e sp la du sc have
    "g = \<lparr>g_spend_micro_usd = sp, g_latency = la, g_due = du, g_scope = sc,
          g_adjustments = adj1 @ adj2 @ adj3\<rparr>" "any_cap g"
    by (auto simp: decide_def Let_def split: if_splits)
  with that e sp la du sc show thesis by simp
qed

definition config_utf8 :: "policy_config \<Rightarrow> bool" where
  "config_utf8 cfg \<longleftrightarrow>
     list_all (\<lambda>(_, e). tags_utf8 (pe_scope_tags e)) (pc_senders cfg)
     \<and> list_all (\<lambda>(_, e). tags_utf8 (pe_scope_tags e)) (pc_channels cfg)
     \<and> (case pc_default cfg of None \<Rightarrow> True | Some e \<Rightarrow> tags_utf8 (pe_scope_tags e))"

lemma entry_for_utf8: "config_utf8 cfg \<Longrightarrow> entry_for cfg u c = Some (e, level) \<Longrightarrow> tags_utf8 (pe_scope_tags e)"
  by (auto simp: config_utf8_def entry_for_def list_all_iff split: option.splits dest!: map_of_SomeD)

text \<open>The interface callers resolve through. Any policy backend promises this: a grant has
  a cap, carries the sender's verified identity, and its scope is one that minting
  accepts.\<close>

locale caps_policy =
  fixes decision :: "'cfg \<Rightarrow> string \<Rightarrow> string \<Rightarrow> requested_caps \<Rightarrow> policy_refusal + grant"
    and well_formed :: "'cfg \<Rightarrow> bool"
  assumes grants_a_cap: "decision p u c r = Inr g \<Longrightarrow> any_cap g"
    and carries_user: "decision p u c r = Inr g \<Longrightarrow> map_of (g_scope g) ''user'' = Some u"
    and carries_channel: "decision p u c r = Inr g \<Longrightarrow> map_of (g_scope g) ''channel'' = Some c"
    and scope_minted: "well_formed p \<Longrightarrow> valid_utf8 u \<Longrightarrow> valid_utf8 c \<Longrightarrow>
      decision p u c r = Inr g \<Longrightarrow> scope_ok (g_scope g)"
begin

lemma never_empty_scope: "decision p u c r = Inr g \<Longrightarrow> g_scope g \<noteq> []"
  using carries_user by fastforce

text \<open>Two runs share a cache key only if the same sender on the same channel started them.\<close>

lemma keys_separate_senders:
  assumes "well_formed p" and "well_formed p'" and "list_all valid_utf8 [u, c, u', c']"
    and "decision p u c r = Inr g" and "decision p' u' c' r' = Inr g'"
    and "scope_key (g_scope g) = scope_key (g_scope g')"
  shows "u = u' \<and> c = c'"
proof -
  have "scope_ok (g_scope g)" using assms(1,3,4) by (intro scope_minted) auto
  moreover have "scope_ok (g_scope g')" using assms(2,3,5) by (intro scope_minted) auto
  ultimately have "g_scope g = g_scope g'" using assms(6) by (rule scope_ok_key_inject)
  then show ?thesis
    using carries_user [OF assms(4)] carries_user [OF assms(5)]
      carries_channel [OF assms(4)] carries_channel [OF assms(5)] by simp
qed

text \<open>Nor does one sender's scope narrow to another's.\<close>

lemma narrows_only_to_own:
  assumes "decision p u c r = Inr g" and "decision p' u' c' r' = Inr g'"
    and "narrows_to (g_scope g) (g_scope g')"
  shows "u = u' \<and> c = c'"
proof -
  have n: "map_of (g_scope g') k = Some v" if "(k, v) \<in> set (g_scope g)" for k v
    using assms(3) that by (auto simp: narrows_to_def list_all_iff)
  have "(''user'', u) \<in> set (g_scope g)" "(''channel'', c) \<in> set (g_scope g)"
    using carries_user [OF assms(1)] carries_channel [OF assms(1)] map_of_SomeD by fast+
  from this [THEN n] show ?thesis
    using carries_user [OF assms(2)] carries_channel [OF assms(2)] by simp
qed

end

interpretation config_policy: caps_policy "decide rfc3339" config_utf8
proof unfold_locales
  fix p u c r g
  assume d: "decide rfc3339 p u c r = Inr g"
  show "any_cap g" using d by (rule decide_Ok)
  obtain entry level where e: "entry_for p u c = Some (entry, level)"
    and m: "mint_scope u c entry = Inr (g_scope g)"
    using d by (rule decide_Ok)
  then have s: "g_scope g = scope_tags_for u c entry" by (simp add: mint_scope_def mint_Ok)
  show "map_of (g_scope g) ''user'' = Some u" "map_of (g_scope g) ''channel'' = Some c"
    using s scope_tags_for_facts by auto
  assume "config_utf8 p" and u: "valid_utf8 u" and c: "valid_utf8 c"
  then have "tags_utf8 (pe_scope_tags entry)" using e by (auto intro: entry_for_utf8)
  then show "scope_ok (g_scope g)"
    using m mint_scope_ok [OF scope_tags_for_ok scope_tags_for_utf8 [OF u c]] by (simp add: mint_scope_def)
qed

subsection \<open>The guarantees of the policy\<close>

text \<open>The cache key of a minted scope determines the scope: no tag value can be written
  so that two different tag sets render to the same key.\<close>

theorem scope_key_is_injective:
  assumes "mint tags = Inr s" and "mint tags' = Inr s'"
    and "bt_ok tags" and "bt_ok tags'" and "tags_utf8 tags" and "tags_utf8 tags'"
    and "s \<noteq> s'"
  shows "scope_key s \<noteq> scope_key s'"
  using assms mint_scope_ok scope_ok_key_inject by blast

lemma scope_key_is_injective_witness:
  "mint [(''tenant'', ''a''), (''user'', ''b'')] = Inr [(''tenant'', ''a''), (''user'', ''b'')]
   \<and> mint [(''tenant'', ''au''), (''user'', ''b'')] = Inr [(''tenant'', ''au''), (''user'', ''b'')]
   \<and> scope_key [(''tenant'', ''a''), (''user'', ''b'')] \<noteq> scope_key [(''tenant'', ''au''), (''user'', ''b'')]"
proof -
  let ?s = "[(''tenant'', ''a''), (''user'', ''b'')]" and ?t = "[(''tenant'', ''au''), (''user'', ''b'')]"
  have m: "mint ?s = Inr ?s" "mint ?t = Inr ?t" by code_simp+
  have "bt_ok ?s" "tags_utf8 ?s" "bt_ok ?t" "tags_utf8 ?t" by code_simp+
  with m show ?thesis using scope_key_is_injective [OF m] by simp
qed

text \<open>C15: Whatever the operator's tags, whatever was asked, grants of two different senders
  or channels never share a cache key.\<close>

theorem tenants_never_share_a_key:
  assumes "config_utf8 cfg" and "config_utf8 cfg'" and "list_all valid_utf8 [u, c, u', c']"
    and "decide rfc3339 cfg u c r = Inr g" and "decide rfc3339 cfg' u' c' r' = Inr g'"
    and "(u, c) \<noteq> (u', c')"
  shows "scope_key (g_scope g) \<noteq> scope_key (g_scope g')"
  using config_policy.keys_separate_senders [OF assms(1-5)] assms(6) by blast

definition sample_entry :: policy_entry where
  "sample_entry = default_policy_entry
     \<lparr>pe_allowed_denominations := [''spend''], pe_max_spend_micro_usd := Some 5000000,
      pe_scope_tags := [(''team'', ''x''), (''user'', ''mallory'')]\<rparr>"

definition sample_config :: policy_config where
  "sample_config = \<lparr>pc_default = Some sample_entry, pc_channels = [], pc_senders = []\<rparr>"

definition sample_request :: requested_caps where
  "sample_request = \<lparr>rq_spend_micro_usd = Some 1000000, rq_latency = None, rq_due = None\<rparr>"

lemma tenants_never_share_a_key_witness:
  "\<exists>g g'. decide (\<lambda>t. []) sample_config ''alice'' ''general'' sample_request = Inr g
     \<and> decide (\<lambda>t. []) sample_config ''bob'' ''general'' sample_request = Inr g'
     \<and> scope_key (g_scope g) \<noteq> scope_key (g_scope g')"
proof -
  have "is_ok (decide (\<lambda>t. []) sample_config ''alice'' ''general'' sample_request)"
    "is_ok (decide (\<lambda>t. []) sample_config ''bob'' ''general'' sample_request)"
    by code_simp+
  then obtain g g' where g: "decide (\<lambda>t. []) sample_config ''alice'' ''general'' sample_request = Inr g"
    "decide (\<lambda>t. []) sample_config ''bob'' ''general'' sample_request = Inr g'"
    by (auto simp: is_ok_def split: sum.splits)
  have "config_utf8 sample_config" "list_all valid_utf8 [''alice'', ''general'', ''bob'', ''general'']"
    by code_simp+
  then show ?thesis
    using tenants_never_share_a_key [OF _ _ _ g] g by auto
qed

text \<open>A run needs a policy entry: without one every request is refused, whatever it
  asks, and with one it is never refused as unknown. The entry is the sender's own, else
  the channel's, else the default, taken whole.\<close>

theorem default_deny_most_specific_wins:
  "decide rfc3339 cfg u c r = Inl (NoPolicy u c) \<longleftrightarrow>
     map_of (pc_senders cfg) u = None \<and> map_of (pc_channels cfg) c = None \<and> pc_default cfg = None"
proof (cases "entry_for cfg u c")
  case None
  then show ?thesis by (auto simp: decide_def entry_for_def split: option.splits)
next
  case (Some p)
  obtain entry level where p: "p = (entry, level)" by (cases p)
  have sp: "resolve_spend entry x \<noteq> Inl (NoPolicy a b)" for x a b
    by (auto simp: resolve_spend_def split: option.split over_limit.split)
  have la: "resolve_latency entry x \<noteq> Inl (NoPolicy a b)" for x a b
    by (auto simp: resolve_latency_def Let_def split: option.split over_limit.split)
  have "decide rfc3339 cfg u c r \<noteq> Inl (NoPolicy u c)"
    using sp la unfolding decide_def Some p
    by (cases "resolve_spend entry (rq_spend_micro_usd r)"; cases "resolve_latency entry (rq_latency r)")
      (auto simp: Let_def split: prod.split sum.split)
  moreover have "\<not> (map_of (pc_senders cfg) u = None \<and> map_of (pc_channels cfg) c = None \<and> pc_default cfg = None)"
    using Some by (auto simp: entry_for_def split: option.splits)
  ultimately show ?thesis by blast
qed

text \<open>The bounds a granted cap meets, given what the sender asked for.\<close>

definition spend_within :: "policy_entry \<Rightarrow> int \<Rightarrow> int option \<Rightarrow> cap_adjustment list \<Rightarrow> bool" where
  "spend_within e asked spend adj =
     (if \<not> permits e Spend then spend = pe_default_spend_micro_usd e
      else if asked < 0 then pe_allow_unlimited e \<and> spend = Some UNLIMITED_MICRO_USD
      else (case spend of None \<Rightarrow> False
        | Some s \<Rightarrow> 0 \<le> s \<and> s \<le> asked
            \<and> (case pe_max_spend_micro_usd e of None \<Rightarrow> True | Some mx \<Rightarrow> mx < 0 \<or> s \<le> mx)
            \<and> (s = asked \<or> Reduced Spend (render_micro asked) (render_micro s) \<in> set adj)))"

definition latency_within ::
    "policy_entry \<Rightarrow> duration \<Rightarrow> duration option \<Rightarrow> cap_adjustment list \<Rightarrow> bool" where
  "latency_within e asked lat adj =
     (if \<not> permits e Latency then lat = map_option from_secs (pe_default_latency_seconds e)
      else (case lat of None \<Rightarrow> False
        | Some d \<Rightarrow> d \<le> asked
            \<and> (case pe_max_latency_seconds e of None \<Rightarrow> True | Some mx \<Rightarrow> d \<le> from_secs mx)
            \<and> (d = asked \<or> Reduced Latency (render_duration asked) (render_duration d) \<in> set adj)))"

lemma within_mono:
  "spend_within e s spend adj \<Longrightarrow> set adj \<subseteq> set adj' \<Longrightarrow> spend_within e s spend adj'"
  "latency_within e d lat adj \<Longrightarrow> set adj \<subseteq> set adj' \<Longrightarrow> latency_within e d lat adj'"
  by (auto simp: spend_within_def latency_within_def split: if_splits option.splits)

lemma resolve_spend_within:
  "resolve_spend e (Some asked) = Inr (spend, adj) \<Longrightarrow> spend_within e asked spend adj"
  by (cases e)
    (auto simp: resolve_spend_def spend_within_def is_limited_def not_less
      split: if_splits option.splits over_limit.splits)

lemma resolve_latency_within:
  "resolve_latency e (Some asked) = Inr (lat, adj) \<Longrightarrow> latency_within e asked lat adj"
  by (cases e)
    (auto simp: resolve_latency_def latency_within_def Let_def
      split: if_splits option.splits over_limit.splits)

text \<open>C3: What a sender names never buys more than policy allows. A limited spend is granted
  at most what was asked and at most the entry's limited maximum, and a reduction is on the
  list of adjustments; unlimited needs \<open>allow_unlimited\<close>; a denomination the entry does not
  let the sender set takes the default instead. A latency is bounded the same way.\<close>

theorem grant_within_policy:
  assumes "decide rfc3339 cfg u c r = Inr g" and "entry_for cfg u c = Some (e, level)"
  shows "(\<forall>asked. rq_spend_micro_usd r = Some asked \<longrightarrow>
        spend_within e asked (g_spend_micro_usd g) (g_adjustments g))
    \<and> (\<forall>asked. rq_latency r = Some asked \<longrightarrow> latency_within e asked (g_latency g) (g_adjustments g))"
proof -
  obtain adj1 adj2 adj3 where
    sp: "resolve_spend e (rq_spend_micro_usd r) = Inr (g_spend_micro_usd g, adj1)"
    and la: "resolve_latency e (rq_latency r) = Inr (g_latency g, adj2)"
    and adj: "g_adjustments g = adj1 @ adj2 @ adj3"
    using decide_Ok [OF assms(1)] assms(2) by (metis Pair_inject option.inject)
  have "set adj1 \<subseteq> set (g_adjustments g)" "set adj2 \<subseteq> set (g_adjustments g)" by (auto simp: adj)
  then show ?thesis
    using sp la within_mono resolve_spend_within resolve_latency_within by metis
qed

definition big_request :: requested_caps where
  "big_request = \<lparr>rq_spend_micro_usd = Some 500000000, rq_latency = Some 30000000000, rq_due = None\<rparr>"

definition reducing_config :: policy_config where
  "reducing_config = \<lparr>pc_default = Some (sample_entry \<lparr>pe_on_over_limit := ''reduce'',
     pe_default_latency_seconds := Some 60\<rparr>), pc_channels = [], pc_senders = []\<rparr>"

lemma reducing_entry:
  "entry_for reducing_config u c = Some (sample_entry \<lparr>pe_on_over_limit := ''reduce'',
     pe_default_latency_seconds := Some 60\<rparr>, ''default'')"
  by (simp add: reducing_config_def entry_for_def)

lemma grant_within_policy_witness:
  "case decide (\<lambda>t. []) reducing_config ''alice'' ''general'' big_request of
     Inl _ \<Rightarrow> False
   | Inr g \<Rightarrow> g_latency g = Some (from_secs 60)
       \<and> (case g_spend_micro_usd g of None \<Rightarrow> False | Some s \<Rightarrow> s \<le> 5000000)"
proof -
  have "is_ok (mint_scope ''alice'' ''general'' (sample_entry \<lparr>pe_on_over_limit := ''reduce'',
      pe_default_latency_seconds := Some 60\<rparr>))" by code_simp
  then obtain g where g: "decide (\<lambda>t. []) reducing_config ''alice'' ''general'' big_request = Inr g"
    by (auto simp: decide_def reducing_entry resolve_spend_def resolve_latency_def big_request_def
        resolve_due_cap_def permits_def sample_entry_def default_policy_entry_def is_limited_def
        over_limit_from_config_def any_cap_def Let_def is_ok_def split: sum.splits)
  have r: "rq_spend_micro_usd big_request = Some 500000000" "rq_latency big_request = Some 30000000000"
    by (simp_all add: big_request_def)
  from grant_within_policy [OF g reducing_entry] r show ?thesis
    by (auto simp: g spend_within_def latency_within_def permits_def sample_entry_def
        default_policy_entry_def split: option.splits)
qed

text \<open>Which changes a grant discloses.\<close>

lemma resolve_spend_disclosed:
  "resolve_spend e (Some asked) = Inr (spend, adj) \<Longrightarrow>
   spend = Some asked \<or> Spend \<in> adjustment_denomination ` set adj \<or> asked < 0
   \<or> \<not> permits e Spend \<and> pe_default_spend_micro_usd e = None \<and> spend = None"
  by (auto simp: resolve_spend_def is_limited_def split: if_splits option.splits over_limit.splits)

lemma resolve_latency_disclosed:
  "resolve_latency e (Some asked) = Inr (lat, adj) \<Longrightarrow>
   lat = Some asked \<or> Latency \<in> adjustment_denomination ` set adj
   \<or> \<not> permits e Latency \<and> pe_default_latency_seconds e = None \<and> lat = None"
  by (auto simp: resolve_latency_def Let_def split: if_splits option.splits over_limit.splits)

lemma resolve_due_disclosed:
  "resolve_due_cap rfc3339 e (Some asked) = (due, adj) \<Longrightarrow>
   due = Some asked \<or> Due \<in> adjustment_denomination ` set adj"
  by (auto simp: resolve_due_cap_def split: if_splits)

text \<open>A cap the sender named comes back unchanged or with an adjustment that names its
  denomination, so the plan message can say it, except in one case: a spend or latency the
  sender may not set and policy has no default for is dropped with no adjustment. A named
  deadline has no exception.\<close>

theorem changes_are_disclosed:
  assumes "decide rfc3339 cfg u c r = Inr g" and "entry_for cfg u c = Some (e, level)"
  shows "(\<forall>asked \<ge> 0. rq_spend_micro_usd r = Some asked \<longrightarrow>
        g_spend_micro_usd g = Some asked
        \<or> Spend \<in> set (map adjustment_denomination (g_adjustments g))
        \<or> \<not> permits e Spend \<and> pe_default_spend_micro_usd e = None \<and> g_spend_micro_usd g = None)
    \<and> (\<forall>asked. rq_latency r = Some asked \<longrightarrow>
        g_latency g = Some asked
        \<or> Latency \<in> set (map adjustment_denomination (g_adjustments g))
        \<or> \<not> permits e Latency \<and> pe_default_latency_seconds e = None \<and> g_latency g = None)
    \<and> (\<forall>asked. rq_due r = Some asked \<longrightarrow>
        g_due g = Some asked \<or> Due \<in> set (map adjustment_denomination (g_adjustments g)))"
proof -
  obtain adj1 adj2 adj3 where
    sp: "resolve_spend e (rq_spend_micro_usd r) = Inr (g_spend_micro_usd g, adj1)"
    and la: "resolve_latency e (rq_latency r) = Inr (g_latency g, adj2)"
    and du: "resolve_due_cap rfc3339 e (rq_due r) = (g_due g, adj3)"
    and adj: "g_adjustments g = adj1 @ adj2 @ adj3"
    using decide_Ok [OF assms(1)] assms(2) by (metis Pair_inject option.inject)
  from sp la du show ?thesis
    by (auto simp: adj image_Un
        dest!: resolve_spend_disclosed resolve_latency_disclosed resolve_due_disclosed)
qed

lemma changes_are_disclosed_witness:
  "case decide (\<lambda>t. []) reducing_config ''alice'' ''general'' big_request of
     Inl _ \<Rightarrow> False
   | Inr g \<Rightarrow> g_latency g = Some 30000000000 \<or> Latency \<in> set (map adjustment_denomination (g_adjustments g))"
proof -
  have "is_ok (mint_scope ''alice'' ''general'' (sample_entry \<lparr>pe_on_over_limit := ''reduce'',
      pe_default_latency_seconds := Some 60\<rparr>))" by code_simp
  then obtain g where g: "decide (\<lambda>t. []) reducing_config ''alice'' ''general'' big_request = Inr g"
    by (auto simp: decide_def reducing_entry resolve_spend_def resolve_latency_def big_request_def
        resolve_due_cap_def permits_def sample_entry_def default_policy_entry_def is_limited_def
        over_limit_from_config_def any_cap_def Let_def is_ok_def split: sum.splits)
  have r: "rq_latency big_request = Some 30000000000" by (simp add: big_request_def)
  from changes_are_disclosed [OF g reducing_entry] r show ?thesis by (auto simp: g)
qed

text \<open>The exception, evaluated: a sender who may only set a deadline names a dollar cap, and
  the grant has neither the cap nor a word about it.\<close>

definition due_only_config :: policy_config where
  "due_only_config = \<lparr>pc_default = Some (default_policy_entry \<lparr>pe_allowed_denominations := [''due'']\<rparr>),
     pc_channels = [], pc_senders = []\<rparr>"

text \<open>A named spend cap can vanish without a trace: when the sender may not set spend and
  the entry has no default, the run is granted with no spend cap and no adjustment, although
  the sender asked for one.\<close>

theorem spend_cap_can_be_dropped_silently:
  "case decide rfc3339 due_only_config ''alice'' ''general''
      \<lparr>rq_spend_micro_usd = Some 1000000, rq_latency = None, rq_due = Some 7\<rparr> of
     Inl _ \<Rightarrow> False
   | Inr g \<Rightarrow> g_spend_micro_usd g = None \<and> g_adjustments g = [] \<and> g_due g = Some 7"
proof -
  have "is_ok (mint_scope ''alice'' ''general'' (default_policy_entry \<lparr>pe_allowed_denominations := [''due'']\<rparr>))"
    by code_simp
  then show ?thesis
    by (auto simp: decide_def due_only_config_def entry_for_def resolve_spend_def resolve_latency_def
        resolve_due_cap_def permits_def default_policy_entry_def any_cap_def Let_def is_ok_def
        split: sum.splits)
qed

text \<open>The flag form has no such guarantee as the key: a comma inside a value or a key moves
  the border between two tags.\<close>

lemma flag_value_not_injective:
  "\<exists>s s'. mint s = Inr s \<and> mint s' = Inr s' \<and> bt_ok s \<and> bt_ok s' \<and> s \<noteq> s' \<and> flag_value s = flag_value s'"
proof (intro exI conjI)
  show "mint [(''a'', ''1,x''), (''b'', ''2'')] = Inr [(''a'', ''1,x''), (''b'', ''2'')]" by code_simp
  show "mint [(''a'', ''1''), (''x,b'', ''2'')] = Inr [(''a'', ''1''), (''x,b'', ''2'')]" by code_simp
qed code_simp+

end
