(* ===== verification/Approval.thy ===== *)
theory Approval
  imports Policy "HOL-Library.AList"
begin

section \<open>The plan gate's approvals (\<open>src/quarry/approval.rs\<close>)\<close>

text \<open>
  A run waits for its sender to say yes. The registry of pending approvals, the oneshot
  channel that wakes the waiting run and the audit log are one explicit state; the public
  operations are functions on it, each running under the registry's lock, and a step
  relation lets any number of senders, tickets and clock ticks interleave. An instant is
  a number of nanoseconds on the monotonic clock.
\<close>

subsection \<open>Replies\<close>

definition APPROVE_WORDS :: "string list" where
  "APPROVE_WORDS = [''yes'', ''y'', ''approve'', ''approved'', ''ok'', ''okay'', ''go'', ''run'']"

definition CANCEL_WORDS :: "string list" where
  "CANCEL_WORDS = [''no'', ''n'', ''cancel'', ''stop'', ''abort'', ''nope'', ''nevermind'']"

datatype reply = Approve | Cancel | Unrecognised

definition classify_reply :: "(string \<Rightarrow> string) \<Rightarrow> string \<Rightarrow> reply" where
  "classify_reply ulc text =
     (let cleaned = to_lowercase ulc (trim_end_matches [''.'', ''!'', ''?'', '',''] (trim text))
      in if list_ex is_whitespace (chars cleaned) then Unrecognised
         else if cleaned \<in> set APPROVE_WORDS then Approve
         else if cleaned \<in> set CANCEL_WORDS then Cancel
         else Unrecognised)"

definition remove_char :: "char \<Rightarrow> string \<Rightarrow> string" where
  "remove_char c s = filter (\<lambda>d. d \<noteq> c) s"

definition vocabulary_hint :: string where
  "vocabulary_hint =
     ''Reply **'' @ remove_char (CHR 0x60) (join_with (backtick @ '' / '' @ backtick) (take 3 APPROVE_WORDS))
     @ ''** to run it, or **''
     @ remove_char (CHR 0x60) (join_with (backtick @ '' / '' @ backtick) (take 3 CANCEL_WORDS))
     @ ''** to cancel.''"

subsection \<open>What is disclosed\<close>

datatype unavailable = NoUpstreamPlanMode | EstimateWouldItselfSpend

fun unavailable_code :: "unavailable \<Rightarrow> string" where
  "unavailable_code NoUpstreamPlanMode = ''no_upstream_plan_mode''"
| "unavailable_code EstimateWouldItselfSpend = ''estimate_would_itself_spend''"

fun unavailable_message :: "unavailable \<Rightarrow> string" where
  "unavailable_message NoUpstreamPlanMode =
     ''quarry plans and spends in one step, so there is no plan to show you in advance yet''"
| "unavailable_message EstimateWouldItselfSpend =
     ''estimating the cost would itself cost money, so I would rather show you the limit than spend to guess the bill''"

record plan_disclosure =
  pd_statement :: string
  pd_granted :: grant
  pd_adjustments :: "cap_adjustment list"
  pd_caps_disclosures :: "disclosure list"
  pd_estimate :: "unavailable + unit"
  pd_exclusions :: "unavailable + string list"
  pd_expires_in :: duration

datatype decision = Approved | Cancelled | Expired | Superseded

fun decision_code :: "decision \<Rightarrow> string" where
  "decision_code Approved = ''approved''"
| "decision_code Cancelled = ''cancelled''"
| "decision_code Expired = ''expired''"
| "decision_code Superseded = ''superseded''"

fun may_spend :: "decision \<Rightarrow> bool" where
  "may_spend Approved = True"
| "may_spend Cancelled = False"
| "may_spend Expired = False"
| "may_spend Superseded = False"

record approved_caps =
  ac_spend_micro_usd :: "int option"
  ac_latency_seconds :: "nat option"
  ac_due :: "string option"

definition approved_caps_from_grant :: "(instant \<Rightarrow> string) \<Rightarrow> grant \<Rightarrow> approved_caps" where
  "approved_caps_from_grant rfc3339 g =
     \<lparr>ac_spend_micro_usd = g_spend_micro_usd g, ac_latency_seconds = map_option as_secs (g_latency g),
      ac_due = map_option rfc3339 (g_due g)\<rparr>"

subsection \<open>The registry\<close>

text \<open>A oneshot channel: nothing sent yet, a decision sent, or the sender dropped unsent.\<close>

datatype oneshot = Open | Sent decision | Dropped

text \<open>\<open>settle\<close> is the channel's sending half, taken when it is used.\<close>

record pending_approval =
  pa_request_id :: string
  pa_user_id :: string
  pa_channel_id :: string
  pa_settle :: "nat option"
  pa_deadline :: nat
  pa_caps :: approved_caps

type_synonym approval_key = "string \<times> string"

record registry =
  rg_pending :: "(approval_key \<times> pending_approval) list"
  rg_channels :: "oneshot list"
  rg_log :: "audit_event list"
  rg_audit :: bool

record ticket =
  tk_request_id :: string
  tk_user_id :: string
  tk_channel_id :: string
  tk_caps :: approved_caps
  tk_timeout :: nat
  tk_settled :: nat

definition new_registry :: "bool \<Rightarrow> registry" where
  "new_registry audit = \<lparr>rg_pending = [], rg_channels = [], rg_log = [], rg_audit = audit\<rparr>"

definition pending_count :: "registry \<Rightarrow> nat" where
  "pending_count r = length (rg_pending r)"

definition has_pending :: "string \<Rightarrow> string \<Rightarrow> registry \<Rightarrow> bool" where
  "has_pending user_id channel_id r \<longleftrightarrow> map_of (rg_pending r) (channel_id, user_id) \<noteq> None"

text \<open>Sending on, and dropping, the taken half; a send whose receiver is gone changes
  nothing anyone reads.\<close>

definition settle_send :: "nat option \<Rightarrow> decision \<Rightarrow> registry \<Rightarrow> registry" where
  "settle_send ch d r =
     (case ch of None \<Rightarrow> r | Some i \<Rightarrow> r\<lparr>rg_channels := (rg_channels r)[i := Sent d]\<rparr>)"

definition settle_drop :: "nat option \<Rightarrow> registry \<Rightarrow> registry" where
  "settle_drop ch r =
     (case ch of None \<Rightarrow> r | Some i \<Rightarrow> r\<lparr>rg_channels := (rg_channels r)[i := Dropped]\<rparr>)"

definition plan_event :: "string \<Rightarrow> string \<Rightarrow> string \<Rightarrow> decision \<Rightarrow> approved_caps \<Rightarrow> audit_event" where
  "plan_event request_id user_id channel_id d caps =
     QuarryPlanDecision request_id user_id channel_id (decision_code d)
       (ac_spend_micro_usd caps) (ac_latency_seconds caps) (ac_due caps)"

definition log_decision ::
    "string \<Rightarrow> string \<Rightarrow> string \<Rightarrow> decision \<Rightarrow> approved_caps \<Rightarrow> registry \<Rightarrow> registry" where
  "log_decision request_id user_id channel_id d caps r =
     (if rg_audit r then r\<lparr>rg_log := rg_log r @ [plan_event request_id user_id channel_id d caps]\<rparr>
      else r)"

text \<open>Replacing an earlier request of the same sender on the same channel.\<close>

definition supersede :: "approval_key \<Rightarrow> registry \<Rightarrow> registry" where
  "supersede key r =
     (case map_of (rg_pending r) key of
        None \<Rightarrow> r
      | Some old \<Rightarrow>
          log_decision (pa_request_id old) (pa_user_id old) (pa_channel_id old) Superseded (pa_caps old)
            (settle_send (pa_settle old) Superseded
              (r\<lparr>rg_pending := AList.delete key (rg_pending r)\<rparr>)))"

definition begin_approval ::
    "nat \<Rightarrow> string \<Rightarrow> string \<Rightarrow> string \<Rightarrow> approved_caps \<Rightarrow> nat \<Rightarrow> registry \<Rightarrow> ticket \<times> registry" where
  "begin_approval now request_id user_id channel_id caps timeout r =
     (let key = (channel_id, user_id);
          r1 = supersede key r;
          i = length (rg_channels r1);
          p = \<lparr>pa_request_id = request_id, pa_user_id = user_id, pa_channel_id = channel_id,
               pa_settle = Some i, pa_deadline = now + timeout, pa_caps = caps\<rparr>
      in (\<lparr>tk_request_id = request_id, tk_user_id = user_id, tk_channel_id = channel_id,
           tk_caps = caps, tk_timeout = timeout, tk_settled = i\<rparr>,
          r1\<lparr>rg_pending := AList.update key p (rg_pending r1),
             rg_channels := rg_channels r1 @ [Open]\<rparr>))"

datatype reply_outcome = Settled string decision | NeedsClarification string | NothingPending

definition reply_decision :: "reply \<Rightarrow> decision" where
  "reply_decision r = (if r = Approve then Approved else Cancelled)"

definition submit_reply ::
    "(string \<Rightarrow> string) \<Rightarrow> nat \<Rightarrow> string \<Rightarrow> string \<Rightarrow> string \<Rightarrow> registry \<Rightarrow> reply_outcome \<times> registry" where
  "submit_reply ulc now user_id channel_id text r =
     (let key = (channel_id, user_id) in
      case map_of (rg_pending r) key of
        None \<Rightarrow> (NothingPending, r)
      | Some entry \<Rightarrow>
          if pa_user_id entry \<noteq> user_id \<or> pa_channel_id entry \<noteq> channel_id then (NothingPending, r)
          else if pa_deadline entry \<le> now then (NothingPending, r)
          else (case classify_reply ulc text of
                  Unrecognised \<Rightarrow> (NeedsClarification (pa_request_id entry), r)
                | rep \<Rightarrow>
                    (Settled (pa_request_id entry) (reply_decision rep),
                     settle_send (pa_settle entry) (reply_decision rep)
                       (r\<lparr>rg_pending := AList.update key (entry\<lparr>pa_settle := None\<rparr>) (rg_pending r)\<rparr>))))"

text \<open>\<open>wait\<close> in its two parts. First the timeout around the channel: a value that is there
  wins, a dropped sender or a fired timer is \<open>Expired\<close>, and otherwise it keeps waiting. The
  timer starts when \<open>wait\<close> is called.\<close>

definition wait_poll :: "nat \<Rightarrow> nat \<Rightarrow> ticket \<Rightarrow> registry \<Rightarrow> decision option" where
  "wait_poll start now t r =
     (case rg_channels r ! tk_settled t of
        Sent d \<Rightarrow> Some d
      | Dropped \<Rightarrow> Some Expired
      | Open \<Rightarrow> if start + tk_timeout t \<le> now then Some Expired else None)"

text \<open>Then, under the lock, clear the entry if it is still this request's, and log.\<close>

definition wait_finish :: "ticket \<Rightarrow> decision \<Rightarrow> registry \<Rightarrow> registry" where
  "wait_finish t d r =
     (let key = (tk_channel_id t, tk_user_id t);
          r1 = (case map_of (rg_pending r) key of
                  Some p \<Rightarrow>
                    if pa_request_id p = tk_request_id t
                    then settle_drop (pa_settle p) (r\<lparr>rg_pending := AList.delete key (rg_pending r)\<rparr>)
                    else r
                | None \<Rightarrow> r)
      in if d = Superseded then r1
         else log_decision (tk_request_id t) (tk_user_id t) (tk_channel_id t) d (tk_caps t) r1)"

subsection \<open>Rendering\<close>

definition render_spend :: "int \<Rightarrow> string" where
  "render_spend micro =
     (if micro < 0 then ''no limit'' else ''$'' @ fmt_fixed 4 (f64_div_const (f64_of_int micro) 1000000))"

definition render_plan_duration :: "duration \<Rightarrow> string" where
  "render_plan_duration d =
     (let secs = as_secs d
      in if 3600 \<le> secs \<and> secs mod 3600 = 0 then show_nat (secs div 3600) @ ''h''
         else if 60 \<le> secs \<and> secs mod 60 = 0 then show_nat (secs div 60) @ ''m''
         else if 60 \<le> secs then show_nat (secs div 60) @ ''m'' @ show_nat (secs mod 60) @ ''s''
         else show_nat secs @ ''s'')"

fun timezone_why :: "timezone_source \<Rightarrow> string" where
  "timezone_why SenderPreference = ''your saved timezone''"
| "timezone_why ConfigDefault = ''this server'' @ [CHR 0x27] @ ''s default timezone''"
| "timezone_why UtcFallback = ''UTC, because no timezone is set for you''"

fun render_caps_disclosure :: "(instant \<Rightarrow> string) \<Rightarrow> disclosure \<Rightarrow> string" where
  "render_caps_disclosure rfc3339 (DueHasNoUpstreamFlag resolved equivalent_latency) =
     ''Your deadline ('' @ rfc3339 resolved @ '') becomes a '' @ render_plan_duration equivalent_latency
     @ '' time limit '' @ em_dash
     @ '' quarry has no deadline flag yet, so this run cannot use the cheaper off-peak pricing a deadline would allow.''"
| "render_caps_disclosure rfc3339 (DeadlineResolvedIn timezone source local) =
     ''Deadline read as '' @ local @ '' ('' @ timezone @ '') '' @ em_dash @ '' '' @ timezone_why source @ ''.''"

definition item :: "string \<Rightarrow> string" where
  "item s = bullet @ '' '' @ s @ newline"

definition render_plan :: "(instant \<Rightarrow> string) \<Rightarrow> plan_disclosure \<Rightarrow> string" where
  "render_plan rfc3339 d =
     (let g = pd_granted d in
      ''**Before I spend anything '' @ em_dash @ '' approve this run?**'' @ newline @ newline
      @ ''> '' @ trim (pd_statement d) @ newline @ newline
      @ ''**Limits in force**'' @ newline
      @ (case g_spend_micro_usd g of
           Some micro \<Rightarrow> item (''Spend: at most '' @ render_spend micro) | None \<Rightarrow> [])
      @ (case g_latency g of
           Some l \<Rightarrow> item (''Time: at most '' @ render_plan_duration l) | None \<Rightarrow> [])
      @ (case g_due g of Some t \<Rightarrow> item (''Deadline: '' @ rfc3339 t) | None \<Rightarrow> [])
      @ newline @ ''quarry plans to fit these limits, so the spend limit is the most this can cost.'' @ newline
      @ (if pd_adjustments d = [] then []
         else newline @ ''**I had to change what you asked for**'' @ newline
           @ concat (map (\<lambda>a. item (adjustment_message a)) (pd_adjustments d)))
      @ (if pd_caps_disclosures d = [] then []
         else newline @ ''**Check these**'' @ newline
           @ concat (map (\<lambda>x. item (render_caps_disclosure rfc3339 x)) (pd_caps_disclosures d)))
      @ (case pd_estimate d of
           Inl reason \<Rightarrow> newline @ ''**No cost estimate:** '' @ unavailable_message reason @ ''.'' @ newline
         | Inr _ \<Rightarrow> [])
      @ (case pd_exclusions d of
           Inr items \<Rightarrow>
             if items = [] then [] else newline @ ''**Will not be covered**'' @ newline @ concat (map item items)
         | Inl reason \<Rightarrow>
             ''**What it will skip is also not known yet:** '' @ unavailable_message reason @ ''.'' @ newline)
      @ newline @ ''This offer expires in '' @ render_plan_duration (pd_expires_in d)
      @ '', and expiring cancels it '' @ em_dash @ '' I will not run anything unless you say so.'' @ newline
      @ vocabulary_hint)"

definition render_clarification :: string where
  "render_clarification =
     ''I did not read that as a yes or a no, so **nothing has run and nothing has been spent**. ''
     @ vocabulary_hint"

definition render_expired :: string where
  "render_expired =
     ''That run expired without approval, so I cancelled it. **Nothing was spent.** Ask again if you still want it.''"

definition render_cancelled :: string where
  "render_cancelled = ''Cancelled. **Nothing was spent.**''"

definition render_superseded :: string where
  "render_superseded =
     ''Replacing your previous request, which I cancelled without spending anything.''"

subsection \<open>Senders, tickets and the clock\<close>

text \<open>The whole gate as a transition system: tickets are held, waited on, decided and
  returned; replies arrive; the clock moves. \<open>sy_replies\<close> and \<open>tr_begun\<close> are history that
  no operation reads.\<close>

datatype phase = Held | Waiting nat | Decided decision | Returned decision

record ticket_run =
  tr_ticket :: ticket
  tr_begun :: nat
  tr_phase :: phase

record gate_system =
  sy_now :: nat
  sy_registry :: registry
  sy_tickets :: "ticket_run list"
  sy_replies :: "(nat \<times> string \<times> string \<times> string) list"

definition gate_init :: "bool \<Rightarrow> gate_system" where
  "gate_init audit = \<lparr>sy_now = 0, sy_registry = new_registry audit, sy_tickets = [], sy_replies = []\<rparr>"

definition set_phase :: "nat \<Rightarrow> phase \<Rightarrow> gate_system \<Rightarrow> gate_system" where
  "set_phase i ph s = s\<lparr>sy_tickets := (sy_tickets s)[i := (sy_tickets s ! i)\<lparr>tr_phase := ph\<rparr>]\<rparr>"

inductive gate_step :: "(string \<Rightarrow> string) \<Rightarrow> gate_system \<Rightarrow> gate_system \<Rightarrow> bool"
  for ulc :: "string \<Rightarrow> string" where
  Tick: "gate_step ulc s (s\<lparr>sy_now := sy_now s + k\<rparr>)"
| Begin: "begin_approval (sy_now s) rid u c caps timeout (sy_registry s) = (t, r) \<Longrightarrow>
    gate_step ulc s (s\<lparr>sy_registry := r,
      sy_tickets := sy_tickets s @ [\<lparr>tr_ticket = t, tr_begun = sy_now s, tr_phase = Held\<rparr>]\<rparr>)"
| Reply: "submit_reply ulc (sy_now s) u c text (sy_registry s) = (out, r) \<Longrightarrow>
    gate_step ulc s (s\<lparr>sy_registry := r, sy_replies := sy_replies s @ [(sy_now s, u, c, text)]\<rparr>)"
| Wait: "i < length (sy_tickets s) \<Longrightarrow> tr_phase (sy_tickets s ! i) = Held \<Longrightarrow>
    gate_step ulc s (set_phase i (Waiting (sy_now s)) s)"
| Decide: "i < length (sy_tickets s) \<Longrightarrow> tr_phase (sy_tickets s ! i) = Waiting start \<Longrightarrow>
    wait_poll start (sy_now s) (tr_ticket (sy_tickets s ! i)) (sy_registry s) = Some d \<Longrightarrow>
    gate_step ulc s (set_phase i (Decided d) s)"
| Return: "i < length (sy_tickets s) \<Longrightarrow> tr_phase (sy_tickets s ! i) = Decided d \<Longrightarrow>
    gate_step ulc s ((set_phase i (Returned d) s)
      \<lparr>sy_registry := wait_finish (tr_ticket (sy_tickets s ! i)) d (sy_registry s)\<rparr>)"

inductive gate_reachable :: "(string \<Rightarrow> string) \<Rightarrow> bool \<Rightarrow> gate_system \<Rightarrow> bool"
  for ulc :: "string \<Rightarrow> string" and audit :: bool where
  Init: "gate_reachable ulc audit (gate_init audit)"
| Step: "gate_reachable ulc audit s \<Longrightarrow> gate_step ulc s s' \<Longrightarrow> gate_reachable ulc audit s'"

inductive_cases gate_stepE: "gate_step ulc s s'"

subsection \<open>The invariant\<close>

text \<open>An approval somebody gave: a reply of this ticket's own sender on its own channel,
  read as a yes, after the request began and before it expired.\<close>

definition approved_by ::
    "(string \<Rightarrow> string) \<Rightarrow> (nat \<times> string \<times> string \<times> string) list \<Rightarrow> ticket_run \<Rightarrow> bool" where
  "approved_by ulc replies tr \<longleftrightarrow>
     (\<exists>(at_time, u, c, text) \<in> set replies.
        u = tk_user_id (tr_ticket tr) \<and> c = tk_channel_id (tr_ticket tr)
        \<and> classify_reply ulc text = Approve
        \<and> tr_begun tr \<le> at_time \<and> at_time < tr_begun tr + tk_timeout (tr_ticket tr))"

definition plan_logged :: "audit_event list \<Rightarrow> ticket \<Rightarrow> decision \<Rightarrow> bool" where
  "plan_logged lg t d \<longleftrightarrow>
     plan_event (tk_request_id t) (tk_user_id t) (tk_channel_id t) d (tk_caps t) \<in> set lg"

text \<open>What a pending entry says of the ticket that registered it.\<close>

definition entry_of :: "gate_system \<Rightarrow> approval_key \<Rightarrow> pending_approval \<Rightarrow> bool" where
  "entry_of s key p \<longleftrightarrow>
     pa_channel_id p = fst key \<and> pa_user_id p = snd key
     \<and> (case pa_settle p of
          None \<Rightarrow> True
        | Some i \<Rightarrow> i < length (sy_tickets s)
            \<and> (let tr = sy_tickets s ! i; t = tr_ticket tr
               in tk_request_id t = pa_request_id p \<and> tk_user_id t = pa_user_id p
                  \<and> tk_channel_id t = pa_channel_id p \<and> tk_caps t = pa_caps p
                  \<and> pa_deadline p = tr_begun tr + tk_timeout t))"

definition settled_ok :: "(string \<Rightarrow> string) \<Rightarrow> gate_system \<Rightarrow> ticket_run \<Rightarrow> decision \<Rightarrow> bool" where
  "settled_ok ulc s tr d \<longleftrightarrow>
     (d = Approved \<longrightarrow> approved_by ulc (sy_replies s) tr)
     \<and> (d = Superseded \<longrightarrow> rg_audit (sy_registry s) \<longrightarrow> plan_logged (rg_log (sy_registry s)) (tr_ticket tr) d)"

definition phase_ok :: "(string \<Rightarrow> string) \<Rightarrow> gate_system \<Rightarrow> ticket_run \<Rightarrow> bool" where
  "phase_ok ulc s tr \<longleftrightarrow>
     (case tr_phase tr of
        Held \<Rightarrow> True
      | Waiting start \<Rightarrow> True
      | Decided d \<Rightarrow> settled_ok ulc s tr d
      | Returned d \<Rightarrow> settled_ok ulc s tr d
          \<and> (rg_audit (sy_registry s) \<longrightarrow> plan_logged (rg_log (sy_registry s)) (tr_ticket tr) d))"

definition gate_inv :: "(string \<Rightarrow> string) \<Rightarrow> gate_system \<Rightarrow> bool" where
  "gate_inv ulc s \<longleftrightarrow>
     length (rg_channels (sy_registry s)) = length (sy_tickets s)
     \<and> (\<forall>i < length (sy_tickets s).
          tk_settled (tr_ticket (sy_tickets s ! i)) = i
          \<and> tr_begun (sy_tickets s ! i) \<le> sy_now s
          \<and> (\<forall>d. rg_channels (sy_registry s) ! i = Sent d \<longrightarrow> settled_ok ulc s (sy_tickets s ! i) d)
          \<and> phase_ok ulc s (sy_tickets s ! i))
     \<and> (\<forall>key p. map_of (rg_pending (sy_registry s)) key = Some p \<longrightarrow> entry_of s key p)"

text \<open>History and the log only grow, so what was established stays established.\<close>

lemma approved_by_mono: "approved_by ulc rs tr \<Longrightarrow> set rs \<subseteq> set rs' \<Longrightarrow> approved_by ulc rs' tr"
  by (fastforce simp: approved_by_def)

lemma settled_ok_mono:
  "settled_ok ulc s tr d \<Longrightarrow> set (sy_replies s) \<subseteq> set (sy_replies s') \<Longrightarrow>
   set (rg_log (sy_registry s)) \<subseteq> set (rg_log (sy_registry s')) \<Longrightarrow>
   rg_audit (sy_registry s') = rg_audit (sy_registry s) \<Longrightarrow> tr_ticket tr' = tr_ticket tr \<Longrightarrow>
   tr_begun tr' = tr_begun tr \<Longrightarrow> settled_ok ulc s' tr' d"
  using approved_by_mono [of ulc "sy_replies s" tr "sy_replies s'"]
  by (auto simp: settled_ok_def plan_logged_def approved_by_def)

lemma phase_ok_mono:
  "phase_ok ulc s tr \<Longrightarrow> set (sy_replies s) \<subseteq> set (sy_replies s') \<Longrightarrow>
   set (rg_log (sy_registry s)) \<subseteq> set (rg_log (sy_registry s')) \<Longrightarrow>
   rg_audit (sy_registry s') = rg_audit (sy_registry s) \<Longrightarrow> phase_ok ulc s' tr"
  using settled_ok_mono [of ulc s tr _ s' tr]
  by (auto simp: phase_ok_def plan_logged_def split: phase.splits)

text \<open>The pieces of registry updates, seen through the fields the invariant reads.\<close>

lemma settle_send_fields [simp]:
  "rg_pending (settle_send ch d r) = rg_pending r" "rg_log (settle_send ch d r) = rg_log r"
  "rg_audit (settle_send ch d r) = rg_audit r"
  "rg_channels (settle_send ch d r)
     = (case ch of None \<Rightarrow> rg_channels r | Some i \<Rightarrow> (rg_channels r)[i := Sent d])"
  by (simp_all add: settle_send_def split: option.split)

lemma settle_drop_fields [simp]:
  "rg_pending (settle_drop ch r) = rg_pending r" "rg_log (settle_drop ch r) = rg_log r"
  "rg_audit (settle_drop ch r) = rg_audit r"
  "rg_channels (settle_drop ch r)
     = (case ch of None \<Rightarrow> rg_channels r | Some i \<Rightarrow> (rg_channels r)[i := Dropped])"
  by (simp_all add: settle_drop_def split: option.split)

lemma log_decision_fields [simp]:
  "rg_pending (log_decision rid u c d caps r) = rg_pending r"
  "rg_channels (log_decision rid u c d caps r) = rg_channels r"
  "rg_audit (log_decision rid u c d caps r) = rg_audit r"
  "rg_log (log_decision rid u c d caps r)
     = rg_log r @ (if rg_audit r then [plan_event rid u c d caps] else [])"
  by (simp_all add: log_decision_def)

lemma delete_sub: "map_of (AList.delete k xs) key = Some p \<Longrightarrow> map_of xs key = Some p"
  by (auto simp: AList.delete_conv' split: if_splits)

lemma update_sub:
  "map_of (AList.update k q xs) key = Some p \<Longrightarrow> key = k \<and> p = q \<or> map_of xs key = Some p"
  by (auto simp: AList.update_conv' split: if_splits)

text \<open>A step that neither adds a ticket nor invents a pending entry keeps the invariant, when
  what it sends is justified and the phases it sets are.\<close>

lemma gate_inv_frame:
  assumes inv: "gate_inv ulc s"
    and len: "length (sy_tickets s') = length (sy_tickets s)"
    and tk: "\<And>i. i < length (sy_tickets s) \<Longrightarrow> tr_ticket (sy_tickets s' ! i) = tr_ticket (sy_tickets s ! i)
      \<and> tr_begun (sy_tickets s' ! i) = tr_begun (sy_tickets s ! i)"
    and now: "sy_now s \<le> sy_now s'"
    and hist: "set (sy_replies s) \<subseteq> set (sy_replies s')"
    and lg: "set (rg_log (sy_registry s)) \<subseteq> set (rg_log (sy_registry s'))"
    and audit: "rg_audit (sy_registry s') = rg_audit (sy_registry s)"
    and clen: "length (rg_channels (sy_registry s')) = length (rg_channels (sy_registry s))"
    and chans: "\<And>i d. i < length (sy_tickets s) \<Longrightarrow> rg_channels (sy_registry s') ! i = Sent d \<Longrightarrow>
      rg_channels (sy_registry s) ! i = Sent d \<or> settled_ok ulc s' (sy_tickets s' ! i) d"
    and phases: "\<And>i. i < length (sy_tickets s) \<Longrightarrow>
      sy_tickets s' ! i = sy_tickets s ! i \<or> phase_ok ulc s' (sy_tickets s' ! i)"
    and pend: "\<And>key p. map_of (rg_pending (sy_registry s')) key = Some p \<Longrightarrow>
      map_of (rg_pending (sy_registry s)) key = Some p \<or> entry_of s key p"
  shows "gate_inv ulc s'"
  unfolding gate_inv_def
proof (intro conjI allI impI)
  show "length (rg_channels (sy_registry s')) = length (sy_tickets s')"
    using inv clen len by (simp add: gate_inv_def)
next
  fix i
  assume "i < length (sy_tickets s')"
  then have i: "i < length (sy_tickets s)" using len by simp
  note old = inv [unfolded gate_inv_def, THEN conjunct2, THEN conjunct1, rule_format, OF i]
  show "tk_settled (tr_ticket (sy_tickets s' ! i)) = i" "tr_begun (sy_tickets s' ! i) \<le> sy_now s'"
    using old tk [OF i] now by auto
  show "phase_ok ulc s' (sy_tickets s' ! i)"
    using phases [OF i] old hist lg audit phase_ok_mono by metis
  fix d
  assume "rg_channels (sy_registry s') ! i = Sent d"
  then have "rg_channels (sy_registry s) ! i = Sent d \<or> settled_ok ulc s' (sy_tickets s' ! i) d"
    using chans i by blast
  then show "settled_ok ulc s' (sy_tickets s' ! i) d"
    using old tk [OF i] hist lg audit settled_ok_mono [of ulc s "sy_tickets s ! i" d s' "sy_tickets s' ! i"]
    by auto
next
  fix key p
  assume "map_of (rg_pending (sy_registry s')) key = Some p"
  then have "entry_of s key p" using pend inv unfolding gate_inv_def by blast
  then show "entry_of s' key p"
    using tk len by (auto simp: entry_of_def Let_def split: option.splits)
qed

lemma inv_ticket:
  "gate_inv ulc s \<Longrightarrow> i < length (sy_tickets s) \<Longrightarrow>
   tk_settled (tr_ticket (sy_tickets s ! i)) = i \<and> tr_begun (sy_tickets s ! i) \<le> sy_now s
   \<and> phase_ok ulc s (sy_tickets s ! i)
   \<and> (\<forall>d. rg_channels (sy_registry s) ! i = Sent d \<longrightarrow> settled_ok ulc s (sy_tickets s ! i) d)"
  by (simp add: gate_inv_def)

lemma inv_entry:
  "gate_inv ulc s \<Longrightarrow> map_of (rg_pending (sy_registry s)) key = Some p \<Longrightarrow> entry_of s key p"
  unfolding gate_inv_def by blast

lemma inv_channels: "gate_inv ulc s \<Longrightarrow> length (rg_channels (sy_registry s)) = length (sy_tickets s)"
  by (simp add: gate_inv_def)

lemma tick_inv: "gate_inv ulc s \<Longrightarrow> gate_inv ulc (s\<lparr>sy_now := sy_now s + k\<rparr>)"
  by (rule gate_inv_frame [of ulc s]) auto

lemma set_phase_inv:
  assumes "gate_inv ulc s" and "phase_ok ulc s ((sy_tickets s ! i)\<lparr>tr_phase := ph\<rparr>)"
  shows "gate_inv ulc (set_phase i ph s)"
proof (rule gate_inv_frame [OF assms(1)])
  fix j
  assume j: "j < length (sy_tickets s)"
  then show "tr_ticket (sy_tickets (set_phase i ph s) ! j) = tr_ticket (sy_tickets s ! j)
      \<and> tr_begun (sy_tickets (set_phase i ph s) ! j) = tr_begun (sy_tickets s ! j)"
    by (cases "i = j") (auto simp: set_phase_def)
  have "phase_ok ulc (set_phase i ph s) ((sy_tickets s ! i)\<lparr>tr_phase := ph\<rparr>)"
    using assms(2) by (rule phase_ok_mono) (auto simp: set_phase_def)
  then show "sy_tickets (set_phase i ph s) ! j = sy_tickets s ! j
      \<or> phase_ok ulc (set_phase i ph s) (sy_tickets (set_phase i ph s) ! j)"
    using j by (cases "i = j") (auto simp: set_phase_def)
qed (auto simp: set_phase_def)

lemma poll_settled_ok:
  assumes "gate_inv ulc s" and "i < length (sy_tickets s)"
    and "wait_poll start now (tr_ticket (sy_tickets s ! i)) (sy_registry s) = Some d"
  shows "settled_ok ulc s (sy_tickets s ! i) d"
proof -
  note t = inv_ticket [OF assms(1,2)]
  have expired: "settled_ok ulc s (sy_tickets s ! i) Expired" by (simp add: settled_ok_def)
  show ?thesis
  proof (cases "rg_channels (sy_registry s) ! i")
    case (Sent d')
    then have "d' = d" using assms(3) t by (simp add: wait_poll_def)
    with Sent t show ?thesis by blast
  qed (use assms(3) t expired in \<open>auto simp: wait_poll_def split: if_splits\<close>)
qed

lemma nth_update_cases: "xs[i := x] ! j = y \<Longrightarrow> j < length xs \<Longrightarrow> i = j \<and> y = x \<or> xs ! j = y"
  by (cases "i = j") auto

lemma wait_finish_fields:
  "rg_audit (wait_finish t d r) = rg_audit r"
  "length (rg_channels (wait_finish t d r)) = length (rg_channels r)"
  "rg_channels (wait_finish t d r) ! i = Sent d' \<Longrightarrow> i < length (rg_channels r) \<Longrightarrow> rg_channels r ! i = Sent d'"
  "map_of (rg_pending (wait_finish t d r)) key = Some p \<Longrightarrow> map_of (rg_pending r) key = Some p"
  "set (rg_log (wait_finish t d r)) = set (rg_log r) \<union>
     (if d \<noteq> Superseded \<and> rg_audit r
      then {plan_event (tk_request_id t) (tk_user_id t) (tk_channel_id t) d (tk_caps t)} else {})"
  by (auto simp: wait_finish_def Let_def split: option.splits if_splits dest: delete_sub
      dest!: nth_update_cases)

lemma return_inv:
  assumes inv: "gate_inv ulc s" and i: "i < length (sy_tickets s)"
    and ph: "tr_phase (sy_tickets s ! i) = Decided d"
  shows "gate_inv ulc ((set_phase i (Returned d) s)
      \<lparr>sy_registry := wait_finish (tr_ticket (sy_tickets s ! i)) d (sy_registry s)\<rparr>)"
    (is "gate_inv ulc ?s'")
proof (rule gate_inv_frame [OF inv])
  let ?tr = "sy_tickets s ! i"
  have ok: "settled_ok ulc s ?tr d" using inv_ticket [OF inv i] ph by (simp add: phase_ok_def)
  have "settled_ok ulc ?s' (?tr\<lparr>tr_phase := Returned d\<rparr>) d"
    using ok by (rule settled_ok_mono) (auto simp: set_phase_def wait_finish_fields(1,2,5))
  moreover have "rg_audit (sy_registry s) \<Longrightarrow> plan_logged (rg_log (sy_registry ?s')) (tr_ticket ?tr) d"
    using ok by (cases "d = Superseded") (auto simp: plan_logged_def wait_finish_fields(1,2,5) settled_ok_def)
  ultimately have new: "phase_ok ulc ?s' (?tr\<lparr>tr_phase := Returned d\<rparr>)"
    by (simp add: phase_ok_def wait_finish_fields(1))
  fix j
  assume j: "j < length (sy_tickets s)"
  show "tr_ticket (sy_tickets ?s' ! j) = tr_ticket (sy_tickets s ! j)
      \<and> tr_begun (sy_tickets ?s' ! j) = tr_begun (sy_tickets s ! j)"
    using j by (cases "i = j") (auto simp: set_phase_def)
  show "sy_tickets ?s' ! j = sy_tickets s ! j \<or> phase_ok ulc ?s' (sy_tickets ?s' ! j)"
    using j new by (cases "i = j") (auto simp: set_phase_def)
  fix d'
  assume "rg_channels (sy_registry ?s') ! j = Sent d'"
  then show "rg_channels (sy_registry s) ! j = Sent d' \<or> settled_ok ulc ?s' (sy_tickets ?s' ! j) d'"
    using j inv_channels [OF inv] by (auto dest: wait_finish_fields(3))
qed (auto simp: set_phase_def wait_finish_fields(1,2,5) dest: wait_finish_fields(4))

text \<open>A reply: only the sender of the pending entry settles it, and only before the deadline.\<close>

lemma submit_reply_cases:
  assumes "submit_reply ulc now u c text r = (out, r')"
  shows "r' = r \<and> (\<forall>rid d. out \<noteq> Settled rid d)
    \<or> (\<exists>p rep. map_of (rg_pending r) (c, u) = Some p \<and> pa_user_id p = u \<and> pa_channel_id p = c
        \<and> now < pa_deadline p \<and> classify_reply ulc text = rep \<and> rep \<noteq> Unrecognised
        \<and> out = Settled (pa_request_id p) (reply_decision rep)
        \<and> r' = settle_send (pa_settle p) (reply_decision rep)
             (r\<lparr>rg_pending := AList.update (c, u) (p\<lparr>pa_settle := None\<rparr>) (rg_pending r)\<rparr>))"
  using assms
  by (auto simp: submit_reply_def Let_def not_le split: option.splits if_splits reply.splits)

lemma reply_inv:
  assumes inv: "gate_inv ulc s" and r: "submit_reply ulc (sy_now s) u c text (sy_registry s) = (out, r)"
  shows "gate_inv ulc (s\<lparr>sy_registry := r, sy_replies := sy_replies s @ [(sy_now s, u, c, text)]\<rparr>)"
    (is "gate_inv ulc ?s'")
proof (cases "r = sy_registry s")
  case True
  then show ?thesis by (intro gate_inv_frame [OF inv]) auto
next
  case False
  obtain p where p: "map_of (rg_pending (sy_registry s)) (c, u) = Some p"
    "sy_now s < pa_deadline p" "classify_reply ulc text \<noteq> Unrecognised"
    and r': "r = settle_send (pa_settle p) (reply_decision (classify_reply ulc text))
        ((sy_registry s)\<lparr>rg_pending := AList.update (c, u) (p\<lparr>pa_settle := None\<rparr>)
           (rg_pending (sy_registry s))\<rparr>)"
    using submit_reply_cases [OF r] False by auto
  have e: "entry_of s (c, u) p" using inv p(1) by (rule inv_entry)
  have sent: "settled_ok ulc ?s' (sy_tickets s ! i) (reply_decision (classify_reply ulc text))"
    if i: "pa_settle p = Some i" for i
  proof -
    let ?tr = "sy_tickets s ! i"
    have tr: "i < length (sy_tickets s)" "tk_user_id (tr_ticket ?tr) = u" "tk_channel_id (tr_ticket ?tr) = c"
      "pa_deadline p = tr_begun ?tr + tk_timeout (tr_ticket ?tr)"
      using e i by (auto simp: entry_of_def Let_def)
    then have "tr_begun ?tr \<le> sy_now s" using inv_ticket [OF inv] by blast
    with tr p(2) show ?thesis
      by (auto simp: settled_ok_def approved_by_def reply_decision_def)
  qed
  show ?thesis
  proof (rule gate_inv_frame [OF inv])
    fix j d
    assume j: "j < length (sy_tickets s)" and "rg_channels (sy_registry ?s') ! j = Sent d"
    then show "rg_channels (sy_registry s) ! j = Sent d \<or> settled_ok ulc ?s' (sy_tickets ?s' ! j) d"
      using sent inv_channels [OF inv]
      by (cases "pa_settle p") (auto simp: r' dest!: nth_update_cases)
  next
    fix key q
    assume "map_of (rg_pending (sy_registry ?s')) key = Some q"
    then show "map_of (rg_pending (sy_registry s)) key = Some q \<or> entry_of s key q"
      using e by (auto simp: r' entry_of_def dest!: update_sub)
  qed (auto simp: r' split: option.split)
qed

lemma supersede_inv:
  assumes inv: "gate_inv ulc s"
  shows "gate_inv ulc (s\<lparr>sy_registry := supersede key (sy_registry s)\<rparr>)" (is "gate_inv ulc ?s'")
proof (cases "map_of (rg_pending (sy_registry s)) key")
  case None
  then show ?thesis using inv by (simp add: supersede_def)
next
  case (Some old)
  have e: "entry_of s key old" using inv Some by (rule inv_entry)
  have sent: "settled_ok ulc ?s' (sy_tickets s ! i) Superseded" if "pa_settle old = Some i" for i
    using e that by (auto simp: settled_ok_def plan_logged_def supersede_def Some entry_of_def Let_def)
  show ?thesis
  proof (rule gate_inv_frame [OF inv])
    fix j d
    assume j: "j < length (sy_tickets s)" and "rg_channels (sy_registry ?s') ! j = Sent d"
    then show "rg_channels (sy_registry s) ! j = Sent d \<or> settled_ok ulc ?s' (sy_tickets ?s' ! j) d"
      using sent inv_channels [OF inv]
      by (cases "pa_settle old") (auto simp: supersede_def Some dest!: nth_update_cases)
  qed (auto simp: supersede_def Some split: option.split dest: delete_sub)
qed

lemma begin_inv:
  assumes inv: "gate_inv ulc s"
    and b: "begin_approval (sy_now s) rid u c caps timeout (sy_registry s) = (t, r)"
  shows "gate_inv ulc (s\<lparr>sy_registry := r,
      sy_tickets := sy_tickets s @ [\<lparr>tr_ticket = t, tr_begun = sy_now s, tr_phase = Held\<rparr>]\<rparr>)"
    (is "gate_inv ulc ?s'")
proof -
  let ?r1 = "supersede (c, u) (sy_registry s)"
  let ?s1 = "s\<lparr>sy_registry := ?r1\<rparr>"
  let ?new = "\<lparr>tr_ticket = t, tr_begun = sy_now s, tr_phase = Held\<rparr>"
  have i1: "gate_inv ulc ?s1" using inv by (rule supersede_inv)
  note len = inv_channels [OF i1, simplified]
  have t: "t = \<lparr>tk_request_id = rid, tk_user_id = u, tk_channel_id = c, tk_caps = caps,
      tk_timeout = timeout, tk_settled = length (sy_tickets s)\<rparr>"
    and r: "rg_channels r = rg_channels ?r1 @ [Open]" "rg_log r = rg_log ?r1" "rg_audit r = rg_audit ?r1"
      "rg_pending r = AList.update (c, u) \<lparr>pa_request_id = rid, pa_user_id = u, pa_channel_id = c,
        pa_settle = Some (length (sy_tickets s)), pa_deadline = sy_now s + timeout, pa_caps = caps\<rparr>
        (rg_pending ?r1)"
    using b len by (auto simp: begin_approval_def Let_def)
  have old_settled: "settled_ok ulc ?s1 tr d \<Longrightarrow> settled_ok ulc ?s' tr d" for tr d
    by (rule settled_ok_mono) (auto simp: r)
  have old_phase: "phase_ok ulc ?s1 tr \<Longrightarrow> phase_ok ulc ?s' tr" for tr
    by (rule phase_ok_mono) (auto simp: r)
  have old_entry: "entry_of ?s1 key p \<Longrightarrow> entry_of ?s' key p" for key p
    by (auto simp: entry_of_def Let_def nth_append split: option.splits)
  show ?thesis
    unfolding gate_inv_def
  proof (intro conjI allI impI)
    show "length (rg_channels (sy_registry ?s')) = length (sy_tickets ?s')" using len by (simp add: r)
  next
    fix i
    assume "i < length (sy_tickets ?s')"
    then consider (old) "i < length (sy_tickets s)" | (new) "i = length (sy_tickets s)" by force
    then have "tk_settled (tr_ticket (sy_tickets ?s' ! i)) = i \<and> tr_begun (sy_tickets ?s' ! i) \<le> sy_now ?s'
        \<and> phase_ok ulc ?s' (sy_tickets ?s' ! i)
        \<and> (\<forall>d. rg_channels (sy_registry ?s') ! i = Sent d \<longrightarrow> settled_ok ulc ?s' (sy_tickets ?s' ! i) d)"
    proof cases
      case old
      then show ?thesis
        using inv_ticket [OF i1, of i] old_settled old_phase len by (auto simp: r nth_append)
    next
      case new
      then show ?thesis using len by (simp add: t r nth_append phase_ok_def)
    qed
    then show "tk_settled (tr_ticket (sy_tickets ?s' ! i)) = i" "tr_begun (sy_tickets ?s' ! i) \<le> sy_now ?s'"
      "phase_ok ulc ?s' (sy_tickets ?s' ! i)"
      "\<And>d. rg_channels (sy_registry ?s') ! i = Sent d \<Longrightarrow> settled_ok ulc ?s' (sy_tickets ?s' ! i) d"
      by blast+
  next
    fix key p
    assume "map_of (rg_pending (sy_registry ?s')) key = Some p"
    then consider (new) "key = (c, u)" "p = \<lparr>pa_request_id = rid, pa_user_id = u, pa_channel_id = c,
        pa_settle = Some (length (sy_tickets s)), pa_deadline = sy_now s + timeout, pa_caps = caps\<rparr>"
      | (old) "map_of (rg_pending ?r1) key = Some p"
      by (auto simp: r dest!: update_sub)
    then show "entry_of ?s' key p"
    proof cases
      case new
      then show ?thesis by (simp add: entry_of_def t)
    next
      case old
      then show ?thesis using inv_entry [OF i1] old_entry by simp
    qed
  qed
qed

lemma gate_step_inv: "gate_step ulc s s' \<Longrightarrow> gate_inv ulc s \<Longrightarrow> gate_inv ulc s'"
proof (induction rule: gate_step.induct)
  case (Tick s k)
  then show ?case by (rule tick_inv)
next
  case (Begin s rid u c caps timeout t r)
  then show ?case by (simp only: begin_inv)
next
  case (Reply s u c msg out r)
  then show ?case by (simp only: reply_inv)
next
  case (Wait i s)
  then show ?case by (intro set_phase_inv) (simp_all add: phase_ok_def)
next
  case (Decide i s start d)
  then have "settled_ok ulc s (sy_tickets s ! i) d" by (simp only: poll_settled_ok)
  then have "settled_ok ulc s ((sy_tickets s ! i)\<lparr>tr_phase := Decided d\<rparr>) d"
    by (rule settled_ok_mono) simp_all
  with Decide show ?case by (intro set_phase_inv) (simp_all add: phase_ok_def)
next
  case (Return i s d)
  then show ?case by (simp only: return_inv)
qed

lemma gate_reachable_inv: "gate_reachable ulc audit s \<Longrightarrow> gate_inv ulc s \<and> rg_audit (sy_registry s) = audit"
proof (induction rule: gate_reachable.induct)
  case Init
  then show ?case by (simp add: gate_inv_def gate_init_def new_registry_def)
next
  case (Step s s')
  have "rg_audit (sy_registry s') = rg_audit (sy_registry s)"
    using Step(2)
    by (cases rule: gate_stepE)
      (auto simp: set_phase_def wait_finish_fields(1) begin_approval_def Let_def supersede_def
        split: option.splits dest!: submit_reply_cases)
  with Step gate_step_inv show ?case by metis
qed

subsection \<open>The guarantees of the gate\<close>

text \<open>A short run to evaluate: one request, a reply, the wait and its return.\<close>

definition demo_caps :: approved_caps where
  "demo_caps = \<lparr>ac_spend_micro_usd = Some 5000000, ac_latency_seconds = None, ac_due = None\<rparr>"

definition demo_begun :: gate_system where
  "demo_begun =
     (let (t, r) = begin_approval 0 ''r1'' ''u'' ''c'' demo_caps 100 (new_registry True)
      in (gate_init True)\<lparr>sy_registry := r, sy_tickets := [\<lparr>tr_ticket = t, tr_begun = 0, tr_phase = Held\<rparr>]\<rparr>)"

definition demo_replied :: gate_system where
  "demo_replied =
     demo_begun\<lparr>sy_registry := snd (submit_reply (\<lambda>s. s) 0 ''u'' ''c'' ''Yes!'' (sy_registry demo_begun)),
       sy_replies := [(0, ''u'', ''c'', ''Yes!'')]\<rparr>"

definition demo_waiting :: gate_system where
  "demo_waiting = set_phase 0 (Waiting 0) demo_replied"

definition demo_decided :: gate_system where
  "demo_decided = set_phase 0 (Decided Approved) demo_waiting"

definition demo_returned :: gate_system where
  "demo_returned = (set_phase 0 (Returned Approved) demo_decided)
     \<lparr>sy_registry := wait_finish (tr_ticket (sy_tickets demo_decided ! 0)) Approved (sy_registry demo_decided)\<rparr>"

lemma demo_steps:
  "gate_step (\<lambda>s. s) (gate_init True) demo_begun"
  "gate_step (\<lambda>s. s) demo_begun demo_replied"
  "gate_step (\<lambda>s. s) demo_replied demo_waiting"
  "gate_step (\<lambda>s. s) demo_waiting demo_decided"
  "gate_step (\<lambda>s. s) demo_decided demo_returned"
proof -
  obtain t r where b: "begin_approval 0 ''r1'' ''u'' ''c'' demo_caps 100 (new_registry True) = (t, r)" by force
  then have "begin_approval (sy_now (gate_init True)) ''r1'' ''u'' ''c'' demo_caps 100
      (sy_registry (gate_init True)) = (t, r)" by (simp add: gate_init_def)
  from gate_step.Begin [OF this] show "gate_step (\<lambda>s. s) (gate_init True) demo_begun"
    by (simp add: demo_begun_def b gate_init_def)
  have t: "sy_now demo_begun = 0" "sy_replies demo_begun = []" by code_simp+
  obtain out r where r: "submit_reply (\<lambda>s. s) 0 ''u'' ''c'' ''Yes!'' (sy_registry demo_begun) = (out, r)" by force
  then have "submit_reply (\<lambda>s. s) (sy_now demo_begun) ''u'' ''c'' ''Yes!'' (sy_registry demo_begun) = (out, r)"
    by (simp add: t)
  from gate_step.Reply [OF this] show "gate_step (\<lambda>s. s) demo_begun demo_replied"
    by (simp add: demo_replied_def r t)
  have "0 < length (sy_tickets demo_replied)" "tr_phase (sy_tickets demo_replied ! 0) = Held"
    "sy_now demo_replied = 0" by code_simp+
  then show "gate_step (\<lambda>s. s) demo_replied demo_waiting"
    using gate_step.Wait [of 0 demo_replied] by (simp add: demo_waiting_def)
  have "0 < length (sy_tickets demo_waiting)" "tr_phase (sy_tickets demo_waiting ! 0) = Waiting 0"
    "wait_poll 0 (sy_now demo_waiting) (tr_ticket (sy_tickets demo_waiting ! 0)) (sy_registry demo_waiting)
       = Some Approved" by code_simp+
  from gate_step.Decide [OF this] show "gate_step (\<lambda>s. s) demo_waiting demo_decided"
    by (simp add: demo_decided_def)
  have "0 < length (sy_tickets demo_decided)" "tr_phase (sy_tickets demo_decided ! 0) = Decided Approved"
    by code_simp+
  from gate_step.Return [OF this] show "gate_step (\<lambda>s. s) demo_decided demo_returned"
    by (simp add: demo_returned_def)
qed

lemma demo_reachable:
  shows demo_waiting_reachable: "gate_reachable (\<lambda>s. s) True demo_waiting"
    and demo_decided_reachable: "gate_reachable (\<lambda>s. s) True demo_decided"
    and demo_returned_reachable: "gate_reachable (\<lambda>s. s) True demo_returned"
proof -
  have "gate_reachable (\<lambda>s. s) True demo_begun" using gate_reachable.Init demo_steps(1) by (rule gate_reachable.Step)
  then have "gate_reachable (\<lambda>s. s) True demo_replied" using demo_steps(2) by (rule gate_reachable.Step)
  then show w: "gate_reachable (\<lambda>s. s) True demo_waiting" using demo_steps(3) by (rule gate_reachable.Step)
  show d: "gate_reachable (\<lambda>s. s) True demo_decided" using w demo_steps(4) by (rule gate_reachable.Step)
  show "gate_reachable (\<lambda>s. s) True demo_returned" using d demo_steps(5) by (rule gate_reachable.Step)
qed

text \<open>C1: Silence is never consent. In every reachable state of the gate, however replies,
  requests, timeouts and the clock interleave, a ticket whose decision lets a run spend has
  a reply behind it that its own sender gave on its own channel, that reads as a yes, and
  that came after the request began and before it expired.\<close>

theorem no_spend_without_a_yes:
  assumes "gate_reachable ulc audit s" and "i < length (sy_tickets s)"
    and "tr_phase (sy_tickets s ! i) = Decided d \<or> tr_phase (sy_tickets s ! i) = Returned d"
    and "may_spend d"
  shows "approved_by ulc (sy_replies s) (sy_tickets s ! i)"
proof -
  have "phase_ok ulc s (sy_tickets s ! i)"
    using gate_reachable_inv [OF assms(1)] inv_ticket assms(2) by blast
  then have "settled_ok ulc s (sy_tickets s ! i) d" using assms(3) by (auto simp: phase_ok_def)
  moreover have "d = Approved" using assms(4) by (cases d) auto
  ultimately show ?thesis by (simp add: settled_ok_def)
qed

lemma no_spend_without_a_yes_witness:
  "approved_by (\<lambda>s. s) (sy_replies demo_decided) (sy_tickets demo_decided ! 0)"
proof (rule no_spend_without_a_yes [OF demo_decided_reachable])
  show "0 < length (sy_tickets demo_decided)" by code_simp
  show "tr_phase (sy_tickets demo_decided ! 0) = Decided Approved
      \<or> tr_phase (sy_tickets demo_decided ! 0) = Returned Approved" by code_simp
  show "may_spend Approved" by simp
qed

text \<open>C13: Nothing is settled off the record: with the audit log attached, every ticket that
  returned has its decision logged with its own request, sender, channel and caps, a
  superseded one by the request that replaced it.\<close>

theorem every_decision_is_logged:
  assumes "gate_reachable ulc True s" and "i < length (sy_tickets s)"
    and "tr_phase (sy_tickets s ! i) = Returned d"
  shows "(let t = tr_ticket (sy_tickets s ! i)
    in QuarryPlanDecision (tk_request_id t) (tk_user_id t) (tk_channel_id t) (decision_code d)
         (ac_spend_micro_usd (tk_caps t)) (ac_latency_seconds (tk_caps t)) (ac_due (tk_caps t))
       \<in> set (rg_log (sy_registry s)))"
proof -
  have "gate_inv ulc s" "rg_audit (sy_registry s)" using gate_reachable_inv [OF assms(1)] by auto
  with inv_ticket [OF this(1) assms(2)] assms(3) show ?thesis
    by (auto simp: phase_ok_def plan_logged_def plan_event_def Let_def)
qed

lemma every_decision_is_logged_witness:
  "QuarryPlanDecision ''r1'' ''u'' ''c'' ''approved'' (Some 5000000) None None
     \<in> set (rg_log (sy_registry demo_returned))"
proof -
  have "0 < length (sy_tickets demo_returned)" "tr_phase (sy_tickets demo_returned ! 0) = Returned Approved"
    by code_simp+
  moreover have "tr_ticket (sy_tickets demo_returned ! 0) = \<lparr>tk_request_id = ''r1'', tk_user_id = ''u'',
      tk_channel_id = ''c'', tk_caps = demo_caps, tk_timeout = 100, tk_settled = 0\<rparr>" by code_simp
  ultimately show ?thesis
    using every_decision_is_logged [OF demo_returned_reachable, of 0 Approved] by (simp add: demo_caps_def)
qed




text \<open>Trimming ASCII text, byte by byte.\<close>

definition ws :: "char \<Rightarrow> bool" where
  "ws c \<longleftrightarrow> is_whitespace [c]"

definition punct :: "char \<Rightarrow> bool" where
  "punct c \<longleftrightarrow> c \<in> set ''.!?,''"

lemma dropWhile_map: "dropWhile P (map f xs) = map f (dropWhile (\<lambda>x. P (f x)) xs)"
  by (induction xs) auto

lemma concat_singletons: "concat (map (\<lambda>c. [c]) s) = s"
  by (induction s) auto

lemma trim_start_bytes: "list_all is_ascii s \<Longrightarrow> trim_start s = dropWhile ws s"
  by (simp add: trim_start_def chars_ascii dropWhile_map concat_singletons ws_def [abs_def])

lemma trim_end_bytes: "list_all is_ascii s \<Longrightarrow> trim_end s = rev (dropWhile ws (rev s))"
  by (simp add: trim_end_def chars_ascii rev_map dropWhile_map concat_singletons ws_def [abs_def])

lemma trim_punct_bytes:
  "list_all is_ascii s \<Longrightarrow> trim_end_matches [''.'', ''!'', ''?'', '',''] s = rev (dropWhile punct (rev s))"
  by (simp add: trim_end_matches_def chars_ascii rev_map dropWhile_map concat_singletons
      punct_def [abs_def])

lemma dropWhile_prefix: "\<forall>x \<in> set xs. P x \<Longrightarrow> ys \<noteq> [] \<Longrightarrow> \<not> P (hd ys) \<Longrightarrow> dropWhile P (xs @ ys) = ys"
  by (induction xs) (cases ys, auto)

lemma trimmed_reply:
  assumes a: "list_all is_ascii (l @ w @ ps @ r)" and w: "w \<noteq> []" "\<forall>c \<in> set w. \<not> ws c" "\<not> punct (last w)"
    and l: "\<forall>c \<in> set (l @ r). ws c" and ps: "\<forall>c \<in> set ps. punct c"
  shows "trim_end_matches [''.'', ''!'', ''?'', '',''] (trim (l @ w @ ps @ r)) = w"
proof -
  have pw: "punct c \<Longrightarrow> \<not> ws c" for c by (auto simp: punct_def ws_def is_whitespace_def byte_def)
  have "trim_start (l @ w @ ps @ r) = w @ ps @ r"
    unfolding trim_start_bytes [OF a] using l w(1,2) by (intro dropWhile_prefix) auto
  moreover have "trim_end (w @ ps @ r) = w @ ps"
  proof -
    have "\<not> ws (hd (rev (w @ ps)))"
      using w(1,2) ps pw by (cases ps rule: rev_cases) (auto simp: hd_rev)
    then have "dropWhile ws (rev r @ rev (w @ ps)) = rev (w @ ps)"
      using l w(1) by (intro dropWhile_prefix) auto
    then show ?thesis using a by (simp add: trim_end_bytes)
  qed
  moreover have "dropWhile punct (rev ps @ rev w) = rev w"
    using ps w by (intro dropWhile_prefix) (auto simp: hd_rev)
  ultimately show ?thesis using a by (simp add: trim_def trim_punct_bytes)
qed

text \<open>Replies are read forgivingly in shape and strictly in meaning: white space around
  one word, punctuation after it and its case do not matter, and the word then counts only
  if it is in the vocabulary; every other single word is neither a yes nor a no.\<close>

theorem reply_shape_does_not_matter:
  assumes "list_all is_ascii (l @ w @ ps @ r)"
    and "w \<noteq> []" and "\<forall>c \<in> set w. \<not> ws c" and "\<not> punct (last w)"
    and "\<forall>c \<in> set (l @ r). ws c" and "\<forall>c \<in> set ps. punct c"
  shows "classify_reply ulc (l @ w @ ps @ r)
    = (if map ascii_lower w \<in> set APPROVE_WORDS then Approve
       else if map ascii_lower w \<in> set CANCEL_WORDS then Cancel else Unrecognised)"
proof -
  have aw: "list_all is_ascii w" using assms(1) by simp
  then have low: "to_lowercase ulc w = map ascii_lower w" by (simp add: to_lowercase_def)
  have "ws (ascii_lower c) = ws c" for c
    by (auto simp: ws_def is_whitespace_def ascii_lower_def byte_def)
  then have "\<not> list_ex is_whitespace (chars (map ascii_lower w))"
    using assms(3) to_lowercase_ascii [OF aw, of ulc] low
    by (auto simp: chars_ascii list_ex_iff ws_def)
  then show ?thesis
    using trimmed_reply [OF assms(1-6)] by (simp add: classify_reply_def low)
qed

lemma reply_shape_does_not_matter_witness:
  "classify_reply (\<lambda>s. s) (''  '' @ ''Yes'' @ ''!!'' @ '' '') = Approve"
proof -
  have "map ascii_lower ''Yes'' = ''yes''" by code_simp
  moreover have "''yes'' \<in> set APPROVE_WORDS" by (simp add: APPROVE_WORDS_def)
  ultimately show ?thesis
    by (subst reply_shape_does_not_matter)
      (simp_all add: is_ascii_def byte_def ws_def is_whitespace_def punct_def)
qed

text \<open>A second answer before the run has woken up is acknowledged but has no effect: after
  a yes, a no is reported to the sender as a cancellation although the channel already holds
  the approval, so the run goes on.\<close>

theorem second_answer_is_reported_but_ignored:
  assumes "map_of (rg_pending r) (c, u) = Some p" and "pa_user_id p = u" and "pa_channel_id p = c"
    and "pa_settle p = Some i" and "i < length (rg_channels r)"
    and "now \<le> now'" and "now' < pa_deadline p"
    and "classify_reply ulc yes = Approve" and "classify_reply ulc no = Cancel"
  shows "(let (out1, r1) = submit_reply ulc now u c yes r;
              (out2, r2) = submit_reply ulc now' u c no r1
          in out1 = Settled (pa_request_id p) Approved \<and> out2 = Settled (pa_request_id p) Cancelled
             \<and> rg_channels r2 ! i = Sent Approved)"
  using assms
  by (simp add: submit_reply_def Let_def AList.update_conv' reply_decision_def settle_send_def)

lemma second_answer_is_reported_but_ignored_witness:
  "(let r = snd (begin_approval 0 ''r1'' ''u'' ''c'' demo_caps 100 (new_registry True));
        (out1, r1) = submit_reply (\<lambda>s. s) 1 ''u'' ''c'' ''yes'' r;
        (out2, r2) = submit_reply (\<lambda>s. s) 2 ''u'' ''c'' ''no'' r1
    in out2 = Settled ''r1'' Cancelled \<and> rg_channels r2 ! 0 = Sent Approved)"
proof -
  define r where "r = snd (begin_approval 0 ''r1'' ''u'' ''c'' demo_caps 100 (new_registry True))"
  define p where "p = \<lparr>pa_request_id = ''r1'', pa_user_id = ''u'', pa_channel_id = ''c'', pa_settle = Some 0,
    pa_deadline = 100, pa_caps = demo_caps\<rparr>"
  have "map_of (rg_pending r) (''c'', ''u'') = Some p" "0 < length (rg_channels r)"
    by (simp_all add: r_def p_def begin_approval_def new_registry_def supersede_def)
  moreover have "classify_reply (\<lambda>s. s) ''yes'' = Approve" "classify_reply (\<lambda>s. s) ''no'' = Cancel"
    by code_simp+
  ultimately show ?thesis
    using second_answer_is_reported_but_ignored [of r "''c''" "''u''" p 0 1 2 "\<lambda>s. s" "''yes''" "''no''"]
    unfolding r_def [symmetric] by (simp add: p_def Let_def case_prod_beta)
qed

text \<open>A new request that arrives after a yes and before the run has woken up logs the approved
  request as superseded, although its ticket then returns, and logs, the approval.\<close>

lemma approved_request_logged_as_superseded:
  "(let (t, r) = begin_approval 0 ''r1'' ''u'' ''c'' demo_caps 100 (new_registry True);
        r = snd (submit_reply (\<lambda>s. s) 1 ''u'' ''c'' ''yes'' r);
        r = snd (begin_approval 2 ''r2'' ''u'' ''c'' demo_caps 100 r)
    in wait_poll 0 3 t r = Some Approved
       \<and> rg_log (wait_finish t Approved r)
         = [plan_event ''r1'' ''u'' ''c'' Superseded demo_caps, plan_event ''r1'' ''u'' ''c'' Approved demo_caps])"
  by code_simp

end
