(* ===== verification/Verify.thy ===== *)
theory Verify
  imports Audit_Log "HOL-Library.AList"
begin

section \<open>Signed-binary verification at the spawn path (\<open>src/quarry/verify.rs\<close>)\<close>

text \<open>
  The capability manifest and its check, the reasons a spawn is refused, and the gate every
  spawn passes. The file system is the record \<open>os\<close> of what one check sees of it; the SHA-256
  of a file's bytes, in hex, is the parameter \<open>sha256\<close>. The signature verifier is a trait
  with no implementation in this repository and is a field of the gate. \<open>parse_json\<close> and
  \<open>serde_msg\<close> are serde's parser and the text of its shape errors. Trace output is left out.
\<close>

subsection \<open>Paths\<close>

definition is_absolute :: "string \<Rightarrow> bool" where
  "is_absolute p \<longleftrightarrow> starts_with ''/'' p"

text \<open>\<open>Path::components\<close> on Unix: repeated separators and inner \<open>.\<close> segments vanish, a
  leading \<open>.\<close> stays.\<close>

definition path_components :: "string \<Rightarrow> string list" where
  "path_components p =
     (let segs = split_on (CHR ''/'') p;
          named = filter (\<lambda>s. s \<noteq> [] \<and> s \<noteq> ''.'')
      in if is_absolute p then ''/'' # named segs
         else (case segs of
                 s # ss \<Rightarrow> (if s = ''.'' then [''.''] else named [s]) @ named ss
               | [] \<Rightarrow> []))"

text \<open>\<open>Path::parent\<close>, on the reversed text: trailing separators and \<open>.\<close> segments are not
  part of it.\<close>

fun trim_seps :: "string \<Rightarrow> string" where
  "trim_seps (c # d # cs) =
     (if c = CHR ''/'' then trim_seps (d # cs)
      else if c = CHR ''.'' \<and> d = CHR ''/'' then trim_seps (d # cs)
      else c # d # cs)"
| "trim_seps cs = cs"

definition path_parent :: "string \<Rightarrow> string option" where
  "path_parent p =
     (if path_components p = [] \<or> path_components p = [''/''] then None
      else Some (rev (trim_seps (dropWhile (\<lambda>c. c \<noteq> CHR ''/'') (trim_seps (rev p))))))"

definition path_join :: "string \<Rightarrow> string \<Rightarrow> string" where
  "path_join dir name =
     (if is_absolute name then name
      else if dir = [] \<or> last dir = CHR ''/'' then dir @ name
      else dir @ ''/'' @ name)"

record os =
  os_canonicalize :: "string \<Rightarrow> string option"
  os_metadata :: "string \<Rightarrow> string + bool"
  os_path_var :: "string option"
  os_access_write :: "string \<Rightarrow> bool"
  os_read_bytes :: "string \<Rightarrow> string + string"
  os_read_text :: "string \<Rightarrow> string + string"

subsection \<open>The manifest\<close>

record raw_capability =
  rwc_kind :: string
  rwc_port :: "nat option"
  rwc_host :: "string option"
  rwc_path :: "string option"

record capability_manifest =
  cm_schema :: string
  cm_capabilities :: "raw_capability list"

definition MANIFEST_SCHEMA :: string where
  "MANIFEST_SCHEMA = ''quarry-capability-manifest/1''"

text \<open>\<open>#[serde(deny_unknown_fields)]\<close>.\<close>

definition de_known_fields :: "string list \<Rightarrow> json \<Rightarrow> (string \<times> json) list option" where
  "de_known_fields names v = Option.bind (de_fields names v) (\<lambda>m.
     if list_all (\<lambda>(k, _). k \<in> set names) m then Some m else None)"

definition de_raw_capability :: "json \<Rightarrow> raw_capability option" where
  "de_raw_capability v = Option.bind (de_known_fields [''kind'', ''port'', ''host'', ''path''] v) (\<lambda>m.
     Option.bind (req m ''kind'' as_str) (\<lambda>k.
     Option.bind (dflt m ''port'' (de_option (de_uint 16)) None) (\<lambda>po.
     Option.bind (dflt m ''host'' (de_option as_str) None) (\<lambda>h.
     Option.bind (dflt m ''path'' (de_option as_str) None) (\<lambda>pa.
     Some \<lparr>rwc_kind = k, rwc_port = po, rwc_host = h, rwc_path = pa\<rparr>)))))"

definition de_manifest :: "json \<Rightarrow> capability_manifest option" where
  "de_manifest v = Option.bind (de_known_fields [''schema'', ''capabilities''] v) (\<lambda>m.
     Option.bind (req m ''schema'' as_str) (\<lambda>s.
     Option.bind (req m ''capabilities'' (de_vec de_raw_capability)) (\<lambda>cs.
     Some \<lparr>cm_schema = s, cm_capabilities = cs\<rparr>)))"

definition LOOPBACK_HOSTS :: "string list" where
  "LOOPBACK_HOSTS = [''127.0.0.1'', ''localhost'', ''::1'', ''[::1]'']"

record verification_config =
  vc_enabled :: bool
  vc_expected_identity :: string
  vc_expected_issuer :: string
  vc_cosign_path :: string
  vc_allow_writable_binary :: bool
  vc_manifest_path :: string

definition default_verification_config :: verification_config where
  "default_verification_config =
     \<lparr>vc_enabled = True, vc_expected_identity = [], vc_expected_issuer = [], vc_cosign_path = ''cosign'',
      vc_allow_writable_binary = False, vc_manifest_path = []\<rparr>"

definition development_config :: verification_config where
  "development_config = default_verification_config
     \<lparr>vc_enabled := False, vc_allow_writable_binary := True\<rparr>"

definition development_manifest_json :: "nat \<Rightarrow> string \<Rightarrow> json" where
  "development_manifest_json gateway_port run_record_dir =
     JObject [(''schema'', JString MANIFEST_SCHEMA),
       (''capabilities'', JArray
         [JObject [(''kind'', JString ''localhost-egress''), (''port'', JInt (int gateway_port)),
                   (''host'', JString ''127.0.0.1'')],
          JObject [(''kind'', JString ''writable-dir''), (''path'', JString run_record_dir)]])]"

record expected_capabilities =
  ec_gateway_port :: "nat option"
  ec_run_record_dir :: string

datatype manifest_fault =
    UnknownSchema string
  | Overbroad string
  | Missing string
  | Duplicate string
  | NonLoopbackHost string
  | EgressPortMissing
  | WrongEgressPort nat nat
  | GatewayPortUnknown
  | WritableDirMissing
  | WrongWritableDir string string

fun manifest_fault_code :: "manifest_fault \<Rightarrow> string" where
  "manifest_fault_code (UnknownSchema _) = ''manifest_unknown_schema''"
| "manifest_fault_code (Overbroad _) = ''manifest_overbroad''"
| "manifest_fault_code (Missing _) = ''manifest_missing_capability''"
| "manifest_fault_code (Duplicate _) = ''manifest_duplicate_capability''"
| "manifest_fault_code (NonLoopbackHost _) = ''manifest_non_loopback_host''"
| "manifest_fault_code EgressPortMissing = ''manifest_egress_port_missing''"
| "manifest_fault_code (WrongEgressPort _ _) = ''manifest_wrong_egress_port''"
| "manifest_fault_code GatewayPortUnknown = ''manifest_gateway_port_unknown''"
| "manifest_fault_code WritableDirMissing = ''manifest_writable_dir_missing''"
| "manifest_fault_code (WrongWritableDir _ _) = ''manifest_wrong_writable_dir''"

definition apostrophe :: string where
  "apostrophe = [CHR 0x27]"

definition quoted :: "string \<Rightarrow> string" where
  "quoted s = apostrophe @ s @ apostrophe"

fun manifest_fault_display :: "manifest_fault \<Rightarrow> string" where
  "manifest_fault_display (UnknownSchema found) =
     ''manifest schema '' @ quoted found @ '' is not understood (expected '' @ quoted MANIFEST_SCHEMA @ '')''"
| "manifest_fault_display (Overbroad capability) =
     ''manifest declares '' @ quoted capability @ '', which is outside quarry'' @ apostrophe
     @ ''s contract of localhost egress to the gateway plus one writable run-record directory''"
| "manifest_fault_display (Missing kind) =
     ''manifest does not declare the required '' @ quoted kind @ '' capability''"
| "manifest_fault_display (Duplicate kind) =
     ''manifest declares '' @ quoted kind @ '' more than once; quarry'' @ apostrophe
     @ ''s contract allows exactly one''"
| "manifest_fault_display (NonLoopbackHost host) =
     ''manifest declares egress to '' @ quoted host
     @ '', which is not loopback; quarry may reach only this gateway''"
| "manifest_fault_display EgressPortMissing = ''manifest declares localhost egress with no port''"
| "manifest_fault_display (WrongEgressPort declared expected) =
     ''manifest declares egress to port '' @ show_nat declared @ '', but this gateway listens on ''
     @ show_nat expected"
| "manifest_fault_display GatewayPortUnknown =
     ''the supervisor was not told this gateway'' @ apostrophe @ ''s HTTP port, so the manifest'' @ apostrophe
     @ ''s declared egress port cannot be checked; refused rather than accepted''"
| "manifest_fault_display WritableDirMissing = ''manifest declares a writable directory with no path''"
| "manifest_fault_display (WrongWritableDir declared expected) =
     ''manifest declares '' @ quoted declared @ '' writable, but quarry'' @ apostrophe
     @ ''s run-record directory is '' @ quoted expected"

text \<open>The scan over the declared capabilities: at most one of each kind, nothing else.\<close>

fun scan_capabilities ::
    "raw_capability option \<Rightarrow> raw_capability option \<Rightarrow> raw_capability list
     \<Rightarrow> manifest_fault + (raw_capability option \<times> raw_capability option)" where
  "scan_capabilities egress writable [] = Ok (egress, writable)"
| "scan_capabilities egress writable (cap # caps) =
     (if rwc_kind cap = ''localhost-egress'' then
        (if egress \<noteq> None then Err (Duplicate (rwc_kind cap)) else scan_capabilities (Some cap) writable caps)
      else if rwc_kind cap = ''writable-dir'' then
        (if writable \<noteq> None then Err (Duplicate (rwc_kind cap)) else scan_capabilities egress (Some cap) caps)
      else Err (Overbroad (rwc_kind cap)))"

definition strip_slashes :: "string \<Rightarrow> string" where
  "strip_slashes s = rev (dropWhile (\<lambda>c. c = CHR ''/'') (rev s))"

definition same_dir :: "os \<Rightarrow> string \<Rightarrow> string \<Rightarrow> bool" where
  "same_dir fs a b =
     (let pa = strip_slashes a; pb = strip_slashes b
      in case (os_canonicalize fs pa, os_canonicalize fs pb) of
           (Some ca, Some cb) \<Rightarrow> path_components ca = path_components cb
         | _ \<Rightarrow> path_components pa = path_components pb)"

definition check_manifest ::
    "os \<Rightarrow> capability_manifest \<Rightarrow> expected_capabilities \<Rightarrow> manifest_fault + unit" where
  "check_manifest fs m expected =
     (if cm_schema m \<noteq> MANIFEST_SCHEMA then Err (UnknownSchema (cm_schema m))
      else try_bind (scan_capabilities None None (cm_capabilities m)) (\<lambda>(egress, writable).
        case egress of None \<Rightarrow> Err (Missing ''localhost-egress'') | Some eg \<Rightarrow>
        case writable of None \<Rightarrow> Err (Missing ''writable-dir'') | Some wr \<Rightarrow>
        if (case rwc_host eg of None \<Rightarrow> False | Some h \<Rightarrow> h \<notin> set LOOPBACK_HOSTS)
        then Err (NonLoopbackHost (the (rwc_host eg)))
        else (case rwc_port eg of None \<Rightarrow> Err EgressPortMissing | Some port \<Rightarrow>
          case ec_gateway_port expected of
            None \<Rightarrow> Err GatewayPortUnknown
          | Some want \<Rightarrow>
              if want \<noteq> port then Err (WrongEgressPort port want)
              else (case rwc_path wr of None \<Rightarrow> Err WritableDirMissing | Some dir \<Rightarrow>
                if \<not> same_dir fs dir (ec_run_record_dir expected)
                then Err (WrongWritableDir dir (ec_run_record_dir expected))
                else Ok ()))))"

subsection \<open>The verifier and the refusals\<close>

record verify_request =
  vr_path :: string
  vr_digest :: string
  vr_expected_identity :: string
  vr_expected_issuer :: string
  vr_cosign_path :: string

record signed_material =
  sm_digest :: string
  sm_manifest_json :: string

datatype verification_refusal =
    BinaryMissing string string
  | DigestUnreadable string string
  | WritableBinary string
  | WritableBinaryDir string
  | MechanismUnavailable string
  | IdentityNotConfigured string
  | Unsigned string
  | WrongIdentity string string string
  | WrongIssuer string string string
  | TransparencyLogUnreachable string string
  | CosignUnavailable string string
  | ManifestMissing string
  | ManifestUnparseable string string
  | ManifestRejected string manifest_fault
  | DigestMismatch string string

definition SENDER_MESSAGE :: string where
  "SENDER_MESSAGE =
     ''That capability is unavailable right now. This is a configuration problem on my side, not something wrong with your request ''
     @ em_dash @ '' the operator has been notified.''"

fun verification_code :: "verification_refusal \<Rightarrow> string" where
  "verification_code (BinaryMissing _ _) = ''binary_missing''"
| "verification_code (DigestUnreadable _ _) = ''digest_unreadable''"
| "verification_code (WritableBinary _) = ''writable_binary''"
| "verification_code (WritableBinaryDir _) = ''writable_binary_dir''"
| "verification_code (MechanismUnavailable _) = ''mechanism_unavailable''"
| "verification_code (IdentityNotConfigured _) = ''identity_not_configured''"
| "verification_code (Unsigned _) = ''unsigned''"
| "verification_code (WrongIdentity _ _ _) = ''wrong_identity''"
| "verification_code (WrongIssuer _ _ _) = ''wrong_issuer''"
| "verification_code (TransparencyLogUnreachable _ _) = ''transparency_log_unreachable''"
| "verification_code (CosignUnavailable _ _) = ''cosign_unavailable''"
| "verification_code (ManifestMissing _) = ''manifest_missing''"
| "verification_code (ManifestUnparseable _ _) = ''manifest_unparseable''"
| "verification_code (ManifestRejected _ _) = ''manifest_rejected''"
| "verification_code (DigestMismatch _ _) = ''digest_mismatch''"

fun verification_digest :: "verification_refusal \<Rightarrow> string option" where
  "verification_digest (MechanismUnavailable d) = Some d"
| "verification_digest (Unsigned d) = Some d"
| "verification_digest (WrongIdentity d _ _) = Some d"
| "verification_digest (WrongIssuer d _ _) = Some d"
| "verification_digest (TransparencyLogUnreachable d _) = Some d"
| "verification_digest (ManifestMissing d) = Some d"
| "verification_digest (ManifestUnparseable d _) = Some d"
| "verification_digest (ManifestRejected d _) = Some d"
| "verification_digest (DigestMismatch _ spawning) = Some spawning"
| "verification_digest _ = None"

definition verification_sender_message :: "verification_refusal \<Rightarrow> string" where
  "verification_sender_message _ = SENDER_MESSAGE"

fun verification_display :: "verification_refusal \<Rightarrow> string" where
  "verification_display (BinaryMissing path detail) =
     ''quarry binary not found at '' @ quoted path @ '': '' @ detail"
| "verification_display (DigestUnreadable path detail) =
     ''cannot read '' @ quoted path @ '' to compute its digest, so it cannot be verified: '' @ detail"
| "verification_display (WritableBinary path) =
     ''the quarry binary at '' @ quoted path @ '' is writable by this gateway'' @ apostrophe
     @ ''s own process, so a verified digest proves nothing about what will execute; make it read-only, or set quarry.verification.allow_writable_binary to accept the risk explicitly''"
| "verification_display (WritableBinaryDir path) =
     ''the directory '' @ quoted path @ '' holding the quarry binary is writable by this gateway'' @ apostrophe
     @ ''s own process, so the binary can be replaced by rename even while read-only; make it read-only, or set quarry.verification.allow_writable_binary to accept the risk explicitly''"
| "verification_display (MechanismUnavailable digest) =
     ''quarry.verification.enabled is true but no signature verifier is installed, so the binary with digest ''
     @ digest @ '' cannot be verified and will not be run. The verification mechanism is the signed-skills work (issue #103) and is not yet implemented in this build; until it is, set quarry.verification.enabled to false for development, understanding that runs are then unverified''"
| "verification_display (IdentityNotConfigured missing) =
     ''quarry.verification.enabled is true but '' @ missing
     @ '' is not set; an unconstrained verification would accept a signature from any Sigstore identity, which is worse than none because it succeeds''"
| "verification_display (Unsigned digest) =
     ''no signature found for the quarry binary with digest '' @ digest"
| "verification_display (WrongIdentity digest expected found) =
     ''the quarry binary with digest '' @ digest @ '' is validly signed, but by '' @ quoted found
     @ '' rather than the expected identity '' @ quoted expected
     @ ''; a signature that merely exists proves only that someone signed something''"
| "verification_display (WrongIssuer digest expected found) =
     ''the quarry binary with digest '' @ digest @ '' is validly signed, but its certificate was issued by ''
     @ quoted found @ '' rather than the expected issuer '' @ quoted expected"
| "verification_display (TransparencyLogUnreachable digest detail) =
     ''cannot reach the transparency log to prove inclusion for digest '' @ digest
     @ '', so the signature is unproven and the run is refused: '' @ detail"
| "verification_display (CosignUnavailable path detail) =
     ''cannot run the verification mechanism at '' @ quoted path @ '': '' @ detail"
| "verification_display (ManifestMissing digest) =
     ''the signed material for digest '' @ digest
     @ '' carries no capability manifest, so what the artifact is permitted to do is unknown''"
| "verification_display (ManifestUnparseable digest detail) =
     ''the capability manifest for digest '' @ digest @ '' could not be parsed: '' @ detail"
| "verification_display (ManifestRejected digest fault) =
     ''capability manifest for digest '' @ digest @ '' refused: '' @ manifest_fault_display fault"
| "verification_display (DigestMismatch verified spawning) =
     ''the verifier reported on digest '' @ verified @ '' but the binary about to be spawned hashes to ''
     @ spawning @ ''; refusing rather than trusting a verification of different bytes''"

subsection \<open>The spawn gate\<close>

record verified =
  vf_digest :: string
  vf_signature_checked :: bool

type_synonym verifier = "verify_request \<Rightarrow> verification_refusal + signed_material"

record spawn_gate =
  sg_config :: verification_config
  sg_expected :: expected_capabilities
  sg_verifier :: "verifier option"
  sg_verified :: "(string \<times> string) list"
  sg_audit :: bool

definition new_spawn_gate :: "verification_config \<Rightarrow> string \<Rightarrow> nat option \<Rightarrow> spawn_gate" where
  "new_spawn_gate config run_record_dir gateway_port =
     \<lparr>sg_config = config,
      sg_expected = \<lparr>ec_gateway_port = gateway_port, ec_run_record_dir = run_record_dir\<rparr>,
      sg_verifier = None, sg_verified = [], sg_audit = False\<rparr>"

definition set_gateway_port :: "nat option \<Rightarrow> spawn_gate \<Rightarrow> spawn_gate" where
  "set_gateway_port port g = g\<lparr>sg_expected := (sg_expected g)\<lparr>ec_gateway_port := port\<rparr>\<rparr>"

definition set_verifier :: "verifier option \<Rightarrow> spawn_gate \<Rightarrow> spawn_gate" where
  "set_verifier v g = g\<lparr>sg_verifier := v\<rparr>"

definition set_audit :: "bool \<Rightarrow> spawn_gate \<Rightarrow> spawn_gate" where
  "set_audit a g = g\<lparr>sg_audit := a\<rparr>"

definition non_empty :: "string \<Rightarrow> string option" where
  "non_empty s = (if trim s = [] then None else Some s)"

text \<open>\<open>faccessat\<close> with the effective ids; a path with a NUL byte counts as writable.\<close>

definition is_writable_by_us :: "os \<Rightarrow> string \<Rightarrow> bool" where
  "is_writable_by_us fs p \<longleftrightarrow> CHR 0x00 \<in> set p \<or> os_access_write fs p"

definition is_file :: "os \<Rightarrow> string \<Rightarrow> bool" where
  "is_file fs p \<longleftrightarrow> os_metadata fs p = Inr True"

definition which_on_path :: "os \<Rightarrow> string \<Rightarrow> string option" where
  "which_on_path fs name =
     Option.bind (os_path_var fs) (\<lambda>path.
       find (is_file fs) (map (\<lambda>dir. path_join dir name) (split_on (CHR '':'') path)))"

definition resolve_binary :: "os \<Rightarrow> string \<Rightarrow> verification_refusal + string" where
  "resolve_binary fs binary_path =
     try_bind
       (if 1 < length (path_components binary_path) \<or> is_absolute binary_path then Ok binary_path
        else case which_on_path fs binary_path of
          Some p \<Rightarrow> Ok p
        | None \<Rightarrow> Err (BinaryMissing binary_path ''not found on PATH''))
       (\<lambda>resolved.
         case os_metadata fs resolved of
           Inl detail \<Rightarrow> Err (BinaryMissing resolved detail)
         | Inr file \<Rightarrow>
             if \<not> file then Err (BinaryMissing resolved ''not a regular file'') else Ok resolved)"

definition digest_of :: "(string \<Rightarrow> string) \<Rightarrow> os \<Rightarrow> string \<Rightarrow> verification_refusal + string" where
  "digest_of sha256 fs path =
     (case os_read_bytes fs path of
        Inl detail \<Rightarrow> Err (DigestUnreadable path detail)
      | Inr content \<Rightarrow> Ok (sha256 content))"

definition check_writability :: "os \<Rightarrow> verification_config \<Rightarrow> string \<Rightarrow> verification_refusal + unit" where
  "check_writability fs config path =
     (let dir_writable = (case path_parent path of
            None \<Rightarrow> False | Some p \<Rightarrow> p \<noteq> [] \<and> is_writable_by_us fs p);
          file_writable = is_writable_by_us fs path
      in if \<not> file_writable \<and> \<not> dir_writable then Ok ()
         else (let refusal = (if file_writable then WritableBinary path
                              else WritableBinaryDir (case path_parent path of None \<Rightarrow> [] | Some p \<Rightarrow> p))
               in if vc_allow_writable_binary config then Ok () else Err refusal))"

text \<open>\<open>serde_json::from_str\<close> into the manifest: the parser's error, or the shape's.\<close>

definition parse_manifest ::
    "(string \<Rightarrow> string + json) \<Rightarrow> (string \<Rightarrow> json \<Rightarrow> string) \<Rightarrow> string \<Rightarrow> string + capability_manifest" where
  "parse_manifest parse_json serde_msg src =
     try_bind (parse_json src) (\<lambda>v.
       case de_manifest v of None \<Rightarrow> Err (serde_msg ''manifest'' v) | Some m \<Rightarrow> Ok m)"

definition read_sidecar_manifest ::
    "(string \<Rightarrow> string + json) \<Rightarrow> (string \<Rightarrow> json \<Rightarrow> string) \<Rightarrow> os \<Rightarrow> verification_config \<Rightarrow> string \<Rightarrow> string
     \<Rightarrow> verification_refusal + capability_manifest" where
  "read_sidecar_manifest parse_json serde_msg fs config binary digest =
     (let sidecar = (if trim (vc_manifest_path config) = [] then binary @ ''.manifest.json''
                     else vc_manifest_path config)
      in case os_read_text fs sidecar of
           Inl e \<Rightarrow> Err (ManifestUnparseable digest (''cannot read '' @ quoted sidecar @ '': '' @ e))
         | Inr src \<Rightarrow>
             (case parse_manifest parse_json serde_msg src of
                Inl e \<Rightarrow> Err (ManifestUnparseable digest (''in '' @ quoted sidecar @ '': '' @ e))
              | Inr m \<Rightarrow> Ok m))"

definition reject_manifest ::
    "os \<Rightarrow> expected_capabilities \<Rightarrow> string \<Rightarrow> bool \<Rightarrow> capability_manifest \<Rightarrow> verification_refusal + verified" where
  "reject_manifest fs expected digest signed m =
     (case check_manifest fs m expected of
        Inl fault \<Rightarrow> Err (ManifestRejected digest fault)
      | Inr _ \<Rightarrow> Ok \<lparr>vf_digest = digest, vf_signature_checked = signed\<rparr>)"

definition missing_identity :: "verification_config \<Rightarrow> string list" where
  "missing_identity config =
     (if trim (vc_expected_identity config) = [] then [''quarry.verification.expected_identity''] else [])
     @ (if trim (vc_expected_issuer config) = [] then [''quarry.verification.expected_issuer''] else [])"

definition request_for :: "verification_config \<Rightarrow> string \<Rightarrow> string \<Rightarrow> verify_request" where
  "request_for config path digest =
     \<lparr>vr_path = path, vr_digest = digest, vr_expected_identity = vc_expected_identity config,
      vr_expected_issuer = vc_expected_issuer config, vr_cosign_path = vc_cosign_path config\<rparr>"

text \<open>The cached manifest of a digest, or a fresh verification that fills the cache.\<close>

definition signed_manifest ::
    "spawn_gate \<Rightarrow> string \<Rightarrow> string \<Rightarrow> (verification_refusal + string) \<times> spawn_gate" where
  "signed_manifest g path digest =
     (case map_of (sg_verified g) digest of
        Some json \<Rightarrow> (Ok json, g)
      | None \<Rightarrow>
         (case sg_verifier g of
            None \<Rightarrow> (Err (MechanismUnavailable digest), g)
          | Some verify \<Rightarrow>
             (case verify (request_for (sg_config g) path digest) of
                Inl r \<Rightarrow> (Err r, g)
              | Inr material \<Rightarrow>
                  if sm_digest material \<noteq> digest then
                    (Err (DigestMismatch (sm_digest material) digest), g)
                  else if trim (sm_manifest_json material) = [] then (Err (ManifestMissing digest), g)
                  else (Ok (sm_manifest_json material),
                        g\<lparr>sg_verified := AList.update digest (sm_manifest_json material) (sg_verified g)\<rparr>))))"

definition check_digest ::
    "(string \<Rightarrow> string + json) \<Rightarrow> (string \<Rightarrow> json \<Rightarrow> string) \<Rightarrow> os \<Rightarrow> spawn_gate \<Rightarrow> string \<Rightarrow> string
     \<Rightarrow> (verification_refusal + verified) \<times> spawn_gate" where
  "check_digest parse_json serde_msg fs g path digest =
     (if \<not> vc_enabled (sg_config g) then
        (try_bind (read_sidecar_manifest parse_json serde_msg fs (sg_config g) path digest)
           (reject_manifest fs (sg_expected g) digest False), g)
      else if missing_identity (sg_config g) \<noteq> [] then
        (Err (IdentityNotConfigured (join_with '' and '' (missing_identity (sg_config g)))), g)
      else
        (let (found, g') = signed_manifest g path digest
         in (try_bind found (\<lambda>src.
               case parse_manifest parse_json serde_msg src of
                 Inl e \<Rightarrow> Err (ManifestUnparseable digest e)
               | Inr m \<Rightarrow> reject_manifest fs (sg_expected g) digest True m), g')))"

definition check_inner ::
    "(string \<Rightarrow> string) \<Rightarrow> (string \<Rightarrow> string + json) \<Rightarrow> (string \<Rightarrow> json \<Rightarrow> string) \<Rightarrow> os \<Rightarrow> spawn_gate \<Rightarrow> string
     \<Rightarrow> (verification_refusal + verified) \<times> spawn_gate" where
  "check_inner sha256 parse_json serde_msg fs g binary_path =
     (case resolve_binary fs binary_path of
        Inl r \<Rightarrow> (Err r, g)
      | Inr path \<Rightarrow>
         (case check_writability fs (sg_config g) path of
            Inl r \<Rightarrow> (Err r, g)
          | Inr _ \<Rightarrow>
             (case digest_of sha256 fs path of
                Inl r \<Rightarrow> (Err r, g)
              | Inr digest \<Rightarrow> check_digest parse_json serde_msg fs g path digest)))"

definition verification_event :: "spawn_gate \<Rightarrow> string \<Rightarrow> verification_refusal + verified \<Rightarrow> audit_event" where
  "verification_event g binary_path r =
     (case r of
        Inr v \<Rightarrow> QuarryVerificationPassed binary_path (vf_digest v) (vf_signature_checked v)
      | Inl refusal \<Rightarrow>
          QuarryVerificationRefused (verification_code refusal) (verification_display refusal) binary_path
            (verification_digest refusal) (non_empty (vc_expected_identity (sg_config g)))
            (non_empty (vc_expected_issuer (sg_config g))))"

definition check_spawn ::
    "(string \<Rightarrow> string) \<Rightarrow> (string \<Rightarrow> string + json) \<Rightarrow> (string \<Rightarrow> json \<Rightarrow> string) \<Rightarrow> os \<Rightarrow> spawn_gate \<Rightarrow> string
     \<Rightarrow> (verification_refusal + verified) \<times> spawn_gate \<times> audit_event list" where
  "check_spawn sha256 parse_json serde_msg fs g binary_path =
     (let (r, g') = check_inner sha256 parse_json serde_msg fs g binary_path
      in (r, g', if sg_audit g then [verification_event g binary_path r] else []))"

subsection \<open>What the manifest check accepts\<close>

lemma scan_both: "scan_capabilities (Some e) (Some w) caps = Inr r \<longleftrightarrow> caps = [] \<and> r = (Some e, Some w)"
  by (cases caps) auto

lemma scan_egress:
  "scan_capabilities (Some e) None caps = Inr (Some eg, Some wr) \<longleftrightarrow>
     e = eg \<and> caps = [wr] \<and> rwc_kind wr = ''writable-dir''"
  by (cases caps) (auto simp: scan_both)

lemma scan_writable:
  "scan_capabilities None (Some w) caps = Inr (Some eg, Some wr) \<longleftrightarrow>
     w = wr \<and> caps = [eg] \<and> rwc_kind eg = ''localhost-egress''"
  by (cases caps) (auto simp: scan_both)

lemma scan_none:
  "scan_capabilities None None caps = Inr (Some eg, Some wr) \<longleftrightarrow>
     rwc_kind eg = ''localhost-egress'' \<and> rwc_kind wr = ''writable-dir'' \<and> (caps = [eg, wr] \<or> caps = [wr, eg])"
  by (cases caps) (auto simp: scan_egress scan_writable)

text \<open>C9: The manifest check accepts exactly quarry's contract: two capabilities and no more,
  one localhost egress to this gateway's own port with a loopback host or none, and one
  writable directory that is the run-record directory.\<close>

theorem manifest_accepts_exactly_the_contract:
  "check_manifest fs m expected = Ok () \<longleftrightarrow>
     cm_schema m = MANIFEST_SCHEMA
     \<and> (\<exists>eg wr. (cm_capabilities m = [eg, wr] \<or> cm_capabilities m = [wr, eg])
          \<and> rwc_kind eg = ''localhost-egress'' \<and> rwc_kind wr = ''writable-dir''
          \<and> (rwc_host eg = None \<or> rwc_host eg \<in> Some ` set LOOPBACK_HOSTS)
          \<and> rwc_port eg \<noteq> None \<and> rwc_port eg = ec_gateway_port expected
          \<and> (\<exists>dir. rwc_path wr = Some dir \<and> same_dir fs dir (ec_run_record_dir expected)))"
    (is "?l \<longleftrightarrow> ?r")
proof
  assume l: ?l
  obtain e w where sc: "scan_capabilities None None (cm_capabilities m) = Inr (e, w)"
    using l by (auto simp: check_manifest_def try_bind_Ok split: if_splits)
  then obtain eg wr where "e = Some eg" "w = Some wr"
    using l by (auto simp: check_manifest_def split: if_splits option.splits)
  with l sc show ?r
    by (intro conjI exI [of _ eg] exI [of _ wr])
      (auto simp: check_manifest_def scan_none split: if_splits option.splits)
next
  assume ?r
  then show ?l by (auto simp: check_manifest_def scan_none split: option.splits)
qed

subsection \<open>What a passed check means\<close>

text \<open>Checks happen one after another, each against the file system of its own moment.\<close>

fun check_all ::
    "(string \<Rightarrow> string) \<Rightarrow> (string \<Rightarrow> string + json) \<Rightarrow> (string \<Rightarrow> json \<Rightarrow> string) \<Rightarrow> (os \<times> string) list \<Rightarrow> spawn_gate
     \<Rightarrow> (verification_refusal + verified) list" where
  "check_all sha256 parse_json serde_msg [] g = []"
| "check_all sha256 parse_json serde_msg ((fs, binary_path) # ops) g =
     (let (r, g') = check_inner sha256 parse_json serde_msg fs g binary_path
      in r # check_all sha256 parse_json serde_msg ops g')"

text \<open>Every cached manifest came from the verifier, under the configured identity, for the
  digest it is cached under.\<close>

definition cache_vouched :: "verifier \<Rightarrow> spawn_gate \<Rightarrow> bool" where
  "cache_vouched verify g \<longleftrightarrow>
     (\<forall>d src. map_of (sg_verified g) d = Some src \<longrightarrow>
        (\<exists>path. verify (request_for (sg_config g) path d) = Inr \<lparr>sm_digest = d, sm_manifest_json = src\<rparr>))"

lemma signed_manifest_cases:
  assumes "signed_manifest g path digest = (r, g')" and "sg_verifier g = Some verify" and "cache_vouched verify g"
  shows "cache_vouched verify g' \<and> sg_verifier g' = Some verify \<and> sg_config g' = sg_config g
    \<and> sg_expected g' = sg_expected g
    \<and> (\<forall>src. r = Inr src \<longrightarrow> (\<exists>p. verify (request_for (sg_config g) p digest)
           = Inr \<lparr>sm_digest = digest, sm_manifest_json = src\<rparr>))"
proof (cases "map_of (sg_verified g) digest")
  case (Some src)
  then show ?thesis using assms by (auto simp: signed_manifest_def cache_vouched_def)
next
  case None
  show ?thesis
  proof (cases "verify (request_for (sg_config g) path digest)")
    case (Inl x)
    then show ?thesis using assms None by (auto simp: signed_manifest_def)
  next
    case (Inr material)
    have m: "material = \<lparr>sm_digest = sm_digest material, sm_manifest_json = sm_manifest_json material\<rparr>" by simp
    show ?thesis
    proof (cases "sm_digest material = digest \<and> trim (sm_manifest_json material) \<noteq> []")
      case True
      then have ok: "verify (request_for (sg_config g) path digest)
          = Inr \<lparr>sm_digest = digest, sm_manifest_json = sm_manifest_json material\<rparr>"
        using Inr m by simp
      have "cache_vouched verify (g\<lparr>sg_verified := AList.update digest (sm_manifest_json material) (sg_verified g)\<rparr>)"
        using assms(3) ok by (auto simp: cache_vouched_def AList.update_conv')
      then show ?thesis
        using assms(1,2) None Inr True ok by (auto simp: signed_manifest_def)
    next
      case False
      then show ?thesis using assms None Inr by (auto simp: signed_manifest_def split: if_splits)
    qed
  qed
qed

definition spawn_vouched ::
    "(string \<Rightarrow> string) \<Rightarrow> (string \<Rightarrow> string + json) \<Rightarrow> (string \<Rightarrow> json \<Rightarrow> string) \<Rightarrow> verifier \<Rightarrow> verification_config
     \<Rightarrow> expected_capabilities \<Rightarrow> os \<Rightarrow> string \<Rightarrow> verified \<Rightarrow> bool" where
  "spawn_vouched sha256 parse_json serde_msg verify config expected fs binary_path v \<longleftrightarrow>
     vf_signature_checked v \<and> trim (vc_expected_identity config) \<noteq> [] \<and> trim (vc_expected_issuer config) \<noteq> []
     \<and> (\<exists>path content. resolve_binary fs binary_path = Inr path \<and> os_read_bytes fs path = Inr content
          \<and> vf_digest v = sha256 content
          \<and> (is_writable_by_us fs path \<longrightarrow> vc_allow_writable_binary config))
     \<and> (\<exists>p src m. verify (request_for config p (vf_digest v))
            = Inr \<lparr>sm_digest = vf_digest v, sm_manifest_json = src\<rparr>
          \<and> parse_manifest parse_json serde_msg src = Inr m \<and> check_manifest fs m expected = Ok ())"

lemma check_inner_vouched:
  assumes "check_inner sha256 parse_json serde_msg fs g binary_path = (r, g')"
    and "sg_verifier g = Some verify" and "cache_vouched verify g" and "vc_enabled (sg_config g)"
  shows "cache_vouched verify g' \<and> sg_verifier g' = Some verify \<and> sg_config g' = sg_config g
    \<and> sg_expected g' = sg_expected g
    \<and> (\<forall>v. r = Inr v \<longrightarrow>
        spawn_vouched sha256 parse_json serde_msg verify (sg_config g) (sg_expected g) fs binary_path v)"
proof (cases "\<exists>path digest. resolve_binary fs binary_path = Inr path
    \<and> check_writability fs (sg_config g) path = Ok () \<and> digest_of sha256 fs path = Inr digest
    \<and> missing_identity (sg_config g) = []")
  case False
  then show ?thesis
    using assms by (auto simp: check_inner_def check_digest_def split: sum.splits prod.splits if_splits)
next
  case True
  then obtain path digest where path: "resolve_binary fs binary_path = Inr path"
    and wr: "check_writability fs (sg_config g) path = Ok ()" and dg: "digest_of sha256 fs path = Inr digest"
    and mi: "missing_identity (sg_config g) = []" by auto
  obtain found g1 where sm: "signed_manifest g path digest = (found, g1)" by force
  note cases = signed_manifest_cases [OF sm assms(2,3)]
  have r: "g' = g1" "r = try_bind found (\<lambda>src. case parse_manifest parse_json serde_msg src of
      Inl e \<Rightarrow> Err (ManifestUnparseable digest e) | Inr m \<Rightarrow> reject_manifest fs (sg_expected g) digest True m)"
    using assms(1,4) path wr dg mi sm by (simp_all add: check_inner_def check_digest_def)
  have "spawn_vouched sha256 parse_json serde_msg verify (sg_config g) (sg_expected g) fs binary_path v"
    if "r = Inr v" for v
  proof -
    have "try_bind found (\<lambda>src. case parse_manifest parse_json serde_msg src of
        Inl e \<Rightarrow> Err (ManifestUnparseable digest e)
      | Inr m \<Rightarrow> reject_manifest fs (sg_expected g) digest True m) = Inr v"
      using that r(2) by simp
    then obtain src where "found = Inr src"
      "(case parse_manifest parse_json serde_msg src of Inl e \<Rightarrow> Err (ManifestUnparseable digest e)
        | Inr m \<Rightarrow> reject_manifest fs (sg_expected g) digest True m) = Inr v"
      by (auto simp only: try_bind_Ok)
    then obtain src m where src: "found = Inr src" "parse_manifest parse_json serde_msg src = Inr m"
      "check_manifest fs m (sg_expected g) = Ok ()" "v = \<lparr>vf_digest = digest, vf_signature_checked = True\<rparr>"
      by (cases "parse_manifest parse_json serde_msg src") (auto simp: reject_manifest_def split: sum.splits)
    obtain content where "os_read_bytes fs path = Inr content" "digest = sha256 content"
      using dg by (auto simp: digest_of_def split: sum.splits)
    moreover have "is_writable_by_us fs path \<longrightarrow> vc_allow_writable_binary (sg_config g)"
      using wr by (auto simp: check_writability_def Let_def split: if_splits)
    moreover have "trim (vc_expected_identity (sg_config g)) \<noteq> []" "trim (vc_expected_issuer (sg_config g)) \<noteq> []"
      using mi by (auto simp: missing_identity_def split: if_splits)
    ultimately show ?thesis
      using path src cases unfolding spawn_vouched_def by auto
  qed
  with cases r(1) show ?thesis by blast
qed

text \<open>C2: With verification enabled, a spawn passes only over bytes the verifier vouched for:
  in any sequence of checks, whatever the file system does between them, each check that
  passes hashed the resolved file itself, and the verifier has returned material for exactly
  that digest under the configured, non-blank identity and issuer, with a manifest the
  contract accepts; the cache never stands in for anything else.\<close>

theorem every_verified_spawn_is_vouched_for:
  assumes "vc_enabled config" and "i < length ops"
    and "check_all sha256 parse_json serde_msg ops
           (set_verifier (Some verify) (new_spawn_gate config run_dir port)) ! i = Inr v"
  shows "spawn_vouched sha256 parse_json serde_msg verify config
    \<lparr>ec_gateway_port = port, ec_run_record_dir = run_dir\<rparr> (fst (ops ! i)) (snd (ops ! i)) v"
proof -
  have "spawn_vouched sha256 parse_json serde_msg verify (sg_config g) (sg_expected g) (fst (ops ! i))
      (snd (ops ! i)) v"
    if "sg_verifier g = Some verify" "cache_vouched verify g" "vc_enabled (sg_config g)" "i < length ops"
      "check_all sha256 parse_json serde_msg ops g ! i = Inr v" for g
    using that
  proof (induction ops arbitrary: g i)
    case Nil
    then show ?case by simp
  next
    case (Cons op ops)
    obtain fs b where op: "op = (fs, b)" by (cases op)
    obtain r g' where c: "check_inner sha256 parse_json serde_msg fs g b = (r, g')" by force
    note step = check_inner_vouched [OF c Cons.prems(1-3)]
    show ?case
    proof (cases i)
      case 0
      with Cons.prems(5) step show ?thesis by (simp add: op c)
    next
      case (Suc j)
      with Cons.prems step Cons.IH [of g' j] show ?thesis by (simp add: op c)
    qed
  qed
  from this [of "set_verifier (Some verify) (new_spawn_gate config run_dir port)"] assms show ?thesis
    by (simp add: set_verifier_def new_spawn_gate_def cache_vouched_def)
qed

text \<open>A file system with one readable binary, and a verifier that signs for it.\<close>

definition demo_os :: os where
  "demo_os = \<lparr>os_canonicalize = (\<lambda>p. None), os_metadata = (\<lambda>p. Inr True), os_path_var = None,
     os_access_write = (\<lambda>p. False), os_read_bytes = (\<lambda>p. Inr ''elf''), os_read_text = (\<lambda>p. Inl ''no'')\<rparr>"

definition demo_verification :: verification_config where
  "demo_verification = default_verification_config
     \<lparr>vc_expected_identity := ''release'', vc_expected_issuer := ''actions''\<rparr>"

definition demo_verifier :: verifier where
  "demo_verifier rq = Inr \<lparr>sm_digest = vr_digest rq, sm_manifest_json = ''m''\<rparr>"

definition demo_manifest_parser :: "string \<Rightarrow> string + json" where
  "demo_manifest_parser s = Inr (development_manifest_json 8080 ''/runs'')"

lemma every_verified_spawn_is_vouched_for_witness:
  "spawn_vouched (\<lambda>b. ''sha:'' @ b) demo_manifest_parser (\<lambda>_ _. []) demo_verifier demo_verification
     \<lparr>ec_gateway_port = Some 8080, ec_run_record_dir = ''/runs''\<rparr> demo_os ''/bin/quarry''
     \<lparr>vf_digest = ''sha:elf'', vf_signature_checked = True\<rparr>"
proof -
  let ?ops = "[(demo_os, ''/bin/quarry''), (demo_os, ''/bin/quarry'')]"
  have "check_all (\<lambda>b. ''sha:'' @ b) demo_manifest_parser (\<lambda>_ _. []) ?ops
      (set_verifier (Some demo_verifier) (new_spawn_gate demo_verification ''/runs'' (Some 8080))) ! 1
    = Inr \<lparr>vf_digest = ''sha:elf'', vf_signature_checked = True\<rparr>" by code_simp
  moreover have "vc_enabled demo_verification" by code_simp
  ultimately show ?thesis
    using every_verified_spawn_is_vouched_for [of demo_verification 1 ?ops "\<lambda>b. ''sha:'' @ b"
        demo_manifest_parser "\<lambda>_ _. []" demo_verifier "''/runs''" "Some 8080"] by simp
qed

text \<open>Without a verifier, which is every build so far, an enabled gate refuses every spawn:
  whatever the file system and the configuration, each check in any sequence ends in a
  refusal.\<close>

theorem enabled_without_verifier_refuses_everything:
  assumes "vc_enabled config"
    and "r \<in> set (check_all sha256 parse_json serde_msg ops (new_spawn_gate config run_dir port))"
  shows "\<exists>refusal. r = Inl refusal"
proof -
  have one: "\<exists>refusal. check_inner sha256 parse_json serde_msg fs g b = (Inl refusal, g)"
    if "sg_verifier g = None" "sg_verified g = []" "vc_enabled (sg_config g)" for fs g b
    using that
    by (auto simp: check_inner_def check_digest_def signed_manifest_def split: sum.splits if_splits)
  have "\<exists>refusal. r = Inl refusal"
    if "sg_verifier g = None" "sg_verified g = []" "vc_enabled (sg_config g)"
      "r \<in> set (check_all sha256 parse_json serde_msg ops g)" for g
    using that
  proof (induction ops)
    case (Cons op ops)
    obtain fs b where op: "op = (fs, b)" by (cases op)
    show ?case using Cons one [OF Cons.prems(1-3), of fs b] by (auto simp: op)
  qed simp
  from this [of "new_spawn_gate config run_dir port"] assms show ?thesis by (simp add: new_spawn_gate_def)
qed

lemma enabled_without_verifier_refuses_everything_witness:
  "\<exists>refusal. hd (check_all (\<lambda>b. b) demo_manifest_parser (\<lambda>_ _. []) [(demo_os, ''/bin/quarry'')]
     (new_spawn_gate demo_verification ''/runs'' (Some 8080))) = Inl refusal"
proof (rule enabled_without_verifier_refuses_everything)
  show "vc_enabled demo_verification" by code_simp
  show "hd (check_all (\<lambda>b. b) demo_manifest_parser (\<lambda>_ _. []) [(demo_os, ''/bin/quarry'')]
     (new_spawn_gate demo_verification ''/runs'' (Some 8080)))
    \<in> set (check_all (\<lambda>b. b) demo_manifest_parser (\<lambda>_ _. []) [(demo_os, ''/bin/quarry'')]
     (new_spawn_gate demo_verification ''/runs'' (Some 8080)))"
    by (simp add: case_prod_beta)
qed

text \<open>The manifest written for development is one the gate accepts: it parses back, and it
  passes the check of a gateway on that port with that run directory.\<close>

theorem development_manifest_is_accepted:
  assumes "port < 65536"
  shows "\<exists>m. de_manifest (development_manifest_json port dir) = Some m
    \<and> check_manifest fs m \<lparr>ec_gateway_port = Some port, ec_run_record_dir = dir\<rparr> = Ok ()"
proof -
  have "same_dir fs dir dir" by (auto simp: same_dir_def Let_def split: option.split)
  with assms show ?thesis
    by (simp add: development_manifest_json_def de_manifest_def de_known_fields_def req_def dflt_def
        de_raw_capability_def check_manifest_def MANIFEST_SCHEMA_def LOOPBACK_HOSTS_def)
qed

lemma development_manifest_is_accepted_witness:
  "\<exists>m. de_manifest (development_manifest_json 8080 ''/runs'') = Some m
    \<and> check_manifest demo_os m \<lparr>ec_gateway_port = Some 8080, ec_run_record_dir = ''/runs''\<rparr> = Ok ()"
  by (rule development_manifest_is_accepted) simp

end
