(* ===== verification/Supervisor.thy ===== *)
theory Supervisor
  imports Policy Verify "HOL-Library.Multiset"
begin

section \<open>Running the quarry child (\<open>src/quarry/supervisor.rs\<close>)\<close>

text \<open>
  The argument vector and environment of the child, the admission of a run (enabled, capped,
  a free slot, a verified binary), the reader of its event stream, the classification of how
  it ended, and the reaping of old run directories. What the operating system and the child
  do during one run is the record \<open>world\<close>; the limit on concurrent runs is also modelled at
  the level of its atomic operations, so that any interleaving of callers is covered.
  Trace output and the forwarding of events to the caller's channel are left out.
\<close>

subsection \<open>Configuration\<close>

record quarry_config =
  qc_enabled :: bool
  qc_binary_path :: string
  qc_max_concurrent_runs :: nat
  qc_run_record_dir :: string
  qc_retention_max_runs :: nat
  qc_retention_max_age_seconds :: nat
  qc_run_timeout_seconds :: nat
  qc_default_timezone :: string
  qc_approval_timeout_seconds :: nat
  qc_policy :: policy_config
  qc_verification :: verification_config

definition MIN_APPROVAL_TIMEOUT_SECONDS :: nat where
  "MIN_APPROVAL_TIMEOUT_SECONDS = 15"

definition default_quarry_config :: quarry_config where
  "default_quarry_config =
     \<lparr>qc_enabled = False, qc_binary_path = ''quarry'', qc_max_concurrent_runs = 2,
      qc_run_record_dir = ''quarry-runs'', qc_retention_max_runs = 50, qc_retention_max_age_seconds = 0,
      qc_run_timeout_seconds = 900, qc_default_timezone = [], qc_approval_timeout_seconds = 300,
      qc_policy = default_policy_config, qc_verification = default_verification_config\<rparr>"

definition approval_timeout :: "quarry_config \<Rightarrow> duration" where
  "approval_timeout c = from_secs (max (qc_approval_timeout_seconds c) MIN_APPROVAL_TIMEOUT_SECONDS)"

subsection \<open>The request\<close>

record run_request =
  rn_statement :: string
  rn_user_id :: string
  rn_channel_id :: string
  rn_spend_micro_usd :: "int option"
  rn_deadline :: "duration option"
  rn_max_depth :: "nat option"
  rn_model :: "string option"
  rn_scope_tags :: "(string, string) btree"
  rn_fake :: bool
  rn_env :: env

definition new_run_request :: "string \<Rightarrow> string \<Rightarrow> string \<Rightarrow> int \<Rightarrow> run_request" where
  "new_run_request user_id channel_id statement spend =
     \<lparr>rn_statement = statement, rn_user_id = user_id, rn_channel_id = channel_id,
      rn_spend_micro_usd = Some spend, rn_deadline = None, rn_max_depth = None, rn_model = None,
      rn_scope_tags = [], rn_fake = False, rn_env = []\<rparr>"

definition as_millis :: "duration \<Rightarrow> nat" where
  "as_millis d = d div 1000000"

definition cap_text :: "int \<Rightarrow> string" where
  "cap_text micro = fmt_fixed 6 (f64_div_const (f64_of_int micro) 1000000)"

definition to_args :: "run_request \<Rightarrow> string list" where
  "to_args r =
     [''run'']
     @ (case rn_spend_micro_usd r of Some micro \<Rightarrow> [''--cap'', cap_text micro] | None \<Rightarrow> [])
     @ (case rn_deadline r of Some d \<Rightarrow> [''--deadline'', show_nat (as_millis d) @ ''ms''] | None \<Rightarrow> [])
     @ (case rn_max_depth r of Some depth \<Rightarrow> [''--depth'', show_nat depth] | None \<Rightarrow> [])
     @ (case rn_model r of Some model \<Rightarrow> [''--model'', model] | None \<Rightarrow> [])
     @ (if rn_scope_tags r = [] then []
        else [''--scope'', join_with '','' (map (\<lambda>(k, v). k @ ''='' @ v) (rn_scope_tags r))])
     @ (if rn_fake r then [''--fake''] else [])
     @ [''--events-json'', ''--quiet'', rn_statement r]"

subsection \<open>How a run ended\<close>

datatype run_end =
    Completed
  | Truncated "string option"
  | NoAnswer
  | TimedOut duration
  | RunCancelled
  | Crashed int
  | KilledBySignal "int option"
  | StreamMalformed
  | StreamVersionUnsupported nat
  | StreamIncomplete nat
  | UsageError

fun termination_code :: "run_end \<Rightarrow> string" where
  "termination_code Completed = ''completed''"
| "termination_code (Truncated _) = ''truncated''"
| "termination_code NoAnswer = ''no_answer''"
| "termination_code (TimedOut _) = ''timed_out''"
| "termination_code RunCancelled = ''cancelled''"
| "termination_code (Crashed _) = ''crashed''"
| "termination_code (KilledBySignal _) = ''killed_by_signal''"
| "termination_code StreamMalformed = ''stream_malformed''"
| "termination_code (StreamVersionUnsupported _) = ''stream_version_unsupported''"
| "termination_code (StreamIncomplete _) = ''stream_incomplete''"
| "termination_code UsageError = ''usage_error''"

fun produced_record :: "run_end \<Rightarrow> bool" where
  "produced_record Completed = True"
| "produced_record (Truncated _) = True"
| "produced_record NoAnswer = True"
| "produced_record RunCancelled = True"
| "produced_record _ = False"

fun time_truncated :: "run_end \<Rightarrow> bool" where
  "time_truncated (TimedOut _) = True"
| "time_truncated RunCancelled = True"
| "time_truncated (Truncated bound_by) = (bound_by = Some ''latency'' \<or> bound_by = Some ''due'')"
| "time_truncated _ = False"

fun spend_truncated :: "run_end \<Rightarrow> bool" where
  "spend_truncated (Truncated bound_by) = (bound_by = Some ''spend'')"
| "spend_truncated _ = False"

text \<open>\<open>dbg_duration\<close> is \<open>Duration\<close>'s \<open>{:?}\<close>.\<close>

fun termination_display :: "(duration \<Rightarrow> string) \<Rightarrow> run_end \<Rightarrow> string" where
  "termination_display dbg_duration Completed = ''completed''"
| "termination_display dbg_duration (Truncated (Some d)) =
     ''truncated: the '' @ d @ '' cap bit before the work was done''"
| "termination_display dbg_duration (Truncated None) =
     ''truncated: the run stopped short of what it set out to do''"
| "termination_display dbg_duration NoAnswer = ''no answer: nothing was affordable''"
| "termination_display dbg_duration (TimedOut after) =
     ''timed out after '' @ dbg_duration after @ '' '' @ em_dash @ '' cut short by time''"
| "termination_display dbg_duration RunCancelled = ''cancelled '' @ em_dash @ '' cut short by time''"
| "termination_display dbg_duration (Crashed code) = ''crashed (exit '' @ show_int code @ '')''"
| "termination_display dbg_duration (KilledBySignal (Some s)) = ''killed by signal '' @ show_int s"
| "termination_display dbg_duration (KilledBySignal None) = ''killed by a signal''"
| "termination_display dbg_duration StreamMalformed =
     ''no parseable events '' @ em_dash @ '' wrong binary?''"
| "termination_display dbg_duration (StreamVersionUnsupported declared) =
     ''refused a stream declaring contract version '' @ show_nat declared @ ''; this build implements ''
     @ show_nat SUPPORTED_STREAM_VERSION"
| "termination_display dbg_duration (StreamIncomplete n) =
     ''the stream ended without its terminal outcome event after '' @ show_nat n @ '' events ''
     @ em_dash @ '' the run was killed''"
| "termination_display dbg_duration UsageError =
     ''quarry rejected the invocation '' @ em_dash @ '' the arguments we built are wrong''"

record run_outcome =
  ro_run_id :: string
  ro_termination :: run_end
  ro_events :: "run_event list"
  ro_stats :: stream_stats
  ro_stderr :: string
  ro_run_dir :: string
  ro_record :: "run_record option"
  ro_duration :: duration

fun answer_text :: "run_event \<Rightarrow> string option" where
  "answer_text (Answer a) = Some (ans_text a)"
| "answer_text _ = None"

fun receipt_total :: "run_event \<Rightarrow> int option" where
  "receipt_total (Receipt r) = Some (total_micro_usd r)"
| "receipt_total _ = None"

definition outcome_answer :: "run_outcome \<Rightarrow> string option" where
  "outcome_answer ro = find_map answer_text (ro_events ro)"

definition outcome_cost_micro_usd :: "run_outcome \<Rightarrow> int option" where
  "outcome_cost_micro_usd ro = find_map receipt_total (ro_events ro)"

subsection \<open>Refusals to spawn\<close>

datatype spawn_error =
    Disabled
  | AtCapacity nat
  | NoCap
  | BinaryUnavailable string string
  | RunDirUnavailable string string
  | Unverified verification_refusal

fun spawn_error_code :: "spawn_error \<Rightarrow> string" where
  "spawn_error_code Disabled = ''quarry_disabled''"
| "spawn_error_code (AtCapacity _) = ''at_capacity''"
| "spawn_error_code NoCap = ''no_cap''"
| "spawn_error_code (BinaryUnavailable _ _) = ''binary_unavailable''"
| "spawn_error_code (RunDirUnavailable _ _) = ''run_dir_unavailable''"
| "spawn_error_code (Unverified refusal) = verification_code refusal"

fun spawn_error_display :: "spawn_error \<Rightarrow> string" where
  "spawn_error_display Disabled = ''quarry runs are not enabled (quarry.enabled = false)''"
| "spawn_error_display (AtCapacity limit) =
     ''already running '' @ show_nat limit
     @ '' quarry runs (quarry.max_concurrent_runs); refused rather than queued so the wait is not silent''"
| "spawn_error_display NoCap =
     ''no cap requested: planning is budget-conditioned, so a run needs at least a spend cap or a deadline''"
| "spawn_error_display (BinaryUnavailable path detail) =
     ''cannot execute quarry binary at '' @ path @ '': '' @ detail"
| "spawn_error_display (RunDirUnavailable path detail) =
     ''cannot create run directory '' @ path @ '': '' @ detail"
| "spawn_error_display (Unverified refusal) = verification_display refusal"

fun spawn_sender_message :: "spawn_error \<Rightarrow> string" where
  "spawn_sender_message (Unverified refusal) = verification_sender_message refusal"
| "spawn_sender_message (AtCapacity _) =
     ''I am already running as many of those as I can at once. Try again shortly.''"
| "spawn_sender_message _ =
     ''That capability is unavailable right now. This is a configuration problem on my side, not something wrong with your request.''"

subsection \<open>The child's environment\<close>

definition FORBIDDEN_ENV_KEYS :: "string list" where
  "FORBIDDEN_ENV_KEYS =
     [''ANTHROPIC_API_KEY'', ''OPENAI_API_KEY'', ''GEMINI_API_KEY'', ''GOOGLE_API_KEY'',
      ''TAVILY_API_KEY'', ''AWS_ACCESS_KEY_ID'', ''AWS_SECRET_ACCESS_KEY'', ''AWS_SESSION_TOKEN'',
      ''AWS_PROFILE'', ''DISCORD_BOT_TOKEN'', ''TELEGRAM_BOT_TOKEN'', ''SLACK_BOT_TOKEN'',
      ''SLACK_APP_TOKEN'', ''SLACK_SIGNING_SECRET'', ''TWILIO_AUTH_TOKEN'', ''TWILIO_ACCOUNT_SID'',
      ''WHATSAPP_ACCESS_TOKEN'', ''WHATSAPP_VERIFY_TOKEN'', ''TEAMS_APP_PASSWORD'',
      ''TEAMS_HMAC_SECRET'', ''EMAIL_PASSWORD'', ''DATABASE_URL'', ''REDIS_URL'',
      ''DASHBOARD_AUTH_PASSWORD'']"

definition forbidden_env_key :: "string \<Rightarrow> bool" where
  "forbidden_env_key k \<longleftrightarrow> to_ascii_uppercase k \<in> set FORBIDDEN_ENV_KEYS"

definition sanitize_env :: "env \<Rightarrow> env \<times> string list" where
  "sanitize_env e =
     foldl (\<lambda>(clean, rejected) (k, v).
       if forbidden_env_key k then (clean, rejected @ [k]) else (bt_insert k v clean, rejected)) ([], []) e"

subsection \<open>Slots\<close>

record supervisor =
  sv_config :: quarry_config
  sv_gate :: spawn_gate
  sv_active :: nat
  sv_audit :: bool

definition new_supervisor :: "quarry_config \<Rightarrow> supervisor" where
  "new_supervisor config =
     \<lparr>sv_config = config,
      sv_gate = new_spawn_gate (qc_verification config) (qc_run_record_dir config) None,
      sv_active = 0, sv_audit = False\<rparr>"

definition with_gateway_port :: "nat \<Rightarrow> supervisor \<Rightarrow> supervisor" where
  "with_gateway_port port s = s\<lparr>sv_gate := set_gateway_port (Some port) (sv_gate s)\<rparr>"

definition with_verifier :: "verifier \<Rightarrow> supervisor \<Rightarrow> supervisor" where
  "with_verifier v s = s\<lparr>sv_gate := set_verifier (Some v) (sv_gate s)\<rparr>"

definition with_audit :: "bool \<Rightarrow> supervisor \<Rightarrow> supervisor" where
  "with_audit a s = s\<lparr>sv_gate := set_audit a (sv_gate s), sv_audit := a\<rparr>"

text \<open>\<open>try_claim_slot\<close> and the guard's drop, taken one caller at a time. The counter is a
  64-bit \<open>usize\<close>, and \<open>fetch_sub\<close> wraps.\<close>

definition wrap_usize :: "int \<Rightarrow> nat" where
  "wrap_usize x = nat (x mod 2 ^ 64)"

definition try_claim_slot :: "supervisor \<Rightarrow> spawn_error + supervisor" where
  "try_claim_slot s =
     (let limit = qc_max_concurrent_runs (sv_config s)
      in if limit \<le> sv_active s then Err (AtCapacity limit)
         else Ok (s\<lparr>sv_active := wrap_usize (int (sv_active s) + 1)\<rparr>))"

definition drop_guard :: "supervisor \<Rightarrow> supervisor" where
  "drop_guard s = s\<lparr>sv_active := wrap_usize (int (sv_active s) - 1)\<rparr>"

text \<open>The same at the level of the atomic operations: a caller loads the counter, tries to
  exchange it, retries when another caller got in between, and gives the slot back.\<close>

datatype claim = Starting | Loaded nat | Holding | TurnedAway | Released

record slots =
  sl_active :: nat
  sl_limit :: nat
  sl_callers :: "claim list"

definition set_caller :: "nat \<Rightarrow> claim \<Rightarrow> slots \<Rightarrow> slots" where
  "set_caller i c s = s\<lparr>sl_callers := (sl_callers s)[i := c]\<rparr>"

inductive slot_step :: "slots \<Rightarrow> slots \<Rightarrow> bool" where
  Arrive: "slot_step s (s\<lparr>sl_callers := sl_callers s @ [Starting]\<rparr>)"
| Load: "i < length (sl_callers s) \<Longrightarrow> sl_callers s ! i = Starting \<Longrightarrow> sl_active s < sl_limit s \<Longrightarrow>
    slot_step s (set_caller i (Loaded (sl_active s)) s)"
| TurnAway: "i < length (sl_callers s) \<Longrightarrow> sl_callers s ! i = Starting \<Longrightarrow> sl_limit s \<le> sl_active s \<Longrightarrow>
    slot_step s (set_caller i TurnedAway s)"
| Exchange: "i < length (sl_callers s) \<Longrightarrow> sl_callers s ! i = Loaded current \<Longrightarrow> sl_active s = current \<Longrightarrow>
    slot_step s ((set_caller i Holding s)\<lparr>sl_active := wrap_usize (int current + 1)\<rparr>)"
| Retry: "i < length (sl_callers s) \<Longrightarrow> sl_callers s ! i = Loaded current \<Longrightarrow> sl_active s \<noteq> current \<Longrightarrow>
    slot_step s (set_caller i Starting s)"
| Release: "i < length (sl_callers s) \<Longrightarrow> sl_callers s ! i = Holding \<Longrightarrow>
    slot_step s ((set_caller i Released s)\<lparr>sl_active := wrap_usize (int (sl_active s) - 1)\<rparr>)"

definition slots_init :: "nat \<Rightarrow> slots" where
  "slots_init limit = \<lparr>sl_active = 0, sl_limit = limit, sl_callers = []\<rparr>"

subsection \<open>Reading the child\<close>

text \<open>\<open>lines()\<close> over the bytes the reader got: one string per line, its line end removed.\<close>

record stdout_acc =
  sa_stats :: stream_stats
  sa_events_seen :: "run_event list"
  sa_line_no :: nat

definition empty_acc :: stdout_acc where
  "empty_acc = \<lparr>sa_stats = default_stats, sa_events_seen = [], sa_line_no = 0\<rparr>"

definition count_kind :: "string \<Rightarrow> (string, nat) btree \<Rightarrow> (string, nat) btree" where
  "count_kind k m = bt_insert k ((case map_of m k of None \<Rightarrow> 0 | Some n \<Rightarrow> n) + 1) m"

fun count_unknown :: "run_event \<Rightarrow> (string, nat) btree \<Rightarrow> (string, nat) btree" where
  "count_unknown (Unknown t v) m = count_kind t m"
| "count_unknown _ m = m"

definition read_line ::
    "(string \<Rightarrow> string + json) \<Rightarrow> (string \<Rightarrow> json \<Rightarrow> string) \<Rightarrow> stdout_acc \<Rightarrow> string \<Rightarrow> stdout_acc" where
  "read_line parse_json serde_msg acc line =
     (let acc1 = acc\<lparr>sa_line_no := sa_line_no acc + 1\<rparr>
      in if trim line = [] then acc1
         else (let st = (sa_stats acc1)\<lparr>ss_lines := ss_lines (sa_stats acc1) + 1\<rparr>
               in case parse_line parse_json serde_msg line of
                    Inr e \<Rightarrow>
                      acc1\<lparr>sa_stats := st\<lparr>ss_events := ss_events st + 1,
                                          ss_unknown_kinds := count_unknown e (ss_unknown_kinds st)\<rparr>,
                           sa_events_seen := sa_events_seen acc1 @ [e]\<rparr>
                  | Inl err \<Rightarrow>
                      acc1\<lparr>sa_stats := st\<lparr>ss_bad_lines := ss_bad_lines st @ [(sa_line_no acc1, err)]\<rparr>\<rparr>))"

definition read_event_stream ::
    "(string \<Rightarrow> string + json) \<Rightarrow> (string \<Rightarrow> json \<Rightarrow> string) \<Rightarrow> string list \<Rightarrow> stdout_acc" where
  "read_event_stream parse_json serde_msg lines = foldl (read_line parse_json serde_msg) empty_acc lines"

definition read_stderr :: "string list \<Rightarrow> string" where
  "read_stderr lines = concat (map (\<lambda>l. l @ newline) lines)"

definition read_record :: "(string \<Rightarrow> string + json) \<Rightarrow> string option \<Rightarrow> run_record option" where
  "read_record parse_json bytes =
     Option.bind bytes (\<lambda>b. case parse_json b of Inl _ \<Rightarrow> None | Inr v \<Rightarrow> de_run_record v)"

subsection \<open>Classifying the end\<close>

datatype forced = NotForced | ForcedTimeout | ForcedCancel

text \<open>An exit status on Unix: a code, or the signal that ended the process.\<close>

datatype exit_status = ExitCode int | Signalled "int option"

definition exit_complete :: int where "exit_complete = 0"
definition exit_fault :: int where "exit_fault = 1"
definition exit_usage :: int where "exit_usage = 2"
definition exit_time_truncated :: int where "exit_time_truncated = 3"
definition exit_no_answer :: int where "exit_no_answer = 4"
definition EXIT_UNKNOWN :: int where "EXIT_UNKNOWN = - 1"

lemmas exit_codes = exit_complete_def exit_fault_def exit_usage_def exit_time_truncated_def
  exit_no_answer_def EXIT_UNKNOWN_def

definition non_empty_text :: "string \<Rightarrow> string option" where
  "non_empty_text s = (if s = [] then None else Some s)"

definition bound_or_latency :: "string \<Rightarrow> string option" where
  "bound_or_latency b = Some (case non_empty_text b of None \<Rightarrow> ''latency'' | Some d \<Rightarrow> d)"

definition classify_from_outcome :: "outcome_event \<Rightarrow> int \<Rightarrow> bool \<Rightarrow> run_end" where
  "classify_from_outcome oc code has_answer =
     (if oc_outcome oc = ''complete'' \<or> oc_outcome oc = ''cap-bound-degradation'' then Completed
      else if oc_outcome oc = ''time-truncated'' then Truncated (bound_or_latency (oc_bound_by oc))
      else if oc_outcome oc = ''no-answer'' then NoAnswer
      else if code = exit_complete then (if has_answer then Completed else NoAnswer)
      else if code = exit_time_truncated then Truncated (bound_or_latency (oc_bound_by oc))
      else if code = exit_no_answer then NoAnswer
      else Crashed code)"

fun is_answer :: "run_event \<Rightarrow> bool" where
  "is_answer (Answer a) = (trim (ans_text a) \<noteq> [])"
| "is_answer _ = False"

definition classify_unframed :: "int \<Rightarrow> run_record option \<Rightarrow> bool \<Rightarrow> run_end" where
  "classify_unframed code rec has_answer =
     (if code = exit_fault then Crashed code
      else case (case rec of None \<Rightarrow> None
                 | Some r \<Rightarrow> if record_truncated r then Some (non_empty_text (rr_bound_by r)) else None) of
        Some bound \<Rightarrow> Truncated bound
      | None \<Rightarrow>
          if code = exit_time_truncated then Truncated (Some ''latency'')
          else if code = exit_no_answer then NoAnswer
          else if code = exit_complete then (if has_answer then Completed else NoAnswer)
          else Crashed code)"

definition classify ::
    "forced \<Rightarrow> exit_status option \<Rightarrow> run_event list \<Rightarrow> stream_stats \<Rightarrow> run_record option \<Rightarrow> duration
     \<Rightarrow> run_end" where
  "classify forced status events stats rec dur =
     (case forced of
        ForcedTimeout \<Rightarrow> TimedOut dur
      | ForcedCancel \<Rightarrow> RunCancelled
      | NotForced \<Rightarrow>
         (case status of
            None \<Rightarrow> Crashed EXIT_UNKNOWN
          | Some (Signalled sg) \<Rightarrow> KilledBySignal sg
          | Some (ExitCode code) \<Rightarrow>
             (let declared = stream_version events;
                  has_answer = list_ex is_answer events
              in if declared \<noteq> None \<and> declared \<noteq> Some SUPPORTED_STREAM_VERSION
                 then StreamVersionUnsupported (the declared)
                 else if code = exit_usage then UsageError
                 else if ss_events stats = 0 then StreamMalformed
                 else (case terminal_outcome events of
                     Some oc \<Rightarrow> classify_from_outcome oc code has_answer
                   | None \<Rightarrow>
                      if declared \<noteq> None then
                        (if code = exit_fault then Crashed code else StreamIncomplete (ss_events stats))
                      else classify_unframed code rec has_answer))))"

subsection \<open>One run\<close>

text \<open>What wakes \<open>wait_with_limits\<close>; after a kill the child is waited for again. A wake whose
  source is absent cannot happen.\<close>

datatype wake = Exited "exit_status option" | TimerFired "exit_status option" | CancelFired "exit_status option"

fun wake_possible :: "nat option \<Rightarrow> bool \<Rightarrow> wake \<Rightarrow> bool" where
  "wake_possible timeout cancellable (Exited _) = True"
| "wake_possible timeout cancellable (TimerFired _) = (timeout \<noteq> None)"
| "wake_possible timeout cancellable (CancelFired _) = cancellable"

fun wait_with_limits :: "wake \<Rightarrow> exit_status option \<times> forced" where
  "wait_with_limits (Exited st) = (st, NotForced)"
| "wait_with_limits (TimerFired st) = (st, ForcedTimeout)"
| "wait_with_limits (CancelFired st) = (st, ForcedCancel)"

record spawn_command =
  sc_program :: string
  sc_args :: "string list"
  sc_env :: env

record world =
  w_os :: os
  w_run_id :: string
  w_create_dir :: "string \<Rightarrow> string + unit"
  w_spawn :: "spawn_command \<Rightarrow> string + unit"
  w_wake :: wake
  w_stdout :: "string list"
  w_stderr :: "string list"
  w_abandoned :: bool
  w_record_bytes :: "string option"
  w_duration :: duration

record run_trace =
  rt_supervisor :: supervisor
  rt_log :: "audit_event list"
  rt_spawned :: "spawn_command list"

definition run_timeout :: "quarry_config \<Rightarrow> duration option" where
  "run_timeout c =
     (if qc_run_timeout_seconds c = 0 then None else Some (from_secs (qc_run_timeout_seconds c)))"

definition failed_event :: "supervisor \<Rightarrow> string option \<Rightarrow> string \<Rightarrow> spawn_error \<Rightarrow> audit_event list" where
  "failed_event s run_id user e =
     (if sv_audit s then [QuarryRunFailed run_id user (spawn_error_display e)] else [])"

text \<open>The statement is moved behind \<open>--out\<close>, which the caller does not control.\<close>

definition child_args :: "run_request \<Rightarrow> string \<Rightarrow> string list" where
  "child_args r record_path = butlast (to_args r) @ [''--out'', record_path, last (to_args r)]"

definition finish_run ::
    "(string \<Rightarrow> string + json) \<Rightarrow> (string \<Rightarrow> json \<Rightarrow> string) \<Rightarrow> world \<Rightarrow> run_request \<Rightarrow> string \<Rightarrow> run_outcome" where
  "finish_run parse_json serde_msg w r run_dir =
     (let (status, forced) = wait_with_limits (w_wake w);
          drained = read_event_stream parse_json serde_msg (w_stdout w);
          stats = (sa_stats drained)\<lparr>ss_read_abandoned := w_abandoned w\<rparr>;
          rec = read_record parse_json (w_record_bytes w)
      in \<lparr>ro_run_id = w_run_id w,
          ro_termination = classify forced status (sa_events_seen drained) stats rec (w_duration w),
          ro_events = sa_events_seen drained, ro_stats = stats, ro_stderr = read_stderr (w_stderr w),
          ro_run_dir = run_dir, ro_record = rec, ro_duration = w_duration w\<rparr>)"

definition started_event :: "supervisor \<Rightarrow> world \<Rightarrow> run_request \<Rightarrow> verified \<Rightarrow> env \<Rightarrow> audit_event" where
  "started_event s w r v e =
     QuarryRunStarted (w_run_id w) (rn_user_id r) (rn_channel_id r) (qc_binary_path (sv_config s))
       (map fst e) (vf_digest v) (vf_signature_checked v)"

definition ended_event :: "run_request \<Rightarrow> run_outcome \<Rightarrow> audit_event" where
  "ended_event r ro =
     QuarryRunEnded (ro_run_id ro) (rn_user_id r) (termination_code (ro_termination ro))
       (case ro_termination ro of Truncated bound \<Rightarrow> bound | _ \<Rightarrow> None)
       (ss_events (ro_stats ro)) (length (ss_bad_lines (ro_stats ro)))
       (case outcome_cost_micro_usd ro of None \<Rightarrow> 0 | Some c \<Rightarrow> c)
       (as_millis (ro_duration ro) mod 2 ^ 64)"

text \<open>From the claimed slot on. The guard is dropped on every way out, by \<open>run\<close>.\<close>

definition run_claimed ::
    "(string \<Rightarrow> string) \<Rightarrow> (string \<Rightarrow> string + json) \<Rightarrow> (string \<Rightarrow> json \<Rightarrow> string) \<Rightarrow> world \<Rightarrow> run_request
     \<Rightarrow> supervisor \<Rightarrow> (spawn_error + run_outcome) \<times> run_trace" where
  "run_claimed sha256 parse_json serde_msg w r s =
     (let binary = qc_binary_path (sv_config s);
          (checked, g', glog) = check_spawn sha256 parse_json serde_msg (w_os w) (sv_gate s) binary;
          s' = s\<lparr>sv_gate := g'\<rparr>;
          fail = (\<lambda>rid e. (Err e, \<lparr>rt_supervisor = s', rt_log = glog @ failed_event s rid (rn_user_id r) e,
                                rt_spawned = []\<rparr>))
      in case checked of
           Inl refusal \<Rightarrow> fail None (Unverified refusal)
         | Inr v \<Rightarrow>
            (let run_dir = path_join (qc_run_record_dir (sv_config s)) (w_run_id w)
             in case w_create_dir w run_dir of
                  Inl e \<Rightarrow> fail (Some (w_run_id w)) (RunDirUnavailable run_dir e)
                | Inr _ \<Rightarrow>
                   (let e = fst (sanitize_env (rn_env r));
                        cmd = \<lparr>sc_program = binary,
                               sc_args = child_args r (path_join run_dir ''record.json''), sc_env = e\<rparr>
                    in case w_spawn w cmd of
                         Inl err \<Rightarrow> fail (Some (w_run_id w)) (BinaryUnavailable binary err)
                       | Inr _ \<Rightarrow>
                          (let ro = finish_run parse_json serde_msg w r run_dir
                           in (Ok ro,
                               \<lparr>rt_supervisor = s',
                                rt_log = glog @ (if sv_audit s then [started_event s w r v e, ended_event r ro] else []),
                                rt_spawned = [cmd]\<rparr>)))))"

definition run ::
    "(string \<Rightarrow> string) \<Rightarrow> (string \<Rightarrow> string + json) \<Rightarrow> (string \<Rightarrow> json \<Rightarrow> string) \<Rightarrow> world \<Rightarrow> run_request
     \<Rightarrow> supervisor \<Rightarrow> (spawn_error + run_outcome) \<times> run_trace" where
  "run sha256 parse_json serde_msg w r s =
     (let fail = (\<lambda>e. (Err e, \<lparr>rt_supervisor = s, rt_log = failed_event s None (rn_user_id r) e,
                              rt_spawned = []\<rparr>))
      in if \<not> qc_enabled (sv_config s) then fail Disabled
         else if rn_spend_micro_usd r = None \<and> rn_deadline r = None then fail NoCap
         else case try_claim_slot s of
             Inl e \<Rightarrow> fail e
           | Inr s1 \<Rightarrow>
               (let (result, t) = run_claimed sha256 parse_json serde_msg w r s1
                in (result, t\<lparr>rt_supervisor := drop_guard (rt_supervisor t)\<rparr>)))"

subsection \<open>Reaping run directories\<close>

text \<open>\<open>dirs\<close> are the entries that are directories, with their modification times in
  nanoseconds; \<open>sort_by_key\<close> is stable.\<close>

definition doomed_dirs :: "quarry_config \<Rightarrow> nat \<Rightarrow> (nat \<times> string) list \<Rightarrow> string list" where
  "doomed_dirs c now entries =
     (let dirs = sort_key fst entries;
          max_runs = qc_retention_max_runs c;
          max_age = qc_retention_max_age_seconds c;
          old = (if 0 < max_age
                 then map snd (filter (\<lambda>(t, _). t \<le> now \<and> from_secs max_age < now - t) dirs) else []);
          extra = (if 0 < max_runs \<and> max_runs < length dirs
                   then map snd (take (length dirs - max_runs) dirs) else [])
      in foldl (\<lambda>doomed p. if p \<in> set doomed then doomed else doomed @ [p]) old extra)"

text \<open>\<open>remove\<close> says whether \<open>remove_dir_all\<close> succeeds; \<open>None\<close> for \<open>listing\<close> is a root that
  does not exist. The result counts the removals.\<close>

definition reap_run_dirs ::
    "quarry_config \<Rightarrow> nat \<Rightarrow> (string + (nat \<times> string) list) option \<Rightarrow> (string \<Rightarrow> bool) \<Rightarrow> string + nat" where
  "reap_run_dirs c now listing remove =
     (case listing of
        None \<Rightarrow> Ok 0
      | Some l \<Rightarrow>
          if qc_retention_max_runs c = 0 \<and> qc_retention_max_age_seconds c = 0 then Ok 0
          else try_bind l (\<lambda>entries. Ok (length (filter remove (doomed_dirs c now entries)))))"

subsection \<open>The limit on concurrent runs\<close>

text \<open>The interface of a slot counter: a claim takes one slot below the capacity or is refused,
  and a release gives one back.\<close>

locale slot_counter =
  fixes claim :: "'s \<Rightarrow> 'e + 's" and release :: "'s \<Rightarrow> 's"
    and held :: "'s \<Rightarrow> nat" and capacity :: "'s \<Rightarrow> nat" and fits :: "'s \<Rightarrow> bool"
  assumes claim_Ok: "fits s \<Longrightarrow> claim s = Inr s' \<Longrightarrow>
      held s < capacity s \<and> held s' = Suc (held s) \<and> capacity s' = capacity s \<and> fits s'"
    and claim_Err: "claim s = Inl e \<Longrightarrow> capacity s \<le> held s"
    and release_held: "fits s \<Longrightarrow> 0 < held s \<Longrightarrow>
      held (release s) = held s - 1 \<and> capacity (release s) = capacity s"
begin

lemma refused_iff_full: "fits s \<Longrightarrow> (\<exists>e. claim s = Inl e) \<longleftrightarrow> capacity s \<le> held s"
proof (cases "claim s")
  case (Inl e)
  then show ?thesis using claim_Err by auto
next
  case (Inr s')
  moreover assume "fits s"
  ultimately show ?thesis using claim_Ok [of s s'] by simp
qed

lemma claim_release: "fits s \<Longrightarrow> claim s = Inr s' \<Longrightarrow> held (release s') = held s"
  using claim_Ok release_held by fastforce

end

definition counter_fits :: "supervisor \<Rightarrow> bool" where
  "counter_fits s \<longleftrightarrow> sv_active s < 2 ^ 64 \<and> qc_max_concurrent_runs (sv_config s) < 2 ^ 64"

lemma wrap_usize_small: "0 \<le> x \<Longrightarrow> x < 2 ^ 64 \<Longrightarrow> wrap_usize x = nat x"
  by (simp add: wrap_usize_def)

lemma wrap_usize_Suc: "n + 1 < 2 ^ 64 \<Longrightarrow> wrap_usize (int n + 1) = Suc n"
proof -
  assume "n + 1 < 2 ^ 64"
  then have "int (n + 1) < int (2 ^ 64)" by (simp only: of_nat_less_iff)
  then show ?thesis by (simp add: wrap_usize_small nat_add_distrib)
qed

lemma wrap_usize_pred: "0 < n \<Longrightarrow> n < 2 ^ 64 \<Longrightarrow> wrap_usize (int n - 1) = n - 1"
proof -
  assume n: "0 < n" "n < 2 ^ 64"
  then have "int n < int (2 ^ 64)" by (simp only: of_nat_less_iff)
  with n(1) have "0 \<le> int n - 1" "int n - 1 < 2 ^ 64" by simp_all
  then have "wrap_usize (int n - 1) = nat (int n - 1)" by (rule wrap_usize_small)
  then show ?thesis by simp
qed

interpretation run_slots: slot_counter try_claim_slot drop_guard sv_active
    "\<lambda>s. qc_max_concurrent_runs (sv_config s)" counter_fits
proof unfold_locales
  fix s s'
  assume f: "counter_fits s" and c: "try_claim_slot s = Inr s'"
  then have lt: "sv_active s < qc_max_concurrent_runs (sv_config s)"
    by (auto simp: try_claim_slot_def Let_def split: if_splits)
  with f have "sv_active s + 1 < 2 ^ 64" by (simp add: counter_fits_def)
  with lt c f show "sv_active s < qc_max_concurrent_runs (sv_config s) \<and> sv_active s' = Suc (sv_active s)
      \<and> qc_max_concurrent_runs (sv_config s') = qc_max_concurrent_runs (sv_config s) \<and> counter_fits s'"
    by (auto simp: try_claim_slot_def Let_def wrap_usize_Suc counter_fits_def)
next
  fix s e
  assume "try_claim_slot s = Inl e"
  then show "qc_max_concurrent_runs (sv_config s) \<le> sv_active s"
    by (auto simp: try_claim_slot_def Let_def split: if_splits)
next
  fix s
  assume "counter_fits s" "0 < sv_active s"
  then show "sv_active (drop_guard s) = sv_active s - 1
      \<and> qc_max_concurrent_runs (sv_config (drop_guard s)) = qc_max_concurrent_runs (sv_config s)"
    by (simp add: drop_guard_def wrap_usize_pred counter_fits_def)
qed

text \<open>With the callers interleaved: the counter is the number of slots held.\<close>

definition slot_inv :: "slots \<Rightarrow> bool" where
  "slot_inv s \<longleftrightarrow> sl_active s = count (mset (sl_callers s)) Holding \<and> sl_active s \<le> sl_limit s
     \<and> (\<forall>n. Loaded n \<in> set (sl_callers s) \<longrightarrow> n < sl_limit s)"

lemma count_update:
  "i < length xs \<Longrightarrow> count (mset (xs[i := y])) x
     = count (mset xs) x - (if xs ! i = x then 1 else 0) + (if y = x then 1 else 0)"
  by (auto simp: mset_update)

lemma count_pos: "i < length xs \<Longrightarrow> xs ! i = x \<Longrightarrow> 0 < count (mset xs) x"
  by auto

lemma set_caller_mem: "c \<in> set (xs[i := d]) \<Longrightarrow> c = d \<or> c \<in> set xs"
  using set_update_subset_insert by fastforce

lemma slot_step_inv:
  "slot_step s s' \<Longrightarrow> slot_inv s \<Longrightarrow> sl_limit s < 2 ^ 64 \<Longrightarrow> slot_inv s' \<and> sl_limit s' = sl_limit s"
proof (induction rule: slot_step.induct)
  case (Arrive s)
  then show ?case by (auto simp: slot_inv_def)
next
  case (Load i s)
  then show ?case by (auto simp: slot_inv_def set_caller_def count_update dest!: set_caller_mem)
next
  case (TurnAway i s)
  then show ?case by (auto simp: slot_inv_def set_caller_def count_update dest!: set_caller_mem)
next
  case (Exchange i s current)
  then have "Loaded current \<in> set (sl_callers s)" by (metis nth_mem)
  then have lt: "current < sl_limit s" using Exchange by (simp add: slot_inv_def)
  then have "wrap_usize (int current + 1) = Suc current" using Exchange by (intro wrap_usize_Suc) simp
  then show ?case
    using Exchange lt by (auto simp: slot_inv_def set_caller_def count_update dest!: set_caller_mem)
next
  case (Retry i s current)
  then show ?case by (auto simp: slot_inv_def set_caller_def count_update dest!: set_caller_mem)
next
  case (Release i s)
  then have pos: "0 < sl_active s" using count_pos by (fastforce simp: slot_inv_def)
  then have "wrap_usize (int (sl_active s) - 1) = sl_active s - 1"
    using Release by (intro wrap_usize_pred) (auto simp: slot_inv_def)
  then show ?case
    using Release pos by (auto simp: slot_inv_def set_caller_def count_update dest!: set_caller_mem)
qed

text \<open>C5: The concurrency limit holds under every interleaving of callers: whatever loads,
  exchanges, retries and releases have happened, the counter equals the number of slots
  held, which never exceeds \<open>max_concurrent_runs\<close>, and it never wraps.\<close>

theorem never_more_runs_than_the_limit:
  assumes "slot_step\<^sup>*\<^sup>* (slots_init limit) s" and "limit < 2 ^ 64"
  shows "sl_active s = length (filter (\<lambda>c. c = Holding) (sl_callers s)) \<and> sl_active s \<le> limit"
proof -
  have "slot_inv s \<and> sl_limit s = limit"
    using assms(1)
  proof (induction rule: rtranclp_induct)
    case base
    then show ?case by (simp add: slot_inv_def slots_init_def)
  next
    case (step s s')
    then show ?case using slot_step_inv assms(2) by auto
  qed
  moreover have "count (mset xs) x = length (filter (\<lambda>c. c = x) xs)" for xs :: "claim list" and x
    by (induction xs) auto
  ultimately show ?thesis by (simp add: slot_inv_def)
qed

lemma never_more_runs_than_the_limit_witness:
  "\<exists>s. slot_step\<^sup>*\<^sup>* (slots_init 1) s \<and> sl_callers s = [Holding] \<and> sl_active s \<le> 1"
proof -
  let ?s1 = "(slots_init 1)\<lparr>sl_callers := sl_callers (slots_init 1) @ [Starting]\<rparr>"
  let ?s2 = "set_caller 0 (Loaded (sl_active ?s1)) ?s1"
  let ?s3 = "(set_caller 0 Holding ?s2)\<lparr>sl_active := wrap_usize (int 0 + 1)\<rparr>"
  have "slot_step (slots_init 1) ?s1" by (rule slot_step.Arrive)
  moreover have "slot_step ?s1 ?s2" by (rule slot_step.Load) (simp_all add: slots_init_def)
  moreover have "slot_step ?s2 ?s3"
    by (rule slot_step.Exchange) (simp_all add: slots_init_def set_caller_def)
  ultimately have r: "slot_step\<^sup>*\<^sup>* (slots_init 1) ?s3"
    by (meson rtranclp.rtrancl_refl rtranclp.rtrancl_into_rtrancl)
  from never_more_runs_than_the_limit [OF r] have "sl_active ?s3 \<le> 1" by simp
  moreover have "sl_callers ?s3 = [Holding]" by (simp add: slots_init_def set_caller_def)
  ultimately show ?thesis using r by blast
qed

subsection \<open>What the child is given\<close>






text \<open>The cap the child is given is the cap that was granted: the text after \<open>--cap\<close>, read
  back the way money is read on the wire, is the granted number of micro-dollars, and the
  statement stays the last argument, behind the record path, whatever it says.\<close>

theorem cap_argument_is_exact:
  assumes "rn_spend_micro_usd r = Some m" and "0 \<le> m" and "m \<le> 2 ^ 50"
  shows "\<exists>t rest. child_args r path = [''run'', ''--cap'', t] @ rest @ [''--out'', path, rn_statement r]
    \<and> usd_to_micro (parse_f64 t) = m"
proof -
  have "parse_f64 (cap_text m) = wire_usd m"
    using assms(2,3) by (simp add: cap_text_def fmt_micro parse_f64_def decimal_value_fmt wire_usd_def)
  then have "usd_to_micro (parse_f64 (cap_text m)) = m" using assms(2,3) usd_to_micro_wire by simp
  moreover have "\<exists>rest. child_args r path
      = [''run'', ''--cap'', cap_text m] @ rest @ [''--out'', path, rn_statement r]"
    using assms(1) by (auto simp: child_args_def to_args_def butlast_append)
  ultimately show ?thesis by blast
qed

lemma cap_argument_is_exact_witness:
  "\<exists>t rest. child_args (new_run_request ''u'' ''c'' ''--cap 100'' 2010000) ''/r/record.json''
     = [''run'', ''--cap'', t] @ rest @ [''--out'', ''/r/record.json'', ''--cap 100'']
     \<and> usd_to_micro (parse_f64 t) = 2010000"
  using cap_argument_is_exact [of "new_run_request ''u'' ''c'' ''--cap 100'' 2010000" 2010000 "''/r/record.json''"]
  by (simp add: new_run_request_def)

subsection \<open>How an end is classified\<close>


text \<open>A framed stream that lost its terminal event is never a completion, whatever the code.\<close>

lemma severed_stream_is_incomplete:
  "stream_version events = Some SUPPORTED_STREAM_VERSION \<Longrightarrow> terminal_outcome events = None \<Longrightarrow>
   ss_events stats \<noteq> 0 \<Longrightarrow> code \<noteq> 1 \<Longrightarrow> code \<noteq> 2 \<Longrightarrow>
   classify NotForced (Some (ExitCode code)) events stats rec dur = StreamIncomplete (ss_events stats)"
  by (simp add: classify_def exit_codes Let_def)

text \<open>The exit code is not a cross-check of a terminal event that says complete: with such
  an event the run is classified as completed for every exit code but the usage error, a
  fault included, and without any answer.\<close>

theorem complete_event_overrides_the_exit_code:
  assumes "terminal_outcome events = Some oc" and "oc_outcome oc = ''complete''"
    and "stream_version events = Some SUPPORTED_STREAM_VERSION" and "ss_events stats \<noteq> 0" and "code \<noteq> 2"
  shows "classify NotForced (Some (ExitCode code)) events stats rec dur = Completed"
  using assms by (simp add: classify_def classify_from_outcome_def exit_codes Let_def)

definition complete_outcome :: outcome_event where
  "complete_outcome = \<lparr>oc_outcome = ''complete'', oc_bound_by = [], oc_gaps = 0, oc_unfunded = 0,
     oc_total_micros = 0, oc_cap_micros = -1\<rparr>"

definition framed_events :: "run_event list" where
  "framed_events = [Stream \<lparr>stm_version = 1, stm_producer = ''quarry''\<rparr>, Outcome complete_outcome]"

lemma complete_event_overrides_the_exit_code_witness:
  "classify NotForced (Some (ExitCode 1)) framed_events (default_stats\<lparr>ss_events := 2\<rparr>) None 0 = Completed
   \<and> \<not> list_ex is_answer framed_events"
proof
  have "terminal_outcome framed_events = Some complete_outcome"
    "stream_version framed_events = Some SUPPORTED_STREAM_VERSION"
    "\<not> list_ex is_answer framed_events" by code_simp+
  then show "classify NotForced (Some (ExitCode 1)) framed_events (default_stats\<lparr>ss_events := 2\<rparr>) None 0 = Completed"
    "\<not> list_ex is_answer framed_events"
    using complete_event_overrides_the_exit_code [of framed_events complete_outcome "default_stats\<lparr>ss_events := 2\<rparr>" 1]
    by (simp_all add: complete_outcome_def)
qed

subsection \<open>The reader's books\<close>









subsection \<open>What a run may do\<close>

lemma sanitize_forbidden: "(k, v) \<in> set (fst (sanitize_env e)) \<Longrightarrow> \<not> forbidden_env_key k"
proof -
  have "\<forall>(k, v) \<in> set (fst (foldl (\<lambda>(clean, rejected) (k, v). if forbidden_env_key k
      then (clean, rejected @ [k]) else (bt_insert k v clean, rejected)) (c, r) e)). \<not> forbidden_env_key k"
    if "\<forall>(k, v) \<in> set c. \<not> forbidden_env_key k" for c r
    using that
  proof (induction e arbitrary: c r)
    case (Cons p e)
    obtain k v where p: "p = (k, v)" by (cases p)
    have "\<forall>(k, v) \<in> set (bt_insert k v c). \<not> forbidden_env_key k" if "\<not> forbidden_env_key k"
      using bt_insert_set [of k v c] Cons.prems that by fastforce
    then show ?case
      using Cons.prems Cons.IH [of c "r @ [k]"] Cons.IH [of "bt_insert k v c" r] by (simp add: p)
  qed simp
  from this [of "[]" "[]"] show "(k, v) \<in> set (fst (sanitize_env e)) \<Longrightarrow> \<not> forbidden_env_key k"
    by (auto simp: sanitize_env_def)
qed

lemma run_claimed_cases:
  assumes "run_claimed sha256 parse_json serde_msg w r s = (result, t)"
  shows "sv_config (rt_supervisor t) = sv_config s \<and> sv_active (rt_supervisor t) = sv_active s
    \<and> ((\<exists>e. result = Inl e) \<and> rt_spawned t = []
       \<or> (\<exists>v g' cmd. result = Inr (finish_run parse_json serde_msg w r
              (path_join (qc_run_record_dir (sv_config s)) (w_run_id w)))
           \<and> rt_spawned t = [cmd]
           \<and> check_inner sha256 parse_json serde_msg (w_os w) (sv_gate s) (qc_binary_path (sv_config s)) = (Inr v, g')
           \<and> sc_program cmd = qc_binary_path (sv_config s) \<and> sc_env cmd = fst (sanitize_env (rn_env r))))"
proof -
  obtain checked g' where c: "check_inner sha256 parse_json serde_msg (w_os w) (sv_gate s)
      (qc_binary_path (sv_config s)) = (checked, g')" by force
  show ?thesis
    using assms
    by (auto simp: run_claimed_def Let_def check_spawn_def c split: sum.splits prod.splits)
qed

text \<open>C4: No child without every check: a run that errs has spawned nothing, and a run that
  returns an outcome spawned exactly one child, with runs enabled, a spend cap or a deadline
  on the request, a free slot, a verification of the binary that passed, and an environment
  free of every forbidden key. Either way the slot is given back.\<close>

theorem no_child_without_every_check:
  assumes "run sha256 parse_json serde_msg w r s = (result, t)" and "counter_fits s"
  shows "sv_active (rt_supervisor t) = sv_active s
    \<and> (case result of
         Inl e \<Rightarrow> rt_spawned t = []
       | Inr ro \<Rightarrow>
           qc_enabled (sv_config s) \<and> (rn_spend_micro_usd r \<noteq> None \<or> rn_deadline r \<noteq> None)
           \<and> sv_active s < qc_max_concurrent_runs (sv_config s)
           \<and> is_ok (fst (check_inner sha256 parse_json serde_msg (w_os w) (sv_gate s)
                            (qc_binary_path (sv_config s))))
           \<and> (\<exists>cmd. rt_spawned t = [cmd] \<and> (\<forall>(k, v) \<in> set (sc_env cmd). \<not> forbidden_env_key k)))"
proof (cases "qc_enabled (sv_config s) \<and> (rn_spend_micro_usd r \<noteq> None \<or> rn_deadline r \<noteq> None)
    \<and> is_ok (try_claim_slot s)")
  case False
  then show ?thesis
    using assms(1) by (auto simp: run_def Let_def is_ok_def split: if_splits sum.splits)
next
  case True
  then obtain s1 where s1: "try_claim_slot s = Inr s1" by (auto simp: is_ok_def split: sum.splits)
  obtain t1 where t1: "run_claimed sha256 parse_json serde_msg w r s1 = (result, t1)"
    and t: "t = t1\<lparr>rt_supervisor := drop_guard (rt_supervisor t1)\<rparr>"
    using assms(1) True s1 by (auto simp: run_def Let_def split: prod.splits)
  have s1f: "sv_config s1 = sv_config s" "sv_gate s1 = sv_gate s"
    using s1 by (auto simp: try_claim_slot_def Let_def split: if_splits)
  have free: "sv_active s < qc_max_concurrent_runs (sv_config s)"
    using run_slots.claim_Ok [OF assms(2) s1] by simp
  have "sv_active (drop_guard s1) = sv_active s" using run_slots.claim_release [OF assms(2) s1] .
  then have "sv_active (rt_supervisor t) = sv_active s"
    using run_claimed_cases [OF t1] by (simp add: t drop_guard_def)
  with run_claimed_cases [OF t1] True free s1f sanitize_forbidden show ?thesis
    by (auto simp: t is_ok_def split: sum.splits)
qed

definition demo_world :: world where
  "demo_world = \<lparr>w_os = demo_os, w_run_id = ''id'', w_create_dir = (\<lambda>_. Inr ()), w_spawn = (\<lambda>_. Inr ()),
     w_wake = Exited (Some (ExitCode 0)), w_stdout = [], w_stderr = [], w_abandoned = False,
     w_record_bytes = None, w_duration = 5\<rparr>"

definition demo_supervisor :: supervisor where
  "demo_supervisor = with_verifier demo_verifier (with_gateway_port 8080 (new_supervisor
     (default_quarry_config\<lparr>qc_enabled := True, qc_binary_path := ''/bin/quarry'',
        qc_run_record_dir := ''/runs'', qc_verification := demo_verification\<rparr>)))"

lemma demo_run_ok:
  "is_ok (fst (run (\<lambda>b. ''sha:'' @ b) demo_manifest_parser (\<lambda>_ _. []) demo_world
     (new_run_request ''u'' ''c'' ''why'' 5000000) demo_supervisor))"
proof -
  have "is_ok (fst (check_inner (\<lambda>b. ''sha:'' @ b) demo_manifest_parser (\<lambda>_ _. []) demo_os
      (sv_gate demo_supervisor) ''/bin/quarry''))" by code_simp
  moreover have "sv_active demo_supervisor = 0" "qc_enabled (sv_config demo_supervisor)"
    "qc_max_concurrent_runs (sv_config demo_supervisor) = 2"
    "qc_binary_path (sv_config demo_supervisor) = ''/bin/quarry''" by code_simp+
  ultimately show ?thesis
    by (auto simp: run_def run_claimed_def check_spawn_def try_claim_slot_def Let_def demo_world_def
        new_run_request_def is_ok_def split: sum.splits prod.splits)
qed

lemma demo_run_spawns:
  "rt_spawned (snd (run (\<lambda>b. ''sha:'' @ b) demo_manifest_parser (\<lambda>_ _. []) demo_world
     (new_run_request ''u'' ''c'' ''why'' 5000000) demo_supervisor)) \<noteq> []"
  using demo_run_ok
  by (auto simp: run_def run_claimed_def Let_def is_ok_def split: sum.splits prod.splits if_splits)

lemma no_child_without_every_check_witness:
  "\<exists>ro t. run (\<lambda>b. ''sha:'' @ b) demo_manifest_parser (\<lambda>_ _. []) demo_world
      (new_run_request ''u'' ''c'' ''why'' 5000000) demo_supervisor = (Inr ro, t)
     \<and> sv_active (rt_supervisor t) = 0
     \<and> (\<exists>cmd. rt_spawned t = [cmd] \<and> (\<forall>(k, v) \<in> set (sc_env cmd). \<not> forbidden_env_key k))"
proof -
  let ?run = "run (\<lambda>b. ''sha:'' @ b) demo_manifest_parser (\<lambda>_ _. []) demo_world
      (new_run_request ''u'' ''c'' ''why'' 5000000) demo_supervisor"
  obtain result t where r: "?run = (result, t)" by force
  then obtain ro where ro: "result = Inr ro" using demo_run_ok by (auto simp: is_ok_def split: sum.splits)
  have "sv_active demo_supervisor = 0" "qc_max_concurrent_runs (sv_config demo_supervisor) = 2" by code_simp+
  then have fits: "counter_fits demo_supervisor" "sv_active demo_supervisor = 0"
    by (simp_all add: counter_fits_def)
  from no_child_without_every_check [OF r fits(1)] ro fits(2) show ?thesis using r by auto
qed

text \<open>The program that runs is the configured name, not the path that was verified: for a bare
  name found on the gateway's own \<open>PATH\<close> the two differ, and with a cleared environment the
  child's lookup of that name does not see that \<open>PATH\<close>.\<close>

lemma spawned_program_is_not_the_verified_path:
  "let fs = demo_os\<lparr>os_path_var := Some ''/opt/verified''\<rparr>;
       s = demo_supervisor\<lparr>sv_config := (sv_config demo_supervisor)\<lparr>qc_binary_path := ''quarry''\<rparr>\<rparr>;
       t = snd (run (\<lambda>b. ''sha:'' @ b) demo_manifest_parser (\<lambda>_ _. []) (demo_world\<lparr>w_os := fs\<rparr>)
             (new_run_request ''u'' ''c'' ''why'' 5000000) s)
   in resolve_binary fs ''quarry'' = Inr ''/opt/verified/quarry''
      \<and> map sc_program (rt_spawned t) = [''quarry'']"
proof -
  let ?fs = "demo_os\<lparr>os_path_var := Some ''/opt/verified''\<rparr>"
  have "is_ok (fst (check_inner (\<lambda>b. ''sha:'' @ b) demo_manifest_parser (\<lambda>_ _. []) ?fs
      (sv_gate demo_supervisor) ''quarry''))" by code_simp
  moreover have "resolve_binary ?fs ''quarry'' = Inr ''/opt/verified/quarry''" by code_simp
  moreover have "sv_active demo_supervisor = 0" "qc_enabled (sv_config demo_supervisor)"
    "qc_max_concurrent_runs (sv_config demo_supervisor) = 2" by code_simp+
  ultimately show ?thesis
    by (auto simp: run_def run_claimed_def check_spawn_def try_claim_slot_def Let_def demo_world_def
        new_run_request_def is_ok_def wrap_usize_def split: sum.splits prod.splits)
qed

subsection \<open>What is reaped\<close>

lemma doomed_fold_set:
  "set (foldl (\<lambda>doomed p. if p \<in> set doomed then doomed else doomed @ [p]) old extra) = set old \<union> set extra"
  by (induction extra arbitrary: old) auto

lemma doomed_fold_distinct:
  "distinct old \<Longrightarrow> distinct (foldl (\<lambda>doomed p. if p \<in> set doomed then doomed else doomed @ [p]) old extra)"
  by (induction extra arbitrary: old) auto

text \<open>Retention keeps the newest: every reaped directory is one of the entries and is
  reaped once; with a count limit at most that many directories survive; and with only a
  count limit, no reaped directory is newer than one that is kept.\<close>

theorem reaping_keeps_the_newest:
  assumes "distinct (map snd entries)"
  shows "distinct (doomed_dirs c now entries) \<and> set (doomed_dirs c now entries) \<subseteq> snd ` set entries
    \<and> (0 < qc_retention_max_runs c \<longrightarrow>
        length entries - length (doomed_dirs c now entries) \<le> qc_retention_max_runs c)
    \<and> (qc_retention_max_age_seconds c = 0 \<longrightarrow>
        (\<forall>(t, p) \<in> set entries. \<forall>(t', p') \<in> set entries.
           p \<in> set (doomed_dirs c now entries) \<longrightarrow> p' \<notin> set (doomed_dirs c now entries) \<longrightarrow> t \<le> t'))"
proof -
  let ?d = "sort_key fst entries"
  let ?k = "length entries - qc_retention_max_runs c"
  define old where "old = (if 0 < qc_retention_max_age_seconds c
    then map snd (filter (\<lambda>(t, _). t \<le> now \<and> from_secs (qc_retention_max_age_seconds c) < now - t) ?d) else [])"
  define extra where "extra = (if 0 < qc_retention_max_runs c \<and> qc_retention_max_runs c < length entries
    then map snd (take ?k ?d) else [])"
  have dd: "doomed_dirs c now entries
      = foldl (\<lambda>doomed p. if p \<in> set doomed then doomed else doomed @ [p]) old extra"
    by (simp add: doomed_dirs_def Let_def old_def extra_def)
  have dist: "distinct (map snd ?d)"
  proof -
    have "mset (map snd ?d) = mset (map snd entries)" by simp
    then show ?thesis using assms by (metis distinct_count_atmost_1 mset_eq_setD)
  qed
  have so: "set (doomed_dirs c now entries) = set old \<union> set extra" by (simp add: dd doomed_fold_set)
  have "distinct old" using dist by (auto simp: old_def distinct_map intro: inj_on_subset)
  then have 1: "distinct (doomed_dirs c now entries)" by (simp add: dd doomed_fold_distinct)
  have 2: "set (doomed_dirs c now entries) \<subseteq> snd ` set entries"
    using set_take_subset [of ?k ?d] by (auto simp: so old_def extra_def dest!: in_set_takeD)
  have 3: "length entries - length (doomed_dirs c now entries) \<le> qc_retention_max_runs c"
    if "0 < qc_retention_max_runs c"
  proof (cases "qc_retention_max_runs c < length entries")
    case True
    then have "distinct extra" "length extra = ?k"
      using that dist by (simp_all add: extra_def distinct_take flip: take_map)
    then have "?k \<le> card (set (doomed_dirs c now entries))"
      by (metis so Un_upper2 card_mono distinct_card List.finite_set)
    also have "\<dots> \<le> length (doomed_dirs c now entries)" by (rule card_length)
    finally show ?thesis by simp
  qed simp
  have 4: "t \<le> t'" if "qc_retention_max_age_seconds c = 0" "(t, p) \<in> set entries" "(t', p') \<in> set entries"
    "p \<in> set (doomed_dirs c now entries)" "p' \<notin> set (doomed_dirs c now entries)" for t p t' p'
  proof -
    have ex: "p \<in> set extra" "p' \<notin> set extra" using that so by (auto simp: old_def)
    then have "extra = map snd (take ?k ?d)" by (auto simp: extra_def split: if_splits)
    with ex obtain t0 where t0: "(t0, p) \<in> set (take ?k ?d)" by auto
    moreover have "(t0, p) \<in> set entries" using t0 by (auto dest!: in_set_takeD)
    ultimately have "(t, p) \<in> set (take ?k ?d)" using that(2) assms by (metis eq_key_imp_eq_value
        inj_on_def distinct_map snd_conv)
    moreover have "(t', p') \<in> set (drop ?k ?d)"
    proof -
      have "(t', p') \<in> set (take ?k ?d @ drop ?k ?d)" using that(3) by simp
      then show ?thesis using ex \<open>extra = map snd (take ?k ?d)\<close> by (force simp del: append_take_drop_id)
    qed
    moreover have "sorted (map fst (take ?k ?d) @ map fst (drop ?k ?d))"
      by (simp flip: map_append)
    ultimately show "t \<le> t'" by (fastforce simp: sorted_append)
  qed
  show ?thesis using 1 2 3 4 by blast
qed

lemma reaping_keeps_the_newest_witness:
  "set (doomed_dirs (default_quarry_config\<lparr>qc_retention_max_runs := 1\<rparr>) 100 [(9, ''b''), (3, ''a'')]) \<subseteq> {''a'', ''b''}
   \<and> length (doomed_dirs (default_quarry_config\<lparr>qc_retention_max_runs := 1\<rparr>) 100 [(9, ''b''), (3, ''a'')]) \<ge> 1"
  using reaping_keeps_the_newest [of "[(9, ''b''), (3, ''a'')]" "default_quarry_config\<lparr>qc_retention_max_runs := 1\<rparr>" 100]
  by auto

end
