(* ===== verification/Gate.thy ===== *)
theory Gate
  imports Approval Supervisor
begin

section \<open>A run behind its plan gate (\<open>src/quarry/gate.rs\<close>)\<close>

text \<open>
  \<open>run_gated\<close> registers the approval, sends the plan, waits and only then runs. What others
  do while it waits is the argument \<open>settle\<close>: the decision \<open>ticket.wait()\<close> returns and the
  registry it leaves. The locale \<open>plan_gate\<close> is the contract the code relies on, that a
  decision to spend has the sender's consent behind it; it is interpreted on the transition
  system of \<open>Approval\<close>, so that the guarantee reaches the child process.
\<close>

subsection \<open>Outcomes\<close>

datatype gate_outcome = Ran run_outcome | NotRun decision | SpawnFailed spawn_error

fun gate_spend_micro_usd :: "gate_outcome \<Rightarrow> int option" where
  "gate_spend_micro_usd (Ran outcome) = outcome_cost_micro_usd outcome"
| "gate_spend_micro_usd (NotRun _) = Some 0"
| "gate_spend_micro_usd (SpawnFailed _) = Some 0"

fun gate_ran :: "gate_outcome \<Rightarrow> bool" where
  "gate_ran (Ran _) = True"
| "gate_ran _ = False"

fun gate_decision :: "gate_outcome \<Rightarrow> decision option" where
  "gate_decision (NotRun d) = Some d"
| "gate_decision _ = None"

text \<open>A reply that could not be delivered; the plan's carries the context the code adds.\<close>

datatype gate_error = PlanNotSent string | ReplyNotSent string

text \<open>What the gate did: the messages delivered, the registry left and the run, if any.\<close>

record gate_trace =
  gt_messages :: "string list"
  gt_registry :: registry
  gt_run :: "run_trace option"

definition gt_spawned :: "gate_trace \<Rightarrow> spawn_command list" where
  "gt_spawned t = (case gt_run t of None \<Rightarrow> [] | Some r \<Rightarrow> rt_spawned r)"

subsection \<open>Running behind the gate\<close>

text \<open>The \<open>Approved\<close> branch of the source is \<open>unreachable!\<close>; here it is never consulted.\<close>

fun refusal_text :: "decision \<Rightarrow> string" where
  "refusal_text Cancelled = render_cancelled"
| "refusal_text Expired = render_expired"
| "refusal_text Superseded = render_superseded"
| "refusal_text Approved = []"

definition settle_gate ::
    "(string \<Rightarrow> string + unit) \<Rightarrow> (run_request \<Rightarrow> (spawn_error + run_outcome) \<times> run_trace)
     \<Rightarrow> run_request \<Rightarrow> string \<Rightarrow> decision \<times> registry \<Rightarrow> (gate_error + gate_outcome) \<times> gate_trace" where
  "settle_gate reply child request plan waited =
     (let (d, r) = waited in
      if \<not> may_spend d then
        (case reply (refusal_text d) of
           Inl e \<Rightarrow> (Err (ReplyNotSent e), \<lparr>gt_messages = [plan], gt_registry = r, gt_run = None\<rparr>)
         | Inr _ \<Rightarrow> (Ok (NotRun d),
             \<lparr>gt_messages = [plan, refusal_text d], gt_registry = r, gt_run = None\<rparr>))
      else
        (let (result, t) = child request
         in (Ok (case result of Inr outcome \<Rightarrow> Ran outcome | Inl e \<Rightarrow> SpawnFailed e),
             \<lparr>gt_messages = [plan], gt_registry = r, gt_run = Some t\<rparr>)))"

definition open_gate ::
    "(instant \<Rightarrow> string) \<Rightarrow> nat \<Rightarrow> string \<Rightarrow> plan_disclosure \<Rightarrow> run_request \<Rightarrow> duration \<Rightarrow> registry
     \<Rightarrow> ticket \<times> registry" where
  "open_gate rfc3339 now request_id disclosure request timeout r =
     begin_approval now request_id (rn_user_id request) (rn_channel_id request)
       (approved_caps_from_grant rfc3339 (pd_granted disclosure)) timeout r"

definition run_gated ::
    "(instant \<Rightarrow> string) \<Rightarrow> (string \<Rightarrow> string + unit) \<Rightarrow> (string \<Rightarrow> string + unit)
     \<Rightarrow> (ticket \<Rightarrow> registry \<Rightarrow> decision \<times> registry)
     \<Rightarrow> (run_request \<Rightarrow> (spawn_error + run_outcome) \<times> run_trace)
     \<Rightarrow> nat \<Rightarrow> string \<Rightarrow> plan_disclosure \<Rightarrow> run_request \<Rightarrow> duration \<Rightarrow> registry
     \<Rightarrow> (gate_error + gate_outcome) \<times> gate_trace" where
  "run_gated rfc3339 reply_plan reply settle child now request_id disclosure request timeout r =
     (let (ticket, r1) = open_gate rfc3339 now request_id disclosure request timeout r;
          plan = render_plan rfc3339 disclosure
      in case reply_plan plan of
           Inl e \<Rightarrow> (Err (PlanNotSent e), \<lparr>gt_messages = [], gt_registry = r1, gt_run = None\<rparr>)
         | Inr _ \<Rightarrow> settle_gate reply child request plan (settle ticket r1))"

lemma run_gated_runs:
  assumes "run_gated rfc3339 reply_plan reply settle child now rid disclosure request timeout r = (result, t)"
    and "gt_run t = Some rt"
  obtains ticket r1 where "open_gate rfc3339 now rid disclosure request timeout r = (ticket, r1)"
    and "reply_plan (render_plan rfc3339 disclosure) = Inr ()"
    and "may_spend (fst (settle ticket r1))" and "snd (child request) = rt"
    and "gt_messages t = [render_plan rfc3339 disclosure]"
    and "result = Inr (case fst (child request) of Inr out \<Rightarrow> Ran out | Inl e \<Rightarrow> SpawnFailed e)"
  using assms
  by (auto simp: run_gated_def settle_gate_def Let_def split: prod.splits sum.splits if_splits)

lemma run_gated_idle:
  assumes "run_gated rfc3339 reply_plan reply settle child now rid disclosure request timeout r = (result, t)"
    and "gt_run t = None"
  shows "case result of Inl _ \<Rightarrow> True | Inr out \<Rightarrow> gate_spend_micro_usd out = Some 0 \<and> \<not> gate_ran out"
  using assms
  by (auto simp: run_gated_def settle_gate_def Let_def split: prod.splits sum.splits if_splits)

subsection \<open>The contract of a plan gate\<close>

text \<open>A history \<open>w\<close> of the gate settles a ticket with a decision; \<open>consent\<close> is what the
  sender must have said in it.\<close>

locale plan_gate =
  fixes settles :: "'w \<Rightarrow> ticket \<Rightarrow> decision \<Rightarrow> bool"
    and consent :: "'w \<Rightarrow> ticket \<Rightarrow> bool"
  assumes settled_consent: "settles w t d \<Longrightarrow> may_spend d \<Longrightarrow> consent w t"
begin

lemma spawned_with_consent:
  assumes "run_gated rfc3339 reply_plan reply settle child now rid disclosure request timeout r = (result, t)"
    and "gt_spawned t \<noteq> []"
    and "open_gate rfc3339 now rid disclosure request timeout r = (ticket, r1)"
    and "settles w ticket (fst (settle ticket r1))"
  shows "consent w ticket"
proof -
  from assms(2) obtain rt where "gt_run t = Some rt" by (auto simp: gt_spawned_def split: option.splits)
  from run_gated_runs [OF assms(1) this] assms(3) have "may_spend (fst (settle ticket r1))" by auto
  with assms(4) show ?thesis by (rule settled_consent)
qed

end

text \<open>The approval registry's transition system is such a gate.\<close>

definition gate_settles ::
    "(string \<Rightarrow> string) \<Rightarrow> bool \<Rightarrow> gate_system \<Rightarrow> ticket \<Rightarrow> decision \<Rightarrow> bool" where
  "gate_settles ulc audit s t d \<longleftrightarrow>
     gate_reachable ulc audit s
     \<and> (\<exists>i < length (sy_tickets s). tr_ticket (sy_tickets s ! i) = t \<and> tr_phase (sy_tickets s ! i) = Returned d)"

definition said_yes :: "(string \<Rightarrow> string) \<Rightarrow> gate_system \<Rightarrow> ticket \<Rightarrow> bool" where
  "said_yes ulc s t \<longleftrightarrow>
     (\<exists>i < length (sy_tickets s). tr_ticket (sy_tickets s ! i) = t \<and> approved_by ulc (sy_replies s) (sy_tickets s ! i))"

lemma returned_approved:
  assumes "gate_reachable ulc audit s" and "i < length (sy_tickets s)"
    and "tr_phase (sy_tickets s ! i) = Returned d" and "may_spend d"
  shows "approved_by ulc (sy_replies s) (sy_tickets s ! i)"
proof -
  have "phase_ok ulc s (sy_tickets s ! i)"
    using gate_reachable_inv [OF assms(1)] inv_ticket assms(2) by blast
  with assms(3,4) show ?thesis
    by (cases d) (auto simp: phase_ok_def settled_ok_def)
qed

interpretation approvals: plan_gate "gate_settles ulc audit" "said_yes ulc" for ulc audit
  by unfold_locales (auto simp: gate_settles_def said_yes_def dest: returned_approved)

text \<open>The transition system once \<open>run_gated\<close> has registered its request.\<close>

definition gate_opened :: "gate_system \<Rightarrow> ticket \<times> registry \<Rightarrow> gate_system" where
  "gate_opened s opened = s\<lparr>sy_registry := snd opened,
     sy_tickets := sy_tickets s @ [\<lparr>tr_ticket = fst opened, tr_begun = sy_now s, tr_phase = Held\<rparr>]\<rparr>"

lemma gate_opened_reachable:
  assumes "gate_reachable ulc audit s"
  shows "gate_reachable ulc audit
    (gate_opened s (open_gate rfc3339 (sy_now s) rid disclosure request timeout (sy_registry s)))"
proof (rule gate_reachable.Step [OF assms])
  obtain t r where "open_gate rfc3339 (sy_now s) rid disclosure request timeout (sy_registry s) = (t, r)" by force
  then show "gate_step ulc s
      (gate_opened s (open_gate rfc3339 (sy_now s) rid disclosure request timeout (sy_registry s)))"
    using gate_step.Begin by (auto simp: gate_opened_def open_gate_def)
qed

lemma gate_steps_reachable:
  assumes "rtranclp (gate_step ulc) s s'" and "gate_reachable ulc audit s"
  shows "gate_reachable ulc audit s'"
  using assms by (induction rule: rtranclp_induct) (auto intro: gate_reachable.Step)

text \<open>Tickets stay where they are, whatever happens to them.\<close>

definition same_ticket :: "ticket_run \<Rightarrow> ticket_run \<Rightarrow> bool" where
  "same_ticket a b \<longleftrightarrow> tr_ticket a = tr_ticket b \<and> tr_begun a = tr_begun b"

lemma gate_step_tickets:
  assumes "gate_step ulc s s'" and "i < length (sy_tickets s)"
  shows "i < length (sy_tickets s') \<and> same_ticket (sy_tickets s' ! i) (sy_tickets s ! i)"
  using assms
  by (cases rule: gate_step.cases) (auto simp: set_phase_def same_ticket_def nth_append nth_list_update)

lemma gate_steps_tickets:
  assumes "rtranclp (gate_step ulc) s s'" and "i < length (sy_tickets s)"
  shows "i < length (sy_tickets s') \<and> same_ticket (sy_tickets s' ! i) (sy_tickets s ! i)"
  using assms
proof (induction rule: rtranclp_induct)
  case base
  then show ?case by (simp add: same_ticket_def)
next
  case (step y z)
  then show ?case using gate_step_tickets [of ulc y z i] by (auto simp: same_ticket_def)
qed

lemma begin_approval_ticket:
  "begin_approval now rid u c caps timeout r = (t, r1) \<Longrightarrow>
   tk_request_id t = rid \<and> tk_user_id t = u \<and> tk_channel_id t = c \<and> tk_caps t = caps \<and> tk_timeout t = timeout"
  by (auto simp: begin_approval_def Let_def)

subsection \<open>Properties\<close>

text \<open>C24: No process without the sender's yes. Let a gated run register in any reachable state
  of the gate, let replies, other requests, timeouts and the clock do what they may until its
  wait returns, and let it act on that decision: if it spawned anything, then the plan was
  delivered before, and the same sender said yes to it on the same channel, after it was
  registered and before it expired. If it ran nothing, its outcome reports no spend.\<close>

theorem gated_run_needs_a_yes:
  assumes "gate_reachable ulc audit s"
    and "open_gate rfc3339 (sy_now s) rid disclosure request timeout (sy_registry s) = (ticket, r1)"
    and "rtranclp (gate_step ulc) (gate_opened s (ticket, r1)) s'"
    and "tr_phase (sy_tickets s' ! length (sy_tickets s)) = Returned d"
    and "run_gated rfc3339 reply_plan reply (\<lambda>_ _. (d, sy_registry s'))
      (\<lambda>req. run sha256 parse_json serde_msg w req sv) (sy_now s) rid disclosure request timeout (sy_registry s)
      = (result, t)"
  shows "if gt_spawned t = [] then gt_run t = None \<longrightarrow>
      (case result of Inl _ \<Rightarrow> True | Inr out \<Rightarrow> gate_spend_micro_usd out = Some 0)
    else gt_messages t = [render_plan rfc3339 disclosure]
      \<and> (\<exists>(when, u, c, text) \<in> set (sy_replies s'). u = rn_user_id request \<and> c = rn_channel_id request
           \<and> classify_reply ulc text = Approve \<and> sy_now s \<le> when \<and> when < sy_now s + timeout)"
proof (cases "gt_spawned t = []")
  case True
  then show ?thesis using run_gated_idle [OF assms(5)] by (auto split: sum.splits)
next
  case False
  let ?i = "length (sy_tickets s)"
  have opened: "gate_reachable ulc audit (gate_opened s (ticket, r1))"
    using gate_opened_reachable [OF assms(1)] by (metis assms(2))
  have i: "?i < length (sy_tickets s')" "same_ticket (sy_tickets s' ! ?i) (sy_tickets (gate_opened s (ticket, r1)) ! ?i)"
    using gate_steps_tickets [OF assms(3), of ?i] by (auto simp: gate_opened_def)
  then have same: "tr_ticket (sy_tickets s' ! ?i) = ticket" "tr_begun (sy_tickets s' ! ?i) = sy_now s"
    by (auto simp: same_ticket_def gate_opened_def)
  have "gate_reachable ulc audit s'" using assms(3) opened by (rule gate_steps_reachable)
  then have settles: "gate_settles ulc audit s' ticket d"
    using i(1) same(1) assms(4) by (auto simp: gate_settles_def)
  have "said_yes ulc s' ticket"
    using approvals.spawned_with_consent [OF assms(5) False assms(2)] settles by simp
  then obtain j where j: "j < length (sy_tickets s')" "tr_ticket (sy_tickets s' ! j) = ticket"
    "approved_by ulc (sy_replies s') (sy_tickets s' ! j)" by (auto simp: said_yes_def)
  have "j = ?i"
    using gate_reachable_inv [OF \<open>gate_reachable ulc audit s'\<close>] inv_ticket j(1,2) i(1) same(1) by metis
  moreover from False obtain rt where "gt_run t = Some rt" by (auto simp: gt_spawned_def split: option.splits)
  from run_gated_runs [OF assms(5) this] have "gt_messages t = [render_plan rfc3339 disclosure]" by auto
  ultimately show ?thesis
    using False j(3) same begin_approval_ticket [OF assms(2) [unfolded open_gate_def]]
    by (auto simp: approved_by_def)
qed

definition demo_grant :: grant where
  "demo_grant = \<lparr>g_spend_micro_usd = Some 5000000, g_latency = None, g_due = None, g_scope = [],
     g_adjustments = []\<rparr>"

definition demo_disclosure :: plan_disclosure where
  "demo_disclosure = \<lparr>pd_statement = ''why'', pd_granted = demo_grant, pd_adjustments = [],
     pd_caps_disclosures = [], pd_estimate = Inl NoUpstreamPlanMode, pd_exclusions = Inl NoUpstreamPlanMode,
     pd_expires_in = 100\<rparr>"

lemma demo_opened:
  "gate_opened (gate_init True)
     (open_gate (\<lambda>_. []) 0 ''r1'' demo_disclosure (new_run_request ''u'' ''c'' ''why'' 5000000) 100
       (new_registry True)) = demo_begun"
proof -
  have "approved_caps_from_grant (\<lambda>_. []) demo_grant = demo_caps"
    by (simp add: approved_caps_from_grant_def demo_grant_def demo_caps_def)
  then show ?thesis
    by (simp add: open_gate_def demo_disclosure_def new_run_request_def gate_opened_def demo_begun_def
        gate_init_def split_beta)
qed

lemma demo_gate_path: "rtranclp (gate_step (\<lambda>s. s)) demo_begun demo_returned"
  using demo_steps(2-5) by (meson rtranclp.rtrancl_refl rtranclp.rtrancl_into_rtrancl)

lemma gated_run_needs_a_yes_witness:
  "\<exists>t result. run_gated (\<lambda>_. []) (\<lambda>_. Inr ()) (\<lambda>_. Inr ()) (\<lambda>_ _. (Approved, sy_registry demo_returned))
      (\<lambda>req. run (\<lambda>b. ''sha:'' @ b) demo_manifest_parser (\<lambda>_ _. []) demo_world req demo_supervisor)
      0 ''r1'' demo_disclosure (new_run_request ''u'' ''c'' ''why'' 5000000) 100 (new_registry True)
      = (result, t)
    \<and> gt_spawned t \<noteq> []
    \<and> (\<exists>(when, u, c, text) \<in> set (sy_replies demo_returned). u = ''u'' \<and> c = ''c''
         \<and> classify_reply (\<lambda>s. s) text = Approve)"
proof -
  let ?req = "new_run_request ''u'' ''c'' ''why'' 5000000"
  let ?child = "\<lambda>req. run (\<lambda>b. ''sha:'' @ b) demo_manifest_parser (\<lambda>_ _. []) demo_world req demo_supervisor"
  let ?gated = "run_gated (\<lambda>_. []) (\<lambda>_. Inr ()) (\<lambda>_. Inr ()) (\<lambda>_ _. (Approved, sy_registry demo_returned))
      ?child 0 ''r1'' demo_disclosure ?req 100 (new_registry True)"
  obtain ticket r1 where o: "open_gate (\<lambda>_. []) 0 ''r1'' demo_disclosure ?req 100 (new_registry True) = (ticket, r1)"
    by force
  obtain result t where g: "?gated = (result, t)" by force
  have init: "sy_now (gate_init True) = 0" "sy_registry (gate_init True) = new_registry True"
    "length (sy_tickets (gate_init True)) = 0" by (simp_all add: gate_init_def)
  have begun: "gate_opened (gate_init True) (ticket, r1) = demo_begun" using demo_opened o by simp
  have phase: "tr_phase (sy_tickets demo_returned ! 0) = Returned Approved" by code_simp
  have "rt_spawned (snd (?child ?req)) \<noteq> []"
    by (rule demo_run_spawns)
  moreover have "gt_run t = Some (snd (?child ?req))"
    using g o by (auto simp: run_gated_def settle_gate_def Let_def split: prod.splits)
  ultimately have spawned: "gt_spawned t \<noteq> []" by (simp add: gt_spawned_def)
  from gated_run_needs_a_yes [of "\<lambda>s. s" True "gate_init True" "\<lambda>_. []" "''r1''" demo_disclosure ?req 100
      ticket r1 demo_returned Approved "\<lambda>_. Inr ()" "\<lambda>_. Inr ()", OF gate_reachable.Init]
  have "\<exists>(when, u, c, text) \<in> set (sy_replies demo_returned). u = ''u'' \<and> c = ''c''
         \<and> classify_reply (\<lambda>s. s) text = Approve"
    using o g spawned init begun demo_gate_path phase by (fastforce simp: new_run_request_def)
  with g spawned show ?thesis by blast
qed

end
