(* ===== verification/Tool_Result.thy ===== *)
theory Tool_Result
  imports Event
begin

section \<open>Calls of tools (\<open>src/tools/mod.rs\<close>)\<close>

text \<open>
  What every tool shares: a call's parameters, a JSON object's entries, are read by name and
  type, and its result is a JSON value or an error text. The registry keeps one tool per name.
\<close>

text \<open>\<open>ToolResult::error\<close> and \<open>ToolResult::success\<close>.\<close>

datatype tool_result = ToolError string | ToolSuccess json

definition par :: "(string \<times> json) list \<Rightarrow> string \<Rightarrow> (json \<Rightarrow> 'a option) \<Rightarrow> 'a option" where
  "par params name f = Option.bind (map_of params name) f"

fun as_bool :: "json \<Rightarrow> bool option" where
  "as_bool (JBool b) = Some b"
| "as_bool _ = None"

fun as_u64 :: "json \<Rightarrow> nat option" where
  "as_u64 (JInt i) = (if 0 \<le> i \<and> i < 2 ^ 64 then Some (nat i) else None)"
| "as_u64 _ = None"

fun as_f64 :: "json \<Rightarrow> f64 option" where
  "as_f64 (JInt i) = Some (fl (of_int i))"
| "as_f64 (JFloat x) = Some x"
| "as_f64 _ = None"

text \<open>A text in single quotes, as messages show it.\<close>

definition quoted :: "string \<Rightarrow> string" where
  "quoted s = [CHR 0x27] @ s @ [CHR 0x27]"

subsection \<open>The registry\<close>

type_synonym 't tool_registry = "(string \<times> 't) list"

definition register :: "string \<Rightarrow> 't \<Rightarrow> 't tool_registry \<Rightarrow> string + 't tool_registry" where
  "register name tool r =
     (if name \<in> fst ` set r then Err (''tool '' @ quoted name @ '' is already registered'')
      else Ok (r @ [(name, tool)]))"

definition get_tool :: "'t tool_registry \<Rightarrow> string \<Rightarrow> 't option" where
  "get_tool r name = map_of r name"

text \<open>Registering never replaces a tool.\<close>

lemma register_keeps:
  assumes "register name tool r = Ok r'"
  shows "get_tool r' n = (if n = name then Some tool else get_tool r n)"
    and "get_tool r n = Some t \<Longrightarrow> get_tool r' n = Some t"
    and "distinct (map fst r) \<Longrightarrow> distinct (map fst r')"
proof -
  have r': "r' = r @ [(name, tool)]" and new: "name \<notin> fst ` set r"
    using assms by (auto simp: register_def split: if_splits)
  from new have "map_of r name = None" by (simp add: map_of_eq_None_iff)
  then show get: "get_tool r' n = (if n = name then Some tool else get_tool r n)"
    by (auto simp: r' get_tool_def map_add_def split: option.split)
  show "get_tool r n = Some t \<Longrightarrow> get_tool r' n = Some t"
    using \<open>map_of r name = None\<close> by (auto simp: get) (simp add: get_tool_def)
  show "distinct (map fst r) \<Longrightarrow> distinct (map fst r')" using new by (simp add: r')
qed

end
