(* ===== verification/Shell_Tool.thy ===== *)
theory Shell_Tool
  imports Tool_Result
begin

section \<open>The shell tool (\<open>src/tools/shell.rs\<close>)\<close>

text \<open>
  What the shell tool runs for a call, up to the process it hands to the operating system,
  and what it answers. The process itself is a parameter: how it ended, and its output.
\<close>

subsection \<open>Configuration\<close>

record shell_tool_config =
  sh_require_approval :: bool
  sh_allowed_commands :: "string list"

definition default_shell_config :: shell_tool_config where
  "default_shell_config = \<lparr>sh_require_approval = True, sh_allowed_commands = []\<rparr>"

definition DEFAULT_TIMEOUT_SECS :: nat where
  "DEFAULT_TIMEOUT_SECS = 30"

definition SHELL_METACHARS :: "string list" where
  "SHELL_METACHARS = ['';'', ''|'', ''&'', ''$'', [CHR 0x60], ''>'', ''<'', [CHR 0x0A], [CHR 0x0D]]"

subsection \<open>Splitting a command\<close>

definition is_quote :: "string \<Rightarrow> bool" where
  "is_quote u \<longleftrightarrow> u = [CHR 0x27] \<or> u = [CHR 0x22]"

text \<open>The scan over the characters: the words so far, the current one, whether there is one, and
  the open quote.\<close>

fun scan_words :: "string list \<Rightarrow> string list \<Rightarrow> string \<Rightarrow> bool \<Rightarrow> string option \<Rightarrow> string + string list" where
  "scan_words [] argv current has_token quote =
     (if quote \<noteq> None then Err ''unterminated quote''
      else Ok (if has_token then argv @ [current] else argv))"
| "scan_words (ch # chs) argv current has_token quote =
     (case quote of
        Some q \<Rightarrow>
          if ch = q then scan_words chs argv current has_token None
          else scan_words chs argv (current @ ch) has_token quote
      | None \<Rightarrow>
          if is_quote ch then scan_words chs argv current True (Some ch)
          else if is_whitespace ch then
            (if has_token then scan_words chs (argv @ [current]) [] False None
             else scan_words chs argv current has_token None)
          else scan_words chs argv (current @ ch) True None)"

definition tokenize :: "string \<Rightarrow> string + string list" where
  "tokenize command = scan_words (chars command) [] [] False None"

definition is_allowed :: "string list \<Rightarrow> string list \<Rightarrow> bool" where
  "is_allowed argv allowlist \<longleftrightarrow>
     list_ex (\<lambda>entry. case tokenize entry of
         Inl _ \<Rightarrow> False
       | Inr expected \<Rightarrow> expected \<noteq> [] \<and> length expected \<le> length argv
           \<and> take (length expected) argv = expected) allowlist"

subsection \<open>A call\<close>

text \<open>What is handed to the operating system.\<close>

record shell_process =
  sp_program :: string
  sp_args :: "string list"
  sp_dir :: "string option"
  sp_timeout_secs :: nat

text \<open>A metacharacter as \<open>{:?}\<close> prints it.\<close>

definition char_debug :: "string \<Rightarrow> string" where
  "char_debug u = [CHR 0x27] @ (if u = [CHR 0x0A] then [CHR 0x5C] @ ''n'' else if u = [CHR 0x0D] then [CHR 0x5C] @ ''r''
     else u) @ [CHR 0x27]"

definition ticked :: "string \<Rightarrow> string" where
  "ticked s = [CHR 0x60] @ s @ [CHR 0x60]"

definition check_command :: "shell_tool_config \<Rightarrow> string \<Rightarrow> tool_result + string list option" where
  "check_command cfg command =
     (if sh_allowed_commands cfg = [] then Ok None
      else case find (\<lambda>c. c \<in> set SHELL_METACHARS) (chars command) of
        Some bad \<Rightarrow> Err (ToolError (''Command contains shell metacharacter '' @ char_debug bad
          @ '', which is not permitted when an allowlist is configured: '' @ ticked command))
      | None \<Rightarrow>
         (case tokenize command of
            Inl e \<Rightarrow> Err (ToolError (''Could not parse command ('' @ e @ ''): '' @ ticked command))
          | Inr argv \<Rightarrow>
              if argv = [] then Err (ToolError ''command is empty'')
              else if \<not> is_allowed argv (sh_allowed_commands cfg)
              then Err (ToolError (''Command not in allowlist: '' @ ticked command))
              else Ok (Some argv)))"

definition shell_call :: "shell_tool_config \<Rightarrow> (string \<times> json) list \<Rightarrow> tool_result + shell_process" where
  "shell_call cfg params =
     (case par params ''command'' as_str of
        None \<Rightarrow> Err (ToolError ''command parameter is required'')
      | Some command \<Rightarrow>
         (let dir = par params ''working_dir'' as_str;
              secs = (case par params ''timeout_seconds'' as_u64 of None \<Rightarrow> DEFAULT_TIMEOUT_SECS | Some n \<Rightarrow> n);
              approved = (case par params ''approved'' as_bool of None \<Rightarrow> False | Some b \<Rightarrow> b)
          in case check_command cfg command of
               Inl r \<Rightarrow> Err r
             | Inr argv \<Rightarrow>
                 if sh_require_approval cfg \<and> \<not> approved
                 then Err (ToolSuccess (JString (''Pending approval: '' @ ticked command @ newline @ newline
                   @ ''Call again with approved=true to execute.'')))
                 else Ok (case argv of
                     Some a \<Rightarrow> \<lparr>sp_program = hd a, sp_args = tl a, sp_dir = dir, sp_timeout_secs = secs\<rparr>
                   | None \<Rightarrow> \<lparr>sp_program = ''sh'', sp_args = [''-c'', command], sp_dir = dir,
                       sp_timeout_secs = secs\<rparr>)))"

text \<open>How the process ended; the output is text already decoded by \<open>from_utf8_lossy\<close>, and the
  exit code is absent for a signal.\<close>

datatype process_end = TimeLimit | NotStarted string | Finished string string "int option"

definition shell_report :: "string \<Rightarrow> nat \<Rightarrow> process_end \<Rightarrow> tool_result" where
  "shell_report command secs e =
     (case e of
        TimeLimit \<Rightarrow> ToolError (''Command timed out after '' @ show_nat secs @ ''s: '' @ ticked command)
      | NotStarted msg \<Rightarrow> ToolError (''Failed to spawn command: '' @ msg)
      | Finished out err code \<Rightarrow>
         (let combined = out @ (if err = [] then [] else (if out = [] then [] else newline) @ ''stderr: '' @ err)
            @ (if code = Some 0 then [] else newline @ ''[exit code: ''
                @ show_int (case code of None \<Rightarrow> - 1 | Some c \<Rightarrow> c) @ '']'')
          in ToolSuccess (JString (if combined = [] then ''(no output)'' else combined))))"

definition shell_execute ::
    "shell_tool_config \<Rightarrow> (shell_process \<Rightarrow> process_end) \<Rightarrow> (string \<times> json) list \<Rightarrow> tool_result" where
  "shell_execute cfg os_run params =
     (case shell_call cfg params of
        Inl r \<Rightarrow> r
      | Inr p \<Rightarrow> shell_report (the (par params ''command'' as_str)) (sp_timeout_secs p) (os_run p))"

subsection \<open>Properties\<close>

text \<open>A word in double quotes is one word, whatever it is made of, and words so quoted and set
  apart by blanks are read back as they are.\<close>

definition quoted_word :: "string \<Rightarrow> string" where
  "quoted_word w = [CHR 0x22] @ w @ [CHR 0x22]"

lemma scan_quoted:
  assumes "\<forall>u \<in> set us. u \<noteq> [CHR 0x22]"
  shows "scan_words (us @ [CHR 0x22] # chs) argv current True (Some [CHR 0x22])
    = scan_words chs argv (current @ concat us) True None"
  using assms by (induction us arbitrary: current) auto

lemma chars_quoted:
  assumes "valid_utf8 w"
  shows "chars (quoted_word w @ s) = [CHR 0x22] # chars w @ [CHR 0x22] # chars s"
proof -
  have q: "chars ([CHR 0x22] @ t) = [CHR 0x22] # chars t" for t
    by (rule chars_append_char) code_simp
  show ?thesis using q [of "w @ [CHR 0x22] @ s"] q [of s]
    by (simp add: quoted_word_def chars_append_valid [OF assms] del: chars.simps)
qed

lemma scan_quoted_words:
  assumes "\<forall>w \<in> set ws. valid_utf8 w \<and> CHR 0x22 \<notin> set w"
  shows "scan_words (chars (concat (map (\<lambda>w. quoted_word w @ '' '') ws))) argv [] False None = Ok (argv @ ws)"
  using assms
proof (induction ws arbitrary: argv)
  case (Cons w ws)
  have blank: "chars ('' '' @ s) = '' '' # chars s" for s
    by (rule chars_append_char) code_simp
  have "\<forall>u \<in> set (chars w). u \<noteq> [CHR 0x22]"
  proof
    fix u assume "u \<in> set (chars w)"
    then have "set u \<subseteq> set w" using concat_chars [of w] by (metis UN_upper set_concat)
    then show "u \<noteq> [CHR 0x22]" using Cons.prems by auto
  qed
  then have "scan_words (chars (quoted_word w @ '' '' @ s)) argv [] False None
      = scan_words (chars s) (argv @ [w]) [] False None" for s
    using Cons.prems scan_quoted [of "chars w" "'' '' # chars s" argv "[]"]
    by (simp add: chars_quoted blank [unfolded append_Cons append_Nil] is_quote_def is_whitespace_def byte_def del: chars.simps)
  then show ?case using Cons.IH [of "argv @ [w]"] Cons.prems by simp
qed simp

text \<open>Words in double quotes and set apart by blanks are read back exactly as they are, empty
  ones included, whatever characters of valid UTF-8 they are made of except the quote itself.\<close>

theorem quoted_words_read_back:
  assumes "\<forall>w \<in> set ws. valid_utf8 w \<and> CHR 0x22 \<notin> set w"
  shows "tokenize (concat (map (\<lambda>w. quoted_word w @ '' '') ws)) = Inr ws"
  using scan_quoted_words [OF assms, of "[]"] by (simp add: tokenize_def)

lemma quoted_words_read_back_witness:
  "tokenize (quoted_word ''a; b'' @ '' '' @ quoted_word [] @ '' '') = Inr [''a; b'', []]"
proof -
  have "valid_utf8 ''a; b''" by code_simp
  then show ?thesis using quoted_words_read_back [of "[''a; b'', []]"] by (simp add: valid_utf8_def)
qed

lemma check_command_allowed:
  assumes "check_command cfg command = Inr (Some argv)"
  shows "sh_allowed_commands cfg \<noteq> [] \<and> tokenize command = Inr argv \<and> argv \<noteq> []
    \<and> (\<forall>c \<in> set (chars command). c \<notin> set SHELL_METACHARS)
    \<and> (\<exists>entry \<in> set (sh_allowed_commands cfg). \<exists>expected rest.
         tokenize entry = Inr expected \<and> expected \<noteq> [] \<and> argv = expected @ rest)"
proof -
  have a: "sh_allowed_commands cfg \<noteq> []" and f: "find (\<lambda>c. c \<in> set SHELL_METACHARS) (chars command) = None"
    and t: "tokenize command = Inr argv" and e: "argv \<noteq> []" and i: "is_allowed argv (sh_allowed_commands cfg)"
    using assms by (auto simp: check_command_def split: if_splits option.splits sum.splits)
  from i obtain entry where entry: "entry \<in> set (sh_allowed_commands cfg)"
    and starts: "case tokenize entry of Inl _ \<Rightarrow> False | Inr expected \<Rightarrow> expected \<noteq> []
      \<and> length expected \<le> length argv \<and> take (length expected) argv = expected"
    unfolding is_allowed_def list_ex_iff by blast
  from starts obtain expected where "tokenize entry = Inr expected" "expected \<noteq> []"
    "take (length expected) argv = expected"
    by (cases "tokenize entry") simp_all
  moreover from this(3) have "argv = expected @ drop (length expected) argv"
    by (metis append_take_drop_id)
  moreover from f have "\<forall>c \<in> set (chars command). c \<notin> set SHELL_METACHARS"
    by (auto simp: find_None_iff)
  ultimately show ?thesis using a t e entry by blast
qed

text \<open>C31: With an allowlist no shell ever sees a command: whatever a model asks for, the process
  that runs is the program named by the first word of an allowlist entry, with that entry's
  words before every other argument, the words come from the command by quoting alone, no
  character of it is a shell metacharacter, and the call was approved where approval is
  required.\<close>

theorem allowlist_bounds_the_process:
  assumes "shell_call cfg params = Inr p" and "sh_allowed_commands cfg \<noteq> []"
  shows "\<exists>command entry expected rest.
      par params ''command'' as_str = Some command
    \<and> tokenize command = Inr (sp_program p # sp_args p)
    \<and> (\<forall>c \<in> set (chars command). c \<notin> set SHELL_METACHARS)
    \<and> entry \<in> set (sh_allowed_commands cfg) \<and> tokenize entry = Inr expected \<and> expected \<noteq> []
    \<and> sp_program p # sp_args p = expected @ rest
    \<and> (sh_require_approval cfg \<longrightarrow> par params ''approved'' as_bool = Some True)"
proof -
  from assms(1) obtain command where c: "par params ''command'' as_str = Some command"
    by (auto simp: shell_call_def split: option.splits)
  have approved: "sh_require_approval cfg \<longrightarrow> par params ''approved'' as_bool = Some True"
    using assms(1) c by (auto simp: shell_call_def Let_def split: sum.splits if_splits option.splits)
  obtain argv where argv: "check_command cfg command = Inr (Some argv)" "sp_program p = hd argv" "sp_args p = tl argv"
    using assms c
    by (auto simp: shell_call_def check_command_def Let_def split: sum.splits if_splits option.splits)
  note a = check_command_allowed [OF argv(1)]
  then have "sp_program p # sp_args p = argv" using argv by simp
  with a c approved show ?thesis by metis
qed

lemma allowlist_bounds_the_process_witness:
  "\<exists>p entry expected rest.
     shell_call \<lparr>sh_require_approval = True, sh_allowed_commands = [''git status'']\<rparr>
       [(''command'', JString ''git status -s''), (''approved'', JBool True)] = Inr p
     \<and> entry \<in> {''git status''} \<and> tokenize entry = Inr expected
     \<and> sp_program p # sp_args p = expected @ rest"
proof -
  let ?cfg = "\<lparr>sh_require_approval = True, sh_allowed_commands = [''git status'']\<rparr>"
  let ?params = "[(''command'', JString ''git status -s''), (''approved'', JBool True)]"
  have p: "shell_call ?cfg ?params
      = Inr \<lparr>sp_program = ''git'', sp_args = [''status'', ''-s''], sp_dir = None, sp_timeout_secs = 30\<rparr>"
    by code_simp
  from allowlist_bounds_the_process [OF p] p show ?thesis by auto
qed

end
