(* ===== verification/Bounded_Log.thy ===== *)
theory Bounded_Log
  imports Main
begin

section \<open>The tail of a log\<close>

text \<open>
  The last elements of a list: what a ring buffer and a bounded history keep of everything
  that went into them. Shared by the duplicate filter and the conversation memory.
\<close>

definition recent :: "nat \<Rightarrow> 'a list \<Rightarrow> 'a list" where
  "recent n xs = drop (length xs - n) xs"

lemma length_recent [simp]: "length (recent n xs) = min n (length xs)"
  by (simp add: recent_def)

lemma recent_all: "length xs \<le> n \<Longrightarrow> recent n xs = xs"
  by (simp add: recent_def)

lemma recent_Nil [simp]: "recent n [] = []"
  by (simp add: recent_def)

text \<open>What is already gone does not matter for what comes later.\<close>

lemma recent_append: "recent n (recent n xs @ ys) = recent n (xs @ ys)"
proof (cases "n \<le> length xs")
  case True
  then have "length xs - n + (n + length ys - n) = length xs + length ys - n" by simp
  with True show ?thesis by (simp add: recent_def add.commute)
next
  case False
  then show ?thesis by (simp add: recent_def)
qed

text \<open>One more element pushes out the oldest of a full buffer.\<close>

lemma recent_snoc:
  assumes "0 < n"
  shows "recent n (xs @ [x]) =
    (if length (recent n xs) = n then tl (recent n xs) else recent n xs) @ [x]"
proof (cases "n \<le> length xs")
  case True
  then have "Suc (length xs) - n = Suc (length xs - n)" by simp
  then show ?thesis using True assms by (simp add: recent_def drop_Suc tl_drop)
next
  case False
  then show ?thesis using assms by (simp add: recent_def)
qed

end
