(* ===== verification/Gateway_Edge.thy ===== *)
theory Gateway_Edge
  imports Rust_Str Bounded_Log
begin

section \<open>The gateway's edge\<close>

text \<open>
  Three small stores every inbound message passes: the duplicate filter
  (\<open>src/gateway/deduplicator.rs\<close>), the rate limiter (\<open>src/gateway/rate_limiter.rs\<close>) and the
  preferences (\<open>src/gateway/user_prefs.rs\<close>). The hash is a parameter. Instants are
  nanoseconds; a call of the limiter that reads the clock three times takes three readings.
\<close>

subsection \<open>Duplicates\<close>

record deduplicator =
  dd_window :: "string list"
  dd_capacity :: nat

definition new_deduplicator :: "nat \<Rightarrow> deduplicator" where
  "new_deduplicator capacity = \<lparr>dd_window = [], dd_capacity = capacity\<rparr>"

definition message_key :: "(string \<Rightarrow> string) \<Rightarrow> string \<Rightarrow> string \<Rightarrow> string" where
  "message_key sha256 user_id content = sha256 (user_id @ '':'' @ content)"

definition seen :: "(string \<Rightarrow> string) \<Rightarrow> string \<Rightarrow> string \<Rightarrow> deduplicator \<Rightarrow> bool \<times> deduplicator" where
  "seen sha256 user_id content d =
     (let key = message_key sha256 user_id content; w = dd_window d
      in if key \<in> set w then (True, d)
         else (False, d\<lparr>dd_window := (if length w = dd_capacity d then tl w else w) @ [key]\<rparr>))"

text \<open>A conversation through the filter: the verdict on each message, and the state left.\<close>

fun seen_all :: "(string \<Rightarrow> string) \<Rightarrow> (string \<times> string) list \<Rightarrow> deduplicator \<Rightarrow> bool list \<times> deduplicator" where
  "seen_all sha256 [] d = ([], d)"
| "seen_all sha256 ((u, c) # ms) d =
     (let (b, d1) = seen sha256 u c d; (bs, d2) = seen_all sha256 ms d1 in (b # bs, d2))"

text \<open>The specification: every key ever accepted is remembered, in order, and a message is a
  duplicate when its key is among the last \<open>n\<close> of them.\<close>

fun duplicates :: "nat \<Rightarrow> string list \<Rightarrow> string list \<Rightarrow> bool list \<times> string list" where
  "duplicates n history [] = ([], history)"
| "duplicates n history (k # ks) =
     (let dup = k \<in> set (recent n history);
          (bs, h) = duplicates n (if dup then history else history @ [k]) ks
      in (dup # bs, h))"

lemma seen_refines:
  assumes "0 < dd_capacity d" and "dd_window d = recent (dd_capacity d) history"
  shows "fst (seen_all sha256 ms d) = fst (duplicates (dd_capacity d) history
           (map (\<lambda>(u, c). message_key sha256 u c) ms))
    \<and> dd_capacity (snd (seen_all sha256 ms d)) = dd_capacity d
    \<and> dd_window (snd (seen_all sha256 ms d)) = recent (dd_capacity d)
        (snd (duplicates (dd_capacity d) history (map (\<lambda>(u, c). message_key sha256 u c) ms)))"
  using assms
proof (induction ms arbitrary: d history)
  case Nil
  then show ?case by simp
next
  case (Cons m ms)
  obtain u c where m: "m = (u, c)" by (cases m)
  let ?k = "message_key sha256 u c" and ?n = "dd_capacity d"
  let ?h = "if ?k \<in> set (recent ?n history) then history else history @ [?k]"
  obtain b d1 where d1: "seen sha256 u c d = (b, d1)" by force
  have step: "b = (?k \<in> set (recent ?n history))" "dd_capacity d1 = ?n" "dd_window d1 = recent ?n ?h"
    using d1 Cons.prems recent_snoc [OF Cons.prems(1), of history ?k]
    by (auto simp: seen_def Let_def split: if_splits)
  show ?case
    using Cons.IH [of d1 ?h] Cons.prems(1) step
    by (simp add: m d1 Let_def split_beta)
qed

subsection \<open>Rates\<close>

record rate_limit_config =
  rl_enabled :: bool
  rl_messages_per_window :: nat
  rl_window_seconds :: nat

definition default_rate_limit :: rate_limit_config where
  "default_rate_limit = \<lparr>rl_enabled = False, rl_messages_per_window = 20, rl_window_seconds = 60\<rparr>"

definition rate_window :: "rate_limit_config \<Rightarrow> nat" where
  "rate_window cfg = rl_window_seconds cfg * 10 ^ 9"

type_synonym rate_limits = "string \<Rightarrow> (nat \<times> nat) option"

text \<open>A call's readings of the clock: for a fresh entry, for the elapsed time, for a reset.\<close>

type_synonym readings = "nat \<times> nat \<times> nat"

definition check_and_record ::
    "rate_limit_config \<Rightarrow> string \<Rightarrow> readings \<Rightarrow> rate_limits \<Rightarrow> bool \<times> rate_limits" where
  "check_and_record cfg user_id ts limits =
     (if \<not> rl_enabled cfg then (True, limits)
      else (let (t0, t1, t2) = ts;
                (count, start) = (case limits user_id of None \<Rightarrow> (0, t0) | Some e \<Rightarrow> e)
            in if rate_window cfg \<le> t1 - start then (True, limits(user_id \<mapsto> (1, t2)))
               else if rl_messages_per_window cfg \<le> count then (False, limits(user_id \<mapsto> (count, start)))
               else (True, limits(user_id \<mapsto> (count + 1, start)))))"

text \<open>How many of a sequence of calls let a message of \<open>u\<close> through at a time in \<open>[a, b)\<close>.\<close>

fun passed :: "rate_limit_config \<Rightarrow> string \<Rightarrow> nat \<Rightarrow> nat \<Rightarrow> rate_limits \<Rightarrow> (string \<times> readings) list \<Rightarrow> nat" where
  "passed cfg u a b limits [] = 0"
| "passed cfg u a b limits ((v, ts) # calls) =
     (let (ok, limits') = check_and_record cfg v ts limits
      in (if ok \<and> v = u \<and> a \<le> fst (snd ts) \<and> fst (snd ts) < b then 1 else 0)
         + passed cfg u a b limits' calls)"

text \<open>Calls in the order of time.\<close>

fun in_order :: "nat \<Rightarrow> (string \<times> readings) list \<Rightarrow> bool" where
  "in_order t [] = True"
| "in_order t ((_, t0, t1, t2) # calls) \<longleftrightarrow> t \<le> t0 \<and> t0 \<le> t1 \<and> t1 \<le> t2 \<and> in_order t2 calls"

lemma in_order_mono: "in_order t calls \<Longrightarrow> s \<le> t \<Longrightarrow> in_order s calls"
  by (cases calls) auto

lemma in_order_later: "in_order t calls \<Longrightarrow> (v, t0, t1, t2) \<in> set calls \<Longrightarrow> t \<le> t1"
proof (induction calls arbitrary: t)
  case (Cons call calls)
  obtain w s0 s1 s2 where call: "call = (w, s0, s1, s2)" by (cases call) auto
  have "in_order t calls" using Cons.prems(1) call by (auto intro: in_order_mono [of s2])
  then show ?case using Cons call by auto
qed simp

lemma other_user:
  "check_and_record cfg v ts limits = (ok, limits') \<Longrightarrow> v \<noteq> u \<Longrightarrow> limits' u = limits u"
  by (auto simp: check_and_record_def Let_def split: if_splits prod.splits option.splits)

lemma passed_none:
  "b \<le> a \<or> (in_order t calls \<and> b \<le> t) \<Longrightarrow> passed cfg u a b limits calls = 0"
proof (induction calls arbitrary: limits t)
  case (Cons call calls)
  obtain v t0 t1 t2 where call: "call = (v, t0, t1, t2)" by (cases call) auto
  obtain ok l where l: "check_and_record cfg v (t0, t1, t2) limits = (ok, l)" by force
  have "b \<le> a \<or> (in_order t2 calls \<and> b \<le> t2)" using Cons.prems call by auto
  from Cons.IH [OF this] show ?case using Cons.prems by (auto simp: call l)
qed simp

text \<open>One call of \<open>u\<close> whose entry is \<open>(c, s)\<close>, or would be: it opens a window, is turned away, or
  counts.\<close>

definition entry_or :: "nat \<Rightarrow> (nat \<times> nat) option \<Rightarrow> nat \<times> nat" where
  "entry_or t0 e = (case e of None \<Rightarrow> (0, t0) | Some p \<Rightarrow> p)"

lemma entry_or_Some [simp]: "entry_or t (Some p) = p"
  by (simp add: entry_or_def)

lemma check_cases:
  assumes "rl_enabled cfg" and "entry_or t0 (limits u) = (c, s)"
    and "check_and_record cfg u (t0, t1, t2) limits = (ok, l)"
  obtains "rate_window cfg \<le> t1 - s" "ok" "l u = Some (1, t2)"
  | "t1 - s < rate_window cfg" "rl_messages_per_window cfg \<le> c" "\<not> ok" "l u = Some (c, s)"
  | "t1 - s < rate_window cfg" "c < rl_messages_per_window cfg" "ok" "l u = Some (c + 1, s)"
  using assms
  by (cases "rate_window cfg \<le> t1 - s"; cases "rl_messages_per_window cfg \<le> c")
    (auto simp: check_and_record_def entry_or_def Let_def split: option.splits)

text \<open>An entry begun within the interval is never reset within it.\<close>

lemma passed_late_window:
  assumes "rl_enabled cfg" and "limits u = Some (c, s)" and "a \<le> s" and "in_order t calls"
  shows "passed cfg u a (a + rate_window cfg) limits calls \<le> rl_messages_per_window cfg - c"
  using assms
proof (induction calls arbitrary: limits c t)
  case (Cons call calls)
  let ?b = "a + rate_window cfg"
  obtain v t0 t1 t2 where call: "call = (v, t0, t1, t2)" by (cases call) auto
  obtain ok l where l: "check_and_record cfg v (t0, t1, t2) limits = (ok, l)" by force
  have ord: "in_order t2 calls" "t1 \<le> t2" using Cons.prems(4) call by auto
  show ?case
  proof (cases "v = u")
    case False
    then have "l u = Some (c, s)" using other_user [OF l] Cons.prems(2) by simp
    from Cons.IH [of l, OF Cons.prems(1) this Cons.prems(3) ord(1)] show ?thesis using False by (simp add: call l)
  next
    case True
    have "entry_or t0 (limits u) = (c, s)" using Cons.prems(2) by (simp add: entry_or_def)
    from Cons.prems(1) this l [unfolded True] show ?thesis
    proof (cases rule: check_cases)
      case 1
      then have "?b \<le> a \<or> ?b \<le> t1" using Cons.prems(3) by auto
      then have "passed cfg u a ?b l calls = 0" "\<not> (a \<le> t1 \<and> t1 < ?b)"
        using ord by (auto intro!: passed_none [of _ _ t2])
      then show ?thesis by (auto simp: call l)
    next
      case 2
      from Cons.IH [of l, OF Cons.prems(1) 2(4) Cons.prems(3) ord(1)] 2 show ?thesis by (auto simp: call l)
    next
      case 3
      from Cons.IH [of l, OF Cons.prems(1) 3(4) Cons.prems(3) ord(1)] 3 show ?thesis by (auto simp: call l)
    qed
  qed
qed simp

text \<open>Whatever entry there is, at most one reset falls into the interval.\<close>

lemma passed_any_window:
  assumes "rl_enabled cfg" and "in_order t calls" and "\<forall>(v, t0, t1, t2) \<in> set calls. a \<le> t1"
  shows "passed cfg u a (a + rate_window cfg) limits calls
    \<le> (rl_messages_per_window cfg - fst (entry_or 0 (limits u))) + max 1 (rl_messages_per_window cfg)"
  using assms(2,3)
proof (induction calls arbitrary: limits t)
  case (Cons call calls)
  let ?b = "a + rate_window cfg" and ?N = "rl_messages_per_window cfg"
  obtain v t0 t1 t2 where call: "call = (v, t0, t1, t2)" by (cases call) auto
  obtain ok l where l: "check_and_record cfg v (t0, t1, t2) limits = (ok, l)" by force
  have ord: "in_order t2 calls" "a \<le> t2" and later: "\<forall>(v, t0, t1, t2) \<in> set calls. a \<le> t1"
    using Cons.prems call by auto
  note IH = Cons.IH [OF ord(1) later, of l]
  show ?case
  proof (cases "v = u")
    case False
    with other_user [OF l this] IH show ?thesis by (simp add: call l)
  next
    case True
    obtain c s where e: "entry_or t0 (limits u) = (c, s)" by force
    then have c: "fst (entry_or 0 (limits u)) = c" by (auto simp: entry_or_def split: option.splits)
    from assms(1) e l [unfolded True] show ?thesis
    proof (cases rule: check_cases)
      case 1
      from passed_late_window [of cfg l u, OF assms(1) 1(3) ord(2,1)] have "passed cfg u a ?b l calls \<le> ?N - 1" .
      then show ?thesis by (auto simp: call l max_def)
    next
      case 2
      then show ?thesis using IH by (auto simp: call l c)
    next
      case 3
      then show ?thesis using IH by (auto simp: call l c)
    qed
  qed
qed simp

subsection \<open>Preferences\<close>

record preferences =
  pf_preferred_channel_id :: "string option"
  pf_timezone :: "string option"

definition default_preferences :: preferences where
  "default_preferences = \<lparr>pf_preferred_channel_id = None, pf_timezone = None\<rparr>"

type_synonym user_prefs = "string \<Rightarrow> preferences option"

definition prefs_all :: "user_prefs \<Rightarrow> string \<Rightarrow> preferences" where
  "prefs_all m user_id = (case m user_id of None \<Rightarrow> default_preferences | Some p \<Rightarrow> p)"

definition prefs_set :: "string \<Rightarrow> string \<Rightarrow> user_prefs \<Rightarrow> user_prefs" where
  "prefs_set user_id channel_id m =
     m(user_id \<mapsto> (prefs_all m user_id)\<lparr>pf_preferred_channel_id := Some channel_id\<rparr>)"

definition prefs_get :: "user_prefs \<Rightarrow> string \<Rightarrow> string option" where
  "prefs_get m user_id = Option.bind (m user_id) pf_preferred_channel_id"

definition prefs_set_timezone :: "string \<Rightarrow> string \<Rightarrow> user_prefs \<Rightarrow> user_prefs" where
  "prefs_set_timezone user_id zone m = m(user_id \<mapsto> (prefs_all m user_id)\<lparr>pf_timezone := Some zone\<rparr>)"

definition prefs_timezone :: "user_prefs \<Rightarrow> string \<Rightarrow> string option" where
  "prefs_timezone m user_id = Option.bind (m user_id) pf_timezone"

definition prefs_clear :: "string \<Rightarrow> user_prefs \<Rightarrow> user_prefs" where
  "prefs_clear user_id m = m(user_id := None)"

text \<open>Setting one preference leaves the other, and everybody else's, alone.\<close>

lemma prefs_independent:
  "prefs_get (prefs_set u c m) v = (if v = u then Some c else prefs_get m v)"
  "prefs_timezone (prefs_set u c m) v = prefs_timezone m v"
  "prefs_timezone (prefs_set_timezone u z m) v = (if v = u then Some z else prefs_timezone m v)"
  "prefs_get (prefs_set_timezone u z m) v = prefs_get m v"
  "prefs_all (prefs_clear u m) v = (if v = u then default_preferences else prefs_all m v)"
  by (auto simp: prefs_get_def prefs_set_def prefs_timezone_def prefs_set_timezone_def prefs_clear_def
      prefs_all_def default_preferences_def split: option.split)

subsection \<open>Properties\<close>

text \<open>C28: The duplicate filter is a ring buffer that implements its specification: over any
  sequence of messages a positive capacity \<open>n\<close> gives exactly the verdicts of a filter that
  remembers every accepted key for ever and looks at the last \<open>n\<close>, and the buffer holds
  exactly those.\<close>

theorem deduplicator_implements_recent_history:
  assumes "0 < n"
  shows "fst (seen_all sha256 ms (new_deduplicator n))
      = fst (duplicates n [] (map (\<lambda>(u, c). message_key sha256 u c) ms))
    \<and> dd_window (snd (seen_all sha256 ms (new_deduplicator n)))
      = recent n (snd (duplicates n [] (map (\<lambda>(u, c). message_key sha256 u c) ms)))"
  using seen_refines [of "new_deduplicator n" "[]" sha256 ms] assms
  by (simp add: new_deduplicator_def)

lemma deduplicator_implements_recent_history_witness:
  "fst (seen_all (\<lambda>s. s) [(''u'', ''a''), (''u'', ''a''), (''u'', ''b''), (''u'', ''a'')] (new_deduplicator 1))
     = [False, True, False, False]"
  using deduplicator_implements_recent_history [of 1 "\<lambda>s. s"
      "[(''u'', ''a''), (''u'', ''a''), (''u'', ''b''), (''u'', ''a'')]"]
  by (simp add: message_key_def recent_def)

text \<open>Two different senders can share a key, and the capacity 0 never evicts.\<close>

lemma message_key_collides:
  "message_key sha256 ''a:b'' ''c'' = message_key sha256 ''a'' ''b:c''"
  by (simp add: message_key_def)

lemma capacity_zero_never_evicts:
  "snd (seen_all (\<lambda>s. s) [(''u'', ''a''), (''u'', ''b''), (''u'', ''c'')] (new_deduplicator 0))
     = \<lparr>dd_window = [''u:a'', ''u:b'', ''u:c''], dd_capacity = 0\<rparr>"
  by (simp add: seen_def message_key_def new_deduplicator_def)

text \<open>C29: The limiter bounds every stretch of time, not only its own windows: whatever the calls of
  all users, in the order of time, no user gets more than \<open>N + max 1 N\<close> messages through in
  any interval as long as the window, where \<open>N\<close> is the configured number. So it is a bound of
  twice the number, not the number itself.\<close>

theorem rate_is_at_most_twice_the_limit:
  assumes "rl_enabled cfg" and "in_order 0 calls"
  shows "passed cfg u a (a + rate_window cfg) limits calls
    \<le> rl_messages_per_window cfg + max 1 (rl_messages_per_window cfg)"
  using assms(2)
proof (induction calls arbitrary: limits)
  case (Cons call calls)
  obtain v t0 t1 t2 where call: "call = (v, t0, t1, t2)" by (cases call) auto
  obtain ok l where l: "check_and_record cfg v (t0, t1, t2) limits = (ok, l)" by force
  have ord: "t0 \<le> t1" "t1 \<le> t2" "in_order t2 calls" using Cons.prems call by auto
  show ?case
  proof (cases "a \<le> t1")
    case True
    have "\<forall>(v, t0, t1, t2) \<in> set (call # calls). a \<le> t1"
      using True ord in_order_later [OF ord(3)] call by fastforce
    from passed_any_window [OF assms(1) Cons.prems this] show ?thesis
      by (rule order.trans) simp
  next
    case False
    have "in_order 0 calls" using ord(3) by (auto intro: in_order_mono)
    from Cons.IH [OF this, of l] False show ?thesis by (simp add: call l)
  qed
qed simp

definition burst :: "(string \<times> readings) list" where
  "burst = map (\<lambda>t. (''u'', t, t, t)) [0, 900000000, 1000000000, 1100000000]"

lemma rate_is_at_most_twice_the_limit_witness:
  "(let cfg = \<lparr>rl_enabled = True, rl_messages_per_window = 2, rl_window_seconds = 1\<rparr>;
        n = passed cfg ''u'' 900000000 (900000000 + rate_window cfg) (\<lambda>_. None) burst
    in n = 3 \<and> n \<le> 2 + max 1 2)"
proof -
  let ?cfg = "\<lparr>rl_enabled = True, rl_messages_per_window = 2, rl_window_seconds = 1\<rparr>"
  have "in_order 0 burst" by (simp add: burst_def)
  moreover have "passed ?cfg ''u'' 900000000 (900000000 + rate_window ?cfg) (\<lambda>_. None) burst = 3"
    by (simp add: burst_def check_and_record_def rate_window_def)
  ultimately show ?thesis
    using rate_is_at_most_twice_the_limit [of ?cfg burst "''u''" 900000000 "\<lambda>_. None"] by simp
qed

end
