(* ===== verification/Hot_Config.thy ===== *)
theory Hot_Config
  imports Policy Gateway_Edge
begin

section \<open>Reloading the configuration (\<open>src/gateway/mod.rs\<close>)\<close>

text \<open>
  The part of the configuration a running gateway takes over on SIGHUP. \<open>settings\<close> holds the
  fields of \<open>Config\<close> it is read from.
\<close>

record settings =
  se_log_level :: string
  se_api_token :: "string option"
  se_rate_limit :: rate_limit_config
  se_audit_enabled :: bool
  se_audit_path :: string
  se_quarry_policy :: policy_config

record hot_config =
  hc_log_level :: string
  hc_api_token :: "string option"
  hc_rate_limit :: rate_limit_config
  hc_audit_enabled :: bool
  hc_audit_path :: string
  hc_quarry_policy :: policy_config

definition hot_from_config :: "settings \<Rightarrow> hot_config" where
  "hot_from_config c =
     \<lparr>hc_log_level = se_log_level c, hc_api_token = se_api_token c, hc_rate_limit = se_rate_limit c,
      hc_audit_enabled = se_audit_enabled c, hc_audit_path = se_audit_path c,
      hc_quarry_policy = se_quarry_policy c\<rparr>"

text \<open>One field after the other: compare, take over, and note the name.\<close>

definition take_over ::
    "string \<Rightarrow> (hot_config \<Rightarrow> 'a) \<Rightarrow> 'a \<Rightarrow> (hot_config \<Rightarrow> hot_config) \<Rightarrow> string list \<times> hot_config
     \<Rightarrow> string list \<times> hot_config" where
  "take_over name old new change st =
     (if old (snd st) \<noteq> new then (fst st @ [name], change (snd st)) else st)"

definition hot_apply :: "settings \<Rightarrow> hot_config \<Rightarrow> string list \<times> hot_config" where
  "hot_apply c h =
     (let rl = se_rate_limit c in
      take_over ''quarry.policy'' hc_quarry_policy (se_quarry_policy c)
          (\<lambda>h. h\<lparr>hc_quarry_policy := se_quarry_policy c\<rparr>)
      (take_over ''audit.path'' hc_audit_path (se_audit_path c) (\<lambda>h. h\<lparr>hc_audit_path := se_audit_path c\<rparr>)
      (take_over ''audit.enabled'' hc_audit_enabled (se_audit_enabled c)
          (\<lambda>h. h\<lparr>hc_audit_enabled := se_audit_enabled c\<rparr>)
      (take_over ''rate_limit.window_seconds'' (\<lambda>h. rl_window_seconds (hc_rate_limit h)) (rl_window_seconds rl)
          (\<lambda>h. h\<lparr>hc_rate_limit := (hc_rate_limit h)\<lparr>rl_window_seconds := rl_window_seconds rl\<rparr>\<rparr>)
      (take_over ''rate_limit.messages_per_window'' (\<lambda>h. rl_messages_per_window (hc_rate_limit h))
          (rl_messages_per_window rl)
          (\<lambda>h. h\<lparr>hc_rate_limit := (hc_rate_limit h)\<lparr>rl_messages_per_window := rl_messages_per_window rl\<rparr>\<rparr>)
      (take_over ''rate_limit.enabled'' (\<lambda>h. rl_enabled (hc_rate_limit h)) (rl_enabled rl)
          (\<lambda>h. h\<lparr>hc_rate_limit := (hc_rate_limit h)\<lparr>rl_enabled := rl_enabled rl\<rparr>\<rparr>)
      (take_over ''api_token'' hc_api_token (se_api_token c) (\<lambda>h. h\<lparr>hc_api_token := se_api_token c\<rparr>)
      (take_over ''log_level'' hc_log_level (se_log_level c) (\<lambda>h. h\<lparr>hc_log_level := se_log_level c\<rparr>)
         ([], h)))))))))"

subsection \<open>What one comparison does\<close>

definition noted :: "bool \<Rightarrow> string \<Rightarrow> string list" where
  "noted changed name = (if changed then [name] else [])"

lemma noted_simps [simp]: "noted a n = [] \<longleftrightarrow> \<not> a" "x \<in> set (noted a n) \<longleftrightarrow> x = n \<and> a"
  by (auto simp: noted_def)

lemma take_over_names [simp]:
  "fst (take_over name old new change st) = fst st @ noted (old (snd st) \<noteq> new) name"
  by (simp add: take_over_def noted_def)

text \<open>Taking over a value that is there already changes nothing, so the comparison only
  matters for the names.\<close>

lemma take_over_value:
  assumes "\<And>h. old h = new \<Longrightarrow> change h = h"
  shows "snd (take_over name old new change st) = change (snd st)"
  using assms by (simp add: take_over_def)

lemma take_over_values [simp]:
  "snd (take_over n hc_log_level v (\<lambda>h. h\<lparr>hc_log_level := v\<rparr>) st) = (snd st)\<lparr>hc_log_level := v\<rparr>"
  "snd (take_over n hc_api_token t (\<lambda>h. h\<lparr>hc_api_token := t\<rparr>) st) = (snd st)\<lparr>hc_api_token := t\<rparr>"
  "snd (take_over n hc_audit_enabled b (\<lambda>h. h\<lparr>hc_audit_enabled := b\<rparr>) st) = (snd st)\<lparr>hc_audit_enabled := b\<rparr>"
  "snd (take_over n hc_audit_path v (\<lambda>h. h\<lparr>hc_audit_path := v\<rparr>) st) = (snd st)\<lparr>hc_audit_path := v\<rparr>"
  "snd (take_over n hc_quarry_policy q (\<lambda>h. h\<lparr>hc_quarry_policy := q\<rparr>) st) = (snd st)\<lparr>hc_quarry_policy := q\<rparr>"
  by (rule take_over_value; auto intro!: hot_config.equality)+

lemma take_over_rates [simp]:
  "snd (take_over n (\<lambda>h. rl_enabled (hc_rate_limit h)) b
     (\<lambda>h. h\<lparr>hc_rate_limit := (hc_rate_limit h)\<lparr>rl_enabled := b\<rparr>\<rparr>) st)
     = (snd st)\<lparr>hc_rate_limit := (hc_rate_limit (snd st))\<lparr>rl_enabled := b\<rparr>\<rparr>"
  "snd (take_over n (\<lambda>h. rl_messages_per_window (hc_rate_limit h)) k
     (\<lambda>h. h\<lparr>hc_rate_limit := (hc_rate_limit h)\<lparr>rl_messages_per_window := k\<rparr>\<rparr>) st)
     = (snd st)\<lparr>hc_rate_limit := (hc_rate_limit (snd st))\<lparr>rl_messages_per_window := k\<rparr>\<rparr>"
  "snd (take_over n (\<lambda>h. rl_window_seconds (hc_rate_limit h)) k
     (\<lambda>h. h\<lparr>hc_rate_limit := (hc_rate_limit h)\<lparr>rl_window_seconds := k\<rparr>\<rparr>) st)
     = (snd st)\<lparr>hc_rate_limit := (hc_rate_limit (snd st))\<lparr>rl_window_seconds := k\<rparr>\<rparr>"
  by (rule take_over_value; auto intro!: hot_config.equality rate_limit_config.equality)+

lemma hot_apply_value [simp]: "snd (hot_apply c h) = hot_from_config c"
  by (auto simp: hot_apply_def hot_from_config_def Let_def intro!: hot_config.equality rate_limit_config.equality)

lemma hot_apply_names [simp]:
  "fst (hot_apply c h) =
     noted (hc_log_level h \<noteq> se_log_level c) ''log_level'' @ noted (hc_api_token h \<noteq> se_api_token c) ''api_token''
     @ noted (rl_enabled (hc_rate_limit h) \<noteq> rl_enabled (se_rate_limit c)) ''rate_limit.enabled''
     @ noted (rl_messages_per_window (hc_rate_limit h) \<noteq> rl_messages_per_window (se_rate_limit c))
         ''rate_limit.messages_per_window''
     @ noted (rl_window_seconds (hc_rate_limit h) \<noteq> rl_window_seconds (se_rate_limit c)) ''rate_limit.window_seconds''
     @ noted (hc_audit_enabled h \<noteq> se_audit_enabled c) ''audit.enabled''
     @ noted (hc_audit_path h \<noteq> se_audit_path c) ''audit.path''
     @ noted (hc_quarry_policy h \<noteq> se_quarry_policy c) ''quarry.policy''"
  by (simp add: hot_apply_def Let_def)

lemma hot_apply_settled: "fst (hot_apply c h) = [] \<longleftrightarrow> h = hot_from_config c"
  by (auto simp: hot_from_config_def intro!: hot_config.equality rate_limit_config.equality)

text \<open>A reload leaves nothing behind and says what it did: afterwards the running
  configuration is exactly the one a fresh start would read, a name is reported exactly for
  each field that differed, and reloading the same file again changes and reports nothing.\<close>

theorem reload_takes_over_everything:
  "snd (hot_apply c h) = hot_from_config c
   \<and> (fst (hot_apply c h) = [] \<longleftrightarrow> h = hot_from_config c)
   \<and> (''api_token'' \<in> set (fst (hot_apply c h)) \<longleftrightarrow> hc_api_token h \<noteq> se_api_token c)
   \<and> (''quarry.policy'' \<in> set (fst (hot_apply c h)) \<longleftrightarrow> hc_quarry_policy h \<noteq> se_quarry_policy c)
   \<and> hot_apply c (snd (hot_apply c h)) = ([], hot_from_config c)"
proof -
  have "fst (hot_apply c (hot_from_config c)) = []" by (simp only: hot_apply_settled)
  then have "hot_apply c (snd (hot_apply c h)) = ([], hot_from_config c)" by (simp add: prod_eq_iff del: hot_apply_names)
  then show ?thesis using hot_apply_settled [of c h] by simp
qed

end
