(* ===== verification/Messages.thy ===== *)
theory Messages
  imports Event Bounded_Log
begin

section \<open>Messages and statistics (\<open>src/types.rs\<close>, \<open>src/gateway/dashboard.rs\<close>)\<close>

text \<open>
  The message that travels through the gateway and the statistics kept of the traffic: the
  counters and the ring of recent messages the dashboard shows. A fresh identifier and the
  time of creation are a \<open>stamp\<close> the caller gives.
\<close>

subsection \<open>Messages\<close>

record attachment =
  at_url :: string
  at_media_type :: string
  at_filename :: "string option"

record message =
  ms_id :: string
  ms_channel_id :: string
  ms_user_id :: string
  ms_username :: string
  ms_content :: string
  ms_timestamp :: nat
  ms_attachments :: "attachment list"
  ms_thread_id :: "string option"
  ms_metadata :: json
  ms_preferred_channel_id :: "string option"

type_synonym stamp = "string \<times> nat"

definition new_message :: "stamp \<Rightarrow> string \<Rightarrow> string \<Rightarrow> string \<Rightarrow> string \<Rightarrow> message" where
  "new_message st channel_id user_id username content =
     \<lparr>ms_id = fst st, ms_channel_id = channel_id, ms_user_id = user_id, ms_username = username,
      ms_content = content, ms_timestamp = snd st, ms_attachments = [], ms_thread_id = None,
      ms_metadata = JNull, ms_preferred_channel_id = None\<rparr>"

definition with_attachments :: "attachment list \<Rightarrow> message \<Rightarrow> message" where
  "with_attachments as m = m\<lparr>ms_attachments := as\<rparr>"

definition with_thread_id :: "string \<Rightarrow> message \<Rightarrow> message" where
  "with_thread_id t m = m\<lparr>ms_thread_id := Some t\<rparr>"

datatype channel_health = Healthy | Degraded string | Unhealthy string

fun is_healthy :: "channel_health \<Rightarrow> bool" where
  "is_healthy Healthy = True"
| "is_healthy _ = False"

fun is_operational :: "channel_health \<Rightarrow> bool" where
  "is_operational Healthy = True"
| "is_operational (Degraded _) = True"
| "is_operational (Unhealthy _) = False"

subsection \<open>Statistics\<close>

datatype direction = Inbound | Outbound

fun direction_text :: "direction \<Rightarrow> string" where
  "direction_text Inbound = ''inbound''"
| "direction_text Outbound = ''outbound''"

record recent_message =
  rm_timestamp :: nat
  rm_channel_id :: string
  rm_user_id :: string
  rm_content_preview :: string
  rm_direction :: string

text \<open>The counters are atomic 64-bit words; the newest message is at the front of the ring.\<close>

record message_stats =
  st_messages_in :: nat
  st_messages_out :: nat
  st_tokens_in :: nat
  st_tokens_out :: nat
  st_recent :: "recent_message list"
  st_auth_failures :: nat
  st_rate_limit_hits :: nat
  st_llm_errors :: nat
  st_llm_retries :: nat

definition new_stats :: message_stats where
  "new_stats = \<lparr>st_messages_in = 0, st_messages_out = 0, st_tokens_in = 0, st_tokens_out = 0,
     st_recent = [], st_auth_failures = 0, st_rate_limit_hits = 0, st_llm_errors = 0, st_llm_retries = 0\<rparr>"

definition fetch_add :: "nat \<Rightarrow> nat \<Rightarrow> nat" where
  "fetch_add n k = (n + k) mod 2 ^ 64"

definition record_tokens :: "nat \<Rightarrow> nat \<Rightarrow> message_stats \<Rightarrow> message_stats" where
  "record_tokens i u st = st\<lparr>st_tokens_in := fetch_add (st_tokens_in st) i,
     st_tokens_out := fetch_add (st_tokens_out st) u\<rparr>"

definition record_auth_failure :: "message_stats \<Rightarrow> message_stats" where
  "record_auth_failure st = st\<lparr>st_auth_failures := st_auth_failures st + 1\<rparr>"

definition record_rate_limit_hit :: "message_stats \<Rightarrow> message_stats" where
  "record_rate_limit_hit st = st\<lparr>st_rate_limit_hits := st_rate_limit_hits st + 1\<rparr>"

definition record_llm_error :: "message_stats \<Rightarrow> message_stats" where
  "record_llm_error st = st\<lparr>st_llm_errors := st_llm_errors st + 1\<rparr>"

definition record_llm_retry :: "message_stats \<Rightarrow> message_stats" where
  "record_llm_retry st = st\<lparr>st_llm_retries := st_llm_retries st + 1\<rparr>"

definition preview :: "nat \<Rightarrow> string \<Rightarrow> string" where
  "preview n s = concat (take n (chars s))"

definition recent_entry :: "nat \<Rightarrow> direction \<Rightarrow> message \<Rightarrow> recent_message" where
  "recent_entry now d m =
     \<lparr>rm_timestamp = now, rm_channel_id = ms_channel_id m, rm_user_id = ms_user_id m,
      rm_content_preview = preview 120 (ms_content m), rm_direction = direction_text d\<rparr>"

definition push_recent :: "recent_message \<Rightarrow> recent_message list \<Rightarrow> recent_message list" where
  "push_recent e r = (if 50 < length (e # r) then butlast (e # r) else e # r)"

definition record_inbound :: "nat \<Rightarrow> message \<Rightarrow> message_stats \<Rightarrow> message_stats" where
  "record_inbound now m st = st\<lparr>st_messages_in := fetch_add (st_messages_in st) 1,
     st_recent := push_recent (recent_entry now Inbound m) (st_recent st)\<rparr>"

definition record_outbound :: "nat \<Rightarrow> message \<Rightarrow> message_stats \<Rightarrow> message_stats" where
  "record_outbound now m st = st\<lparr>st_messages_out := fetch_add (st_messages_out st) 1,
     st_recent := push_recent (recent_entry now Outbound m) (st_recent st)\<rparr>"

text \<open>One message on either side, and the log of all of them that the ring is the tail of.\<close>

fun record_traffic :: "nat \<times> direction \<times> message \<Rightarrow> message_stats \<Rightarrow> message_stats" where
  "record_traffic (now, Inbound, m) st = record_inbound now m st"
| "record_traffic (now, Outbound, m) st = record_outbound now m st"

lemma push_recent_is_recent: "rev (push_recent e r) = recent 50 (rev r @ [e])" if "length r \<le> 50"
proof (cases "length r = 50")
  case True
  then have "r \<noteq> []" by auto
  moreover from this have "butlast (e # r) = e # butlast r" by simp
  moreover have "rev (butlast r) = tl (rev r)" by (metis butlast_rev rev_rev_ident)
  ultimately show ?thesis using True by (simp add: push_recent_def recent_def drop_Suc tl_append2)
next
  case False
  with that show ?thesis by (simp add: push_recent_def recent_def)
qed

text \<open>The dashboard's numbers are those of the traffic: after any sequence of messages each
  counter is the number of messages in its direction modulo \<open>2\<^sup>6\<^sup>4\<close>, and the ring shows exactly
  the last fifty, newest first.\<close>

theorem statistics_count_the_traffic:
  "st_messages_in (fold record_traffic ts new_stats) = length (filter (\<lambda>(_, d, _). d = Inbound) ts) mod 2 ^ 64
   \<and> st_messages_out (fold record_traffic ts new_stats) = length (filter (\<lambda>(_, d, _). d = Outbound) ts) mod 2 ^ 64
   \<and> st_recent (fold record_traffic ts new_stats)
       = rev (recent 50 (map (\<lambda>(now, d, m). recent_entry now d m) ts))"
proof (induction ts rule: rev_induct)
  case Nil
  then show ?case by (simp add: new_stats_def)
next
  case (snoc t ts)
  obtain now d m where t: "t = (now, d, m)" by (cases t)
  let ?r = "st_recent (fold record_traffic ts new_stats)"
  let ?l = "map (\<lambda>(now, d, m). recent_entry now d m) ts"
  have "rev ?r = recent 50 ?l" "length ?r \<le> 50" using snoc.IH by simp_all
  then have "push_recent (recent_entry now d m) ?r = rev (recent 50 (?l @ [recent_entry now d m]))"
    using push_recent_is_recent [of ?r "recent_entry now d m"] recent_append [of 50 ?l]
    by (metis rev_rev_ident)
  then show ?case
    using snoc.IH by (cases d) (simp_all add: t record_inbound_def record_outbound_def fetch_add_def mod_simps)
qed

end
