(* ===== verification/F64_Ops.thy ===== *)
theory F64_Ops
  imports F64
begin

section \<open>More operations on IEEE doubles\<close>

text \<open>
  The arithmetic the agents and the tools use beyond that of the quarry gateway: each
  operation is the exact one followed by one rounding. The sign of a zero is not kept.
\<close>

fun f64_add :: "f64 \<Rightarrow> f64 \<Rightarrow> f64" where
  "f64_add NaN b = NaN"
| "f64_add (Fin x) NaN = NaN"
| "f64_add (Fin x) (Fin y) = fl (x + y)"
| "f64_add (Fin x) (Inf n) = Inf n"
| "f64_add (Inf m) NaN = NaN"
| "f64_add (Inf m) (Fin y) = Inf m"
| "f64_add (Inf m) (Inf n) = (if m = n then Inf m else NaN)"

definition f64_sub :: "f64 \<Rightarrow> f64 \<Rightarrow> f64" where
  "f64_sub a b = f64_add a (f64_neg b)"

fun f64_div :: "f64 \<Rightarrow> f64 \<Rightarrow> f64" where
  "f64_div NaN b = NaN"
| "f64_div (Fin x) NaN = NaN"
| "f64_div (Fin x) (Fin y) =
     (if y = 0 then (if x = 0 then NaN else Inf (x < 0)) else fl (x / y))"
| "f64_div (Fin x) (Inf n) = Fin 0"
| "f64_div (Inf m) NaN = NaN"
| "f64_div (Inf m) (Fin y) = Inf (m \<noteq> (y < 0))"
| "f64_div (Inf m) (Inf n) = NaN"

fun f64_map :: "(rat \<Rightarrow> rat) \<Rightarrow> f64 \<Rightarrow> f64" where
  "f64_map f (Fin x) = Fin (f x)"
| "f64_map f v = v"

definition f64_floor :: "f64 \<Rightarrow> f64" where
  "f64_floor = f64_map (\<lambda>x. of_int \<lfloor>x\<rfloor>)"

definition f64_ceil :: "f64 \<Rightarrow> f64" where
  "f64_ceil = f64_map (\<lambda>x. of_int \<lceil>x\<rceil>)"

fun f64_abs :: "f64 \<Rightarrow> f64" where
  "f64_abs (Fin x) = Fin \<bar>x\<bar>"
| "f64_abs (Inf n) = Inf False"
| "f64_abs NaN = NaN"

fun f64_negative :: "f64 \<Rightarrow> bool" where
  "f64_negative (Fin x) \<longleftrightarrow> x < 0"
| "f64_negative (Inf n) \<longleftrightarrow> n"
| "f64_negative NaN \<longleftrightarrow> False"

definition f64_is_zero :: "f64 \<Rightarrow> bool" where
  "f64_is_zero v \<longleftrightarrow> v = Fin 0"

end
