(* ===== verification/Agents.thy ===== *)
theory Agents
  imports Messages Tool_Result F64_Ops
begin

section \<open>Asking a model (\<open>src/agents/manager.rs\<close>, \<open>fallback.rs\<close>, \<open>stub.rs\<close>)\<close>

text \<open>
  Everything between a prompt and a provider's answer: the fallback chain, the retry loop with
  its delays, the prompt of a stateless completion, and what is read from an answer's
  metadata. A provider is a parameter: what it answers to each attempt. The conversation a
  provider keeps for a user belongs to the agent library and is not modelled.
\<close>

subsection \<open>Fallback providers\<close>

definition FALLBACK_TRIGGERS :: "string list" where
  "FALLBACK_TRIGGERS = [''500'', ''503'', ''overloaded'', ''model not found'']"

definition is_capacity_error :: "(string \<Rightarrow> string) \<Rightarrow> string \<Rightarrow> bool" where
  "is_capacity_error ulc e \<longleftrightarrow> list_ex (\<lambda>t. str_contains t (to_lowercase ulc e)) FALLBACK_TRIGGERS"

text \<open>The answers of the fallbacks, were they asked, in order; the result and how many were.\<close>

fun try_fallbacks :: "string \<Rightarrow> (string + 'a) list \<Rightarrow> (string + 'a) \<times> nat" where
  "try_fallbacks last_err [] = (Err last_err, 0)"
| "try_fallbacks last_err (f # fs) =
     (case f of
        Inr resp \<Rightarrow> (Ok resp, 1)
      | Inl fb_err \<Rightarrow> (let (r, n) = try_fallbacks fb_err fs in (r, n + 1)))"

definition fallback_process ::
    "(string \<Rightarrow> string) \<Rightarrow> string + 'a \<Rightarrow> (string + 'a) list \<Rightarrow> (string + 'a) \<times> nat" where
  "fallback_process ulc primary fallbacks =
     (case primary of
        Inr resp \<Rightarrow> (Ok resp, 0)
      | Inl e \<Rightarrow> if \<not> is_capacity_error ulc e then (Err e, 0) else try_fallbacks e fallbacks)"

subsection \<open>Retries\<close>

record retry_config =
  rc_enabled :: bool
  rc_max_attempts :: nat
  rc_base_delay_ms :: nat
  rc_jitter_enabled :: bool

definition max_attempts :: "retry_config \<Rightarrow> nat" where
  "max_attempts c = (if rc_enabled c then max 1 (rc_max_attempts c) else 1)"

text \<open>The delay before an attempt, for the sub-second nanoseconds of the clock. The product
  wraps, as it does in a release build.\<close>

definition saturating_pow2 :: "nat \<Rightarrow> nat" where
  "saturating_pow2 n = min (2 ^ 64 - 1) (2 ^ n)"

definition base_delay :: "retry_config \<Rightarrow> nat \<Rightarrow> nat" where
  "base_delay c attempt = (rc_base_delay_ms c * saturating_pow2 (attempt - 1)) mod 2 ^ 64"

definition retry_delay_ms :: "retry_config \<Rightarrow> nat \<Rightarrow> nat \<Rightarrow> nat" where
  "retry_delay_ms c nanos attempt =
     (if \<not> rc_jitter_enabled c then base_delay c attempt
      else f64_as_u64 (f64_mul (fl (of_nat (base_delay c attempt)))
             (f64_add (fl (8 / 10)) (f64_div_const (Fin (of_nat (nanos mod 400))) 1000))))"

text \<open>The loop both entry points share: what each attempt answers, the delay before it, and the
  attempts left to make. It gives the result and the delays slept, one per retry.\<close>

function retry_loop ::
    "(nat \<Rightarrow> string + 'a) \<Rightarrow> (nat \<Rightarrow> nat) \<Rightarrow> nat \<Rightarrow> nat \<Rightarrow> string option \<Rightarrow> (string + 'a) \<times> nat list" where
  "retry_loop call delay limit attempt last_error =
     (if limit \<le> attempt
      then (Err (case last_error of Some e \<Rightarrow> e | None \<Rightarrow> ''all LLM attempts failed''), [])
      else (let waited = (if 0 < attempt then [delay attempt] else [])
            in case call attempt of
                 Inr r \<Rightarrow> (Ok r, waited)
               | Inl e \<Rightarrow>
                   (let (res, later) = retry_loop call delay limit (attempt + 1) (Some (''agent error: '' @ e))
                    in (res, waited @ later))))"
  by pat_completeness auto
termination by (relation "measure (\<lambda>(_, _, limit, attempt, _). limit - attempt)") auto

declare retry_loop.simps [simp del]

definition with_retries :: "retry_config \<Rightarrow> (nat \<Rightarrow> nat) \<Rightarrow> (nat \<Rightarrow> string + 'a) \<Rightarrow> (string + 'a) \<times> nat list" where
  "with_retries c nanos call =
     retry_loop call (\<lambda>attempt. retry_delay_ms c (nanos attempt) attempt) (max_attempts c) 0 None"

subsection \<open>Conversations\<close>

text \<open>The users with an agent of their own, and whether a planner is configured.\<close>

record agent_manager =
  am_users :: "string set"
  am_planning :: bool
  am_retry :: retry_config
  am_stats :: message_stats

definition NO_RESPONSE :: string where
  "NO_RESPONSE = ''I'' @ [CHR 0x27] @ ''m sorry, I couldn'' @ [CHR 0x27] @ ''t generate a response.''"

definition NO_PLAN :: string where
  "NO_PLAN = ''I'' @ [CHR 0x27] @ ''m sorry, I couldn'' @ [CHR 0x27] @ ''t generate a plan.''"

definition text_or :: "string \<Rightarrow> string option \<Rightarrow> string" where
  "text_or d t = (case t of None \<Rightarrow> d | Some s \<Rightarrow> s)"

definition process_planning_message :: "(string \<Rightarrow> string + string option) \<Rightarrow> string \<Rightarrow> string + string" where
  "process_planning_message planner task =
     (case planner task of
        Inl e \<Rightarrow> Err (''planning agent error: '' @ e)
      | Inr t \<Rightarrow> Ok (text_or NO_PLAN t))"

definition count_retries :: "nat list \<Rightarrow> message_stats \<Rightarrow> message_stats" where
  "count_retries waits st = (record_llm_retry ^^ length waits) st"

text \<open>What creating an agent, planning, and each attempt of the user's agent answer.\<close>

record model_world =
  mw_create :: "string + unit"
  mw_planner :: "string \<Rightarrow> string + string option"
  mw_attempt :: "nat \<Rightarrow> string + string option"
  mw_nanos :: "nat \<Rightarrow> nat"

definition ensure_agent :: "model_world \<Rightarrow> string \<Rightarrow> agent_manager \<Rightarrow> string + agent_manager" where
  "ensure_agent w user_id am =
     (if user_id \<in> am_users am then Ok am
      else try_bind (mw_create w) (\<lambda>_. Ok (am\<lparr>am_users := insert user_id (am_users am)\<rparr>)))"

definition process_message ::
    "model_world \<Rightarrow> string \<Rightarrow> string \<Rightarrow> agent_manager \<Rightarrow> (string + string) \<times> agent_manager" where
  "process_message w user_id message am =
     (case (if am_planning am then strip_prefix ''/plan '' message else None) of
        Some task \<Rightarrow> (process_planning_message (mw_planner w) task, am)
      | None \<Rightarrow>
         (case ensure_agent w user_id am of
            Inl e \<Rightarrow> (Err e, am)
          | Inr am1 \<Rightarrow>
             (let (r, waits) = with_retries (am_retry am) (mw_nanos w) (mw_attempt w)
              in (case r of Inl e \<Rightarrow> Err e | Inr t \<Rightarrow> Ok (text_or NO_RESPONSE t),
                  am1\<lparr>am_stats := count_retries waits (am_stats am1)\<rparr>))))"

definition remove_user :: "string \<Rightarrow> agent_manager \<Rightarrow> agent_manager" where
  "remove_user user_id am = am\<lparr>am_users := am_users am - {user_id}\<rparr>"

definition active_users :: "agent_manager \<Rightarrow> nat" where
  "active_users am = card (am_users am)"

subsection \<open>Streaming\<close>

datatype llm_stream_event = Token string | StreamDone | StreamError string

definition REPLACEMENT :: string where
  "REPLACEMENT = [CHR 0xEF, CHR 0xBF, CHR 0xBD]"

text \<open>\<open>from_utf8_lossy\<close> on bytes cut out of valid UTF-8, where the only faults are characters
  that the cut has left without their head or their tail: each stray continuation byte
  and each unfinished character becomes one replacement character.\<close>

function lossy :: "string \<Rightarrow> string" where
  "lossy [] = []"
| "lossy (b # bs) =
     (if is_cont b then REPLACEMENT @ lossy bs
      else (let tail = takeWhile is_cont (take (char_width b - 1) bs)
            in (if length tail = char_width b - 1 then b # tail else REPLACEMENT)
               @ lossy (drop (length tail) bs)))"
  by pat_completeness auto
termination by (relation "measure length") auto

function byte_chunks :: "nat \<Rightarrow> string \<Rightarrow> string list" where
  "byte_chunks n s = (if s = [] \<or> n = 0 then [] else take n s # byte_chunks n (drop n s))"
  by pat_completeness auto
termination by (relation "measure (\<lambda>(_, s). length s)") auto

declare byte_chunks.simps [simp del]

definition stream_events :: "string + string \<Rightarrow> llm_stream_event list" where
  "stream_events r =
     (case r of
        Inr text \<Rightarrow> map (\<lambda>c. Token (lossy c)) (byte_chunks 5 text) @ [StreamDone]
      | Inl e \<Rightarrow> [StreamError e])"

fun token_text :: "llm_stream_event \<Rightarrow> string" where
  "token_text (Token t) = t"
| "token_text _ = []"

subsection \<open>Building a provider\<close>

datatype adapter_kind = StubAdapter | OpenAiAdapter | OllamaAdapter | GeminiAdapter | BedrockAdapter
  | LiteLlmAdapter | OpenAiCompatAdapter | AnthropicAdapter

text \<open>What this program sets on an adapter; a field it leaves alone is \<open>None\<close> and keeps the
  library's default. The token ceiling is the number the adapter is given, after the cast.\<close>

record adapter =
  ad_kind :: adapter_kind
  ad_api_key :: "string option"
  ad_model :: "string option"
  ad_base :: "string option"
  ad_region :: "string option"
  ad_max_tokens :: "int option"

record provider_config =
  pv_provider :: string
  pv_api_key :: string
  pv_model :: string
  pv_api_base :: "string option"

definition as_i32 :: "nat \<Rightarrow> int" where
  "as_i32 n = (int n + 2 ^ 31) mod 2 ^ 32 - 2 ^ 31"

definition adapter_for :: "provider_config \<Rightarrow> string option \<Rightarrow> nat option \<Rightarrow> adapter" where
  "adapter_for p region limit =
     (let base = (\<lambda>d. Some (text_or d (pv_api_base p))); key = Some (pv_api_key p); model = Some (pv_model p);
          signed = map_option as_i32 limit; unsigned = map_option int limit;
          make = (\<lambda>k key model base region mt. \<lparr>ad_kind = k, ad_api_key = key, ad_model = model, ad_base = base,
            ad_region = region, ad_max_tokens = mt\<rparr>)
      in if pv_provider p = ''stub'' then make StubAdapter None None None None None
         else if pv_provider p = ''openai'' then make OpenAiAdapter key model (base ''https://api.openai.com/v1'') None signed
         else if pv_provider p = ''ollama'' then make OllamaAdapter None model (base ''http://localhost:11434'') None None
         else if pv_provider p = ''gemini'' then make GeminiAdapter key model None None unsigned
         else if pv_provider p = ''bedrock'' then make BedrockAdapter None model None (Some (text_or ''us-east-1'' region)) unsigned
         else if pv_provider p = ''litellm'' then make LiteLlmAdapter key model (base ''http://localhost:4000'') None unsigned
         else if pv_provider p = ''openai-compat'' then make OpenAiCompatAdapter key model (base ''http://localhost:8000/v1'') None signed
         else make AnthropicAdapter key model (base ''https://api.anthropic.com'') None
                (Some (as_i32 (case limit of None \<Rightarrow> 1024 | Some n \<Rightarrow> n))))"

text \<open>An adapter may refuse its configuration; a fallback that does is left out.\<close>

definition create_adapter ::
    "(adapter \<Rightarrow> string + unit) \<Rightarrow> provider_config \<Rightarrow> string option \<Rightarrow> nat option \<Rightarrow> string + adapter" where
  "create_adapter accept p region limit =
     (let a = adapter_for p region limit
      in if ad_kind a = GeminiAdapter
         then (case accept a of Inr _ \<Rightarrow> Ok a | Inl e \<Rightarrow> Err (''failed to create GeminiAdapter: '' @ e))
         else if ad_kind a = BedrockAdapter
         then (case accept a of Inr _ \<Rightarrow> Ok a | Inl e \<Rightarrow> Err (''failed to create BedrockAdapter: '' @ e))
         else Ok a)"

record agents_config =
  ac_primary :: provider_config
  ac_aws_region :: "string option"
  ac_fallbacks :: "provider_config list"

text \<open>The chain: the primary, then the fallbacks that could be built.\<close>

definition create_llm_with_max_tokens ::
    "(adapter \<Rightarrow> string + unit) \<Rightarrow> agents_config \<Rightarrow> nat option \<Rightarrow> string + adapter list" where
  "create_llm_with_max_tokens accept c limit =
     try_bind (create_adapter accept (ac_primary c) (ac_aws_region c) limit) (\<lambda>primary.
       Ok (primary # List.map_filter (\<lambda>p. case create_adapter accept p None limit of Inr a \<Rightarrow> Some a | Inl _ \<Rightarrow> None)
                       (ac_fallbacks c)))"

definition STUB_MODEL :: string where
  "STUB_MODEL = ''stub-echo-v1''"

definition configured_model :: "agents_config \<Rightarrow> string" where
  "configured_model c = (if pv_provider (ac_primary c) = ''stub'' then STUB_MODEL else pv_model (ac_primary c))"

subsection \<open>Stateless completions\<close>

record token_usage =
  tu_prompt_tokens :: nat
  tu_completion_tokens :: nat
  tu_total_tokens :: nat

record completion_cost =
  cc_amount_usd :: f64
  cc_micro_usd :: int

record completion_outcome =
  co_text :: string
  co_model :: string
  co_model_from_provider :: bool
  co_usage :: "token_usage option"
  co_cost :: "completion_cost option"
  co_finish_reason :: "string option"

text \<open>A provider's answer: its text, when it is text, and its metadata.\<close>

record response =
  rs_text :: "string option"
  rs_metadata :: "(string \<times> json) list"

fun jget :: "json \<Rightarrow> string \<Rightarrow> json option" where
  "jget (JObject m) k = map_of m k"
| "jget _ _ = None"

definition usage_count :: "json \<Rightarrow> string \<Rightarrow> string \<Rightarrow> nat option" where
  "usage_count usage a b =
     Option.bind (case jget usage a of Some v \<Rightarrow> Some v | None \<Rightarrow> jget usage b) as_u64"

definition usage_from_metadata :: "(string \<times> json) list \<Rightarrow> token_usage option" where
  "usage_from_metadata md =
     Option.bind (map_of md ''usage'') (\<lambda>usage.
     Option.bind (usage_count usage ''prompt_tokens'' ''input_tokens'') (\<lambda>p.
     Option.bind (usage_count usage ''completion_tokens'' ''output_tokens'') (\<lambda>c.
     Some \<lparr>tu_prompt_tokens = p, tu_completion_tokens = c,
           tu_total_tokens = (case Option.bind (jget usage ''total_tokens'') as_u64 of
             Some t \<Rightarrow> t | None \<Rightarrow> (p + c) mod 2 ^ 64)\<rparr>)))"

definition cost_from_usd :: "f64 \<Rightarrow> completion_cost" where
  "cost_from_usd usd = \<lparr>cc_amount_usd = usd, cc_micro_usd = usd_to_micro usd\<rparr>"

text \<open>Reading an answer, given the price of a model for its token counts.\<close>

definition outcome_from_response ::
    "(string \<Rightarrow> nat \<Rightarrow> nat \<Rightarrow> f64 option) \<Rightarrow> agents_config \<Rightarrow> response \<Rightarrow> completion_outcome" where
  "outcome_from_response price c r =
     (let provider_model = Option.bind (map_of (rs_metadata r) ''model'') as_str;
          model = text_or (configured_model c) provider_model;
          usage = usage_from_metadata (rs_metadata r);
          cost = Option.bind usage (\<lambda>u.
            map_option cost_from_usd (price model (tu_prompt_tokens u) (tu_completion_tokens u)));
          finish = Option.bind (case map_of (rs_metadata r) ''finish_reason'' of
            Some v \<Rightarrow> Some v | None \<Rightarrow> map_of (rs_metadata r) ''stop_reason'') as_str
      in \<lparr>co_text = text_or NO_RESPONSE (rs_text r), co_model = model,
          co_model_from_provider = (provider_model \<noteq> None), co_usage = usage, co_cost = cost,
          co_finish_reason = finish\<rparr>)"

definition count_tokens :: "token_usage option \<Rightarrow> message_stats \<Rightarrow> message_stats" where
  "count_tokens usage st =
     (case usage of None \<Rightarrow> st | Some u \<Rightarrow> record_tokens (tu_prompt_tokens u) (tu_completion_tokens u) st)"

text \<open>The one prompt a list of turns is flattened into.\<close>

definition transcript :: "(string \<times> string) list \<Rightarrow> string" where
  "transcript turns =
     (case turns of
        [(role, content)] \<Rightarrow> if role = ''user'' then content else role @ '': '' @ content
      | _ \<Rightarrow> join_with newline (map (\<lambda>(role, content). role @ '': '' @ content) turns))"

definition stateless_prompt :: "(string \<times> string) list \<Rightarrow> string" where
  "stateless_prompt messages =
     (case messages of
        (role, sys) # turns \<Rightarrow>
          if role = ''system'' then sys @ newline @ newline @ transcript turns else transcript messages
      | [] \<Rightarrow> transcript messages)"

text \<open>The provider chain's answer to each attempt at a prompt.\<close>

definition complete_stateless ::
    "(adapter \<Rightarrow> string + unit) \<Rightarrow> (string \<Rightarrow> nat \<Rightarrow> nat \<Rightarrow> f64 option) \<Rightarrow> (nat \<Rightarrow> nat)
     \<Rightarrow> (adapter list \<Rightarrow> string \<Rightarrow> nat \<Rightarrow> string + response) \<Rightarrow> agents_config
     \<Rightarrow> (string \<times> string) list \<Rightarrow> nat option \<Rightarrow> agent_manager \<Rightarrow> (string + completion_outcome) \<times> agent_manager" where
  "complete_stateless accept price nanos ask c messages limit am =
     (case create_llm_with_max_tokens accept c limit of
        Inl e \<Rightarrow> (Err (''failed to create LLM: '' @ e), am)
      | Inr chain \<Rightarrow>
         (let (r, waits) = with_retries (am_retry am) nanos (ask chain (stateless_prompt messages));
              am1 = am\<lparr>am_stats := count_retries waits (am_stats am)\<rparr>
          in case r of
               Inl e \<Rightarrow> (Err e, am1)
             | Inr resp \<Rightarrow>
                (let out = outcome_from_response price c resp
                 in (Ok out, am1\<lparr>am_stats := count_tokens (co_usage out) (am_stats am1)\<rparr>))))"

subsection \<open>The stub provider\<close>

definition stub_process :: "string option \<Rightarrow> string option \<Rightarrow> response" where
  "stub_process fixed content =
     (let prompt = text_or ''(empty)'' content;
          text = (case fixed of Some f \<Rightarrow> f | None \<Rightarrow> ''echo: '' @ prompt);
          pt = (length prompt + 3) div 4; ct = (length text + 3) div 4
      in \<lparr>rs_text = Some text,
          rs_metadata = [(''model'', JString STUB_MODEL),
            (''usage'', JObject [(''prompt_tokens'', JInt (int pt)), (''completion_tokens'', JInt (int ct)),
                                (''total_tokens'', JInt (int (pt + ct)))]),
            (''finish_reason'', JString ''stop'')]\<rparr>)"

subsection \<open>What the loops come to\<close>

lemma retry_loop_result:
  assumes "attempt \<le> k" and "k < limit" and "call k = Inr r" and "\<And>j. attempt \<le> j \<Longrightarrow> j < k \<Longrightarrow> \<exists>e. call j = Inl e"
  shows "retry_loop call delay limit attempt prev = (Ok r, map delay [max 1 attempt..<Suc k])"
  using assms
proof (induction "k - attempt" arbitrary: attempt prev)
  case 0
  then have "attempt = k" by simp
  with "0.prems" show ?case by (cases k) (auto simp: retry_loop.simps Let_def)
next
  case (Suc n)
  then obtain e where e: "call attempt = Inl e" by (metis Suc_neq_Zero diff_self_eq_0 le_neq_implies_less order_refl)
  have "retry_loop call delay limit (attempt + 1) l = (Ok r, map delay [max 1 (attempt + 1)..<Suc k])" for l
    using Suc by (intro Suc.hyps(1)) auto
  moreover have "[max 1 attempt..<Suc k] = (if 0 < attempt then [attempt] else []) @ [max 1 (attempt + 1)..<Suc k]"
    using Suc by (cases attempt) (auto simp: upt_rec [of "Suc _"] upt_rec [of 1])
  ultimately show ?case
    using Suc.prems by (subst retry_loop.simps) (simp add: e Let_def)
qed

lemma retry_loop_fails:
  assumes "\<And>j. attempt \<le> j \<Longrightarrow> j < limit \<Longrightarrow> call j = Inl (err j)" and "attempt \<le> limit"
  shows "retry_loop call delay limit attempt prev =
    (Err (if attempt < limit then ''agent error: '' @ err (limit - 1)
          else (case prev of Some e \<Rightarrow> e | None \<Rightarrow> ''all LLM attempts failed'')),
     map delay [max 1 attempt..<limit])"
  using assms
proof (induction "limit - attempt" arbitrary: attempt prev)
  case 0
  then show ?case by (simp add: retry_loop.simps)
next
  case (Suc n)
  let ?l = "Some (''agent error: '' @ err attempt)"
  have "retry_loop call delay limit (attempt + 1) ?l =
    (Err (if attempt + 1 < limit then ''agent error: '' @ err (limit - 1)
          else (case ?l of Some e \<Rightarrow> e | None \<Rightarrow> ''all LLM attempts failed'')),
     map delay [max 1 (attempt + 1)..<limit])"
    using Suc by (intro Suc.hyps(1)) auto
  moreover have "[max 1 attempt..<limit] = (if 0 < attempt then [attempt] else []) @ [max 1 (attempt + 1)..<limit]"
    using Suc by (cases attempt) (auto simp: upt_rec [of "Suc _"] upt_rec [of 1])
  moreover have "attempt < limit" using Suc by simp
  moreover have "err attempt = err (limit - 1)" if "\<not> attempt + 1 < limit"
    using that Suc by (intro arg_cong [of _ _ err]) simp
  ultimately show ?case
    using Suc.prems by (subst retry_loop.simps) (simp add: Let_def)
qed

lemma try_fallbacks_result:
  "try_fallbacks e fs =
     (case find is_ok fs of Some r \<Rightarrow> r | None \<Rightarrow> last (Err e # fs),
      case find is_ok fs of Some _ \<Rightarrow> Suc (length (takeWhile (\<lambda>f. \<not> is_ok f) fs)) | None \<Rightarrow> length fs)"
proof (induction fs arbitrary: e)
  case (Cons f fs)
  then show ?case by (cases f) (auto simp: Let_def split: option.splits)
qed simp

lemma byte_chunks_concat: "concat (byte_chunks (Suc n) s) = s"
  by (induction "Suc n" s rule: byte_chunks.induct) (subst byte_chunks.simps, auto)

lemma byte_chunks_subset: "c \<in> set (byte_chunks n s) \<Longrightarrow> set c \<subseteq> set s"
proof (induction n s rule: byte_chunks.induct)
  case (1 n s)
  then show ?case
    by (subst (asm) (2) byte_chunks.simps) (auto split: if_splits dest: in_set_takeD in_set_dropD)
qed

lemma byte_chunks_length: "c \<in> set (byte_chunks n s) \<Longrightarrow> length c \<le> n"
proof (induction n s rule: byte_chunks.induct)
  case (1 n s)
  then show ?case by (subst (asm) (2) byte_chunks.simps) (auto split: if_splits)
qed

lemma lossy_ascii: "list_all is_ascii s \<Longrightarrow> lossy s = s"
  by (induction s rule: lossy.induct)
    (auto simp: is_ascii_def is_cont_def char_width_def)

subsection \<open>Properties\<close>

lemma first_success:
  assumes "k < n" and "P k" and "\<And>j. j < k \<Longrightarrow> \<not> P j"
  shows "length (takeWhile (\<lambda>j. \<not> P j) [0..<n]) = k"
proof -
  have "[0..<n] = [0..<k] @ k # [Suc k..<n]"
    using assms(1) by (metis append_Cons append_Nil le_add1 less_imp_add_positive plus_nat.add_0 upt_add_eq_append
        upt_conv_Cons zero_le)
  moreover have "takeWhile (\<lambda>j. \<not> P j) ([0..<k] @ k # [Suc k..<n]) = [0..<k]"
    using assms(2,3) by (subst takeWhile_append2) auto
  ultimately show ?thesis by simp
qed

lemma retries_cases:
  "(\<exists>k < max_attempts c. \<exists>r. call k = Inr r \<and> (\<forall>j < k. \<not> is_ok (call j))
      \<and> with_retries c nanos call = (Ok r, map (\<lambda>a. retry_delay_ms c (nanos a) a) [1..<Suc k]))
   \<or> (\<exists>e. (\<forall>j < max_attempts c. \<not> is_ok (call j)) \<and> call (max_attempts c - 1) = Inl e
      \<and> with_retries c nanos call = (Err (''agent error: '' @ e),
           map (\<lambda>a. retry_delay_ms c (nanos a) a) [1..<max_attempts c]))"
proof -
  let ?n = "max_attempts c"
  have pos: "0 < ?n" by (simp add: max_attempts_def less_max_iff_disj)
  have err: "\<exists>e. x = Inl e" if "\<not> is_ok x" for x :: "string + 'a"
    using that by (cases x) auto
  show ?thesis
  proof (cases "\<exists>k < ?n. is_ok (call k)")
    case True
    define k where "k = (LEAST k. k < ?n \<and> is_ok (call k))"
    have k: "k < ?n" "is_ok (call k)" using LeastI_ex [OF True] by (simp_all add: k_def)
    have before: "\<not> is_ok (call j)" if "j < k" for j
      using not_less_Least [of j "\<lambda>k. k < ?n \<and> is_ok (call k)"] that k(1) by (auto simp: k_def)
    obtain r where r: "call k = Inr r" using k(2) by (cases "call k") auto
    have "with_retries c nanos call = (Ok r, map (\<lambda>a. retry_delay_ms c (nanos a) a) [1..<Suc k])"
      using retry_loop_result [of 0 k ?n call r] k(1) r before err by (simp add: with_retries_def)
    with k(1) r before show ?thesis by blast
  next
    case False
    define e where "e j = (case call j of Inl m \<Rightarrow> m | Inr _ \<Rightarrow> [])" for j
    have e: "call j = Inl (e j)" if "j < ?n" for j
      using False that by (cases "call j") (auto simp: e_def)
    then have "with_retries c nanos call = (Err (''agent error: '' @ e (?n - 1)),
        map (\<lambda>a. retry_delay_ms c (nanos a) a) [1..<?n])"
      using retry_loop_fails [of 0 ?n call e] pos by (simp add: with_retries_def)
    with False e [of "?n - 1"] pos show ?thesis by auto
  qed
qed

text \<open>Retrying is bounded and loses nothing. However a provider behaves, a call makes at
  most the configured number of attempts and at least one; the first attempt that answers
  gives the result, otherwise the last failure does; and exactly one retry is counted, and
  one delay slept, for each attempt after the first.\<close>

theorem retries_are_bounded:
  "let n = max_attempts c;
       k = length (takeWhile (\<lambda>j. \<not> is_ok (call j)) [0..<n]);
       delays = (\<lambda>m. map (\<lambda>a. retry_delay_ms c (nanos a) a) [1..<m])
   in 1 \<le> n \<and>
      with_retries c nanos call =
        (if k < n then (call k, delays (Suc k))
         else (case call (n - 1) of Inl e \<Rightarrow> Err (''agent error: '' @ e) | Inr r \<Rightarrow> Ok r, delays n))"
proof -
  let ?n = "max_attempts c"
  let ?k = "length (takeWhile (\<lambda>j. \<not> is_ok (call j)) [0..<?n])"
  have pos: "1 \<le> ?n" by (simp add: max_attempts_def)
  show ?thesis using retries_cases [of c call nanos]
  proof (elim disjE exE conjE)
    fix k r
    assume k: "k < ?n" "call k = Inr r" "\<forall>j < k. \<not> is_ok (call j)"
      and "with_retries c nanos call = (Ok r, map (\<lambda>a. retry_delay_ms c (nanos a) a) [1..<Suc k])"
    moreover have "?k = k" using k by (intro first_success) auto
    ultimately show ?thesis using pos by (simp add: Let_def)
  next
    fix e
    assume e: "\<forall>j < ?n. \<not> is_ok (call j)" "call (?n - 1) = Inl e"
      and "with_retries c nanos call = (Err (''agent error: '' @ e),
           map (\<lambda>a. retry_delay_ms c (nanos a) a) [1..<?n])"
    moreover have "?k = ?n" using e(1) by (simp add: takeWhile_eq_all_conv [THEN iffD2])
    ultimately show ?thesis using pos by (simp add: Let_def)
  qed
qed

text \<open>A fallback is asked only when the primary failed for capacity. Then the fallbacks are
  asked in order until one answers, whose answer is the result; when none does, all were
  asked and the last failure is the result. Any other failure of the primary is returned
  as it is, and no fallback is asked.\<close>

theorem fallbacks_in_order:
  "fallback_process ulc primary fallbacks =
    (case primary of
       Inr r \<Rightarrow> (Ok r, 0)
     | Inl e \<Rightarrow>
         if is_capacity_error ulc e
         then (case find is_ok fallbacks of
                 Some r \<Rightarrow> (r, Suc (length (takeWhile (\<lambda>f. \<not> is_ok f) fallbacks)))
               | None \<Rightarrow> (last (Err e # fallbacks), length fallbacks))
         else (Err e, 0))"
  by (cases primary) (simp_all add: fallback_process_def try_fallbacks_result split: option.split)

text \<open>The triggers are searched for anywhere in the text, so a rate limit that mentions such a
  number is taken for lost capacity, which the list is written to exclude.\<close>

lemma rate_limit_error_falls_back:
  "is_capacity_error ulc ''429 Too Many Requests: retry in 1500 ms''"
proof -
  have "list_all is_ascii ''429 Too Many Requests: retry in 1500 ms''"
    "str_contains ''500'' (map ascii_lower ''429 Too Many Requests: retry in 1500 ms'')" by code_simp+
  then show ?thesis by (simp add: is_capacity_error_def FALLBACK_TRIGGERS_def to_lowercase_def)
qed

text \<open>A streamed answer in ASCII is the answer: its tokens, put together, are exactly the
  text, none is longer than five bytes, and the end is announced once, after them.\<close>

theorem ascii_streams_unchanged:
  assumes "list_all is_ascii text"
  shows "\<exists>ts. stream_events (Ok text) = map Token ts @ [StreamDone] \<and> concat ts = text
    \<and> (\<forall>t \<in> set ts. length t \<le> 5)"
proof -
  have same: "lossy c = c" if "c \<in> set (byte_chunks 5 text)" for c
    using byte_chunks_subset [OF that] assms by (intro lossy_ascii) (auto simp: list_all_iff)
  then have "map (\<lambda>c. Token (lossy c)) (byte_chunks 5 text) = map Token (byte_chunks 5 text)" by simp
  moreover have "concat (byte_chunks 5 text) = text"
    using byte_chunks_concat [of 4 "text"] by simp
  ultimately show ?thesis
    using byte_chunks_length [of _ 5 "text"]
    by (intro exI [of _ "byte_chunks 5 text"]) (auto simp: stream_events_def)
qed

lemma ascii_streams_unchanged_witness:
  "\<exists>ts. stream_events (Ok ''hello world'') = map Token ts @ [StreamDone] \<and> concat ts = ''hello world''"
proof -
  have "list_all is_ascii ''hello world''" by code_simp
  from ascii_streams_unchanged [OF this] show ?thesis by blast
qed

text \<open>A streamed answer that is not ASCII can be destroyed: a character that straddles a
  multiple of five bytes reaches the caller as replacement characters in two tokens.\<close>

theorem streaming_destroys_straddling_characters:
  assumes "length p = 4" and "list_all is_ascii p" and "valid_char [a, b]"
  shows "\<exists>rest. stream_events (Ok (p @ [a, b] @ s)) = Token (p @ REPLACEMENT) # rest
    \<and> hd rest = Token (REPLACEMENT @ lossy (take 4 s))"
proof -
  have ab: "\<not> is_cont a" "char_width a = 2" "is_cont b" using assms(3) by (auto simp: valid_char_def)
  have chunks: "byte_chunks 5 (p @ a # b # s) = (p @ [a]) # byte_chunks 5 (b # s)"
    using assms(1) by (subst byte_chunks.simps) simp
  have "byte_chunks 5 (b # s) = (b # take 4 s) # byte_chunks 5 (drop 4 s)"
    by (subst byte_chunks.simps) simp
  moreover have "lossy (p @ [a]) = p @ REPLACEMENT"
    using assms(2)
  proof (induction p)
    case (Cons c p)
    then show ?case by (simp add: is_ascii_def is_cont_def char_width_def)
  qed (simp add: ab)
  moreover have "lossy (b # take 4 s) = REPLACEMENT @ lossy (take 4 s)" using ab by simp
  ultimately show ?thesis by (simp add: stream_events_def chunks del: lossy.simps)
qed

lemma streaming_destroys_straddling_characters_witness:
  "hd (stream_events (Ok (''cafe'' @ [CHR 0xC3, CHR 0xA9] @ ''s''))) = Token (''cafe'' @ REPLACEMENT)"
proof -
  have "list_all is_ascii ''cafe''" "valid_char [CHR 0xC3, CHR 0xA9]" by code_simp+
  from streaming_destroys_straddling_characters [OF _ this, of "''s''"] show ?thesis by auto
qed

text \<open>Money is measured, never guessed. A completion states a cost exactly when the provider
  reported both token counts and the model has a price; what it states is that price, and a
  price of a whole number of micro-dollars is debited exactly. The counts are the
  provider's own, under either spelling.\<close>

theorem cost_is_measured_not_guessed:
  fixes r :: response and price c
  defines "out \<equiv> outcome_from_response price c r"
  assumes "\<And>model i k. price model i k = map_option wire_usd (ledger model i k)"
    and "\<And>model i k m. ledger model i k = Some m \<Longrightarrow> 0 \<le> m \<and> m \<le> 2 ^ 50"
  shows "map_option cc_micro_usd (co_cost out) = Option.bind (co_usage out) (\<lambda>u.
        ledger (co_model out) (tu_prompt_tokens u) (tu_completion_tokens u))
    \<and> (\<forall>u. co_usage out = Some u \<longrightarrow> (\<exists>usage. map_of (rs_metadata r) ''usage'' = Some usage
        \<and> usage_count usage ''prompt_tokens'' ''input_tokens'' = Some (tu_prompt_tokens u)
        \<and> usage_count usage ''completion_tokens'' ''output_tokens'' = Some (tu_completion_tokens u)))"
proof -
  have "usd_to_micro (wire_usd m) = m" if "ledger model i k = Some m" for model i k m
    using assms(3) [OF that] by (simp add: usd_to_micro_wire)
  then have "map_option cc_micro_usd (map_option cost_from_usd (map_option wire_usd (ledger model i k)))
      = ledger model i k" for model i k
    by (cases "ledger model i k") (simp_all add: cost_from_usd_def)
  then have "map_option cc_micro_usd (map_option cost_from_usd (price model i k)) = ledger model i k" for model i k
    by (simp only: assms(2))
  then have "map_option cc_micro_usd (co_cost out) = Option.bind (co_usage out) (\<lambda>u.
      ledger (co_model out) (tu_prompt_tokens u) (tu_completion_tokens u))"
    by (simp add: out_def outcome_from_response_def Let_def map_option_bind comp_def del: option.map_comp)
  moreover have "co_usage out = usage_from_metadata (rs_metadata r)"
    by (simp add: out_def outcome_from_response_def Let_def)
  ultimately show ?thesis by (auto simp: usage_from_metadata_def bind_eq_Some_conv)
qed

definition demo_agents :: agents_config where
  "demo_agents =
     \<lparr>ac_primary = \<lparr>pv_provider = ''openai'', pv_api_key = ''k'', pv_model = ''m'', pv_api_base = None\<rparr>,
      ac_aws_region = None,
      ac_fallbacks = [\<lparr>pv_provider = ''gemini'', pv_api_key = ''k'', pv_model = ''g'', pv_api_base = None\<rparr>]\<rparr>"

lemma cost_is_measured_not_guessed_witness:
  "map_option cc_micro_usd (co_cost (outcome_from_response (\<lambda>_ i k. Some (wire_usd (int (min 1000 (i + 2 * k)))))
      demo_agents (stub_process None (Some ''hello''))))
     = Some 8"
proof -
  let ?r = "stub_process None (Some ''hello'')"
  have u: "usage_from_metadata (rs_metadata ?r)
      = Some \<lparr>tu_prompt_tokens = 2, tu_completion_tokens = 3, tu_total_tokens = 5\<rparr>" by code_simp
  then have "co_usage (outcome_from_response p demo_agents ?r)
      = Some \<lparr>tu_prompt_tokens = 2, tu_completion_tokens = 3, tu_total_tokens = 5\<rparr>" for p
    by (simp add: outcome_from_response_def Let_def)
  with cost_is_measured_not_guessed
    [of "\<lambda>_ i k. Some (wire_usd (int (min 1000 (i + 2 * k))))" "\<lambda>_ i k. Some (int (min 1000 (i + 2 * k)))" demo_agents ?r]
  show ?thesis by simp
qed

text \<open>A failover cannot lift the ceiling on output tokens: when a chain of providers is
  built with one below \<open>2\<^sup>3\<^sup>1\<close>, every adapter in it, the primary and each fallback, carries
  exactly that ceiling, except the two that have no such setting.\<close>

theorem ceiling_reaches_every_provider:
  assumes "create_llm_with_max_tokens accept c (Some n) = Ok chain" and "n < 2 ^ 31"
  shows "\<forall>a \<in> set chain. ad_max_tokens a = Some (int n) \<or> ad_kind a \<in> {OllamaAdapter, StubAdapter}"
proof
  fix a assume "a \<in> set chain"
  then obtain p region where "create_adapter accept p region (Some n) = Ok a"
    using assms(1)
    by (auto simp: create_llm_with_max_tokens_def try_bind_Ok List.map_filter_def split: sum.splits option.splits)
  then have "a = adapter_for p region (Some n)"
    by (auto simp: create_adapter_def Let_def split: if_splits sum.splits)
  moreover have "as_i32 n = int n" using assms(2) by (simp add: as_i32_def)
  ultimately show "ad_max_tokens a = Some (int n) \<or> ad_kind a \<in> {OllamaAdapter, StubAdapter}"
    by (simp add: adapter_for_def Let_def)
qed

lemma ceiling_reaches_every_provider_witness:
  "\<exists>a b. create_llm_with_max_tokens (\<lambda>_. Ok ()) demo_agents (Some 50) = Ok [a, b]
     \<and> ad_max_tokens a = Some 50 \<and> ad_max_tokens b = Some 50"
proof -
  obtain a b where chain: "create_llm_with_max_tokens (\<lambda>_. Ok ()) demo_agents (Some 50) = Ok [a, b]"
    and kinds: "ad_kind a = OpenAiAdapter" "ad_kind b = GeminiAdapter"
    by (simp add: demo_agents_def create_llm_with_max_tokens_def create_adapter_def adapter_for_def
        map_filter_simps Let_def)
  from ceiling_reaches_every_provider [OF chain] kinds chain show ?thesis by auto
qed

text \<open>From there on the cast to a signed number makes the ceiling negative.\<close>

lemma large_ceiling_is_negative:
  "ad_max_tokens (adapter_for \<lparr>pv_provider = ''openai'', pv_api_key = k, pv_model = m, pv_api_base = b\<rparr> r
     (Some (2 ^ 31))) = Some (- (2 ^ 31))"
  by (simp add: adapter_for_def as_i32_def Let_def)

end
