(* ===== verification/Openai_Api.thy ===== *)
theory Openai_Api
  imports Agents
begin

section \<open>The OpenAI-compatible endpoint (\<open>src/gateway/openai_compat.rs\<close>)\<close>

text \<open>
  A chat completion request from its checks to its answer: refused, answered from a
  conversation, streamed, or completed without state. The identifier and the time of the
  answer are parameters, and so is the agent manager's answer.
\<close>

subsection \<open>Requests and errors\<close>

record chat_request =
  cq_model :: string
  cq_messages :: "(string \<times> string) list"
  cq_stream :: bool
  cq_user :: "string option"
  cq_max_tokens :: "nat option"
  cq_stateless :: bool

datatype api_error = NoMessages | ModelMismatch string string | InvalidMaxTokens | UpstreamFailure string

definition tick :: string where
  "tick = [CHR 0x27]"

fun error_parts :: "api_error \<Rightarrow> nat \<times> string \<times> string \<times> string" where
  "error_parts NoMessages = (400, ''no_messages'', ''invalid_request_error'',
     [CHR 0x60] @ ''messages'' @ [CHR 0x60] @ '' must contain at least one message with content'')"
| "error_parts (ModelMismatch requested configured) = (400, ''model_not_available'', ''invalid_request_error'',
     ''model '' @ tick @ requested @ tick @ '' is not available; this gateway serves '' @ tick @ configured @ tick
     @ ''. Request that model explicitly, or omit routing by sending it verbatim. ''
     @ ''Aliases are refused because a response must name a pinned version.'')"
| "error_parts InvalidMaxTokens = (400, ''invalid_max_tokens'', ''invalid_request_error'',
     [CHR 0x60] @ ''max_tokens'' @ [CHR 0x60] @ '' must be a positive integer'')"
| "error_parts (UpstreamFailure msg) = (502, ''upstream_provider_error'', ''api_error'',
     ''upstream provider failed: '' @ msg)"

definition error_status :: "api_error \<Rightarrow> nat" where
  "error_status e = fst (error_parts e)"

definition error_code :: "api_error \<Rightarrow> string" where
  "error_code e = fst (snd (error_parts e))"

definition error_body :: "api_error \<Rightarrow> json" where
  "error_body e = (case error_parts e of (_, code, type, message) \<Rightarrow>
     JObject [(''error'', JObject [(''code'', JString code), (''message'', JString message), (''type'', JString type)])])"

subsection \<open>The model\<close>

definition GATEWAY_ALIASES :: "string list" where
  "GATEWAY_ALIASES = [''rustynail'', ''default'', ''gateway'']"

definition resolve_model :: "string \<Rightarrow> string \<Rightarrow> api_error + unit" where
  "resolve_model requested configured =
     (if requested = [] \<or> requested = configured \<or> map ascii_lower requested \<in> set GATEWAY_ALIASES then Ok ()
      else if starts_with requested configured then Ok ()
      else Err (ModelMismatch requested configured))"

subsection \<open>Answers\<close>

record chat_response =
  cr_id :: string
  cr_created :: nat
  cr_model :: string
  cr_content :: string
  cr_finish_reason :: string
  cr_usage :: "token_usage option"
  cr_cost :: "completion_cost option"

text \<open>The body as JSON: absent usage and cost are left out.\<close>

definition response_body :: "chat_response \<Rightarrow> json" where
  "response_body r = JObject
     ([(''id'', JString (cr_id r)), (''object'', JString ''chat.completion''), (''created'', JInt (int (cr_created r))),
       (''model'', JString (cr_model r)),
       (''choices'', JArray [JObject [(''index'', JInt 0),
          (''message'', JObject [(''role'', JString ''assistant''), (''content'', JString (cr_content r))]),
          (''finish_reason'', JString (cr_finish_reason r))]])]
      @ (case cr_usage r of None \<Rightarrow> [] | Some u \<Rightarrow>
          [(''usage'', JObject [(''prompt_tokens'', JInt (int (tu_prompt_tokens u))),
             (''completion_tokens'', JInt (int (tu_completion_tokens u))),
             (''total_tokens'', JInt (int (tu_total_tokens u)))])])
      @ (case cr_cost r of None \<Rightarrow> [] | Some c \<Rightarrow>
          [(''cost'', JObject [(''amount_usd'', JFloat (cc_amount_usd c)), (''micro_usd'', JInt (cc_micro_usd c)),
             (''currency'', JString ''USD'')])]))"

text \<open>A line of the event stream.\<close>

datatype sse = SseChunk "string option" "string option" "string option" | SseEnd

definition chunk_body :: "string \<Rightarrow> nat \<Rightarrow> string \<Rightarrow> string option \<Rightarrow> string option \<Rightarrow> string option \<Rightarrow> json" where
  "chunk_body i created model role content finish = JObject
     [(''id'', JString i), (''object'', JString ''chat.completion.chunk''), (''created'', JInt (int created)),
      (''model'', JString model),
      (''choices'', JArray [JObject [(''index'', JInt 0),
         (''delta'', JObject ((case role of None \<Rightarrow> [] | Some r \<Rightarrow> [(''role'', JString r)])
            @ (case content of None \<Rightarrow> [] | Some c \<Rightarrow> [(''content'', JString c)]))),
         (''finish_reason'', case finish of None \<Rightarrow> JNull | Some f \<Rightarrow> JString f)]])]"

fun sse_of :: "llm_stream_event list \<Rightarrow> sse list" where
  "sse_of [] = []"
| "sse_of (Token t # es) = SseChunk None (Some t) None # sse_of es"
| "sse_of (StreamDone # es) = [SseChunk None None (Some ''stop''), SseEnd]"
| "sse_of (StreamError e # es) = [SseEnd]"

definition sse_body :: "llm_stream_event list \<Rightarrow> sse list" where
  "sse_body es = SseChunk (Some ''assistant'') None None # sse_of es"

fun sse_line :: "(json \<Rightarrow> string) \<Rightarrow> string \<Rightarrow> nat \<Rightarrow> string \<Rightarrow> sse \<Rightarrow> string" where
  "sse_line print i created model (SseChunk role content finish) =
     ''data: '' @ print (chunk_body i created model role content finish) @ newline @ newline"
| "sse_line print i created model SseEnd = ''data: [DONE]'' @ newline @ newline"

datatype api_response = ApiError api_error | Completion chat_response | Stream "sse list"

subsection \<open>The handler\<close>

definition last_user_content :: "(string \<times> string) list \<Rightarrow> string" where
  "last_user_content messages =
     (case find (\<lambda>(role, _). role = ''user'') (rev messages) of None \<Rightarrow> [] | Some (_, content) \<Rightarrow> content)"

text \<open>What the agent manager does with a user's message, and with a stateless completion.\<close>

record 'm manager =
  mg_configured :: string
  mg_process :: "string \<Rightarrow> string \<Rightarrow> 'm \<Rightarrow> (string + string) \<times> 'm"
  mg_stateless :: "(string \<times> string) list \<Rightarrow> nat option \<Rightarrow> 'm \<Rightarrow> (string + completion_outcome) \<times> 'm"

definition stateless_completion :: "'m manager \<Rightarrow> string \<Rightarrow> nat \<Rightarrow> chat_request \<Rightarrow> 'm \<Rightarrow> api_response \<times> 'm" where
  "stateless_completion mg i created rq st =
     (let messages = filter (\<lambda>(_, content). content \<noteq> []) (cq_messages rq)
      in if messages = [] then (ApiError NoMessages, st)
         else (let (r, st1) = mg_stateless mg messages (cq_max_tokens rq) st
               in (case r of
                     Inl e \<Rightarrow> ApiError (UpstreamFailure e)
                   | Inr out \<Rightarrow> Completion \<lparr>cr_id = i, cr_created = created, cr_model = co_model out,
                       cr_content = co_text out, cr_finish_reason = text_or ''stop'' (co_finish_reason out),
                       cr_usage = co_usage out, cr_cost = co_cost out\<rparr>, st1)))"

definition chat_completions :: "'m manager \<Rightarrow> string \<Rightarrow> nat \<Rightarrow> chat_request \<Rightarrow> 'm \<Rightarrow> api_response \<times> 'm" where
  "chat_completions mg i created rq st =
     (case resolve_model (cq_model rq) (mg_configured mg) of
        Inl e \<Rightarrow> (ApiError e, st)
      | Inr _ \<Rightarrow>
         if cq_max_tokens rq = Some 0 then (ApiError InvalidMaxTokens, st)
         else if cq_stateless rq then
           (if cq_stream rq
            then (ApiError (UpstreamFailure ''stateless mode does not support stream: true''), st)
            else stateless_completion mg i created rq st)
         else
           (let content = last_user_content (cq_messages rq);
                user = (case cq_user rq of None \<Rightarrow> ''openai-api'' | Some u \<Rightarrow> u)
            in if content = [] then (ApiError NoMessages, st)
               else (let (r, st1) = mg_process mg user content st
                     in (if cq_stream rq then Stream (sse_body (stream_events r))
                         else (case r of
                                 Inl e \<Rightarrow> ApiError (UpstreamFailure e)
                               | Inr t \<Rightarrow> Completion \<lparr>cr_id = i, cr_created = created,
                                   cr_model = mg_configured mg, cr_content = t, cr_finish_reason = ''stop'',
                                   cr_usage = None, cr_cost = None\<rparr>), st1))))"

text \<open>The manager of this gateway.\<close>

definition gateway_manager ::
    "model_world \<Rightarrow> (adapter \<Rightarrow> string + unit) \<Rightarrow> (string \<Rightarrow> nat \<Rightarrow> nat \<Rightarrow> f64 option)
     \<Rightarrow> (adapter list \<Rightarrow> string \<Rightarrow> nat \<Rightarrow> string + response) \<Rightarrow> agents_config \<Rightarrow> agent_manager manager" where
  "gateway_manager w accept price ask c =
     \<lparr>mg_configured = configured_model c, mg_process = process_message w,
      mg_stateless = complete_stateless accept price (mw_nanos w) ask c\<rparr>"

subsection \<open>Properties\<close>

text \<open>A stateless completion is independent: it reads no conversation and leaves none, so
  its answer is the same whatever the users have said before, and no user's agent is
  created or removed by it, whether it succeeds or fails.\<close>

theorem stateless_completion_is_independent:
  assumes "cq_stateless rq" and "am_retry am' = am_retry am"
    and "chat_completions (gateway_manager w accept price ask c) i created rq am = (r, am1)"
    and "chat_completions (gateway_manager w accept price ask c) i created rq am' = (r', am1')"
  shows "r = r' \<and> am_users am1 = am_users am \<and> am_planning am1 = am_planning am"
proof -
  have users: "am_users (snd (complete_stateless accept price nanos ask c messages limit am)) = am_users am
      \<and> am_planning (snd (complete_stateless accept price nanos ask c messages limit am)) = am_planning am"
    for nanos messages limit am
    by (auto simp: complete_stateless_def Let_def split: sum.splits prod.splits)
  have same: "fst (complete_stateless accept price nanos ask c messages limit am)
      = fst (complete_stateless accept price nanos ask c messages limit am')" for nanos messages limit
    by (simp add: complete_stateless_def assms(2) Let_def split: sum.split prod.split)
  show ?thesis
    using assms(1,3,4) users [of "mw_nanos w" "filter (\<lambda>(_, content). content \<noteq> []) (cq_messages rq)" "cq_max_tokens rq" am]
      same [of "mw_nanos w" "filter (\<lambda>(_, content). content \<noteq> []) (cq_messages rq)" "cq_max_tokens rq"]
    by (auto simp: chat_completions_def stateless_completion_def gateway_manager_def Let_def
        split: sum.splits if_splits prod.splits)
qed

definition demo_world :: model_world where
  "demo_world = \<lparr>mw_create = Ok (), mw_planner = (\<lambda>_. Err ''none''), mw_attempt = (\<lambda>_. Ok None), mw_nanos = (\<lambda>_. 0)\<rparr>"

definition demo_agent_manager :: "string set \<Rightarrow> agent_manager" where
  "demo_agent_manager users = \<lparr>am_users = users, am_planning = False,
     am_retry = \<lparr>rc_enabled = False, rc_max_attempts = 1, rc_base_delay_ms = 0, rc_jitter_enabled = False\<rparr>,
     am_stats = new_stats\<rparr>"

lemma stateless_completion_is_independent_witness:
  "fst (chat_completions (gateway_manager demo_world (\<lambda>_. Ok ()) (\<lambda>_ _ _. None)
        (\<lambda>_ prompt _. Ok (stub_process None (Some prompt))) demo_agents) ''i'' 0
        \<lparr>cq_model = [], cq_messages = [(''user'', ''hi'')], cq_stream = False, cq_user = None,
         cq_max_tokens = None, cq_stateless = True\<rparr> (demo_agent_manager {}))
   = fst (chat_completions (gateway_manager demo_world (\<lambda>_. Ok ()) (\<lambda>_ _ _. None)
        (\<lambda>_ prompt _. Ok (stub_process None (Some prompt))) demo_agents) ''i'' 0
        \<lparr>cq_model = [], cq_messages = [(''user'', ''hi'')], cq_stream = False, cq_user = None,
         cq_max_tokens = None, cq_stateless = True\<rparr> (demo_agent_manager {''u''}))"
  by (rule conjunct1 [OF stateless_completion_is_independent [OF _ _ surjective_pairing surjective_pairing]])
    (simp_all add: demo_agent_manager_def)

text \<open>Each refusal has one cause and one code. The four codes are distinct; a request is
  refused for its model, its ceiling or its messages exactly when that is what is wrong with
  it, in that order; and usage and cost are stated only for stateless requests.\<close>

theorem refusals_name_their_cause:
  assumes "chat_completions mg i created rq st = (r, st')"
  shows "distinct (map error_code [NoMessages, ModelMismatch a b, InvalidMaxTokens, UpstreamFailure e])
    \<and> (r = ApiError (ModelMismatch (cq_model rq) (mg_configured mg))
        \<longleftrightarrow> \<not> is_ok (resolve_model (cq_model rq) (mg_configured mg)))
    \<and> (r = ApiError InvalidMaxTokens
        \<longleftrightarrow> is_ok (resolve_model (cq_model rq) (mg_configured mg)) \<and> cq_max_tokens rq = Some 0)
    \<and> (r = ApiError NoMessages
        \<longleftrightarrow> is_ok (resolve_model (cq_model rq) (mg_configured mg)) \<and> cq_max_tokens rq \<noteq> Some 0
          \<and> (if cq_stateless rq then \<not> cq_stream rq \<and> (\<forall>(_, content) \<in> set (cq_messages rq). content = [])
             else last_user_content (cq_messages rq) = []))
    \<and> (\<forall>c. r = Completion c \<and> (cr_usage c \<noteq> None \<or> cr_cost c \<noteq> None) \<longrightarrow> cq_stateless rq)"
  using assms
  by (auto simp: chat_completions_def resolve_model_def stateless_completion_def Let_def filter_empty_conv error_code_def
      split: sum.splits if_splits prod.splits)

definition demo_manager :: "nat manager" where
  "demo_manager = \<lparr>mg_configured = ''m-1'', mg_process = (\<lambda>_ content n. (Ok content, Suc n)),
     mg_stateless = (\<lambda>_ _ n. (Err ''down'', n))\<rparr>"

definition demo_request :: "string \<Rightarrow> chat_request" where
  "demo_request model = \<lparr>cq_model = model, cq_messages = [(''user'', ''hi'')], cq_stream = False, cq_user = None,
     cq_max_tokens = None, cq_stateless = False\<rparr>"

lemma refusals_name_their_cause_witness:
  "fst (chat_completions demo_manager ''i'' 0 (demo_request ''gpt-4'') 0) = ApiError (ModelMismatch ''gpt-4'' ''m-1'')
   \<and> error_code NoMessages \<noteq> error_code InvalidMaxTokens"
proof -
  have "\<not> is_ok (resolve_model ''gpt-4'' ''m-1'')" by code_simp
  then show ?thesis
    using refusals_name_their_cause [where mg = demo_manager and i = "''i''" and created = 0
        and rq = "demo_request ''gpt-4''" and st = 0, OF surjective_pairing]
    by (auto simp: demo_manager_def demo_request_def)
qed

text \<open>Three places where the endpoint says something else than it documents: a request that asks for both
  modes is called a failure of the provider, which is never asked; a stream that failed ends
  like one that is complete; and one letter of the configured name is as good as all of it.\<close>

lemma stateless_stream_is_called_an_upstream_failure:
  assumes "cq_stateless rq" and "cq_stream rq" and "cq_model rq = []" and "cq_max_tokens rq = None"
  shows "\<exists>m. chat_completions mg i created rq st = (ApiError (UpstreamFailure m), st)"
  using assms by (simp add: chat_completions_def resolve_model_def)

lemma failed_stream_hides_the_error:
  "sse_body (stream_events (Err e)) = [SseChunk (Some ''assistant'') None None, SseEnd]"
  by (simp add: sse_body_def stream_events_def)

lemma any_prefix_is_the_model:
  "resolve_model (take n configured) configured = Ok ()"
  by (simp add: resolve_model_def starts_with_def min_def)

end
