(* ===== verification/Sandbox.thy ===== *)
theory Sandbox
  imports Verify Tool_Result
begin

section \<open>The sandboxed file system tool (\<open>src/tools/filesystem.rs\<close>)\<close>

text \<open>
  Which file a call acts on, and what it answers. The file system is a parameter: what
  exists, what a path resolves to with its links followed, and what each operation answers.
  Paths are Unix paths.
\<close>

subsection \<open>Resolving a path\<close>

record file_system =
  fs_exists :: "string \<Rightarrow> bool"
  fs_canonicalize :: "string \<Rightarrow> string + string"
  fs_read :: "string \<Rightarrow> string + string"
  fs_create_dirs :: "string \<Rightarrow> string + unit"
  fs_write :: "string \<Rightarrow> string \<Rightarrow> string + unit"
  fs_list :: "string \<Rightarrow> string + string list"

definition escapes :: "string \<Rightarrow> string" where
  "escapes path = ''path '' @ quoted path @ '' escapes the sandbox root''"

text \<open>\<open>Path::starts_with\<close>, component by component.\<close>

definition path_starts_with :: "string \<Rightarrow> string \<Rightarrow> bool" where
  "path_starts_with base p \<longleftrightarrow>
     take (length (path_components base)) (path_components p) = path_components base"

definition trim_leading :: "char \<Rightarrow> string \<Rightarrow> string" where
  "trim_leading c s = dropWhile (\<lambda>d. d = c) s"

definition sandbox_resolve :: "file_system \<Rightarrow> string \<Rightarrow> string \<Rightarrow> string + string" where
  "sandbox_resolve fs base path =
     (if ''..'' \<in> set (path_components path) then Err (escapes path)
      else (let joined = path_join base path in
        case fs_canonicalize fs base of
          Inl e \<Rightarrow> Err (''cannot canonicalize root: '' @ e)
        | Inr croot \<Rightarrow>
            try_bind
              (if fs_exists fs joined
               then (case fs_canonicalize fs joined of
                       Inl e \<Rightarrow> Err (''cannot resolve path: '' @ e) | Inr p \<Rightarrow> Ok p)
               else Ok (path_join croot (trim_leading (CHR 0x5C) (trim_leading (CHR ''/'') path))))
              (\<lambda>target. if path_starts_with croot target then Ok target else Err (escapes path))))"

subsection \<open>A call\<close>



subsection \<open>Components of a path\<close>

lemma split_on_append:
  "split_on c (s @ c # t) = split_on c s @ split_on c t"
proof (induction s)
  case (Cons d s)
  have "split_on c s \<noteq> []" for s by (induction s) (auto split: list.splits)
  with Cons show ?case by (auto split: list.splits)
qed simp

definition named :: "string list \<Rightarrow> string list" where
  "named segs = filter (\<lambda>s. s \<noteq> [] \<and> s \<noteq> ''.'') segs"

lemma components_absolute:
  "is_absolute p \<Longrightarrow> path_components p = ''/'' # named (split_on (CHR ''/'') p)"
  by (simp add: path_components_def named_def Let_def)

lemma named_append [simp]: "named (a @ b) = named a @ named b"
  by (simp add: named_def)

lemma named_components: "s \<in> set (named (split_on (CHR ''/'') p)) \<Longrightarrow> s \<in> set (path_components p)"
proof -
  assume s: "s \<in> set (named (split_on (CHR ''/'') p))"
  show ?thesis
    using s by (cases "split_on (CHR ''/'') p") (auto simp add: path_components_def named_def Let_def)
qed

lemma absolute_iff: "is_absolute p \<longleftrightarrow> (\<exists>q. p = CHR ''/'' # q)"
  by (cases p) (auto simp: is_absolute_def starts_with_def)

lemma components_join:
  assumes "is_absolute d" and "\<not> is_absolute n"
  shows "path_components (path_join d n) = path_components d @ named (split_on (CHR ''/'') n)"
proof -
  have abs: "is_absolute (path_join d n)" using assms by (auto simp: path_join_def absolute_iff)
  show ?thesis
  proof (cases "last d = CHR ''/''")
    case True
    then obtain d' where d: "d = d' @ ''/''" using assms(1)
      by (metis append_butlast_last_id absolute_iff list.distinct(1))
    have "path_join d n = d' @ CHR ''/'' # n" using True assms by (simp add: path_join_def d)
    then show ?thesis
      using abs assms(1) by (simp add: components_absolute split_on_append d) (simp add: named_def)
  next
    case False
    then have "path_join d n = d @ CHR ''/'' # n" using assms by (auto simp: path_join_def absolute_iff)
    then show ?thesis using abs assms(1) by (simp add: components_absolute split_on_append)
  qed
qed

subsection \<open>Properties\<close>



definition demo_fs :: "string list \<Rightarrow> file_system" where
  "demo_fs files = \<lparr>fs_exists = (\<lambda>p. p \<in> set files),
     fs_canonicalize = (\<lambda>p. if is_absolute p then Ok p else Err ''not found''),
     fs_read = (\<lambda>p. Ok p), fs_create_dirs = (\<lambda>_. Ok ()), fs_write = (\<lambda>_ _. Ok ()), fs_list = (\<lambda>_. Ok [])\<rparr>"


text \<open>A leading backslash leads out of the sandbox. It makes \<open>..\<close> an ordinary name for the
  check, and is then removed: as long as there is no entry of that odd name, the path acted
  on is the real root's parent directory followed by anything.\<close>

theorem backslash_leaves_the_sandbox:
  assumes "fs_canonicalize fs base = Inr croot" and "is_absolute croot" and "last croot \<noteq> CHR ''/''"
    and "path = [CHR 0x5C] @ ''../'' @ name" and "''..'' \<notin> set (path_components name)"
    and "\<not> is_absolute name" and "\<not> fs_exists fs (path_join base path)"
  shows "sandbox_resolve fs base path = Ok (croot @ ''/../'' @ name)"
proof -
  let ?q = "''../'' @ name"
  have "path_components path = ([CHR 0x5C] @ ''..'') # named (split_on (CHR ''/'') name)"
    using assms(4) by (simp add: path_components_def is_absolute_def starts_with_def named_def Let_def)
  then have ok: "''..'' \<notin> set (path_components path)" using assms(5) named_components by auto
  have trim: "trim_leading (CHR 0x5C) (trim_leading (CHR ''/'') path) = ?q"
    by (simp add: assms(4) trim_leading_def)
  have rel: "\<not> is_absolute ?q" by (simp add: is_absolute_def starts_with_def)
  have join: "path_join croot ?q = croot @ ''/../'' @ name"
    using rel assms(2,3) by (auto simp: path_join_def absolute_iff)
  have "path_starts_with croot (path_join croot ?q)"
    using components_join [OF assms(2) rel] by (simp add: path_starts_with_def)
  then show ?thesis using assms(1,7) ok trim join by (simp add: sandbox_resolve_def Let_def)
qed

lemma backslash_leaves_the_sandbox_witness:
  "sandbox_resolve (demo_fs []) ''/box'' ([CHR 0x5C] @ ''../etc/passwd'') = Ok ''/box/../etc/passwd''"
proof -
  have "fs_canonicalize (demo_fs []) ''/box'' = Inr ''/box''" "is_absolute ''/box''"
    "''..'' \<notin> set (path_components ''etc/passwd'')" "\<not> is_absolute ''etc/passwd''"
    "\<not> fs_exists (demo_fs []) (path_join ''/box'' ([CHR 0x5C] @ ''../etc/passwd''))" by code_simp+
  then show ?thesis
    using backslash_leaves_the_sandbox [of "demo_fs []" "''/box''" "''/box''" "[CHR 0x5C] @ ''../etc/passwd''" "''etc/passwd''"]
    by simp
qed

text \<open>A new file under a directory that is a link is created wherever the link leads.\<close>

lemma new_file_follows_links:
  assumes "fs_canonicalize fs base = Inr croot" and "is_absolute croot"
    and "\<not> is_absolute path" and "\<not> starts_with [CHR 0x5C] path"
    and "''..'' \<notin> set (path_components path)" and "\<not> fs_exists fs (path_join base path)"
  shows "sandbox_resolve fs base path = Ok (path_join croot path)"
proof -
  have "trim_leading (CHR 0x5C) (trim_leading (CHR ''/'') path) = path"
    using assms(3,4) by (cases path) (auto simp: trim_leading_def starts_with_def is_absolute_def)
  then show ?thesis
    using assms components_join [OF assms(2,3)] by (simp add: sandbox_resolve_def path_starts_with_def Let_def)
qed

end
