(* ===== verification/Formatter.thy ===== *)
theory Formatter
  imports Rust_Str
begin

section \<open>Platform formatting (\<open>src/gateway/formatter.rs\<close>)\<close>

text \<open>
  Markdown rewritten for a chat platform: fenced code blocks are replaced by tokens, the
  rest is rewritten, and the tokens are replaced by the blocks again. Texts are UTF-8 bytes;
  every pattern searched for is ASCII.
\<close>

subsection \<open>Text primitives\<close>

definition fence :: string where
  "fence = [CHR 0x60, CHR 0x60, CHR 0x60]"

text \<open>\<open>str::replace\<close> for a pattern that is not empty.\<close>

function str_replace :: "string \<Rightarrow> string \<Rightarrow> string \<Rightarrow> string" where
  "str_replace pat rep [] = []"
| "str_replace pat rep (c # cs) =
     (if starts_with pat (c # cs) then rep @ str_replace pat rep (drop (length pat - 1) cs)
      else c # str_replace pat rep cs)"
  by pat_completeness auto
termination by (relation "measure (\<lambda>(_, _, s). length s)") auto

subsection \<open>Markup\<close>

text \<open>\<open>**...**\<close> in another platform's markers.\<close>

function replace_bold_markers :: "string \<Rightarrow> string \<Rightarrow> string" where
  "replace_bold_markers marker s =
     (case str_find ''**'' s of
        None \<Rightarrow> s
      | Some i \<Rightarrow>
         (let rest = drop (i + 2) s in
          take i s
          @ (case str_find ''**'' rest of
               None \<Rightarrow> ''**'' @ rest
             | Some j \<Rightarrow> marker @ take j rest @ marker @ replace_bold_markers marker (drop (j + 2) rest))))"
  by pat_completeness auto
termination
  by (relation "measure (\<lambda>(_, s). length s)") (auto dest: str_find_Some)

declare replace_bold_markers.simps [simp del]

text \<open>\<open>[text](url)\<close> through a transformation.\<close>

function replace_md_links :: "(string \<Rightarrow> string \<Rightarrow> string) \<Rightarrow> string \<Rightarrow> string" where
  "replace_md_links transform s =
     (case str_find ''['' s of
        None \<Rightarrow> s
      | Some i \<Rightarrow>
         (let after_bracket = drop (i + 1) s;
              skipped = take (i + 1) s @ replace_md_links transform (drop (i + 1) s)
          in case str_find '']'' after_bracket of
               None \<Rightarrow> skipped
             | Some e \<Rightarrow>
                (let after_text = drop (e + 1) after_bracket in
                 if starts_with ''('' after_text then
                   (case str_find '')'' after_text of
                      Some p \<Rightarrow> take i s @ transform (take e after_bracket) (drop 1 (take p after_text))
                        @ replace_md_links transform (drop (p + 1) after_text)
                    | None \<Rightarrow> skipped)
                 else skipped)))"
  by pat_completeness auto
termination
  by (relation "measure (\<lambda>(_, s). length s)") (auto dest: str_find_Some)

declare replace_md_links.simps [simp del]

definition replace_md_links_slack :: "string \<Rightarrow> string" where
  "replace_md_links_slack = replace_md_links (\<lambda>t url. ''<'' @ url @ ''|'' @ t @ ''>'')"

definition replace_md_links_whatsapp :: "string \<Rightarrow> string" where
  "replace_md_links_whatsapp = replace_md_links (\<lambda>t url. t @ '' ('' @ url @ '')'')"

definition TELEGRAM_SPECIALS :: "string list" where
  "TELEGRAM_SPECIALS = [''.'', ''!'', ''+'', ''-'', ''='', ''|'', ''{'', ''}'', ''('', '')'', ''#'']"

definition escape_char :: "string \<Rightarrow> string" where
  "escape_char u = (if u \<in> set TELEGRAM_SPECIALS then [CHR 0x5C] @ u else u)"

definition escape_telegram_special :: "string \<Rightarrow> string" where
  "escape_telegram_special s = concat (map escape_char (chars s))"

subsection \<open>Code blocks\<close>

definition block_token :: "nat \<Rightarrow> string" where
  "block_token i = [CHR 0x00] @ ''CODEBLOCK'' @ show_nat i @ [CHR 0x00]"

function take_blocks :: "string \<Rightarrow> string \<Rightarrow> string list \<Rightarrow> string \<times> string list" where
  "take_blocks rest working placeholders =
     (case str_find fence rest of
        None \<Rightarrow> (working @ rest, placeholders)
      | Some i \<Rightarrow>
         (let working1 = working @ take i rest; rest1 = drop (i + 3) rest in
          case str_find fence rest1 of
            Some e \<Rightarrow> take_blocks (drop (e + 3) rest1) (working1 @ block_token (length placeholders))
                        (placeholders @ [fence @ take (e + 3) rest1])
          | None \<Rightarrow> (working1 @ fence @ rest1, placeholders)))"
  by pat_completeness auto
termination
  by (relation "measure (\<lambda>(s, _, _). length s)") (auto dest: str_find_Some simp: fence_def)

declare take_blocks.simps [simp del]

text \<open>The blocks put back, one index after the other.\<close>

fun restore_blocks :: "nat \<Rightarrow> string list \<Rightarrow> string \<Rightarrow> string" where
  "restore_blocks i [] s = s"
| "restore_blocks i (b # bs) s = restore_blocks (Suc i) bs (str_replace (block_token i) b s)"

definition protect_code_blocks :: "(string \<Rightarrow> string) \<Rightarrow> string \<Rightarrow> string" where
  "protect_code_blocks f text =
     (let (working, placeholders) = take_blocks text [] [] in restore_blocks 0 placeholders (f working))"

subsection \<open>Platforms\<close>

definition format_slack :: "string \<Rightarrow> string" where
  "format_slack = protect_code_blocks (\<lambda>s. replace_md_links_slack (replace_bold_markers ''*'' s))"

definition format_telegram :: "string \<Rightarrow> string" where
  "format_telegram = protect_code_blocks (\<lambda>s. escape_telegram_special (replace_bold_markers ''*'' s))"

definition format_whatsapp :: "string \<Rightarrow> string" where
  "format_whatsapp = protect_code_blocks (\<lambda>s. replace_md_links_whatsapp (replace_bold_markers ''*'' s))"

definition format_response :: "bool \<Rightarrow> string \<Rightarrow> string \<Rightarrow> string" where
  "format_response enabled text channel_id =
     (if \<not> enabled then text
      else (let platform = split_first (CHR ''-'') channel_id in
            if platform = ''discord'' \<or> platform = ''teams'' then text
            else if platform = ''slack'' then format_slack text
            else if platform = ''telegram'' then format_telegram text
            else if platform = ''whatsapp'' then format_whatsapp text
            else text))"

subsection \<open>Replacing\<close>

lemma str_replace_skip: "c \<notin> set x \<Longrightarrow> str_replace (c # pat) rep (x @ s) = x @ str_replace (c # pat) rep s"
  by (induction x) (auto simp: starts_with_def)

lemma takeWhile_stop: "c \<notin> set x \<Longrightarrow> takeWhile (\<lambda>d. d \<noteq> c) (x @ c # s) = x"
  by (induction x) auto

text \<open>A pattern framed by a character it does not contain is found exactly where its inside
  stands between two of them.\<close>

lemma starts_framed:
  assumes "c \<notin> set x"
  shows "starts_with (c # x @ [c]) (c # s) \<longleftrightarrow> takeWhile (\<lambda>d. d \<noteq> c) s = x \<and> c \<in> set s"
proof
  assume "starts_with (c # x @ [c]) (c # s)"
  then have "take (Suc (length x)) s = x @ [c]" by (simp add: starts_with_def)
  then have "s = (x @ [c]) @ drop (Suc (length x)) s" by (metis append_take_drop_id)
  then obtain t where "s = x @ c # t" by (metis append.assoc append_Cons append_Nil)
  then show "takeWhile (\<lambda>d. d \<noteq> c) s = x \<and> c \<in> set s"
    using takeWhile_stop [OF assms] by simp
next
  assume r: "takeWhile (\<lambda>d. d \<noteq> c) s = x \<and> c \<in> set s"
  then obtain y t where y: "s = y @ c # t" "c \<notin> set y" by (metis split_list_first)
  then have "s = x @ c # t" using r takeWhile_stop [OF y(2)] by simp
  then show "starts_with (c # x @ [c]) (c # s)" by (simp add: starts_with_def)
qed

definition token_name :: "nat \<Rightarrow> string" where
  "token_name i = ''CODEBLOCK'' @ show_nat i"

lemma token_name_chars: "c \<in> set (token_name i) \<Longrightarrow> c \<in> set ''CODEBLOCK'' \<or> is_digit c"
  using show_nat_digits [of c i] by (auto simp: token_name_def)

lemma token_name_no_nul: "CHR 0x00 \<notin> set (token_name i)"
  using token_name_chars [of "CHR 0x00" i] by (auto simp: is_digit_def)

lemma token_name_inject: "token_name i = token_name j \<longleftrightarrow> i = j"
  by (simp add: token_name_def show_nat_inject)

lemma block_token_name: "block_token i = CHR 0x00 # token_name i @ [CHR 0x00]"
  by (simp add: block_token_def token_name_def)

subsection \<open>Texts with code blocks\<close>

text \<open>Prose and code blocks in turn, and the same with tokens for the blocks.\<close>

fun weave :: "string \<Rightarrow> (string \<times> string) list \<Rightarrow> string" where
  "weave p [] = p"
| "weave p ((b, q) # r) = p @ fence @ b @ fence @ weave q r"

fun tokens :: "nat \<Rightarrow> string \<Rightarrow> (string \<times> string) list \<Rightarrow> string" where
  "tokens i p [] = p"
| "tokens i p ((b, q) # r) = p @ block_token i @ tokens (Suc i) q r"

definition unfenced :: "string \<Rightarrow> bool" where
  "unfenced s \<longleftrightarrow> valid_utf8 s \<and> CHR 0x00 \<notin> set s \<and> \<not> str_contains fence (s @ [CHR 0x60, CHR 0x60])"

text \<open>A text that makes no token out of the delimiters around it.\<close>

definition harmless :: "string \<Rightarrow> bool" where
  "harmless s \<longleftrightarrow> CHR 0x00 \<notin> set s \<and> \<not> starts_with ''CODEBLOCK'' s"

lemma find_fence: "unfenced s \<Longrightarrow> str_find fence (s @ fence @ t) = Some (length s)"
  using str_find_first [of fence s t] by (simp add: unfenced_def str_contains_def fence_def)

lemma find_no_fence: "unfenced s \<Longrightarrow> str_find fence s = None"
  using str_contains_appendI1 [of fence s "[CHR 0x60, CHR 0x60]"]
  by (cases "str_find fence s") (simp_all add: unfenced_def str_contains_def)

lemma take_blocks_weave:
  assumes "unfenced p" and "\<forall>(b, q) \<in> set bqs. unfenced b \<and> unfenced q"
  shows "take_blocks (weave p bqs) working placeholders
    = (working @ tokens (length placeholders) p bqs, placeholders @ map (\<lambda>(b, _). fence @ b @ fence) bqs)"
  using assms
proof (induction bqs arbitrary: p working placeholders)
  case Nil
  then show ?case by (simp add: take_blocks.simps find_no_fence)
next
  case (Cons bq bqs)
  obtain b q where bq: "bq = (b, q)" by (cases bq)
  have [simp]: "length fence = 3" by (simp add: fence_def)
  from Cons.prems bq show ?case
    using Cons.IH [of q "working @ p @ block_token (length placeholders)" "placeholders @ [fence @ b @ fence]"]
    by (subst take_blocks.simps) (simp add: find_fence Let_def)
qed

lemma tokens_untouched:
  assumes "i < j" and "harmless p" and "\<forall>(b, q) \<in> set bqs. harmless q"
  shows "str_replace (block_token i) rep (tokens j p bqs) = tokens j p bqs"
  using assms
proof (induction bqs arbitrary: j p)
  case Nil
  then show ?case using str_replace_skip [of "CHR 0x00" p _ rep "[]"]
    by (simp add: block_token_name harmless_def unfenced_def)
next
  case (Cons bq bqs)
  obtain b q where bq: "bq = (b, q)" by (cases bq)
  let ?z = "CHR 0x00" and ?n = "token_name i"
  let ?t = "tokens (Suc j) q bqs"
  have p: "?z \<notin> set p" and q: "harmless q" "?z \<notin> set q" and ih: "str_replace (?z # ?n @ [?z]) rep ?t = ?t"
    using Cons bq by (auto simp: harmless_def unfenced_def block_token_name)
  have tw: "takeWhile (\<lambda>d. d \<noteq> ?z) (token_name j @ ?z # ?t) = token_name j"
    by (rule takeWhile_stop [OF token_name_no_nul])
  have first: "\<not> starts_with (?z # ?n @ [?z]) (?z # token_name j @ ?z # ?t)"
    using Cons.prems(1) by (simp add: starts_framed [OF token_name_no_nul] tw token_name_inject)
  have "takeWhile (\<lambda>d. d \<noteq> ?z) ?t = q \<or> ?z \<notin> set ?t"
    using q(2) by (cases bqs) (auto simp: block_token_name takeWhile_append2 takeWhile_tail)
  moreover have "q \<noteq> ?n"
    using q(1) by (auto simp: harmless_def token_name_def starts_with_def)
  ultimately have second: "\<not> starts_with (?z # ?n @ [?z]) (?z # ?t)"
    by (auto simp: starts_framed [OF token_name_no_nul])
  show ?case
    using first second ih
    by (simp add: bq block_token_name str_replace_skip p token_name_no_nul)
qed

lemma restore_tokens:
  assumes "CHR 0x00 \<notin> set x" and "harmless p" and "\<forall>(b, q) \<in> set bqs. unfenced b \<and> harmless q"
  shows "restore_blocks i (map (\<lambda>(b, _). fence @ b @ fence) bqs) (x @ tokens i p bqs) = x @ weave p bqs"
  using assms
proof (induction bqs arbitrary: i x p)
  case Nil
  then show ?case by simp
next
  case (Cons bq bqs)
  obtain b q where bq: "bq = (b, q)" by (cases bq)
  let ?z = "CHR 0x00" and ?t = "tokens (Suc i) q bqs"
  have nul: "?z \<notin> set (x @ p)" and nul': "?z \<notin> set (x @ p @ fence @ b @ fence)"
    using Cons.prems bq by (auto simp: harmless_def unfenced_def fence_def)
  have t: "str_replace (block_token i) rep ?t = ?t" for rep
    using Cons.prems bq by (intro tokens_untouched) auto
  have here: "starts_with (?z # token_name i @ [?z]) (?z # token_name i @ ?z # ?t)"
    by (simp add: starts_with_def)
  have "str_replace (block_token i) (fence @ b @ fence) (x @ p @ block_token i @ ?t)
      = x @ p @ (fence @ b @ fence) @ ?t"
    using str_replace_skip [OF nul, of "token_name i @ [?z]" "fence @ b @ fence" "block_token i @ ?t"] here
      t [of "fence @ b @ fence"]
    by (simp add: block_token_name)
  then show ?case
    using Cons.IH [of "x @ p @ fence @ b @ fence" q "Suc i"] Cons.prems nul' bq by simp
qed

subsection \<open>Escaping\<close>

lemma escape_append: "valid_utf8 s \<Longrightarrow>
    escape_telegram_special (s @ t) = escape_telegram_special s @ escape_telegram_special t"
  by (simp add: escape_telegram_special_def chars_append_valid)

lemma escape_unspecial:
  assumes "list_all is_ascii s" and "\<forall>c \<in> set s. [c] \<notin> set TELEGRAM_SPECIALS"
  shows "escape_telegram_special s = s"
proof -
  have "map escape_char (chars s) = chars s"
    using assms by (simp add: chars_ascii escape_char_def)
  then show ?thesis by (simp add: escape_telegram_special_def)
qed

lemma digit_unspecial: "is_digit c \<Longrightarrow> is_ascii c \<and> [c] \<notin> set TELEGRAM_SPECIALS"
  by (auto simp: is_digit_def is_ascii_def byte_def TELEGRAM_SPECIALS_def)

lemma escape_token: "escape_telegram_special (block_token i) = block_token i" "valid_utf8 (block_token i)"
proof -
  have "\<forall>c \<in> set ''CODEBLOCK''. is_ascii c \<and> [c] \<notin> set TELEGRAM_SPECIALS" by code_simp
  moreover have "is_ascii (CHR 0x00) \<and> [CHR 0x00] \<notin> set TELEGRAM_SPECIALS" by code_simp
  ultimately have "\<forall>c \<in> set (block_token i). is_ascii c \<and> [c] \<notin> set TELEGRAM_SPECIALS"
    using token_name_chars [of _ i] digit_unspecial by (auto simp: block_token_name)
  then show "escape_telegram_special (block_token i) = block_token i" "valid_utf8 (block_token i)"
    by (auto intro!: escape_unspecial valid_utf8_ascii simp: list_all_iff)
qed

lemma escape_tokens:
  assumes "valid_utf8 p" and "\<forall>(b, q) \<in> set bqs. valid_utf8 q"
  shows "escape_telegram_special (tokens i p bqs)
    = tokens i (escape_telegram_special p) (map (apsnd escape_telegram_special) bqs)"
  using assms
  by (induction bqs arbitrary: i p) (auto simp: escape_append escape_token)

text \<open>Escaping only adds backslashes, so it makes no harmless text harmful.\<close>

lemma starts_with_iff: "starts_with w s \<longleftrightarrow> (\<exists>t. s = w @ t)"
  by (auto simp: starts_with_def) (metis append_take_drop_id)

lemma escape_starts:
  assumes "CHR 0x5C \<notin> set w" and "concat (map escape_char us) = w @ t"
  shows "\<exists>t. concat us = w @ t"
  using assms
proof (induction us arbitrary: w t)
  case (Cons u us)
  show ?case
  proof (cases "w = []")
    case False
    have u: "escape_char u = u"
      using Cons.prems False by (cases w) (auto simp: escape_char_def split: if_splits)
    from Cons.prems(2) u obtain r where
      "u = w @ r \<or> w = u @ r \<and> concat (map escape_char us) = r @ t"
      by (auto simp: append_eq_append_conv2)
    then show ?thesis
    proof
      assume "w = u @ r \<and> concat (map escape_char us) = r @ t"
      with Cons.IH [of r t] Cons.prems(1) show ?thesis by auto
    qed simp
  qed simp
qed simp

lemma escape_harmless: "harmless s \<Longrightarrow> harmless (escape_telegram_special s)"
proof -
  assume h: "harmless s"
  have "set (escape_char u) \<subseteq> insert (CHR 0x5C) (set u)" for u by (auto simp: escape_char_def)
  then have "set (escape_telegram_special s) \<subseteq> insert (CHR 0x5C) (set (concat (chars s)))"
    by (fastforce simp: escape_telegram_special_def simp del: concat_chars)
  then have "set (escape_telegram_special s) \<subseteq> insert (CHR 0x5C) (set s)" by simp
  then have "CHR 0x00 \<notin> set (escape_telegram_special s)" using h by (auto simp: harmless_def)
  moreover have "\<not> starts_with ''CODEBLOCK'' (escape_telegram_special s)"
    using h escape_starts [of "''CODEBLOCK''" "chars s"]
    by (auto simp: harmless_def starts_with_iff escape_telegram_special_def)
  ultimately show ?thesis by (simp add: harmless_def)
qed

lemma no_bold: "CHR 0x2A \<notin> set s \<Longrightarrow> replace_bold_markers m s = s"
proof -
  assume "CHR 0x2A \<notin> set s"
  then have "\<not> str_contains ''**'' s" by (auto simp: str_contains_iff)
  then show ?thesis by (simp add: replace_bold_markers.simps str_contains_def)
qed

lemma tokens_chars: "set (tokens i p bqs) \<subseteq> set p \<union> (\<Union>(b, q) \<in> set bqs. set q) \<union> (\<Union>j. set (block_token j))"
  by (induction i p bqs rule: tokens.induct) auto

subsection \<open>Properties\<close>

text \<open>Telegram gets every special character of the prose escaped and every code block as it
  was written, whatever the blocks contain and however many there are, when the prose has no
  asterisk, no stretch of it after a block starts with the token's own name, and the message has no zero byte.\<close>

theorem telegram_escapes_prose_and_keeps_code:
  assumes "split_first (CHR ''-'') channel_id = ''telegram''"
    and "list_all (\<lambda>q. unfenced q \<and> harmless q \<and> CHR 0x2A \<notin> set q) (p # map snd bqs)"
    and "list_all unfenced (map fst bqs)"
  shows "format_response True (weave p bqs) channel_id
    = weave (escape_telegram_special p) (map (apsnd escape_telegram_special) bqs)"
proof -
  let ?e = escape_telegram_special
  have parts: "unfenced p" "harmless p" "CHR 0x2A \<notin> set p"
    "\<forall>(b, q) \<in> set bqs. unfenced b \<and> unfenced q \<and> harmless q \<and> CHR 0x2A \<notin> set q"
    using assms(2,3) by (auto simp: list_all_iff)
  have taken: "take_blocks (weave p bqs) [] [] = (tokens 0 p bqs, map (\<lambda>(b, _). fence @ b @ fence) bqs)"
    using take_blocks_weave [of p bqs "[]" "[]"] parts by auto
  have "CHR 0x2A \<notin> set (block_token j)" for j
    using token_name_chars [of "CHR 0x2A" j] by (auto simp: block_token_name is_digit_def)
  then have "CHR 0x2A \<notin> set (tokens 0 p bqs)" using tokens_chars [of 0 p bqs] parts by fastforce
  then have rewritten: "?e (replace_bold_markers ''*'' (tokens 0 p bqs)) = tokens 0 (?e p) (map (apsnd ?e) bqs)"
    using escape_tokens [of p bqs 0] parts by (auto simp: no_bold unfenced_def)
  have blocks: "map (\<lambda>(b, _). fence @ b @ fence) bqs = map (\<lambda>(b, _). fence @ b @ fence) (map (apsnd ?e) bqs)"
    by auto
  have "restore_blocks 0 (map (\<lambda>(b, _). fence @ b @ fence) bqs) (tokens 0 (?e p) (map (apsnd ?e) bqs))
      = weave (?e p) (map (apsnd ?e) bqs)"
    using restore_tokens [of "[]" "?e p" "map (apsnd ?e) bqs" 0] parts escape_harmless
    unfolding blocks by fastforce
  then show ?thesis
    using assms(1) by (simp add: format_response_def format_telegram_def protect_code_blocks_def taken rewritten)
qed

lemma telegram_escapes_prose_and_keeps_code_witness:
  "format_response True (weave ''a.b '' [(''x.y'', '' c!'')]) ''telegram-1''
     = ''a'' @ [CHR 0x5C] @ ''.b '' @ fence @ ''x.y'' @ fence @ '' c'' @ [CHR 0x5C] @ ''!''"
proof -
  have "unfenced ''a.b '' \<and> unfenced '' c!'' \<and> unfenced ''x.y''" by code_simp
  moreover have "harmless ''a.b '' \<and> harmless '' c!''" by code_simp
  moreover have "split_first (CHR ''-'') ''telegram-1'' = ''telegram''" by code_simp
  moreover have "escape_telegram_special ''a.b '' = ''a'' @ [CHR 0x5C] @ ''.b ''"
    "escape_telegram_special '' c!'' = '' c'' @ [CHR 0x5C] @ ''!''" by code_simp+
  ultimately show ?thesis
    using telegram_escapes_prose_and_keeps_code [of "''telegram-1''" "''a.b ''" "[(''x.y'', '' c!'')]"] by simp
qed

text \<open>Without that last hypothesis a message can come out garbled: the delimiters of two tokens with
  the name of a third between them make another token.\<close>

lemma prose_between_blocks_is_garbled:
  "format_slack (weave [] [(''a'', []), (''b'', ''CODEBLOCK0''), (''c'', [])])
     = fence @ ''a'' @ fence @ [CHR 0x00] @ ''CODEBLOCK1'' @ fence @ ''a'' @ fence @ ''CODEBLOCK2'' @ [CHR 0x00]"
  by code_simp

end
