(* ===== verification/Text_Tools.thy ===== *)
theory Text_Tools
  imports Tool_Result F64_Ops Formatter
begin

section \<open>The calculator and the text formatter (\<open>src/tools/calculator.rs\<close>, \<open>formatter.rs\<close>)\<close>

text \<open>
  Two pure tools. The square root and the power of two doubles are parameters, as is which
  characters beyond ASCII are upper case.
\<close>

subsection \<open>The calculator\<close>

text \<open>A number as JSON: one that is not finite has no JSON form and becomes null.\<close>

fun json_of_f64 :: "f64 \<Rightarrow> json" where
  "json_of_f64 (Fin x) = JFloat (Fin x)"
| "json_of_f64 _ = JNull"

definition calc_result :: "f64 \<Rightarrow> tool_result" where
  "calc_result v = ToolSuccess (JObject [(''result'', json_of_f64 v)])"

definition calc_binary :: "(f64 \<Rightarrow> f64 \<Rightarrow> f64) \<Rightarrow> string \<Rightarrow> f64 \<Rightarrow> f64 \<Rightarrow> tool_result" where
  "calc_binary powf op a b =
     (if op = ''add'' then calc_result (f64_add a b)
      else if op = ''sub'' then calc_result (f64_sub a b)
      else if op = ''mul'' then calc_result (f64_mul a b)
      else if op = ''div'' then (if f64_is_zero b then ToolError ''division by zero'' else calc_result (f64_div a b))
      else if op = ''pow'' then calc_result (powf a b)
      else ToolError (''unknown op '' @ quoted op))"

definition calculate :: "(f64 \<Rightarrow> f64) \<Rightarrow> (f64 \<Rightarrow> f64 \<Rightarrow> f64) \<Rightarrow> (string \<times> json) list \<Rightarrow> tool_result" where
  "calculate sqrtf powf params =
     (case par params ''op'' as_str of
        None \<Rightarrow> ToolError (''missing required parameter '' @ quoted ''op'')
      | Some op \<Rightarrow>
     (case par params ''a'' as_f64 of
        None \<Rightarrow> ToolError (''missing or invalid parameter '' @ quoted ''a'')
      | Some a \<Rightarrow>
         if op = ''sqrt'' then
           (if f64_negative a then ToolError ''sqrt of negative number is undefined'' else calc_result (sqrtf a))
         else if op = ''abs'' then calc_result (f64_abs a)
         else if op = ''floor'' then calc_result (f64_floor a)
         else if op = ''ceil'' then calc_result (f64_ceil a)
         else if op = ''round'' then calc_result (f64_round a)
         else (case par params ''b'' as_f64 of
                 None \<Rightarrow> ToolError (''missing required parameter '' @ quoted ''b'' @ '' for op '' @ quoted op)
               | Some b \<Rightarrow> calc_binary powf op a b)))"

subsection \<open>The formatter tool\<close>

definition looks_like_url :: "string \<Rightarrow> bool" where
  "looks_like_url s \<longleftrightarrow> starts_with ''http://'' s \<or> starts_with ''https://'' s"

definition is_uppercase :: "(string \<Rightarrow> bool) \<Rightarrow> string \<Rightarrow> bool" where
  "is_uppercase upper u =
     (if list_all is_ascii u then list_all (\<lambda>c. CHR ''A'' \<le> c \<and> c \<le> CHR ''Z'') u else upper u)"

definition markdown_word :: "(string \<Rightarrow> bool) \<Rightarrow> string \<Rightarrow> string" where
  "markdown_word upper w =
     (if looks_like_url w then ''['' @ w @ '']('' @ w @ '')''
      else if 1 < length w \<and> list_all (\<lambda>u. is_uppercase upper u \<or> u = ''_'') (chars w)
      then ''**'' @ w @ ''**''
      else w)"

definition to_markdown :: "(string \<Rightarrow> bool) \<Rightarrow> string \<Rightarrow> string" where
  "to_markdown upper s = join_with '' '' (map (markdown_word upper) (split_whitespace s))"

text \<open>Links without their targets, over characters.\<close>

definition skip_url :: "string list \<Rightarrow> string list" where
  "skip_url us = (case us of
     u # vs \<Rightarrow> if u = ''('' then tl (dropWhile (\<lambda>v. v \<noteq> '')'') vs) else us
   | [] \<Rightarrow> [])"

lemma skip_url_shorter: "length (skip_url us) \<le> length us"
proof (cases us)
  case (Cons u vs)
  then show ?thesis
    using length_dropWhile_le [of "\<lambda>v. v \<noteq> '')''" vs] by (auto simp: skip_url_def)
qed (simp add: skip_url_def)

function strip_links :: "string list \<Rightarrow> string" where
  "strip_links [] = []"
| "strip_links (c # cs) =
     (if c = ''['' then
        (let inner = takeWhile (\<lambda>u. u \<noteq> '']'') cs; rest = dropWhile (\<lambda>u. u \<noteq> '']'') cs
         in if rest = [] then ''['' @ concat inner else concat inner @ strip_links (skip_url (tl rest)))
      else c @ strip_links cs)"
  by pat_completeness auto
termination
proof (relation "measure length")
  fix c :: string and cs inner rest
  assume r: "rest = dropWhile (\<lambda>u. u \<noteq> '']'') cs"
  have "length (skip_url (tl rest)) \<le> length (tl rest)" by (rule skip_url_shorter)
  also have "length (tl rest) \<le> length cs"
    using length_dropWhile_le [of "\<lambda>u. u \<noteq> '']''" cs] by (simp add: r)
  finally show "(skip_url (tl rest), c # cs) \<in> measure length" by simp
qed auto

definition strip_markdown :: "string \<Rightarrow> string" where
  "strip_markdown s =
     (let bare = fold (\<lambda>marker. str_replace marker []) [''**'', ''__'', ''*'', ''_'', [CHR 0x60]] s
      in strip_links (chars bare))"

definition ellipsis :: string where
  "ellipsis = [CHR 0xE2, CHR 0x80, CHR 0xA6]"

definition truncate_text :: "string \<Rightarrow> nat \<Rightarrow> string" where
  "truncate_text s max_length =
     (if length (chars s) \<le> max_length then s
      else trim_end (concat (take (max_length - 1) (chars s))) @ ellipsis)"

text \<open>The words of a paragraph put onto lines, the first of which is begun.\<close>

fun wrap_words :: "nat \<Rightarrow> string \<Rightarrow> string list \<Rightarrow> string list" where
  "wrap_words width line [] = [line]"
| "wrap_words width line (w # ws) =
     (if line = [] then wrap_words width w ws
      else if length line + 1 + length w \<le> width then wrap_words width (line @ '' '' @ w) ws
      else line # wrap_words width w ws)"

definition word_wrap :: "string \<Rightarrow> nat \<Rightarrow> string" where
  "word_wrap s width =
     (if width = 0 then s
      else join_with newline (concat (map (\<lambda>p. wrap_words width [] (split_whitespace p)) (split_on (CHR 0x0A) s))))"

definition summarize_header :: "string \<Rightarrow> string" where
  "summarize_header s =
     truncate_text (case find (\<lambda>l. l \<noteq> []) (map trim (lines_of s)) of None \<Rightarrow> [] | Some l \<Rightarrow> l) 100"

definition format_result :: "string \<Rightarrow> tool_result" where
  "format_result s = ToolSuccess (JObject [(''result'', JString s)])"

definition format_tool :: "(string \<Rightarrow> bool) \<Rightarrow> (string \<times> json) list \<Rightarrow> tool_result" where
  "format_tool upper params =
     (case par params ''op'' as_str of
        None \<Rightarrow> ToolError (''missing required parameter '' @ quoted ''op'')
      | Some op \<Rightarrow>
     (case par params ''text'' as_str of
        None \<Rightarrow> ToolError (''missing required parameter '' @ quoted ''text'')
      | Some s \<Rightarrow>
         if op = ''to_markdown'' then format_result (to_markdown upper s)
         else if op = ''to_plain'' then format_result (strip_markdown s)
         else if op = ''truncate'' then
           format_result (truncate_text s (case par params ''max_length'' as_u64 of None \<Rightarrow> 280 | Some n \<Rightarrow> n))
         else if op = ''wrap'' then
           format_result (word_wrap s (case par params ''width'' as_u64 of None \<Rightarrow> 80 | Some n \<Rightarrow> n))
         else if op = ''summarize_header'' then format_result (summarize_header s)
         else ToolError (''unknown op '' @ quoted op)))"

subsection \<open>Words and lines\<close>

definition is_word :: "string \<Rightarrow> bool" where
  "is_word w \<longleftrightarrow> w \<noteq> [] \<and> valid_utf8 w \<and> list_all (\<lambda>u. \<not> is_whitespace u) (chars w)"

lemma newline_char: "valid_char [CHR 0x0A]" "is_whitespace [CHR 0x0A]" "valid_char '' ''" "is_whitespace '' ''"
  by code_simp+

lemma words_of_break: "is_whitespace u \<Longrightarrow> words_of w (us @ u # vs) = words_of w us @ words_of [] vs"
  by (induction us arbitrary: w) auto

lemma words_of_inside: "list_all (\<lambda>u. \<not> is_whitespace u) us \<Longrightarrow> words_of w us = (if w @ concat us = [] then [] else [w @ concat us])"
  by (induction us arbitrary: w) auto

lemma split_break:
  assumes "valid_utf8 s" and "valid_char u" and "is_whitespace u"
  shows "split_whitespace (s @ u @ t) = split_whitespace s @ split_whitespace t"
proof -
  have "chars (s @ u @ t) = chars s @ u # chars t"
    using assms by (simp add: chars_append_valid chars_append_char)
  then show ?thesis using assms(3) by (simp add: split_whitespace_def words_of_break)
qed

lemma split_word: "is_word w \<Longrightarrow> split_whitespace w = [w]"
  by (simp add: split_whitespace_def words_of_inside is_word_def)

lemma words_of_words:
  assumes "list_all valid_char us" and "valid_utf8 w" and "list_all (\<lambda>u. \<not> is_whitespace u) (chars w)"
  shows "\<forall>x \<in> set (words_of w us). is_word x"
  using assms
proof (induction us arbitrary: w)
  case Nil
  then show ?case by (simp add: is_word_def)
next
  case (Cons u us)
  have u: "valid_char u" using Cons.prems by simp
  have chars: "chars (w @ u) = chars w @ [u]"
    using Cons.prems(2) chars_append_char [OF u, of "[]"] by (simp add: chars_append_valid)
  have empty: "valid_utf8 []" "list_all (\<lambda>u. \<not> is_whitespace u) (chars [])" by (simp_all add: valid_utf8_def)
  show ?case
    using Cons.IH [of "[]"] Cons.IH [of "w @ u"] Cons.prems empty chars u
    by (auto simp: is_word_def valid_utf8_def)
qed

lemma split_words: "valid_utf8 s \<Longrightarrow> \<forall>w \<in> set (split_whitespace s). is_word w"
  using words_of_words [of "chars s" "[]"] by (simp add: split_whitespace_def valid_utf8_def)

lemma valid_append: "valid_utf8 s \<Longrightarrow> valid_utf8 t \<Longrightarrow> valid_utf8 (s @ t)"
  by (simp add: valid_utf8_def chars_append_valid [unfolded valid_utf8_def])

lemma valid_single: "valid_char u \<Longrightarrow> valid_utf8 u"
  using chars_append_char [of u "[]"] by (simp add: valid_utf8_def)

text \<open>Pieces joined by one white space character have the words of the pieces.\<close>

lemma split_join:
  assumes "valid_char u" and "is_whitespace u" and "\<forall>p \<in> set ps. valid_utf8 p"
  shows "valid_utf8 (join_with u ps) \<and> split_whitespace (join_with u ps) = concat (map split_whitespace ps)"
  using assms(3)
proof (induction ps rule: induct_list012)
  case (3 p q ps)
  then show ?case
    using split_break [OF _ assms(1,2), of p] valid_append [of p] valid_append [OF valid_single [OF assms(1)]]
    by simp
qed (simp_all add: split_whitespace_def valid_utf8_def)

text \<open>The pieces between line ends are whole characters, and joined again give the text.\<close>

lemma split_on_nonempty: "split_on c s \<noteq> []"
  by (induction s) (auto split: list.splits)

lemma split_on_none: "c \<notin> set s \<Longrightarrow> split_on c s = [s]"
  by (induction s) auto

lemma split_on_prefix:
  "c \<notin> set u \<Longrightarrow> split_on c (u @ s) = (u @ hd (split_on c s)) # tl (split_on c s)"
proof (induction u)
  case Nil
  then show ?case using split_on_nonempty [of c s] by simp
next
  case (Cons d u)
  then show ?case by auto
qed

lemma char_with_newline: "valid_char u \<Longrightarrow> CHR 0x0A \<in> set u \<Longrightarrow> u = [CHR 0x0A]"
proof -
  assume v: "valid_char u" and n: "CHR 0x0A \<in> set u"
  from v obtain b bs where u: "u = b # bs" "length u = char_width b" "list_all is_cont bs"
    by (cases u) (auto simp: valid_char_def)
  have "\<not> is_cont (CHR 0x0A)" "char_width (CHR 0x0A) = 1" by code_simp+
  with u n have "b = CHR 0x0A" by (auto simp: list_all_iff)
  with u \<open>char_width (CHR 0x0A) = 1\<close> show ?thesis by simp
qed

lemma split_lines_valid:
  "list_all valid_char us \<Longrightarrow> \<forall>p \<in> set (split_on (CHR 0x0A) (concat us)). valid_utf8 p"
proof (induction us)
  case Nil
  then show ?case by (simp add: valid_utf8_def)
next
  case (Cons u us)
  let ?ps = "split_on (CHR 0x0A) (concat us)"
  show ?case
  proof (cases "CHR 0x0A \<in> set u")
    case True
    then have "u = [CHR 0x0A]" using Cons.prems char_with_newline by simp
    then show ?thesis using Cons by (simp add: valid_utf8_def)
  next
    case False
    have "hd ?ps \<in> set ?ps" "\<forall>p \<in> set (tl ?ps). p \<in> set ?ps"
      using split_on_nonempty [of "CHR 0x0A" "concat us"] by (auto dest: list.set_sel(2))
    then show ?thesis
      using Cons valid_append [OF valid_single [of u]] by (auto simp: split_on_prefix [OF False])
  qed
qed

lemma join_split: "join_with [c] (split_on c s) = s"
proof (induction s)
  case (Cons d s)
  obtain p ps where "split_on c s = p # ps" using split_on_nonempty [of c s] by (cases "split_on c s") auto
  with Cons show ?case by (cases ps) auto
qed simp

lemma split_joined:
  assumes "ps \<noteq> []" and "\<forall>p \<in> set ps. c \<notin> set p"
  shows "split_on c (join_with [c] ps) = ps"
  using assms
proof (induction ps rule: induct_list012)
  case (3 p q ps)
  then show ?case by (simp add: split_on_prefix)
qed (simp_all add: split_on_none)

subsection \<open>Wrapped lines\<close>

lemma join_snoc: "ws \<noteq> [] \<Longrightarrow> join_with sep (ws @ [w]) = join_with sep ws @ sep @ w"
  by (induction ws rule: induct_list012) auto

lemma join_empty_iff: "\<forall>w \<in> set ws. w \<noteq> [] \<Longrightarrow> join_with sep ws = [] \<longleftrightarrow> ws = []"
  by (cases ws rule: remdups_adj.cases) auto

lemma join_chars: "set (join_with sep ws) \<subseteq> set sep \<union> \<Union> (set ` set ws)"
  by (induction ws rule: induct_list012) auto

text \<open>The lines are groups of words, in order; a line is too long only if it is one word.\<close>

lemma wrap_words_groups:
  assumes "\<forall>w \<in> set (g @ ws). w \<noteq> []" and "length (join_with '' '' g) \<le> width \<or> length g \<le> 1"
  shows "\<exists>groups. wrap_words width (join_with '' '' g) ws = map (join_with '' '') groups
    \<and> groups \<noteq> [] \<and> concat groups = g @ ws
    \<and> (\<forall>h \<in> set groups. length (join_with '' '' h) \<le> width \<or> length h \<le> 1)"
  using assms
proof (induction ws arbitrary: g)
  case Nil
  then show ?case by (intro exI [of _ "[g]"]) simp
next
  case (Cons w ws)
  have e: "join_with '' '' g = [] \<longleftrightarrow> g = []" using Cons.prems(1) by (intro join_empty_iff) simp
  show ?case
  proof (cases "g = [] \<or> length (join_with '' '' g) + 1 + length w \<le> width")
    case True
    then have "wrap_words width (join_with '' '' g) (w # ws) = wrap_words width (join_with '' '' (g @ [w])) ws"
      using e by (auto simp: join_snoc)
    moreover have "length (join_with '' '' (g @ [w])) \<le> width \<or> length (g @ [w]) \<le> 1"
      using True by (auto simp: join_snoc)
    ultimately show ?thesis using Cons.IH [of "g @ [w]"] Cons.prems(1) by simp
  next
    case False
    obtain groups where "wrap_words width (join_with '' '' [w]) ws = map (join_with '' '') groups"
      "groups \<noteq> []" "concat groups = [w] @ ws"
      "\<forall>h \<in> set groups. length (join_with '' '' h) \<le> width \<or> length h \<le> 1"
      using Cons.IH [of "[w]"] Cons.prems(1) by auto
    then show ?thesis using False e Cons.prems(2) by (intro exI [of _ "g # groups"]) auto
  qed
qed

lemma word_no_newline:
  assumes "is_word w"
  shows "CHR 0x0A \<notin> set w"
proof
  assume n: "CHR 0x0A \<in> set w"
  then obtain u where "u \<in> set (chars w)" "CHR 0x0A \<in> set u" using concat_chars [of w] by (metis UN_E set_concat)
  moreover from this assms have "valid_char u" "\<not> is_whitespace u" by (auto simp: is_word_def valid_utf8_def list_all_iff)
  ultimately show False using char_with_newline newline_char(2) by blast
qed

lemma concat_lines: "concat (map (\<lambda>p. concat (map f (g p))) ps) = concat (map f (concat (map g ps)))"
  by (induction ps) simp_all

text \<open>The lines of one paragraph.\<close>

lemma wrapped_paragraph:
  fixes width :: nat
  assumes "valid_utf8 p"
  defines "ls \<equiv> wrap_words width [] (split_whitespace p)"
  shows "ls \<noteq> [] \<and> concat (map split_whitespace ls) = split_whitespace p
    \<and> (\<forall>l \<in> set ls. valid_utf8 l \<and> CHR 0x0A \<notin> set l
         \<and> (length l \<le> width \<or> l \<in> set (split_whitespace p)))"
proof -
  let ?ws = "split_whitespace p"
  have words: "\<forall>w \<in> set ?ws. is_word w" using split_words [OF assms(1)] .
  obtain groups where g: "ls = map (join_with '' '') groups" "groups \<noteq> []" "concat groups = ?ws"
    "\<forall>h \<in> set groups. length (join_with '' '' h) \<le> width \<or> length h \<le> 1"
    using wrap_words_groups [of "[]" ?ws width] words by (auto simp: ls_def is_word_def)
  have in_words: "w \<in> set ?ws" if "h \<in> set groups" "w \<in> set h" for h w
    using that g(3) by (metis UN_I set_concat)
  have line: "valid_utf8 (join_with '' '' h) \<and> split_whitespace (join_with '' '' h) = h
      \<and> CHR 0x0A \<notin> set (join_with '' '' h)
      \<and> (length (join_with '' '' h) \<le> width \<or> join_with '' '' h \<in> set ?ws)" if h: "h \<in> set groups" for h
  proof -
    have hw: "\<forall>w \<in> set h. is_word w" using words in_words [OF h] by blast
    have "concat (map split_whitespace h) = h" using hw by (induction h) (auto simp: split_word)
    then have "valid_utf8 (join_with '' '' h) \<and> split_whitespace (join_with '' '' h) = h"
      using split_join [OF newline_char(3,4), of h] hw by (simp add: is_word_def)
    moreover have "CHR 0x0A \<notin> set (join_with '' '' h)"
      using join_chars [of "'' ''" h] hw word_no_newline by fastforce
    moreover have "length (join_with '' '' h) \<le> width \<or> join_with '' '' h \<in> set ?ws"
    proof (cases "length h \<le> 1")
      case True
      then show ?thesis using in_words [OF h] by (cases h) auto
    next
      case False
      then show ?thesis using g(4) h by blast
    qed
    ultimately show ?thesis by blast
  qed
  then have "map (split_whitespace \<circ> join_with '' '') groups = groups" by (simp add: map_idI)
  then have "concat (map split_whitespace ls) = ?ws" using g(1,3) by simp
  then show ?thesis using g(1,2) line by auto
qed

subsection \<open>Properties\<close>

text \<open>Wrapping moves words and nothing else. The wrapped text has exactly the words of the text,
  in order, and when a width is given each of its lines fits it or is a single word that
  does not.\<close>

theorem wrapping_keeps_the_words:
  assumes "valid_utf8 s"
  shows "split_whitespace (word_wrap s width) = split_whitespace s
    \<and> (0 < width \<longrightarrow> (\<forall>l \<in> set (split_on (CHR 0x0A) (word_wrap s width)).
         length l \<le> width \<or> l \<in> set (split_whitespace s)))"
proof (cases "width = 0")
  case True
  then show ?thesis by (simp add: word_wrap_def)
next
  case False
  let ?nl = "CHR 0x0A"
  let ?ps = "split_on ?nl s"
  let ?wrap = "\<lambda>p. wrap_words width [] (split_whitespace p)"
  let ?ls = "concat (map ?wrap ?ps)"
  have valid: "\<forall>p \<in> set ?ps. valid_utf8 p"
    using split_lines_valid [of "chars s"] assms by (simp add: valid_utf8_def)
  note para = wrapped_paragraph [of _ width]
  have wrapped: "word_wrap s width = join_with [?nl] ?ls" using False by (simp add: word_wrap_def newline_def)
  have "?ls \<noteq> []" using para valid split_on_nonempty [of ?nl s] by (cases ?ps) auto
  moreover have lines: "\<forall>l \<in> set ?ls. valid_utf8 l \<and> ?nl \<notin> set l" using para valid by fastforce
  ultimately have split: "split_on ?nl (word_wrap s width) = ?ls" unfolding wrapped by (intro split_joined) auto
  have "split_whitespace s = concat (map split_whitespace ?ps)"
    using split_join [OF newline_char(1,2) valid] join_split [of ?nl s] by simp
  also have "\<dots> = concat (map (\<lambda>p. concat (map split_whitespace (?wrap p))) ?ps)"
    using para valid by (intro arg_cong [of _ _ concat] map_cong) auto
  also have "\<dots> = concat (map split_whitespace ?ls)" by (rule concat_lines)
  also have "\<dots> = split_whitespace (word_wrap s width)"
    using split_join [OF newline_char(1,2), of ?ls] lines unfolding wrapped by simp
  finally have words: "split_whitespace (word_wrap s width) = split_whitespace s" by simp
  have "length l \<le> width \<or> l \<in> set (split_whitespace s)" if "l \<in> set ?ls" for l
    using that para valid \<open>split_whitespace s = concat (map split_whitespace ?ps)\<close> by fastforce
  then show ?thesis using words split by simp
qed

lemma wrapping_keeps_the_words_witness:
  "split_whitespace (word_wrap (''a  bc def'' @ [CHR 0x0A] @ ''g'') 4) = [''a'', ''bc'', ''def'', ''g'']"
proof -
  let ?s = "''a  bc def'' @ [CHR 0x0A] @ ''g''"
  have "valid_utf8 ?s" "split_whitespace ?s = [''a'', ''bc'', ''def'', ''g'']" by code_simp+
  then show ?thesis using wrapping_keeps_the_words [of ?s 4] by simp
qed

text \<open>A text longer than its limit is cut to it, the ellipsis included; a limit of zero still
  gives the ellipsis.\<close>

lemma truncate_text_bound:
  assumes "valid_utf8 s"
  shows "length (chars (truncate_text s n)) \<le> max 1 n"
proof (cases "length (chars s) \<le> n")
  case True
  then show ?thesis by (simp add: truncate_text_def)
next
  case False
  let ?us = "take (n - 1) (chars s)"
  have us: "list_all valid_char ?us" using assms by (auto simp: valid_utf8_def list_all_iff dest: in_set_takeD)
  let ?vs = "rev (dropWhile is_whitespace (rev ?us))"
  have vs: "list_all valid_char ?vs" using us by (auto simp: list_all_iff dest: set_dropWhileD)
  have t: "trim_end (concat ?us) = concat ?vs" using us by (simp add: trim_end_def chars_concat)
  have e: "chars ellipsis = [ellipsis]" by code_simp
  have "chars (concat ?vs @ ellipsis) = ?vs @ [ellipsis]"
    using vs chars_append_valid [OF valid_utf8_concat [OF vs]] by (simp add: chars_concat e)
  moreover have "length ?vs \<le> n - 1"
    using length_dropWhile_le [of is_whitespace "rev ?us"] by simp
  moreover have "truncate_text s n = concat ?vs @ ellipsis" using False t by (simp add: truncate_text_def)
  ultimately show ?thesis by simp
qed

text \<open>A result that is not finite is reported as a success without a value.\<close>

lemma overflow_is_a_null_success: "calc_result (Inf n) = ToolSuccess (JObject [(''result'', JNull)])"
  by (simp add: calc_result_def)

end
