(* ===== verification/Cron.thy ===== *)
theory Cron
  imports Messages
begin

section \<open>Scheduled messages (\<open>src/cron/scheduler.rs\<close>)\<close>

text \<open>
  Which jobs run, how often, and the message each firing puts into the gateway. A job's task is
  a loop that ends when the gateway is gone: its firings up to a number are a list.
\<close>

subsection \<open>Jobs\<close>

record cron_job =
  cj_name :: string
  cj_schedule :: string
  cj_message :: string
  cj_channel_id :: string
  cj_user_id :: string
  cj_enabled :: bool

text \<open>A schedule as seconds; the product wraps, as it does in a release build.\<close>

definition schedule_in :: "string \<Rightarrow> nat \<Rightarrow> string \<Rightarrow> nat option option" where
  "schedule_in u factor s =
     map_option (\<lambda>n. map_option (\<lambda>v. (v * factor) mod 2 ^ 64) (parse_u64 n)) (strip_suffix u s)"

definition parse_schedule :: "string \<Rightarrow> nat option" where
  "parse_schedule schedule =
     (let s = trim schedule in
      case schedule_in ''s'' 1 s of Some r \<Rightarrow> r | None \<Rightarrow>
      (case schedule_in ''m'' 60 s of Some r \<Rightarrow> r | None \<Rightarrow>
      (case schedule_in ''h'' 3600 s of Some r \<Rightarrow> r | None \<Rightarrow>
      (case schedule_in ''d'' 86400 s of Some r \<Rightarrow> r | None \<Rightarrow> None))))"

text \<open>A started task: its interval in seconds and its job.\<close>

definition start_jobs :: "cron_job list \<Rightarrow> (nat \<times> cron_job) list" where
  "start_jobs jobs =
     List.map_filter (\<lambda>j. if \<not> cj_enabled j then None
       else map_option (\<lambda>d. (d, j)) (parse_schedule (cj_schedule j))) jobs"

definition cron_message :: "stamp \<Rightarrow> cron_job \<Rightarrow> message" where
  "cron_message st j = new_message st (cj_channel_id j) (cj_user_id j) ''cron'' (cj_message j)"

text \<open>The messages of a task whose firings have these stamps, while the gateway takes them: the first
  that is not taken ends the task.\<close>

fun fire_all :: "cron_job \<Rightarrow> (stamp \<times> bool) list \<Rightarrow> message list" where
  "fire_all j [] = []"
| "fire_all j ((st, taken) # later) = (if taken then cron_message st j # fire_all j later else [])"

record cron_job_status =
  cs_name :: string
  cs_schedule :: string
  cs_channel_id :: string
  cs_user_id :: string
  cs_enabled :: bool

definition job_status :: "cron_job list \<Rightarrow> cron_job_status list" where
  "job_status = map (\<lambda>j. \<lparr>cs_name = cj_name j, cs_schedule = cj_schedule j, cs_channel_id = cj_channel_id j,
     cs_user_id = cj_user_id j, cs_enabled = cj_enabled j\<rparr>)"

subsection \<open>Properties\<close>

definition unit_seconds :: "(string \<times> nat) list" where
  "unit_seconds = [(''s'', 1), (''m'', 60), (''h'', 3600), (''d'', 86400)]"

lemma digit_facts:
  assumes "list_all is_digit s"
  shows "list_all is_ascii s" and "\<forall>c \<in> set s. \<not> is_whitespace [c]" and "\<forall>c \<in> set s. c \<noteq> CHR ''+''"
proof -
  have "is_ascii c \<and> \<not> is_whitespace [c] \<and> c \<noteq> CHR ''+''" if "is_digit c" for c
    using that by (auto simp: is_digit_def is_ascii_def is_whitespace_def byte_def)
  with assms show "list_all is_ascii s" "\<forall>c \<in> set s. \<not> is_whitespace [c]" "\<forall>c \<in> set s. c \<noteq> CHR ''+''"
    by (auto simp: list_all_iff)
qed

lemma parse_u64_show: "n < 2 ^ 64 \<Longrightarrow> parse_u64 (show_nat n) = Some n"
proof -
  assume n: "n < 2 ^ 64"
  have d: "list_all is_digit (show_nat n)" using show_nat_digits by (simp add: list_all_iff)
  then have "(case show_nat n of c # cs \<Rightarrow> if c = CHR ''+'' then cs else show_nat n | [] \<Rightarrow> show_nat n) = show_nat n"
    using digit_facts(3) [OF d] by (auto split: list.split)
  with n d show ?thesis by (simp add: parse_u64_def)
qed

lemma trim_visible:
  assumes "list_all is_ascii s" and "\<forall>c \<in> set s. \<not> is_whitespace [c]"
  shows "trim s = s"
proof -
  have keep: "dropWhile is_whitespace (map (\<lambda>c. [c]) cs) = map (\<lambda>c. [c]) cs" if "set cs \<subseteq> set s" for cs
    using that assms(2) by (cases cs) auto
  have single: "concat (map (\<lambda>c. [c]) cs) = cs" for cs :: string by (induction cs) auto
  have start: "trim_start s = s"
    by (simp add: trim_start_def chars_ascii [OF assms(1)] keep single)
  have "trim_end s = s"
    using keep [of "rev s"] by (simp add: trim_end_def chars_ascii [OF assms(1)] rev_map single)
  with start show ?thesis by (simp add: trim_def)
qed

lemma parse_schedule_unit:
  assumes "(u, factor) \<in> set unit_seconds" and "n < 2 ^ 64"
  shows "parse_schedule (show_nat n @ u) = Some ((n * factor) mod 2 ^ 64)"
proof -
  have d: "list_all is_digit (show_nat n)" using show_nat_digits by (simp add: list_all_iff)
  have u: "u = ''s'' \<and> factor = 1 \<or> u = ''m'' \<and> factor = 60 \<or> u = ''h'' \<and> factor = 3600 \<or> u = ''d'' \<and> factor = 86400"
    using assms(1) by (simp add: unit_seconds_def)
  then obtain c where c: "u = [c]" "is_ascii c" "\<not> is_whitespace [c]"
    by (elim disjE) (simp_all add: is_ascii_def is_whitespace_def byte_def)
  have t: "trim (show_nat n @ u) = show_nat n @ u"
    using digit_facts [OF d] c by (intro trim_visible) auto
  have unit: "schedule_in [v] k (show_nat n @ [c]) = (if v = c then Some (Some ((n * k) mod 2 ^ 64)) else None)" for v k
    using parse_u64_show [OF assms(2)] by (simp add: schedule_in_def strip_suffix_def)
  have "parse_schedule (show_nat n @ [c]) =
      (if CHR ''s'' = c then Some ((n * 1) mod 2 ^ 64) else if CHR ''m'' = c then Some ((n * 60) mod 2 ^ 64)
       else if CHR ''h'' = c then Some ((n * 3600) mod 2 ^ 64) else if CHR ''d'' = c then Some ((n * 86400) mod 2 ^ 64)
       else None)"
    by (simp add: parse_schedule_def t [unfolded c(1)] unit Let_def)
  with u c(1) show ?thesis by (elim disjE) auto
qed

text \<open>Every schedule reads back. A number with one of the four units is parsed as that many
  seconds, minutes, hours or days, as long as the seconds fit 64 bits.\<close>

theorem schedule_reads_back:
  assumes "(u, factor) \<in> set unit_seconds" and "n * factor < 2 ^ 64"
  shows "parse_schedule (show_nat n @ u) = Some (n * factor)"
proof -
  have "n \<le> n * factor" using assms(1) by (auto simp: unit_seconds_def)
  then have "n < 2 ^ 64" using assms(2) by linarith
  from parse_schedule_unit [OF assms(1) this] assms(2) show ?thesis by simp
qed

lemma schedule_reads_back_witness: "parse_schedule ''90m'' = Some 5400"
proof -
  have s: "''90m'' = show_nat 90 @ ''m''" by code_simp
  show ?thesis unfolding s using schedule_reads_back [of "''m''" 60 90] by (simp add: unit_seconds_def)
qed

text \<open>Beyond that the product wraps, so an interval of five hundred billion years is three quarters of a
  minute; and an interval of zero is accepted, which is a task that never rests.\<close>

lemma huge_schedule_wraps: "parse_schedule (show_nat 307445734561825861 @ ''m'') = Some 44"
  using parse_schedule_unit [of "''m''" 60 307445734561825861] by (simp add: unit_seconds_def)

lemma zero_schedule_is_accepted: "parse_schedule (show_nat 0 @ ''s'') = Some 0"
  using parse_schedule_unit [of "''s''" 1 0] by (simp add: unit_seconds_def)

text \<open>No job that is disabled or cannot be parsed is started, and all others are.\<close>

lemma started_jobs:
  "set (start_jobs jobs) = {(d, j). j \<in> set jobs \<and> cj_enabled j \<and> parse_schedule (cj_schedule j) = Some d}"
  by (auto simp: start_jobs_def List.map_filter_def image_def)

end
