(* ===== verification/Chunker.thy ===== *)
theory Chunker
  imports Rust_Str
begin

section \<open>Splitting messages (\<open>src/gateway/chunker.rs\<close>)\<close>

text \<open>
  Messages longer than a platform's limit are cut into pieces. The loop is a partial
  function over options, so that a loop that never ends is \<open>None\<close>; the place to cut is its
  argument, \<open>split_point\<close> for the code. The locale \<open>splitter\<close> says what a place to cut must
  satisfy for the loop to end and to lose nothing; \<open>split_point\<close> satisfies it from a limit
  of four bytes on, the width of the widest character, and not below.
\<close>

subsection \<open>The chunker\<close>

definition DEFAULTS :: "(string \<times> nat) list" where
  "DEFAULTS = [(''discord'', 2000), (''slack'', 4000), (''teams'', 1024), (''telegram'', 4096),
     (''whatsapp'', 4096)]"

text \<open>The configured limits, in the order the hash map yields them.\<close>

type_synonym limits = "(string \<times> nat) list"

definition prefix_limit :: "limits \<Rightarrow> string \<Rightarrow> nat option" where
  "prefix_limit ls channel_id = map_option snd (find (\<lambda>(p, _). starts_with p channel_id) ls)"

definition limit_for :: "limits \<Rightarrow> string \<Rightarrow> nat option" where
  "limit_for ls channel_id =
     (case map_of ls channel_id of
        Some n \<Rightarrow> Some n
      | None \<Rightarrow> (case prefix_limit ls channel_id of
                   Some n \<Rightarrow> Some n
                 | None \<Rightarrow> prefix_limit DEFAULTS channel_id))"

text \<open>The largest character boundary at or below an offset.\<close>

fun floor_char_boundary :: "string \<Rightarrow> nat \<Rightarrow> nat" where
  "floor_char_boundary s 0 = 0"
| "floor_char_boundary s (Suc n) = (if is_char_boundary s (Suc n) then Suc n else floor_char_boundary s n)"

definition split_point :: "nat \<Rightarrow> string \<Rightarrow> nat" where
  "split_point limit remaining =
     (let hard = floor_char_boundary remaining limit
      in case rfind_ws (take hard remaining) of
           None \<Rightarrow> hard
         | Some ws \<Rightarrow> if ws = 0 then hard else ws)"

partial_function (option) chunk_loop ::
    "(string \<Rightarrow> nat) \<Rightarrow> nat \<Rightarrow> string \<Rightarrow> string list \<Rightarrow> string list option" where
  "chunk_loop place limit remaining chunks =
     (if remaining = [] then Some chunks
      else if length remaining \<le> limit then Some (chunks @ [remaining])
      else chunk_loop place limit (trim_start (drop (place remaining) remaining))
             (chunks @ [take (place remaining) remaining]))"

definition chunk :: "limits \<Rightarrow> string \<Rightarrow> string \<Rightarrow> string list option" where
  "chunk ls channel_id text =
     (case limit_for ls channel_id of
        None \<Rightarrow> Some [text]
      | Some limit \<Rightarrow>
          if limit = 0 \<or> length text \<le> limit then Some [text]
          else chunk_loop (split_point limit) limit text [])"

subsection \<open>Cutting between characters\<close>

text \<open>The characters of a text that are not white space.\<close>

definition visible :: "string \<Rightarrow> string list" where
  "visible s = filter (\<lambda>u. \<not> is_whitespace u) (chars s)"

definition between_chars :: "string \<Rightarrow> nat \<Rightarrow> bool" where
  "between_chars s i \<longleftrightarrow>
     (\<exists>k. take i s = concat (take k (chars s)) \<and> drop i s = concat (drop k (chars s)))"

lemma list_all_take_drop: "list_all P xs \<Longrightarrow> list_all P (take k xs) \<and> list_all P (drop k xs)"
  by (auto simp: list_all_iff dest: in_set_takeD in_set_dropD)

lemma between_halves:
  assumes "valid_utf8 s" and "between_chars s i"
  shows "valid_utf8 (take i s)" and "valid_utf8 (drop i s)"
    and "visible s = visible (take i s) @ visible (drop i s)"
proof -
  from assms(2) obtain k where k: "take i s = concat (take k (chars s))" "drop i s = concat (drop k (chars s))"
    by (auto simp: between_chars_def)
  have v: "list_all valid_char (take k (chars s))" "list_all valid_char (drop k (chars s))"
    using assms(1) list_all_take_drop [of valid_char "chars s" k] by (auto simp: valid_utf8_def)
  show "valid_utf8 (take i s)" "valid_utf8 (drop i s)"
    using v by (simp_all add: k valid_utf8_concat)
  have "visible (take i s) @ visible (drop i s)
      = filter (\<lambda>u. \<not> is_whitespace u) (take k (chars s) @ drop k (chars s))"
    using v by (simp only: visible_def k chars_concat filter_append)
  then show "visible s = visible (take i s) @ visible (drop i s)"
    by (simp add: visible_def)
qed

lemma trim_start_visible:
  assumes "valid_utf8 s"
  shows "valid_utf8 (trim_start s)" and "visible (trim_start s) = visible s"
proof -
  have v: "list_all valid_char (dropWhile is_whitespace (chars s))"
    using assms by (auto simp: valid_utf8_def list_all_iff dest: set_dropWhileD)
  then show "valid_utf8 (trim_start s)" by (simp add: trim_start_def valid_utf8_concat)
  have "filter (\<lambda>u. \<not> is_whitespace u) (dropWhile is_whitespace us) = filter (\<lambda>u. \<not> is_whitespace u) us" for us
    by (induction us) auto
  with v show "visible (trim_start s) = visible s"
    by (simp add: visible_def trim_start_def chars_concat)
qed

subsection \<open>The contract of a place to cut\<close>

locale splitter =
  fixes place :: "string \<Rightarrow> nat" and limit :: nat
  assumes cut_fits: "valid_utf8 s \<Longrightarrow> limit < length s \<Longrightarrow> 0 < place s \<and> place s \<le> limit"
    and cut_between: "valid_utf8 s \<Longrightarrow> limit < length s \<Longrightarrow> between_chars s (place s)"
begin

lemma chunk_loop_total:
  assumes "valid_utf8 s"
  shows "\<exists>cs. chunk_loop place limit s acc = Some (acc @ cs)
    \<and> (\<forall>c \<in> set cs. c \<noteq> [] \<and> length c \<le> limit \<and> valid_utf8 c) \<and> concat (map visible cs) = visible s"
  using assms
proof (induction s arbitrary: acc rule: length_induct)
  case (1 s)
  consider "s = []" | "s \<noteq> []" "length s \<le> limit" | "limit < length s" by linarith
  then show ?case
  proof cases
    case 1
    then show ?thesis by (simp add: chunk_loop.simps visible_def)
  next
    case 2
    with \<open>valid_utf8 s\<close> show ?thesis by (simp add: chunk_loop.simps)
  next
    case 3
    let ?i = "place s" and ?r = "trim_start (drop (place s) s)"
    note fits = cut_fits [OF \<open>valid_utf8 s\<close> 3] and half = between_halves [OF \<open>valid_utf8 s\<close> cut_between [OF \<open>valid_utf8 s\<close> 3]]
    have "length ?r \<le> length s - ?i" using trim_start_length [of "drop ?i s"] by simp
    then have "length ?r < length s" using fits 3 by linarith
    moreover have "valid_utf8 ?r" using half(2) by (rule trim_start_visible)
    ultimately obtain cs where cs: "chunk_loop place limit ?r (acc @ [take ?i s]) = Some ((acc @ [take ?i s]) @ cs)"
      "\<forall>c \<in> set cs. c \<noteq> [] \<and> length c \<le> limit \<and> valid_utf8 c" "concat (map visible cs) = visible ?r"
      using 1 by blast
    have "chunk_loop place limit s acc = Some (acc @ take ?i s # cs)"
      using cs(1) 3 by (subst chunk_loop.simps) auto
    moreover have "take ?i s \<noteq> []" "length (take ?i s) \<le> limit" using fits 3 by auto
    moreover have "concat (map visible (take ?i s # cs)) = visible s"
      using cs(3) half trim_start_visible(2) [OF half(2)] by simp
    ultimately show ?thesis using cs(2) half(1) by (intro exI [of _ "take ?i s # cs"]) auto
  qed
qed

end

subsection \<open>The code's place to cut\<close>

lemma floor_boundary_le: "floor_char_boundary s n \<le> n \<and> is_char_boundary s (floor_char_boundary s n)"
  by (induction n) (auto simp: is_char_boundary_def)

lemma floor_boundary_ge:
  "is_char_boundary s m \<Longrightarrow> m \<le> n \<Longrightarrow> m \<le> floor_char_boundary s n"
  by (induction n) (auto simp: le_Suc_eq)

lemma boundary_between:
  assumes "valid_utf8 s" and "i \<le> length s" and "is_char_boundary s i"
  shows "between_chars s i"
  using boundary_split [of "chars s" i] assms by (simp add: valid_utf8_def between_chars_def)

text \<open>The first character ends within four bytes, so a limit of four leaves room for it.\<close>

lemma first_char_boundary:
  assumes "valid_utf8 s" and "4 < length s"
  shows "\<exists>m. 0 < m \<and> m \<le> 4 \<and> is_char_boundary s m"
proof -
  obtain u us where us: "chars s = u # us" using assms(2) by (cases "chars s") auto
  have s: "s = u @ concat us" using concat_chars [of s] us by simp
  have v: "valid_char u" "list_all valid_char us" using assms(1) us by (auto simp: valid_utf8_def)
  have u: "0 < length u" "length u \<le> 4"
    using us chars_nonempty [of u s] chars_length_le4 [of u s] by auto
  then obtain w ws where w: "us = w # ws" using s assms(2) by (cases us) auto
  obtain b bs where "w = b # bs" "\<not> is_cont b" using v(2) w by (cases w) (auto simp: valid_char_def)
  then have "is_char_boundary s (length u)"
    using s w by (simp add: is_char_boundary_def nth_append)
  with u show ?thesis by blast
qed

lemma split_point_splits:
  assumes "4 \<le> limit" and "valid_utf8 s" and "limit < length s"
  shows "0 < split_point limit s \<and> split_point limit s \<le> limit" and "between_chars s (split_point limit s)"
proof -
  let ?h = "floor_char_boundary s limit"
  note h = floor_boundary_le [of s limit]
  from first_char_boundary [of s] assms obtain m where "0 < m" "m \<le> 4" "is_char_boundary s m" by auto
  then have pos: "0 < ?h" using floor_boundary_ge [of s m limit] assms(1) by linarith
  have between: "between_chars s ?h" using assms h by (intro boundary_between) auto
  have "0 < split_point limit s \<and> split_point limit s \<le> limit \<and> between_chars s (split_point limit s)"
  proof (cases "rfind_ws (take ?h s)")
    case None
    then show ?thesis using h pos between by (simp add: split_point_def)
  next
    case (Some i)
    let ?us = "chars (take ?h s)"
    from Some obtain k where k: "k < length ?us" "i = length (concat (take k ?us))"
      using rfind_ws_from_Some [of 0 ?us i] by (auto simp: rfind_ws_def)
    have vh: "valid_utf8 (take ?h s)" "valid_utf8 (drop ?h s)"
      using between_halves [OF assms(2) between] by auto
    have split: "s = concat (take k ?us) @ concat (drop k ?us) @ drop ?h s"
      using concat_chars [of "take ?h s"] concat_append [of "take k ?us" "drop k ?us"]
      by (metis append.assoc append_take_drop_id)
    have cs: "chars s = take k ?us @ drop k ?us @ chars (drop ?h s)"
    proof -
      have "chars (concat (?us @ chars (drop ?h s))) = ?us @ chars (drop ?h s)"
        using vh by (intro chars_concat) (auto simp: valid_utf8_def)
      moreover have "concat (?us @ chars (drop ?h s)) = s"
        by (simp only: concat_append concat_chars append_take_drop_id)
      ultimately show ?thesis by simp
    qed
    have "take i s = concat (take k ?us)" "drop i s = concat (drop k ?us) @ drop ?h s"
      using k(2) by (subst split, simp)+
    moreover have "take k (chars s) = take k ?us" "drop k (chars s) = drop k ?us @ chars (drop ?h s)"
      using k(1) by (simp_all add: cs)
    ultimately have "between_chars s i" by (auto simp: between_chars_def intro!: exI [of _ k])
    moreover have "i \<le> ?h"
    proof -
      have "length (concat (take k ?us)) \<le> length (concat ?us)"
        by (metis append_take_drop_id concat_append length_append le_add1)
      then show ?thesis using k(2) by simp
    qed
    ultimately show ?thesis using h pos between Some by (auto simp: split_point_def)
  qed
  then show "0 < split_point limit s \<and> split_point limit s \<le> limit" "between_chars s (split_point limit s)"
    by auto
qed

interpretation code_splitter: splitter "split_point (max 4 n)" "max 4 n" for n
  by unfold_locales (auto simp: split_point_splits)

lemma chunk_total:
  assumes "valid_utf8 text" and "\<And>n. limit_for ls channel_id = Some n \<Longrightarrow> n = 0 \<or> 4 \<le> n"
  shows "\<exists>cs. chunk ls channel_id text = Some cs \<and> concat (map visible cs) = visible text
    \<and> (\<forall>c \<in> set cs. valid_utf8 c)
    \<and> (\<forall>n. limit_for ls channel_id = Some n \<and> n \<noteq> 0 \<longrightarrow> (\<forall>c \<in> set cs. length c \<le> n))"
proof (cases "limit_for ls channel_id")
  case None
  then show ?thesis using assms(1) by (simp add: chunk_def)
next
  case (Some n)
  show ?thesis
  proof (cases "n = 0 \<or> length text \<le> n")
    case True
    then show ?thesis using assms(1) Some by (auto simp: chunk_def)
  next
    case False
    then have "max 4 n = n" using assms(2) [OF Some] by auto
    with code_splitter.chunk_loop_total [OF assms(1), of n "[]"] obtain cs where
      "chunk_loop (split_point n) n text [] = Some cs" "\<forall>c \<in> set cs. length c \<le> n \<and> valid_utf8 c"
      "concat (map visible cs) = visible text" by auto
    with False show ?thesis by (simp add: chunk_def Some)
  qed
qed

subsection \<open>Properties\<close>

text \<open>C26: A message is never lost in splitting. With no limit, the limit 0 or a limit of at
  least four bytes, chunking returns; the pieces, in order, have exactly the text's visible
  characters, so only white space at the cuts is dropped; and under a positive limit every
  piece is whole UTF-8 and no longer than the limit.\<close>

theorem chunks_fit_and_lose_only_white_space:
  assumes "valid_utf8 text" and "\<And>n. limit_for ls channel_id = Some n \<Longrightarrow> n = 0 \<or> 4 \<le> n"
  shows "\<exists>cs. chunk ls channel_id text = Some cs \<and> concat (map visible cs) = visible text
    \<and> (\<forall>c \<in> set cs. valid_utf8 c)
    \<and> (\<forall>n. limit_for ls channel_id = Some n \<and> n \<noteq> 0 \<longrightarrow> (\<forall>c \<in> set cs. length c \<le> n))"
  using assms by (rule chunk_total)

lemma chunks_fit_and_lose_only_white_space_witness:
  "\<exists>cs. chunk [(''sms'', 5)] ''sms'' ''hello big world'' = Some cs
     \<and> concat (map visible cs) = visible ''hello big world'' \<and> (\<forall>c \<in> set cs. length c \<le> 5)"
proof -
  have "valid_utf8 ''hello big world''" "limit_for [(''sms'', 5)] ''sms'' = Some 5" by code_simp+
  then show ?thesis
    using chunks_fit_and_lose_only_white_space [of "''hello big world''" "[(''sms'', 5)]" "''sms''"] by auto
qed

text \<open>Below the width of a character the loop stands still: it pushes empty pieces for ever.\<close>

lemma chunk_loop_stuck:
  assumes "place s = 0" and "trim_start s = s" and "0 < limit" and "limit < length s"
  shows "chunk_loop place limit s acc = None"
proof (rule ccontr)
  assume "chunk_loop place limit s acc \<noteq> None"
  then obtain y where "chunk_loop place limit s acc = Some y" by blast
  then have "\<not> (place s = 0 \<and> trim_start s = s \<and> limit < length s)"
    by (rule chunk_loop.raw_induct [rotated, where P = "\<lambda>place limit s acc y.
        \<not> (place s = 0 \<and> trim_start s = s \<and> limit < length s)"])
      (fastforce split: if_splits)
  with assms show False by simp
qed

lemma chunk_never_returns_below_a_character:
  assumes "limit_for ls channel_id = Some limit" and "0 < limit"
    and "valid_char u" and "\<not> is_whitespace u" and "limit < length u"
  shows "chunk ls channel_id (u @ rest) = None"
proof -
  have cont: "is_cont (u ! m)" if "0 < m" "m < length u" for m
    using that assms(3) by (cases u) (auto simp: valid_char_def list_all_length nth_Cons')
  have "floor_char_boundary (u @ rest) m = 0" if "m \<le> limit" for m
    using that
  proof (induction m)
    case (Suc m)
    then have "\<not> is_char_boundary (u @ rest) (Suc m)"
      using assms(5) cont [of "Suc m"] by (simp add: is_char_boundary_def nth_append)
    with Suc show ?case by simp
  qed simp
  then have "split_point limit (u @ rest) = 0" by (simp add: split_point_def rfind_ws_def)
  moreover have "trim_start (u @ rest) = u @ rest"
    using assms(3,4) by (simp add: trim_start_def chars_append_char)
  ultimately have "chunk_loop (split_point limit) limit (u @ rest) [] = None"
    using assms(2,5) by (intro chunk_loop_stuck) auto
  with assms(1,2,5) show ?thesis by (simp add: chunk_def)
qed

end
