(* ===== verification/Stores.thy ===== *)
theory Stores
  imports Rust_Str Bounded_Log
begin

section \<open>Conversation memory (\<open>src/memory/mod.rs\<close>, \<open>src/memory/summarizer.rs\<close>)\<close>

text \<open>
  The in-memory history store, and the summarizer that condenses it: its trigger, and the
  background task that later replaces the history, as two steps between which other messages
  may arrive. The language model's answer is a parameter. The locale \<open>history_store\<close> is the
  trait \<open>MemoryStore\<close>'s contract as the gateway uses it.
\<close>

subsection \<open>The store\<close>

record memory_store =
  ms_histories :: "string \<Rightarrow> string list option"
  ms_max_history :: nat

definition new_store :: "nat \<Rightarrow> memory_store" where
  "new_store max_history = \<lparr>ms_histories = (\<lambda>_. None), ms_max_history = max_history\<rparr>"

definition get_history :: "memory_store \<Rightarrow> string \<Rightarrow> string list" where
  "get_history m user_id = (case ms_histories m user_id of None \<Rightarrow> [] | Some h \<Rightarrow> h)"

definition add_message :: "string \<Rightarrow> string \<Rightarrow> memory_store \<Rightarrow> memory_store" where
  "add_message user_id message m =
     (let h = get_history m user_id @ [message];
          h' = (if ms_max_history m < length h then drop (length h - ms_max_history m) h else h)
      in m\<lparr>ms_histories := (ms_histories m)(user_id \<mapsto> h')\<rparr>)"

definition clear_history :: "string \<Rightarrow> memory_store \<Rightarrow> memory_store" where
  "clear_history user_id m = m\<lparr>ms_histories := (ms_histories m)(user_id := None)\<rparr>"

text \<open>The operations of a store, and of the unbounded log it shows the tail of.\<close>

datatype store_op = AddOp string string | ClearOp string

fun log_op :: "store_op \<Rightarrow> (string \<Rightarrow> string list) \<Rightarrow> string \<Rightarrow> string list" where
  "log_op (AddOp u x) l = l(u := l u @ [x])"
| "log_op (ClearOp u) l = l(u := [])"

text \<open>The contract: a bounded log per user.\<close>

locale history_store =
  fixes history :: "'m \<Rightarrow> string \<Rightarrow> string list"
    and add :: "string \<Rightarrow> string \<Rightarrow> 'm \<Rightarrow> 'm"
    and clear :: "string \<Rightarrow> 'm \<Rightarrow> 'm"
    and bound :: "'m \<Rightarrow> nat"
  assumes add_history: "history (add u x m) v = (if v = u then recent (bound m) (history m u @ [x]) else history m v)"
    and clear_empties: "history (clear u m) v = (if v = u then [] else history m v)"
    and add_bound: "bound (add u x m) = bound m"
    and clear_bound: "bound (clear u m) = bound m"
begin

text \<open>Whatever is added one after the other is the tail of it all.\<close>

lemma adds_history:
  "history (fold (add u) xs m) v =
     (if v = u then (if xs = [] then history m u else recent (bound m) (history m u @ xs)) else history m v)
   \<and> bound (fold (add u) xs m) = bound m"
proof (induction xs arbitrary: m)
  case (Cons x xs)
  show ?case
    using Cons.IH [of "add u x m"] recent_append [of "bound m" "history m u @ [x]" xs]
    by (simp add: add_history add_bound)
qed simp

lemma rebuilt_history:
  "history (fold (add u) (x # xs) (clear u m)) u = recent (bound m) (x # xs)"
  using adds_history [of u "x # xs" "clear u m" u] by (simp add: clear_empties clear_bound)

text \<open>Over any sequence of operations, the history is the tail of an unbounded log.\<close>

lemma ops_history:
  assumes "\<forall>v. history m v = recent (bound m) (l v)"
  shows "history (fold (\<lambda>op. case op of AddOp u x \<Rightarrow> add u x | ClearOp u \<Rightarrow> clear u) ops m) v
    = recent (bound m) (fold log_op ops l v)"
  using assms
proof (induction ops arbitrary: m l)
  case (Cons op ops)
  let ?m = "case op of AddOp u x \<Rightarrow> add u x m | ClearOp u \<Rightarrow> clear u m"
  have "bound ?m = bound m" by (cases op) (simp_all add: add_bound clear_bound)
  moreover have "\<forall>v. history ?m v = recent (bound m) (log_op op l v)"
    using Cons.prems by (cases op) (simp_all add: add_history clear_empties recent_append)
  ultimately show ?case using Cons.IH [of ?m "log_op op l"] by (cases op) (simp_all add: fun_upd_def)
qed simp

end

interpretation in_memory: history_store get_history add_message clear_history ms_max_history
  by unfold_locales
    (auto simp: get_history_def add_message_def clear_history_def recent_def Let_def)

fun apply_op :: "store_op \<Rightarrow> memory_store \<Rightarrow> memory_store" where
  "apply_op (AddOp u x) m = add_message u x m"
| "apply_op (ClearOp u) m = clear_history u m"

lemma apply_op_cases: "apply_op = (\<lambda>op. case op of AddOp u x \<Rightarrow> add_message u x | ClearOp u \<Rightarrow> clear_history u)"
  by (rule ext) (simp split: store_op.split, metis apply_op.simps ext)

subsection \<open>Summaries\<close>

record summarization_config =
  sz_enabled :: bool
  sz_trigger_at :: nat
  sz_trigger_token_budget :: nat
  sz_keep_recent :: nat

definition estimate_tokens :: "string \<Rightarrow> nat" where
  "estimate_tokens text = (length text + 3) div 4"

text \<open>The background task: the messages to condense and those to keep.\<close>

record summary_task =
  su_user :: string
  su_to_summarize :: "string list"
  su_keep :: "string list"

definition summary_split :: "summarization_config \<Rightarrow> string \<Rightarrow> string list \<Rightarrow> summary_task option" where
  "summary_split cfg user_id history =
     (let count_trigger = sz_trigger_at cfg < length history;
          token_trigger = 0 < sz_trigger_token_budget cfg
            \<and> sz_trigger_token_budget cfg < sum_list (map estimate_tokens history);
          n = length history - sz_keep_recent cfg
      in if \<not> count_trigger \<and> \<not> token_trigger then None
         else Some \<lparr>su_user = user_id, su_to_summarize = take n history, su_keep = drop n history\<rparr>)"

definition maybe_summarize :: "summarization_config \<Rightarrow> memory_store \<Rightarrow> string \<Rightarrow> summary_task option" where
  "maybe_summarize cfg m user_id =
     (if \<not> sz_enabled cfg then None else summary_split cfg user_id (get_history m user_id))"

definition summary_prompt :: "summary_task \<Rightarrow> string" where
  "summary_prompt t =
     ''Summarise the following conversation history concisely (2-4 sentences):'' @ newline @ newline
     @ join_with newline (su_to_summarize t)"

text \<open>What the task does when the model has answered, with the store as it is then; \<open>None\<close> is a
  response without text.\<close>

definition summary_entry :: "string option \<Rightarrow> string" where
  "summary_entry answer =
     ''[Summary: '' @ (case answer of None \<Rightarrow> ''(summary unavailable)'' | Some s \<Rightarrow> s) @ '']''"

definition finish_summary :: "summary_task \<Rightarrow> string + string option \<Rightarrow> memory_store \<Rightarrow> memory_store" where
  "finish_summary t response m =
     (case response of
        Inl e \<Rightarrow> m
      | Inr answer \<Rightarrow>
          fold (add_message (su_user t)) (summary_entry answer # su_keep t) (clear_history (su_user t) m))"

lemma finish_summary_history:
  "get_history (finish_summary t (Inr answer) m) (su_user t)
     = recent (ms_max_history m) (summary_entry answer # su_keep t)"
  by (simp only: finish_summary_def sum.case in_memory.rebuilt_history)

text \<open>Messages that arrive while the model is thinking are lost: the history it leaves does not
  depend on them.\<close>

lemma summary_forgets_what_came_meanwhile:
  "get_history (finish_summary t (Inr answer) (fold (add_message (su_user t)) meanwhile m)) (su_user t)
     = get_history (finish_summary t (Inr answer) m) (su_user t)"
  by (simp add: finish_summary_history in_memory.adds_history)

text \<open>A store no larger than the part to keep drops the summary itself.\<close>

lemma summary_is_dropped_by_a_small_store:
  assumes "ms_max_history m \<le> length (su_keep t)"
  shows "get_history (finish_summary t (Inr answer) m) (su_user t) = recent (ms_max_history m) (su_keep t)"
  using assms by (simp add: finish_summary_history recent_def Suc_diff_le)

subsection \<open>Properties\<close>

text \<open>A user's history is always the last \<open>n\<close> of what was added since it was cleared: over any
  sequence of additions and clearings of any users, the bounded store implements an unbounded
  log of which only the tail is shown, and it never shows one user another's messages.\<close>

theorem history_is_the_tail_of_the_log:
  "get_history (fold apply_op ops (new_store n)) u = recent n (fold log_op ops (\<lambda>_. []) u)"
  using in_memory.ops_history [of "new_store n" "\<lambda>_. []" ops u]
  by (simp add: apply_op_cases new_store_def get_history_def)

end
