(* ===== verification/Pipeline.thy ===== *)
theory Pipeline
  imports Approval Gateway_Edge Chunker Formatter Stores Messages
begin

section \<open>The message pipeline (\<open>src/gateway/mod.rs\<close>)\<close>

text \<open>
  What happens to one inbound message: the approval it may answer, the duplicate filter, the
  rate limiter, the memory, the model, and the way out through the formatter and the chunker.
  The state is everything the stages share. Channels and the model are parameters, whose
  calls the state records in order. The result is an option because the chunker's loop may
  not end. Whether the sender has an approval pending is read before, and apart from, the
  rest, so it is an argument: the registry may have changed in between.
\<close>

subsection \<open>State and surroundings\<close>

text \<open>The stages that are configured. A rate limit is checked when the limiter and the hot
  configuration are both there.\<close>

record pipeline_config =
  pc_rate_limit :: "rate_limit_config option"
  pc_dedup :: bool
  pc_chunk_limits :: "limits option"
  pc_format :: bool
  pc_auto_route :: bool
  pc_summarization :: "summarization_config option"
  pc_audit :: bool
  pc_approvals :: bool

record gateway =
  gw_memory :: memory_store
  gw_summaries :: "summary_task list"
  gw_prefs :: user_prefs
  gw_stats :: message_stats
  gw_limits :: rate_limits
  gw_dedup :: deduplicator
  gw_registry :: registry
  gw_audit :: "audit_event list"
  gw_sends :: "(message \<times> bool) list"
  gw_prompts :: "(string \<times> string) list"

text \<open>The channels in order; what sending the \<open>n\<close>-th message of the gateway's life answers; the stamp it
  carries; what the model answers to the last of the prompts it was given; the hash and the
  lower case of characters that are not ASCII; the clocks.\<close>

record surroundings =
  en_channels :: "string list"
  en_deliver :: "nat \<Rightarrow> message \<Rightarrow> string + unit"
  en_stamp :: "nat \<Rightarrow> stamp"
  en_model :: "(string \<times> string) list \<Rightarrow> string + string"
  en_sha256 :: "string \<Rightarrow> string"
  en_ulc :: "string \<Rightarrow> string"
  en_now :: nat
  en_readings :: readings

subsection \<open>The way out\<close>

definition send_message :: "surroundings \<Rightarrow> message \<Rightarrow> gateway \<Rightarrow> (string + unit) \<times> gateway" where
  "send_message e m g =
     (let r = en_deliver e (length (gw_sends g)) m in (r, g\<lparr>gw_sends := gw_sends g @ [(m, is_ok r)]\<rparr>))"

definition assistant_message :: "surroundings \<Rightarrow> string \<Rightarrow> string \<Rightarrow> gateway \<Rightarrow> message" where
  "assistant_message e channel_id content g =
     new_message (en_stamp e (length (gw_sends g))) channel_id ''assistant'' ''RustyNail'' content"

fun send_chunks :: "surroundings \<Rightarrow> string \<Rightarrow> string list \<Rightarrow> gateway \<Rightarrow> (string + unit) \<times> gateway" where
  "send_chunks e channel_id [] g = (Ok (), g)"
| "send_chunks e channel_id (c # cs) g =
     (let m = assistant_message e channel_id c g; (r, g1) = send_message e m g
      in case r of
           Inl err \<Rightarrow> (Err err, g1)
         | Inr _ \<Rightarrow> send_chunks e channel_id cs
             (g1\<lparr>gw_stats := record_outbound (en_now e) m (gw_stats g1)\<rparr>))"

definition outgoing_chunks :: "pipeline_config \<Rightarrow> string \<Rightarrow> string \<Rightarrow> string list option" where
  "outgoing_chunks cfg channel_id t =
     (let formatted = format_response (pc_format cfg) t channel_id
      in case pc_chunk_limits cfg of Some ls \<Rightarrow> chunk ls channel_id formatted | None \<Rightarrow> Some [formatted])"

definition send_text ::
    "pipeline_config \<Rightarrow> surroundings \<Rightarrow> string \<Rightarrow> string \<Rightarrow> gateway \<Rightarrow> ((string + unit) \<times> gateway) option" where
  "send_text cfg e channel_id t g =
     map_option (\<lambda>chunks. if channel_id \<in> set (en_channels e) then send_chunks e channel_id chunks g else (Ok (), g))
       (outgoing_chunks cfg channel_id t)"

subsection \<open>The way in\<close>

definition audited :: "pipeline_config \<Rightarrow> audit_event \<Rightarrow> gateway \<Rightarrow> gateway" where
  "audited cfg ev g = (if pc_audit cfg then g\<lparr>gw_audit := gw_audit g @ [ev]\<rparr> else g)"

definition is_duplicate ::
    "pipeline_config \<Rightarrow> surroundings \<Rightarrow> bool \<Rightarrow> message \<Rightarrow> gateway \<Rightarrow> bool \<times> gateway" where
  "is_duplicate cfg e awaiting m g =
     (if pc_dedup cfg \<and> \<not> awaiting then
        (let (dup, d) = seen (en_sha256 e) (ms_user_id m) (ms_content m) (gw_dedup g) in (dup, g\<lparr>gw_dedup := d\<rparr>))
      else (False, g))"

definition within_rate :: "pipeline_config \<Rightarrow> surroundings \<Rightarrow> message \<Rightarrow> gateway \<Rightarrow> bool \<times> gateway" where
  "within_rate cfg e m g =
     (case pc_rate_limit cfg of
        None \<Rightarrow> (True, g)
      | Some rl \<Rightarrow> (let (ok, l) = check_and_record rl (ms_user_id m) (en_readings e) (gw_limits g)
                    in (ok, g\<lparr>gw_limits := l\<rparr>)))"

definition rate_warning_sign :: string where
  "rate_warning_sign = [CHR 0xE2, CHR 0x9A, CHR 0xA0, CHR 0xEF, CHR 0xB8, CHR 0x8F]"

definition rate_limit_text :: string where
  "rate_limit_text = rate_warning_sign @ '' Rate limit exceeded. Please wait before sending another message.''"

definition deny :: "pipeline_config \<Rightarrow> surroundings \<Rightarrow> message \<Rightarrow> gateway \<Rightarrow> gateway" where
  "deny cfg e m g =
     (let g1 = audited cfg (RateLimitHit (ms_user_id m) (ms_channel_id m))
                 (g\<lparr>gw_stats := record_rate_limit_hit (gw_stats g)\<rparr>)
      in if ms_channel_id m \<in> set (en_channels e)
         then snd (send_message e (assistant_message e (ms_channel_id m) rate_limit_text g1) g1)
         else g1)"

definition response_channel :: "gateway \<Rightarrow> message \<Rightarrow> string" where
  "response_channel g m =
     (case ms_preferred_channel_id m of
        Some preferred \<Rightarrow> preferred
      | None \<Rightarrow> (case prefs_get (gw_prefs g) (ms_user_id m) of Some pref \<Rightarrow> pref | None \<Rightarrow> ms_channel_id m))"

definition attachment_prompt :: "attachment \<Rightarrow> string" where
  "attachment_prompt a =
     (if at_media_type a = ''pdf'' then ''Please analyze this PDF: '' @ at_url a @ newline @ newline
      else if at_media_type a = ''image'' then ''Please describe this image: '' @ at_url a @ newline @ newline
      else [])"

definition routed_content :: "pipeline_config \<Rightarrow> message \<Rightarrow> string" where
  "routed_content cfg m =
     (if pc_auto_route cfg \<and> ms_attachments m \<noteq> []
      then concat (map attachment_prompt (ms_attachments m)) @ ms_content m else ms_content m)"

definition remember :: "string \<Rightarrow> string \<Rightarrow> gateway \<Rightarrow> gateway" where
  "remember user_id line g = g\<lparr>gw_memory := add_message user_id line (gw_memory g)\<rparr>"

definition summarise :: "pipeline_config \<Rightarrow> string \<Rightarrow> gateway \<Rightarrow> gateway" where
  "summarise cfg user_id g =
     (case pc_summarization cfg of
        None \<Rightarrow> g
      | Some sz \<Rightarrow> (case maybe_summarize sz (gw_memory g) user_id of
                      None \<Rightarrow> g | Some t \<Rightarrow> g\<lparr>gw_summaries := gw_summaries g @ [t]\<rparr>))"

definition trouble_text :: string where
  "trouble_text = ''I'' @ [CHR 0x27] @ ''m having trouble responding right now. Please try again in a moment.''"

text \<open>The model's turn, and what the sender is answered.\<close>

definition ask_model ::
    "pipeline_config \<Rightarrow> surroundings \<Rightarrow> string \<Rightarrow> string \<Rightarrow> gateway \<Rightarrow> string \<times> gateway" where
  "ask_model cfg e user_id content g =
     (let g1 = g\<lparr>gw_prompts := gw_prompts g @ [(user_id, content)]\<rparr>
      in case en_model e (gw_prompts g1) of
           Inr answer \<Rightarrow> (answer, g1)
         | Inl err \<Rightarrow> (trouble_text,
             audited cfg (LlmError user_id err) (g1\<lparr>gw_stats := record_llm_error (gw_stats g1)\<rparr>)))"

definition answer_message ::
    "pipeline_config \<Rightarrow> surroundings \<Rightarrow> message \<Rightarrow> gateway \<Rightarrow> ((string + unit) \<times> gateway) option" where
  "answer_message cfg e m g =
     (let u = ms_user_id m;
          channel = response_channel g m;
          content = routed_content cfg m;
          g1 = summarise cfg u (remember u (''User: '' @ content) g);
          g2 = g1\<lparr>gw_stats := record_inbound (en_now e) (m\<lparr>ms_content := content\<rparr>) (gw_stats g1)\<rparr>;
          (answer, g3) = ask_model cfg e u content g2;
          g4 = remember u (''Assistant: '' @ answer) g3
      in send_text cfg e channel answer g4)"

definition limit_and_answer ::
    "pipeline_config \<Rightarrow> surroundings \<Rightarrow> message \<Rightarrow> gateway \<Rightarrow> ((string + unit) \<times> gateway) option" where
  "limit_and_answer cfg e m g =
     (let (ok, g1) = within_rate cfg e m g
      in if ok then answer_message cfg e m g1 else Some (Ok (), deny cfg e m g1))"

definition handle_awaited ::
    "pipeline_config \<Rightarrow> surroundings \<Rightarrow> bool \<Rightarrow> message \<Rightarrow> gateway \<Rightarrow> ((string + unit) \<times> gateway) option" where
  "handle_awaited cfg e awaiting m g =
     (let (dup, g1) = is_duplicate cfg e awaiting m g in
      if dup then Some (Ok (), g1)
      else
        (let g2 = audited cfg (MessageReceived (ms_user_id m) (ms_channel_id m) (length (ms_content m))) g1 in
         if \<not> awaiting then limit_and_answer cfg e m g2
         else
           (let (outcome, r) = submit_reply (en_ulc e) (en_now e) (ms_user_id m) (ms_channel_id m) (ms_content m)
                  (gw_registry g2);
                g3 = g2\<lparr>gw_registry := r\<rparr>
            in case outcome of
                 Settled _ _ \<Rightarrow> Some (Ok (), g3)
               | NeedsClarification _ \<Rightarrow> send_text cfg e (ms_channel_id m) render_clarification g3
               | NothingPending \<Rightarrow> limit_and_answer cfg e m g3)))"

text \<open>The handler when nothing happens in between.\<close>

definition awaiting_approval :: "pipeline_config \<Rightarrow> message \<Rightarrow> gateway \<Rightarrow> bool" where
  "awaiting_approval cfg m g \<longleftrightarrow>
     pc_approvals cfg \<and> has_pending (ms_user_id m) (ms_channel_id m) (gw_registry g)"

definition handle_message ::
    "pipeline_config \<Rightarrow> surroundings \<Rightarrow> message \<Rightarrow> gateway \<Rightarrow> ((string + unit) \<times> gateway) option" where
  "handle_message cfg e m g = handle_awaited cfg e (awaiting_approval cfg m g) m g"

subsection \<open>What sending leaves alone\<close>

definition behind :: "gateway \<Rightarrow> memory_store \<times> summary_task list \<times> user_prefs \<times> rate_limits \<times> deduplicator
    \<times> registry \<times> audit_event list \<times> (string \<times> string) list" where
  "behind g = (gw_memory g, gw_summaries g, gw_prefs g, gw_limits g, gw_dedup g, gw_registry g, gw_audit g,
     gw_prompts g)"

text \<open>Everything the gateway sends is signed by itself and carries no metadata.\<close>

definition gateway_reply :: "message \<Rightarrow> bool" where
  "gateway_reply r \<longleftrightarrow> ms_user_id r = ''assistant'' \<and> ms_metadata r = JNull"

definition sent_on :: "string set \<Rightarrow> gateway \<Rightarrow> gateway \<Rightarrow> bool" where
  "sent_on cs g g' \<longleftrightarrow>
     (\<exists>new. gw_sends g' = gw_sends g @ new
        \<and> (\<forall>x \<in> set new. ms_channel_id (fst x) \<in> cs \<and> gateway_reply (fst x)))"

lemma sent_on_refl: "gw_sends g' = gw_sends g \<Longrightarrow> sent_on cs g g'"
  by (simp add: sent_on_def)

lemma sent_on_trans: "sent_on cs g g1 \<Longrightarrow> sent_on cs g1 g2 \<Longrightarrow> sent_on cs g g2"
  by (auto simp: sent_on_def)

lemma sent_on_mono: "sent_on cs g g' \<Longrightarrow> cs \<subseteq> ds \<Longrightarrow> sent_on ds g g'"
  by (auto simp: sent_on_def)

lemma send_chunks_frame:
  "send_chunks e ch cs g = (r, g') \<Longrightarrow> behind g' = behind g \<and> sent_on {ch} g g'"
proof (induction cs arbitrary: g)
  case (Cons c cs)
  let ?m = "assistant_message e ch c g"
  obtain r1 g1 where 1: "send_message e ?m g = (r1, g1)" by force
  have g1: "behind g1 = behind g" "sent_on {ch} g g1"
    using 1 by (auto simp: send_message_def behind_def sent_on_def assistant_message_def new_message_def
        gateway_reply_def Let_def)
  let ?g2 = "g1\<lparr>gw_stats := record_outbound (en_now e) ?m (gw_stats g1)\<rparr>"
  have g2: "behind ?g2 = behind g1" "sent_on {ch} g1 ?g2" by (simp_all add: behind_def sent_on_def)
  show ?case
  proof (cases r1)
    case (Inl err)
    then show ?thesis using Cons.prems 1 g1 by (simp add: Let_def)
  next
    case (Inr _)
    then have "send_chunks e ch cs ?g2 = (r, g')" using Cons.prems 1 by (simp add: Let_def)
    from Cons.IH [OF this] g1 g2 show ?thesis by (metis sent_on_trans)
  qed
qed (simp add: sent_on_refl)

lemma send_text_frame:
  assumes "send_text cfg e ch t g = Some (r, g')"
  shows "behind g' = behind g \<and> sent_on ({ch} \<inter> set (en_channels e)) g g'"
  using assms send_chunks_frame [of e ch _ g r g']
  by (auto simp: send_text_def sent_on_refl split: if_splits)

lemma deny_frame:
  "gw_memory (deny cfg e m g) = gw_memory g" "gw_prompts (deny cfg e m g) = gw_prompts g"
  "gw_limits (deny cfg e m g) = gw_limits g" "gw_dedup (deny cfg e m g) = gw_dedup g"
  "gw_prefs (deny cfg e m g) = gw_prefs g" "gw_registry (deny cfg e m g) = gw_registry g"
  "sent_on ({ms_channel_id m} \<inter> set (en_channels e)) g (deny cfg e m g)"
  by (auto simp: deny_def audited_def send_message_def assistant_message_def new_message_def sent_on_def
      gateway_reply_def Let_def)

lemma is_duplicate_frame:
  assumes "is_duplicate cfg e awaiting m g = (dup, g1)"
  shows "gw_prompts g1 = gw_prompts g" "gw_memory g1 = gw_memory g" "gw_limits g1 = gw_limits g"
    "gw_prefs g1 = gw_prefs g" "gw_registry g1 = gw_registry g" "gw_sends g1 = gw_sends g"
    and "awaiting \<Longrightarrow> g1 = g \<and> \<not> dup"
  using assms by (auto simp: is_duplicate_def split: if_splits prod.splits)

lemma within_rate_frame:
  assumes "within_rate cfg e m g = (ok, g1)"
  shows "gw_dedup g1 = gw_dedup g" "gw_prompts g1 = gw_prompts g" "gw_memory g1 = gw_memory g"
    "gw_prefs g1 = gw_prefs g" "gw_registry g1 = gw_registry g" "gw_sends g1 = gw_sends g"
    and "v \<noteq> ms_user_id m \<Longrightarrow> gw_limits g1 v = gw_limits g v"
  using assms other_user
  by (auto simp: within_rate_def check_and_record_def Let_def split: if_splits prod.splits option.splits)

lemma audited_simps [simp]:
  "gw_memory (audited cfg ev g) = gw_memory g" "gw_summaries (audited cfg ev g) = gw_summaries g"
  "gw_prefs (audited cfg ev g) = gw_prefs g" "gw_limits (audited cfg ev g) = gw_limits g"
  "gw_dedup (audited cfg ev g) = gw_dedup g" "gw_registry (audited cfg ev g) = gw_registry g"
  "gw_prompts (audited cfg ev g) = gw_prompts g" "gw_sends (audited cfg ev g) = gw_sends g"
  "gw_stats (audited cfg ev g) = gw_stats g"
  by (simp_all add: audited_def)

lemma summarise_simps [simp]:
  "gw_memory (summarise cfg u g) = gw_memory g" "gw_prefs (summarise cfg u g) = gw_prefs g"
  "gw_limits (summarise cfg u g) = gw_limits g" "gw_dedup (summarise cfg u g) = gw_dedup g"
  "gw_registry (summarise cfg u g) = gw_registry g" "gw_prompts (summarise cfg u g) = gw_prompts g"
  "gw_sends (summarise cfg u g) = gw_sends g"
  by (simp_all add: summarise_def split: option.splits)

lemma remember_simps [simp]:
  "gw_memory (remember u x g) = add_message u x (gw_memory g)" "gw_prefs (remember u x g) = gw_prefs g"
  "gw_limits (remember u x g) = gw_limits g" "gw_dedup (remember u x g) = gw_dedup g"
  "gw_registry (remember u x g) = gw_registry g" "gw_prompts (remember u x g) = gw_prompts g"
  "gw_sends (remember u x g) = gw_sends g"
  by (simp_all add: remember_def)

lemma ask_model_frame:
  assumes "ask_model cfg e u content g = (answer, g1)"
  shows "gw_memory g1 = gw_memory g" "gw_prefs g1 = gw_prefs g" "gw_limits g1 = gw_limits g"
    "gw_dedup g1 = gw_dedup g" "gw_registry g1 = gw_registry g" "gw_sends g1 = gw_sends g"
    "gw_prompts g1 = gw_prompts g @ [(u, content)]"
    "answer = (case en_model e (gw_prompts g @ [(u, content)]) of Inr a \<Rightarrow> a | Inl _ \<Rightarrow> trouble_text)"
  using assms by (auto simp: ask_model_def Let_def split: sum.splits)

text \<open>What answering an ordinary message comes to.\<close>

lemma answer_message_cases:
  obtains answer g4 where
    "answer_message cfg e m g = send_text cfg e (response_channel g m) answer g4"
    "answer = (case en_model e (gw_prompts g @ [(ms_user_id m, routed_content cfg m)]) of
       Inr a \<Rightarrow> a | Inl _ \<Rightarrow> trouble_text)"
    "gw_prompts g4 = gw_prompts g @ [(ms_user_id m, routed_content cfg m)]"
    "gw_memory g4 = add_message (ms_user_id m) (''Assistant: '' @ answer)
       (add_message (ms_user_id m) (''User: '' @ routed_content cfg m) (gw_memory g))"
    "gw_prefs g4 = gw_prefs g" "gw_limits g4 = gw_limits g" "gw_dedup g4 = gw_dedup g"
    "gw_registry g4 = gw_registry g" "gw_sends g4 = gw_sends g"
proof -
  let ?u = "ms_user_id m" and ?c = "routed_content cfg m"
  let ?g1 = "summarise cfg ?u (remember ?u (''User: '' @ ?c) g)"
  let ?g2 = "?g1\<lparr>gw_stats := record_inbound (en_now e) (m\<lparr>ms_content := ?c\<rparr>) (gw_stats ?g1)\<rparr>"
  obtain answer g3 where 3: "ask_model cfg e ?u ?c ?g2 = (answer, g3)" by force
  note f = ask_model_frame [OF 3]
  show thesis
    by (rule that [of answer "remember ?u (''Assistant: '' @ answer) g3"])
      (use 3 f in \<open>simp_all add: answer_message_def Let_def\<close>)
qed

text \<open>What a message of one sender may do to the state.\<close>

definition own_effects :: "pipeline_config \<Rightarrow> surroundings \<Rightarrow> message \<Rightarrow> gateway \<Rightarrow> gateway \<Rightarrow> bool" where
  "own_effects cfg e m g g' \<longleftrightarrow>
     (\<forall>v. v \<noteq> ms_user_id m \<longrightarrow> get_history (gw_memory g') v = get_history (gw_memory g) v
            \<and> gw_limits g' v = gw_limits g v)
     \<and> gw_prefs g' = gw_prefs g
     \<and> (gw_prompts g' = gw_prompts g \<or> gw_prompts g' = gw_prompts g @ [(ms_user_id m, routed_content cfg m)])
     \<and> sent_on ({ms_channel_id m, response_channel g m} \<inter> set (en_channels e)) g g'"

lemma limit_and_answer_own:
  assumes "limit_and_answer cfg e m g = Some (res, g')"
  shows "own_effects cfg e m g g'"
proof -
  obtain ok g3 where r: "within_rate cfg e m g = (ok, g3)" by force
  note fr = within_rate_frame [OF r]
  have ch: "response_channel g3 m = response_channel g m"
    by (simp add: response_channel_def fr(4) split: option.split)
  show ?thesis
  proof (cases ok)
    case False
    then have "g' = deny cfg e m g3" using assms r by (simp add: limit_and_answer_def)
    moreover have "sent_on ({ms_channel_id m} \<inter> set (en_channels e)) g (deny cfg e m g3)"
      using fr(6) deny_frame(7) by (rule sent_on_trans [OF sent_on_refl])
    ultimately show ?thesis
      using fr by (auto simp: own_effects_def deny_frame elim: sent_on_mono)
  next
    case True
    then have a: "answer_message cfg e m g3 = Some (res, g')" using assms r by (simp add: limit_and_answer_def)
    obtain answer g4 where 4: "answer_message cfg e m g3 = send_text cfg e (response_channel g3 m) answer g4"
      and g4: "gw_prompts g4 = gw_prompts g3 @ [(ms_user_id m, routed_content cfg m)]"
        "gw_memory g4 = add_message (ms_user_id m) (''Assistant: '' @ answer)
           (add_message (ms_user_id m) (''User: '' @ routed_content cfg m) (gw_memory g3))"
        "gw_prefs g4 = gw_prefs g3" "gw_limits g4 = gw_limits g3" "gw_sends g4 = gw_sends g3"
      by (rule answer_message_cases)
    from a 4 have "behind g' = behind g4" "sent_on ({response_channel g3 m} \<inter> set (en_channels e)) g4 g'"
      using send_text_frame by metis+
    then show ?thesis
      using g4 fr by (auto simp: own_effects_def behind_def in_memory.add_history sent_on_def ch)
  qed
qed

lemma own_effects_same:
  assumes "gw_prompts g1 = gw_prompts g" "gw_memory g1 = gw_memory g" "gw_limits g1 = gw_limits g"
    "gw_prefs g1 = gw_prefs g" "gw_sends g1 = gw_sends g"
  shows "own_effects cfg e m g1 g' = own_effects cfg e m g g'"
proof -
  have "response_channel g1 m = response_channel g m"
    by (simp add: response_channel_def assms(4) split: option.split)
  then show ?thesis using assms by (simp add: own_effects_def sent_on_def)
qed

lemma own_effects_refl: "own_effects cfg e m g g"
  by (simp add: own_effects_def sent_on_refl)

lemma send_chunks_delivers:
  assumes "\<And>n x. en_deliver e n x = Ok ()"
  shows "\<exists>g' new. send_chunks e ch cs g = (Ok (), g') \<and> gw_sends g' = gw_sends g @ new
    \<and> map (\<lambda>x. ms_content (fst x)) new = cs \<and> (\<forall>x \<in> set new. snd x \<and> ms_channel_id (fst x) = ch)"
proof (induction cs arbitrary: g)
  case (Cons c cs)
  let ?m = "assistant_message e ch c g"
  let ?g1 = "g\<lparr>gw_sends := gw_sends g @ [(?m, True)],
      gw_stats := record_outbound (en_now e) ?m (gw_stats g)\<rparr>"
  have m: "ms_content ?m = c" "ms_channel_id ?m = ch" by (simp_all add: assistant_message_def new_message_def)
  obtain g' new where "send_chunks e ch cs ?g1 = (Ok (), g')" "gw_sends g' = gw_sends ?g1 @ new"
    "map (\<lambda>x. ms_content (fst x)) new = cs" "\<forall>x \<in> set new. snd x \<and> ms_channel_id (fst x) = ch"
    using Cons.IH by blast
  then show ?case
    using m by (intro exI [of _ g'] exI [of _ "(?m, True) # new"]) (simp add: send_message_def assms Let_def)
qed simp

text \<open>A limit under which the chunker comes to an end: none, zero, or room for any character.\<close>

definition workable_limit :: "pipeline_config \<Rightarrow> string \<Rightarrow> bool" where
  "workable_limit cfg channel_id =
     (case pc_chunk_limits cfg of
        None \<Rightarrow> True
      | Some ls \<Rightarrow> (case limit_for ls channel_id of None \<Rightarrow> True | Some n \<Rightarrow> n = 0 \<or> 4 \<le> n))"

lemma outgoing_chunks_total:
  assumes "formatted = format_response (pc_format cfg) t ch" and "valid_utf8 formatted"
    and "workable_limit cfg ch"
  shows "\<exists>cs. outgoing_chunks cfg ch t = Some cs \<and> concat (map visible cs) = visible formatted
    \<and> (\<forall>ls n. pc_chunk_limits cfg = Some ls \<longrightarrow> limit_for ls ch = Some n \<longrightarrow> n \<noteq> 0 \<longrightarrow> (\<forall>c \<in> set cs. length c \<le> n))"
proof (cases "pc_chunk_limits cfg")
  case None
  then show ?thesis using assms(1) by (simp add: outgoing_chunks_def)
next
  case (Some ls)
  with assms(3) have "limit_for ls ch = Some n \<Longrightarrow> n = 0 \<or> 4 \<le> n" for n by (simp add: workable_limit_def)
  with chunk_total [OF assms(2), of ls ch] Some show ?thesis
    by (auto simp: outgoing_chunks_def assms(1))
qed

subsection \<open>A small gateway\<close>

definition demo_config :: pipeline_config where
  "demo_config = \<lparr>pc_rate_limit = Some \<lparr>rl_enabled = True, rl_messages_per_window = 1, rl_window_seconds = 60\<rparr>,
     pc_dedup = True, pc_chunk_limits = Some [(''sms'', 6)], pc_format = True, pc_auto_route = True,
     pc_summarization = None, pc_audit = True, pc_approvals = True\<rparr>"

definition demo_gateway :: "(string \<Rightarrow> (nat \<times> nat) option) \<Rightarrow> registry \<Rightarrow> gateway" where
  "demo_gateway limits r = \<lparr>gw_memory = new_store 10, gw_summaries = [], gw_prefs = (\<lambda>_. None), gw_stats = new_stats,
     gw_limits = limits, gw_dedup = new_deduplicator 5, gw_registry = r, gw_audit = [], gw_sends = [],
     gw_prompts = []\<rparr>"

definition demo_surroundings :: surroundings where
  "demo_surroundings = \<lparr>en_channels = [''sms''], en_deliver = (\<lambda>_ _. Ok ()), en_stamp = (\<lambda>n. (show_nat n, n)),
     en_model = (\<lambda>_. Ok ''hello there''), en_sha256 = (\<lambda>s. s), en_ulc = (\<lambda>s. s), en_now = 5,
     en_readings = (5, 5, 5)\<rparr>"

definition demo_message :: "string \<Rightarrow> message" where
  "demo_message content = new_message (''id'', 0) ''sms'' ''u'' ''Ann'' content"

definition quiet_registry :: registry where
  "quiet_registry = \<lparr>rg_pending = [], rg_channels = [], rg_log = [], rg_audit = False\<rparr>"

lemmas demo_simps = demo_config_def demo_gateway_def demo_surroundings_def demo_message_def quiet_registry_def
  new_message_def

lemma demo_not_duplicate:
  "is_duplicate demo_config demo_surroundings False (demo_message c) (demo_gateway l r)
     = (False, (demo_gateway l r)\<lparr>gw_dedup := \<lparr>dd_window = [''u:'' @ c], dd_capacity = 5\<rparr>\<rparr>)"
  by (simp add: is_duplicate_def seen_def message_key_def new_deduplicator_def demo_simps)


lemma demo_over_limit:
  "within_rate demo_config demo_surroundings (demo_message c)
     (audited demo_config ev ((demo_gateway [''u'' \<mapsto> (2, 0)] r)\<lparr>gw_dedup := d\<rparr>))
     = (False, audited demo_config ev ((demo_gateway [''u'' \<mapsto> (2, 0)] r)\<lparr>gw_dedup := d\<rparr>))"
  by (simp add: within_rate_def check_and_record_def rate_window_def audited_def demo_simps)

lemma demo_denied:
  "\<exists>g'. handle_awaited demo_config demo_surroundings False (demo_message ''hi'') (demo_gateway [''u'' \<mapsto> (2, 0)] r)
     = Some (Ok (), g')"
  by (simp add: handle_awaited_def demo_not_duplicate limit_and_answer_def demo_over_limit)

subsection \<open>Properties\<close>

lemma approval_reply_handled:
  assumes "awaiting_approval cfg m g"
    and "submit_reply (en_ulc e) (en_now e) (ms_user_id m) (ms_channel_id m) (ms_content m) (gw_registry g)
      = (outcome, r)"
    and "outcome \<noteq> NothingPending"
  shows "\<exists>g1. behind g1 = behind (g\<lparr>gw_registry := r, gw_audit := gw_audit g1\<rparr>)
    \<and> gw_sends g1 = gw_sends g
    \<and> handle_message cfg e m g = (case outcome of
        Settled _ _ \<Rightarrow> Some (Ok (), g1)
      | _ \<Rightarrow> send_text cfg e (ms_channel_id m) render_clarification g1)
    \<and> (\<forall>res g'. handle_message cfg e m g = Some (res, g') \<longrightarrow>
         behind g' = behind g1 \<and> sent_on ({ms_channel_id m} \<inter> set (en_channels e)) g g')"
proof -
  let ?g1 = "(audited cfg (MessageReceived (ms_user_id m) (ms_channel_id m) (length (ms_content m))) g)
    \<lparr>gw_registry := r\<rparr>"
  have h: "handle_message cfg e m g = (case outcome of
        Settled _ _ \<Rightarrow> Some (Ok (), ?g1)
      | _ \<Rightarrow> send_text cfg e (ms_channel_id m) render_clarification ?g1)"
    using assms
    by (auto simp: handle_message_def handle_awaited_def is_duplicate_def Let_def split: reply_outcome.splits)
  have b: "behind ?g1 = behind (g\<lparr>gw_registry := r, gw_audit := gw_audit ?g1\<rparr>)" "gw_sends ?g1 = gw_sends g"
    by (simp_all add: behind_def)
  have "behind g' = behind ?g1 \<and> sent_on ({ms_channel_id m} \<inter> set (en_channels e)) g g'"
    if "handle_message cfg e m g = Some (res, g')" for res g'
    using that assms(3) send_text_frame [of cfg e "ms_channel_id m" render_clarification ?g1 res g'] b(2)
    by (cases outcome) (auto simp: h sent_on_def)
  with h b show ?thesis by blast
qed



text \<open>So a flood of replies that are not understood is answered one by one, past both filters.\<close>

lemma unrecognised_replies_bypass_the_limiter:
  assumes "awaiting_approval cfg m g" and "handle_message cfg e m g = Some (res, g')"
    and "submit_reply (en_ulc e) (en_now e) (ms_user_id m) (ms_channel_id m) (ms_content m) (gw_registry g)
      = (NeedsClarification rid, r)"
  shows "gw_limits g' = gw_limits g" and "gw_dedup g' = gw_dedup g" and "awaiting_approval cfg m g'"
proof -
  have r: "r = gw_registry g" using submit_reply_cases [OF assms(3)] by auto
  from approval_reply_handled [OF assms(1,3)] assms(2)
  obtain g1 where "behind g1 = behind (g\<lparr>gw_registry := r, gw_audit := gw_audit g1\<rparr>)" "behind g' = behind g1"
    by auto
  then show "gw_limits g' = gw_limits g" "gw_dedup g' = gw_dedup g" "awaiting_approval cfg m g'"
    using r assms(1) by (simp_all add: behind_def awaiting_approval_def)
qed

text \<open>A message that hit the rate limit cannot be sent again. The duplicate filter has
  recorded it before the limiter turned it away, so while it is remembered the same text is
  dropped without an answer, although the sender was told to wait and try again.\<close>

theorem message_over_the_limit_is_a_duplicate_later:
  assumes "pc_dedup cfg" and "handle_awaited cfg e False m g = Some (res, g')"
    and "is_duplicate cfg e False m g = (False, g1)"
    and "\<not> fst (within_rate cfg e m (audited cfg (MessageReceived (ms_user_id m) (ms_channel_id m)
           (length (ms_content m))) g1))"
    and "ms_user_id m' = ms_user_id m" and "ms_content m' = ms_content m" and "en_sha256 e' = en_sha256 e"
  shows "gw_prompts g' = gw_prompts g \<and> handle_awaited cfg e' False m' g' = Some (Ok (), g')"
proof -
  let ?key = "message_key (en_sha256 e) (ms_user_id m) (ms_content m)"
  let ?g2 = "audited cfg (MessageReceived (ms_user_id m) (ms_channel_id m) (length (ms_content m))) g1"
  obtain g3 where g3: "within_rate cfg e m ?g2 = (False, g3)" using assms(4) by (metis (full_types) surjective_pairing)
  have g': "g' = deny cfg e m g3"
    using assms(2,3) g3 by (simp add: handle_awaited_def limit_and_answer_def Let_def)
  have key: "?key \<in> set (dd_window (gw_dedup g1))" "gw_prompts g1 = gw_prompts g"
    using assms(1,3) by (auto simp: is_duplicate_def seen_def Let_def split: prod.splits if_splits)
  have g3_eq: "gw_dedup g3 = gw_dedup g1" "gw_prompts g3 = gw_prompts g1"
    using within_rate_frame(1,2) [OF g3] by simp_all
  have "?key \<in> set (dd_window (gw_dedup g'))" "gw_prompts g' = gw_prompts g"
    using key g3_eq by (simp_all add: g' deny_frame)
  then show ?thesis
    using assms(1,5-7) by (simp add: handle_awaited_def is_duplicate_def seen_def Let_def)
qed

lemma message_over_the_limit_is_a_duplicate_later_witness:
  "\<exists>g'. handle_awaited demo_config demo_surroundings False (demo_message ''hi'') (demo_gateway [''u'' \<mapsto> (2, 0)] quiet_registry)
      = Some (Ok (), g')
    \<and> handle_awaited demo_config demo_surroundings False (demo_message ''hi'') g' = Some (Ok (), g')"
proof -
  obtain g' where g': "handle_awaited demo_config demo_surroundings False (demo_message ''hi'')
      (demo_gateway [''u'' \<mapsto> (2, 0)] quiet_registry) = Some (Ok (), g')"
    using demo_denied by blast
  have "\<not> fst (within_rate demo_config demo_surroundings (demo_message ''hi'')
      (audited demo_config ev ((demo_gateway [''u'' \<mapsto> (2, 0)] quiet_registry)
        \<lparr>gw_dedup := \<lparr>dd_window = [''u:'' @ ''hi''], dd_capacity = 5\<rparr>\<rparr>)))" for ev
    by (simp add: demo_over_limit)
  from message_over_the_limit_is_a_duplicate_later [OF _ g' demo_not_duplicate this refl refl refl] g'
  show ?thesis by (auto simp: demo_config_def)
qed

lemma handled_own_effects:
  assumes "handle_awaited cfg e awaiting m g = Some (res, g')"
  shows "own_effects cfg e m g g'"
proof -
  obtain dup g1 where d: "is_duplicate cfg e awaiting m g = (dup, g1)" by force
  note fd = is_duplicate_frame [OF d]
  let ?g2 = "audited cfg (MessageReceived (ms_user_id m) (ms_channel_id m) (length (ms_content m))) g1"
  have same: "own_effects cfg e m (?g2\<lparr>gw_registry := r\<rparr>) g' = own_effects cfg e m g g'"
    "own_effects cfg e m ?g2 g' = own_effects cfg e m g g'" for r g'
    by (rule own_effects_same; simp add: fd)+
  consider "dup" | "\<not> dup" "\<not> awaiting" | "\<not> dup" awaiting by blast
  then show ?thesis
  proof cases
    case 1
    then have "g' = g1" using assms d by (simp add: handle_awaited_def)
    then show ?thesis using own_effects_same [of g1 g cfg e m g1] own_effects_refl fd by simp
  next
    case 2
    then show ?thesis using assms d limit_and_answer_own [of cfg e m ?g2 res g'] same by (simp add: handle_awaited_def)
  next
    case 3
    obtain outcome r where o: "submit_reply (en_ulc e) (en_now e) (ms_user_id m) (ms_channel_id m)
        (ms_content m) (gw_registry ?g2) = (outcome, r)" by force
    let ?g3 = "?g2\<lparr>gw_registry := r\<rparr>"
    have run: "handle_awaited cfg e awaiting m g = (case outcome of
          Settled _ _ \<Rightarrow> Some (Ok (), ?g3)
        | NeedsClarification _ \<Rightarrow> send_text cfg e (ms_channel_id m) render_clarification ?g3
        | NothingPending \<Rightarrow> limit_and_answer cfg e m ?g3)"
      using 3 d o by (simp add: handle_awaited_def Let_def)
    have "own_effects cfg e m ?g3 g'"
    proof (cases outcome)
      case (Settled rid dec)
      then show ?thesis using assms run own_effects_refl by simp
    next
      case (NeedsClarification rid)
      then have "send_text cfg e (ms_channel_id m) render_clarification ?g3 = Some (res, g')"
        using assms run by simp
      from send_text_frame [OF this] show ?thesis by (auto simp: own_effects_def behind_def sent_on_def)
    next
      case NothingPending
      then show ?thesis using assms run limit_and_answer_own by simp
    qed
    then show ?thesis by (simp only: same)
  qed
qed

text \<open>C32: One sender's message touches no one else. Whatever happens to it, other users'
  histories and rate windows stay as they are, no one's preferences change, at most one
  prompt is put to the model, for its sender and with its text, and everything sent is signed
  by the gateway and goes to the channel it came from or to the one its sender's answers are
  routed to, and only if that channel is registered.\<close>

theorem message_touches_only_its_sender:
  assumes "handle_awaited cfg e awaiting m g = Some (res, g')"
  shows "own_effects cfg e m g g'"
  using assms by (rule handled_own_effects)

lemma message_touches_only_its_sender_witness:
  "\<exists>g'. handle_awaited demo_config demo_surroundings False (demo_message ''hi'') (demo_gateway [''u'' \<mapsto> (2, 0)] quiet_registry)
      = Some (Ok (), g')
    \<and> own_effects demo_config demo_surroundings (demo_message ''hi'') (demo_gateway [''u'' \<mapsto> (2, 0)] quiet_registry) g'"
proof -
  obtain g' where g': "handle_awaited demo_config demo_surroundings False (demo_message ''hi'')
      (demo_gateway [''u'' \<mapsto> (2, 0)] quiet_registry) = Some (Ok (), g')"
    using demo_denied by blast
  with message_touches_only_its_sender [OF g'] show ?thesis by blast
qed

text \<open>C34: An ordinary message is answered in full. When it is no duplicate and within its rate,
  and the channels deliver, the model is asked exactly once, with the message's text; its
  answer reaches the response channel as pieces that together show all the visible
  characters of the formatted answer, none longer than the channel's limit, in order;
  and the sender's history gains the message and the answer.\<close>

theorem ordinary_message_is_answered:
  assumes "is_duplicate cfg e False m g = (False, g1)"
    and "within_rate cfg e m (audited cfg (MessageReceived (ms_user_id m) (ms_channel_id m)
           (length (ms_content m))) g1) = (True, g2)"
    and "en_model e (gw_prompts g @ [(ms_user_id m, routed_content cfg m)]) = Inr answer"
    and "\<And>n x. en_deliver e n x = Ok ()" and "response_channel g m \<in> set (en_channels e)"
    and "formatted = format_response (pc_format cfg) answer (response_channel g m)" and "valid_utf8 formatted"
    and "workable_limit cfg (response_channel g m)"
  shows "\<exists>g' pieces. handle_awaited cfg e False m g = Some (Ok (), g')
    \<and> gw_prompts g' = gw_prompts g @ [(ms_user_id m, routed_content cfg m)]
    \<and> gw_memory g' = add_message (ms_user_id m) (''Assistant: '' @ answer)
         (add_message (ms_user_id m) (''User: '' @ routed_content cfg m) (gw_memory g))
    \<and> gw_sends g' = gw_sends g @ pieces
    \<and> (\<forall>x \<in> set pieces. snd x \<and> ms_channel_id (fst x) = response_channel g m)
    \<and> concat (map (\<lambda>x. visible (ms_content (fst x))) pieces) = visible formatted
    \<and> (\<forall>ls n. pc_chunk_limits cfg = Some ls \<and> limit_for ls (response_channel g m) = Some n \<and> n \<noteq> 0
         \<longrightarrow> (\<forall>x \<in> set pieces. length (ms_content (fst x)) \<le> n))"
proof -
  note fd = is_duplicate_frame [OF assms(1)] and fr = within_rate_frame [OF assms(2)]
  let ?ch = "response_channel g m"
  have ch: "response_channel g2 m = ?ch"
    by (simp add: response_channel_def fr(4) fd(4) split: option.split)
  obtain ans g4 where 4: "answer_message cfg e m g2 = send_text cfg e (response_channel g2 m) ans g4"
    and ans: "ans = (case en_model e (gw_prompts g2 @ [(ms_user_id m, routed_content cfg m)]) of
       Inr a \<Rightarrow> a | Inl _ \<Rightarrow> trouble_text)"
    and g4: "gw_prompts g4 = gw_prompts g2 @ [(ms_user_id m, routed_content cfg m)]"
      "gw_memory g4 = add_message (ms_user_id m) (''Assistant: '' @ ans)
         (add_message (ms_user_id m) (''User: '' @ routed_content cfg m) (gw_memory g2))"
      "gw_sends g4 = gw_sends g2"
    by (rule answer_message_cases)
  have a: "ans = answer" using ans fr fd assms(3) by simp
  obtain cs where cs: "outgoing_chunks cfg ?ch answer = Some cs" "concat (map visible cs) = visible formatted"
    "\<And>ls n. pc_chunk_limits cfg = Some ls \<Longrightarrow> limit_for ls ?ch = Some n \<Longrightarrow> n \<noteq> 0 \<Longrightarrow> \<forall>c \<in> set cs. length c \<le> n"
    using outgoing_chunks_total [OF assms(6-8)] by blast
  obtain g' pieces where s: "send_chunks e ?ch cs g4 = (Ok (), g')" "gw_sends g' = gw_sends g4 @ pieces"
    "map (\<lambda>x. ms_content (fst x)) pieces = cs" "\<forall>x \<in> set pieces. snd x \<and> ms_channel_id (fst x) = ?ch"
    using send_chunks_delivers [OF assms(4)] by blast
  have "handle_awaited cfg e False m g = Some (Ok (), g')"
    using assms(1,2,5) 4 cs(1) s(1)
    by (simp add: handle_awaited_def limit_and_answer_def send_text_def ch a)
  moreover have "concat (map (\<lambda>x. visible (ms_content (fst x))) pieces) = visible formatted"
    using cs(2) by (simp add: s(3) [symmetric] comp_def)
  moreover have "\<forall>x \<in> set pieces. length (ms_content (fst x)) \<le> n"
    if "pc_chunk_limits cfg = Some ls" "limit_for ls ?ch = Some n" "n \<noteq> 0" for ls n
    using cs(3) [OF that] by (auto simp: s(3) [symmetric])
  ultimately show ?thesis
    using send_chunks_frame [OF s(1)] s(2,4) g4 fr fd a by (auto simp: behind_def)
qed

lemma ordinary_message_is_answered_witness:
  "\<exists>g' pieces. handle_awaited demo_config demo_surroundings False (demo_message ''hi'')
        (demo_gateway Map.empty quiet_registry) = Some (Ok (), g')
    \<and> gw_sends g' = pieces
    \<and> concat (map (\<lambda>x. visible (ms_content (fst x))) pieces) = visible ''hello there''
    \<and> list_all (\<lambda>x. length (ms_content (fst x)) \<le> 6) pieces"
proof -
  let ?g = "demo_gateway Map.empty quiet_registry" and ?m = "demo_message ''hi''"
  let ?g1 = "?g\<lparr>gw_dedup := \<lparr>dd_window = [''u:'' @ ''hi''], dd_capacity = 5\<rparr>\<rparr>"
  let ?ev = "MessageReceived (ms_user_id ?m) (ms_channel_id ?m) (length (ms_content ?m))"
  obtain g2 where g2: "within_rate demo_config demo_surroundings ?m (audited demo_config ?ev ?g1) = (True, g2)"
    by (simp add: within_rate_def check_and_record_def rate_window_def audited_def demo_simps Let_def)
  have ch: "response_channel ?g ?m = ''sms''"
    by (simp add: response_channel_def prefs_get_def demo_simps)
  have "valid_utf8 ''hello there''" "format_response True ''hello there'' ''sms'' = ''hello there''"
    "limit_for [(''sms'', 6)] ''sms'' = Some 6" by code_simp+
  moreover have "pc_format demo_config = True" "pc_chunk_limits demo_config = Some [(''sms'', 6)]"
    "en_model demo_surroundings ps = Ok ''hello there''" "en_deliver demo_surroundings n x = Ok ()"
    "en_channels demo_surroundings = [''sms'']" "gw_sends ?g = []" for n x ps
    by (simp_all add: demo_config_def demo_surroundings_def demo_gateway_def)
  ultimately show ?thesis
    using ordinary_message_is_answered [OF demo_not_duplicate g2, of "''hello there''" "''hello there''"]
    by (fastforce simp: ch workable_limit_def list_all_iff)
qed

end
