(* ===== verification/Channels.thy ===== *)
theory Channels
  imports Messages Tool_Result "HOL-Library.Multiset"
begin

section \<open>Channel adapters (\<open>src/channels\<close>)\<close>

text \<open>
  What each chat platform sends the gateway and what the gateway sends back: the payloads as
  serde decodes them, the signature checks, the messages made of them, and the request each
  adapter makes for an outgoing message. The HMAC, the lossy decoding of bytes that are no
  text, the JSONPath finder and the network are parameters. The loops that keep
  an adapter connected are in \<open>Adapters\<close>.
\<close>

subsection \<open>Signed webhooks\<close>

text \<open>What a provider that signs its requests and a handler that checks them agree on.\<close>

locale signature_scheme =
  fixes sign :: "'k \<Rightarrow> 'b \<Rightarrow> string" and verify :: "'k \<Rightarrow> 'b \<Rightarrow> string \<Rightarrow> string + unit"
  assumes verify_iff: "is_ok (verify k b s) \<longleftrightarrow> s = sign k b"
begin

lemma signed_accepted: "is_ok (verify k b (sign k b))"
  by (simp add: verify_iff)

lemma one_signature: "is_ok (verify k b s) \<Longrightarrow> is_ok (verify k b t) \<Longrightarrow> s = t"
  by (simp add: verify_iff)

lemma other_key_rejected: "sign k b \<noteq> sign k' b \<Longrightarrow> \<not> is_ok (verify k b (sign k' b))"
  by (simp add: verify_iff)

lemma other_body_rejected: "sign k b \<noteq> sign k b' \<Longrightarrow> \<not> is_ok (verify k b (sign k b'))"
  by (simp add: verify_iff)

end

text \<open>Slack signs a version, a timestamp and the body.\<close>

definition slack_base :: "(string \<Rightarrow> string) \<Rightarrow> string \<Rightarrow> string \<Rightarrow> string" where
  "slack_base utf8_lossy timestamp body = ''v0:'' @ timestamp @ '':'' @ utf8_lossy body"

definition verify_slack_signature ::
    "(string \<Rightarrow> string \<Rightarrow> string) \<Rightarrow> (string \<Rightarrow> string) \<Rightarrow> string \<Rightarrow> string \<Rightarrow> string \<Rightarrow> string \<Rightarrow> string + unit" where
  "verify_slack_signature hmac_hex utf8_lossy secret timestamp body signature =
     (if ''v0='' @ hmac_hex secret (slack_base utf8_lossy timestamp body) \<noteq> signature
      then Err ''Slack signature mismatch'' else Ok ())"

text \<open>Teams puts the signature into the authorization header; an empty secret accepts everything.\<close>

definition verify_teams_signature ::
    "(string \<Rightarrow> string \<Rightarrow> string) \<Rightarrow> string \<Rightarrow> string \<Rightarrow> string \<Rightarrow> string + unit" where
  "verify_teams_signature hmac_hex secret body authorization =
     (if secret = [] then Ok ()
      else case strip_prefix ''HMAC '' authorization of
        None \<Rightarrow> Err ''Teams: Authorization header is not HMAC scheme''
      | Some provided \<Rightarrow>
          if hmac_hex secret body \<noteq> provided then Err ''Teams: HMAC signature mismatch'' else Ok ())"

definition verify_webhook_signature ::
    "(string \<Rightarrow> string \<Rightarrow> string) \<Rightarrow> string \<Rightarrow> string \<Rightarrow> string \<Rightarrow> string + unit" where
  "verify_webhook_signature hmac_hex secret body signature =
     (if hmac_hex secret body \<noteq> signature then Err ''Webhook signature verification failed'' else Ok ())"

text \<open>Twilio signs the address it posted to and the form, sorted by field name.\<close>

definition twilio_base :: "string \<Rightarrow> (string \<times> string) list \<Rightarrow> string" where
  "twilio_base url params = url @ concat (map (\<lambda>(k, v). k @ v) (sort_key fst params))"

definition verify_twilio_signature ::
    "(string \<Rightarrow> string \<Rightarrow> string) \<Rightarrow> string \<Rightarrow> (string \<times> string) list \<Rightarrow> string \<Rightarrow> string \<Rightarrow> string + unit" where
  "verify_twilio_signature hmac_b64 url params signature auth_token =
     (if hmac_b64 auth_token (twilio_base url params) \<noteq> signature
      then Err ''Twilio signature verification failed'' else Ok ())"

interpretation slack_signing: signature_scheme
    "\<lambda>secret (timestamp, body). ''v0='' @ hmac_hex secret (slack_base utf8_lossy timestamp body)"
    "\<lambda>secret (timestamp, body). verify_slack_signature hmac_hex utf8_lossy secret timestamp body"
  for hmac_hex utf8_lossy
  by unfold_locales (auto simp: verify_slack_signature_def split: if_splits)

interpretation webhook_signing: signature_scheme hmac_hex "verify_webhook_signature hmac_hex" for hmac_hex
  by unfold_locales (auto simp: verify_webhook_signature_def split: if_splits)

interpretation twilio_signing: signature_scheme
    "\<lambda>auth_token (url, params). hmac_b64 auth_token (twilio_base url params)"
    "\<lambda>auth_token (url, params) signature. verify_twilio_signature hmac_b64 url params signature auth_token"
  for hmac_b64
  by unfold_locales (auto simp: verify_twilio_signature_def split: if_splits)

lemma strip_prefix_Some: "strip_prefix p s = Some t \<longleftrightarrow> s = p @ t"
proof
  assume "strip_prefix p s = Some t"
  then have "take (length p) s = p" "t = drop (length p) s"
    by (auto simp: strip_prefix_def starts_with_def split: if_splits)
  then show "s = p @ t" by (metis append_take_drop_id)
qed (simp add: strip_prefix_def starts_with_def)

lemma strip_prefix_None: "strip_prefix p s = None \<longleftrightarrow> (\<forall>t. s \<noteq> p @ t)"
  using strip_prefix_Some [of p s] by (metis not_None_eq)

lemma verify_teams_iff:
  assumes "secret \<noteq> []"
  shows "is_ok (verify_teams_signature hmac_hex secret body a) \<longleftrightarrow> a = ''HMAC '' @ hmac_hex secret body"
proof (cases "strip_prefix ''HMAC '' a")
  case None
  then show ?thesis using assms strip_prefix_None [of "''HMAC ''" a] by (simp add: verify_teams_signature_def)
next
  case (Some t)
  then show ?thesis using assms strip_prefix_Some [of "''HMAC ''" a t] by (auto simp: verify_teams_signature_def)
qed

text \<open>The sorted form does not depend on the order the fields arrive in, when no field is
  given twice.\<close>

lemma twilio_base_permuted:
  assumes "distinct (map fst ps)" and "mset ps = mset qs"
  shows "twilio_base url ps = twilio_base url qs"
proof -
  have "inj_on fst (set ps)" using assms(1) by (simp add: distinct_map)
  then have "sort_key fst ps = sort_key fst qs"
    using assms(2) by (intro sort_key_inj_key_eq) simp_all
  then show ?thesis by (simp add: twilio_base_def)
qed


subsection \<open>WhatsApp\<close>

record wa_contact =
  wc_name :: string
  wc_wa_id :: string

record wa_message =
  wm_from :: string
  wm_id :: string
  wm_timestamp :: string
  wm_type :: string
  wm_text :: "string option"

record wa_change =
  wg_contacts :: "wa_contact list option"
  wg_messages :: "wa_message list option"
  wg_field :: string

record wa_entry =
  we_id :: string
  we_changes :: "wa_change list"

record webhook_body =
  wb_object :: string
  wb_entry :: "wa_entry list"

text \<open>A payload can hold several messages; the \<open>n\<close>-th takes the \<open>n\<close>-th stamp.\<close>

definition wa_username :: "wa_change \<Rightarrow> wa_message \<Rightarrow> string" where
  "wa_username g w =
     (case Option.bind (wg_contacts g) (find (\<lambda>c. wc_wa_id c = wm_from w)) of
        Some c \<Rightarrow> wc_name c | None \<Rightarrow> wm_from w)"

definition wa_drafts :: "wa_change \<Rightarrow> (string \<times> string \<times> string) list" where
  "wa_drafts g =
     (if wg_field g \<noteq> ''messages'' then []
      else List.map_filter
        (\<lambda>w. if wm_type w \<noteq> ''text'' then None
             else map_option (\<lambda>t. (wm_from w, wa_username g w, t)) (wm_text w))
        (case wg_messages g of None \<Rightarrow> [] | Some ws \<Rightarrow> ws))"

definition parse_webhook :: "(nat \<Rightarrow> stamp) \<Rightarrow> string \<Rightarrow> webhook_body \<Rightarrow> message list" where
  "parse_webhook st channel_id b =
     map (\<lambda>(n, from, username, t). new_message (st n) channel_id from username t)
       (enumerate 0 (concat (map (\<lambda>e. concat (map wa_drafts (we_changes e))) (wb_entry b))))"

subsection \<open>Telegram\<close>

record tg_user =
  tu_id :: int
  tu_first_name :: string
  tu_last_name :: "string option"
  tu_username :: "string option"

record tg_message =
  tm_from :: "tg_user option"
  tm_chat_id :: int
  tm_text :: "string option"

record tg_update =
  tg_update_id :: int
  tg_message :: "tg_message option"

definition tg_username :: "tg_user \<Rightarrow> string" where
  "tg_username u =
     (case tu_username u of
        Some n \<Rightarrow> n
      | None \<Rightarrow> tu_first_name u @ (case tu_last_name u of Some l \<Rightarrow> '' '' @ l | None \<Rightarrow> []))"

definition parse_update :: "stamp \<Rightarrow> tg_update \<Rightarrow> message option" where
  "parse_update st u =
     Option.bind (tg_message u) (\<lambda>m. Option.bind (tm_text m) (\<lambda>t.
       (let chat_id = show_int (tm_chat_id m)
        in Some (new_message st ''telegram-main'' chat_id
             (case tm_from m of Some f \<Rightarrow> tg_username f | None \<Rightarrow> chat_id) t))))"

text \<open>Long polling: a batch of updates, each decoded or not, moves the offset and passes the
  messages on.\<close>

record tg_poll =
  tp_offset :: int
  tp_queue :: "message list"

definition poll_update :: "(json \<Rightarrow> string + tg_update) \<Rightarrow> stamp \<Rightarrow> json \<Rightarrow> tg_poll \<Rightarrow> tg_poll" where
  "poll_update decode st v p =
     (case decode v of
        Inr u \<Rightarrow> p\<lparr>tp_offset := wrap_i64 (tg_update_id u + 1),
                  tp_queue := tp_queue p @ (case parse_update st u of Some m \<Rightarrow> [m] | None \<Rightarrow> [])\<rparr>
      | Inl _ \<Rightarrow> (case v of
          JObject fs \<Rightarrow> (case map_of fs ''update_id'' of Some (JInt i) \<Rightarrow> if in_i64 i then p\<lparr>tp_offset := wrap_i64 (i + 1)\<rparr> else p
                        | _ \<Rightarrow> p)
        | _ \<Rightarrow> p))"

definition poll_batch :: "(json \<Rightarrow> string + tg_update) \<Rightarrow> (nat \<Rightarrow> stamp) \<Rightarrow> json list \<Rightarrow> tg_poll \<Rightarrow> tg_poll" where
  "poll_batch decode st vs p = fold (\<lambda>(n, v). poll_update decode (st n) v) (enumerate 0 vs) p"

subsection \<open>Slack\<close>

datatype slack_event =
    SlackMessage (se_channel: string) (se_user: "string option") (se_text: "string option") (se_ts: string)
      (se_thread_ts: "string option") (se_bot_id: "string option")
  | SlackUnknown

datatype slack_payload = UrlVerification string | EventCallback slack_event string string

fun parse_event :: "stamp \<Rightarrow> slack_payload \<Rightarrow> message option" where
  "parse_event st (UrlVerification _) = None"
| "parse_event st (EventCallback SlackUnknown _ _) = None"
| "parse_event st (EventCallback (SlackMessage channel user t ts thread_ts bot_id) _ _) =
     (if bot_id \<noteq> None then None
      else Option.bind t (\<lambda>t. Option.bind user (\<lambda>u.
        Some ((new_message st channel u u t)
          \<lparr>ms_thread_id := Some (case thread_ts of Some x \<Rightarrow> x | None \<Rightarrow> ts)\<rparr>))))"

text \<open>Indexing a JSON value gives null where there is nothing.\<close>

fun jindex :: "json \<Rightarrow> string \<Rightarrow> json" where
  "jindex (JObject fs) k = (case map_of fs k of Some v \<Rightarrow> v | None \<Rightarrow> JNull)"
| "jindex _ k = JNull"

fun has_key :: "json \<Rightarrow> string \<Rightarrow> bool" where
  "has_key (JObject fs) k = (map_of fs k \<noteq> None)"
| "has_key _ k = False"

definition str_or :: "string \<Rightarrow> json \<Rightarrow> string" where
  "str_or d v = (case as_str v of Some s \<Rightarrow> s | None \<Rightarrow> d)"

definition parse_socket_event :: "stamp \<Rightarrow> json \<Rightarrow> string \<Rightarrow> message option" where
  "parse_socket_event st v channel_id =
     (let event = jindex (jindex v ''payload'') ''event'' in
      if as_str (jindex event ''type'') \<noteq> Some ''message'' \<or> has_key event ''bot_id'' then None
      else map_option
        (\<lambda>t. let u = str_or ''unknown'' (jindex event ''user'')
             in new_message st (str_or channel_id (jindex event ''channel'')) u u t)
        (as_str (jindex event ''text'')))"

text \<open>One text frame of Socket Mode: the acknowledgement sent, the message passed on, and whether
  to reconnect.\<close>

datatype frame_result = Frame (fr_ack: "json option") (fr_message: "message option") (fr_reconnect: bool)

definition socket_frame :: "(string \<Rightarrow> json option) \<Rightarrow> stamp \<Rightarrow> string \<Rightarrow> string \<Rightarrow> frame_result" where
  "socket_frame decode st channel_id t =
     (case decode t of
        None \<Rightarrow> Frame None None False
      | Some v \<Rightarrow>
         (let envelope = str_or [] (jindex v ''envelope_id'');
              kind = str_or [] (jindex v ''type'');
              ack = (if envelope \<noteq> [] then Some (JObject [(''envelope_id'', JString envelope)]) else None)
          in if kind = ''hello'' then Frame None None False
             else if kind = ''disconnect'' then Frame None None True
             else if kind = ''events_api'' then Frame ack (parse_socket_event st v channel_id) False
             else Frame ack None False))"


subsection \<open>SMS, generic webhooks and Teams\<close>

definition parse_sms_webhook :: "stamp \<Rightarrow> string \<Rightarrow> (string \<times> string) list \<Rightarrow> message option" where
  "parse_sms_webhook st channel_id form =
     Option.bind (map_of form ''From'') (\<lambda>from. Option.bind (map_of form ''Body'') (\<lambda>body.
       if body = [] then None else Some (new_message st channel_id from from body)))"

record webhook_endpoint =
  ep_path :: string
  ep_secret :: "string option"
  ep_user_id :: string
  ep_extract_text :: "string option"

text \<open>The text at a JSONPath if there is one, the body itself otherwise.\<close>

definition parse_webhook_body ::
    "(string \<Rightarrow> string \<Rightarrow> string option) \<Rightarrow> stamp \<Rightarrow> string \<Rightarrow> webhook_endpoint \<Rightarrow> string \<Rightarrow> message option" where
  "parse_webhook_body extract_jsonpath st channel_id ep body =
     Option.bind
       (case ep_extract_text ep of
          Some path \<Rightarrow> (case extract_jsonpath body path of Some t \<Rightarrow> Some t | None \<Rightarrow> from_utf8 body)
        | None \<Rightarrow> from_utf8 body)
       (\<lambda>t. if t = [] then None else Some (new_message st channel_id (ep_user_id ep) (ep_user_id ep) t))"

record teams_from =
  tf_id :: string
  tf_name :: string

record teams_activity =
  ta_type :: string
  ta_from :: "teams_from option"
  ta_text :: "string option"
  ta_service_url :: "string option"
  ta_conversation_id :: "string option"
  ta_id :: "string option"

definition or_empty :: "string option \<Rightarrow> string" where
  "or_empty x = (case x of Some s \<Rightarrow> s | None \<Rightarrow> [])"

text \<open>The metadata carry what a reply has to be addressed with.\<close>

definition parse_activity :: "stamp \<Rightarrow> string \<Rightarrow> teams_activity \<Rightarrow> message option" where
  "parse_activity st channel_id a =
     (if ta_type a \<noteq> ''message'' then None
      else Option.bind (map_option trim (ta_text a)) (\<lambda>t.
        if t = [] then None
        else map_option
          (\<lambda>f. (new_message st channel_id (tf_id f) (tf_name f) t)
             \<lparr>ms_metadata := JObject [(''service_url'', JString (or_empty (ta_service_url a))),
                (''conversation_id'', JString (or_empty (ta_conversation_id a))),
                (''activity_id'', JString (or_empty (ta_id a)))]\<rparr>)
          (ta_from a)))"

subsection \<open>Discord\<close>

record discord_message =
  dm_channel_id :: nat
  dm_author_id :: nat
  dm_author_name :: string
  dm_author_bot :: bool
  dm_content :: string

definition discord_inbound :: "stamp \<Rightarrow> discord_message \<Rightarrow> message option" where
  "discord_inbound st d =
     (if dm_author_bot d then None
      else Some (new_message st (show_nat (dm_channel_id d)) (show_nat (dm_author_id d)) (dm_author_name d)
             (dm_content d)))"

subsection \<open>Email\<close>

text \<open>The sender's address. The slice between the brackets panics when they are the wrong way
  round.\<close>

definition extract_email_address :: "string \<Rightarrow> string option option" where
  "extract_email_address from =
     (let plain = (let a = trim from in Some (if str_contains ''@'' a then Some a else None)) in
      case str_find ''<'' from of
        None \<Rightarrow> plain
      | Some i \<Rightarrow>
         (case str_find ''>'' from of
            None \<Rightarrow> plain
          | Some j \<Rightarrow> if j < i + 1 then None else Some (Some (take (j - (i + 1)) (drop (i + 1) from)))))"

definition strip_quoted_text :: "string \<Rightarrow> string" where
  "strip_quoted_text body =
     trim (join_with newline (filter (\<lambda>l. \<not> starts_with ''>'' l) (lines_of body)))"

text \<open>The outer option is the panic, the inner one a mail without a sender or a body.\<close>

definition header_from :: "(string \<Rightarrow> string) \<Rightarrow> (string \<Rightarrow> bool) \<Rightarrow> string \<Rightarrow> string option" where
  "header_from ulc alphabetic t =
     map_option (\<lambda>l. trim (trim_start_while (\<lambda>u. alphabetic u \<or> u = '':'') l))
       (find (\<lambda>l. starts_with ''from:'' (to_lowercase ulc l)) (lines_of t))"

definition mail_body :: "string \<Rightarrow> string" where
  "mail_body t =
     (let crlf = [CHR 0x0D, CHR 0x0A] in
      case (case split_once (crlf @ crlf) t of Some p \<Rightarrow> Some p | None \<Rightarrow> split_once (newline @ newline) t) of
        Some (_, b) \<Rightarrow> strip_quoted_text (trim b) | None \<Rightarrow> [])"

definition parse_email ::
    "(string \<Rightarrow> string) \<Rightarrow> (string \<Rightarrow> string) \<Rightarrow> (string \<Rightarrow> bool) \<Rightarrow> stamp \<Rightarrow> string \<Rightarrow> string
     \<Rightarrow> message option option" where
  "parse_email utf8_lossy ulc alphabetic st channel_id raw =
     (let t = utf8_lossy raw in
      case header_from ulc alphabetic t of
        None \<Rightarrow> Some None
      | Some from \<Rightarrow>
         (let body = mail_body t in
          if body = [] then Some None
          else case extract_email_address from of
            None \<Rightarrow> None
          | Some a \<Rightarrow> (let u = (case a of Some x \<Rightarrow> x | None \<Rightarrow> from)
                      in Some (Some (new_message st channel_id u u body)))))"

text \<open>A header without a space after the colon loses the name before the address.\<close>

lemma header_without_a_space_loses_the_name:
  "header_from (\<lambda>s. s) (\<lambda>u. u \<noteq> ''@'' \<and> u \<noteq> ''.'') ''From:alice@x.com'' = Some ''@x.com''"
  by code_simp

text \<open>One poll of the inbox. The server answers with mails and their numbers; the first number
  asked for is one above the last seen, but the range \<open>n:*\<close> always names the newest mail too.
  A parse that panics loses the whole batch. Nothing is lost otherwise.\<close>

record inbox =
  ib_last_uid :: nat
  ib_health :: channel_health
  ib_queue :: "message list"

fun parse_mails ::
    "(nat \<Rightarrow> string \<Rightarrow> message option option) \<Rightarrow> nat \<Rightarrow> (nat option \<times> string option) list
     \<Rightarrow> nat \<Rightarrow> message list \<Rightarrow> (message list \<times> nat) option" where
  "parse_mails parse last_uid [] max_uid ms = Some (ms, max_uid)"
| "parse_mails parse last_uid ((uid, body) # mails) max_uid ms =
     (let u = (case uid of Some x \<Rightarrow> x | None \<Rightarrow> 0);
          max_uid' = (if max_uid < u then u else max_uid)
      in if u \<le> last_uid then parse_mails parse last_uid mails max_uid' ms
         else case body of
           None \<Rightarrow> parse_mails parse last_uid mails max_uid' ms
         | Some raw \<Rightarrow>
            (case parse u raw of
               None \<Rightarrow> None
             | Some None \<Rightarrow> parse_mails parse last_uid mails max_uid' ms
             | Some (Some m) \<Rightarrow> parse_mails parse last_uid mails max_uid' (ms @ [m])))"

definition poll_inbox ::
    "(nat \<Rightarrow> string \<Rightarrow> message option option) \<Rightarrow> (nat \<Rightarrow> string + (nat option \<times> string option) list)
     \<Rightarrow> inbox \<Rightarrow> inbox" where
  "poll_inbox parse server ib =
     (case server (ib_last_uid ib) of
        Inl e \<Rightarrow> ib\<lparr>ib_health := Healthy\<rparr>
      | Inr mails \<Rightarrow>
         (case parse_mails parse (ib_last_uid ib) mails (ib_last_uid ib) [] of
            None \<Rightarrow> ib
          | Some (ms, new_last) \<Rightarrow>
              ib\<lparr>ib_queue := ib_queue ib @ ms,
                 ib_last_uid := (if ib_last_uid ib < new_last then new_last else ib_last_uid ib)\<rparr>))"


subsection \<open>Sending\<close>

text \<open>What leaves the process: an HTTP request with its credentials and body, or a mail handed to
  the SMTP relay.\<close>

datatype credentials = NoCredentials | Bearer string | Basic string string

datatype payload = Json json | Form "(string \<times> string) list"

datatype outgoing =
    HttpPost (og_url: string) (og_credentials: credentials) (og_payload: payload)
  | Mail (og_from: string) (og_to: string) (og_body: string)
  | Broadcast (og_session: string) (og_frame: json)
  | Captured message

record http_reply =
  hr_success :: bool
  hr_status :: string
  hr_text :: string
  hr_json :: "string + json"

record net =
  nt_post :: "outgoing \<Rightarrow> string + http_reply"
  nt_mail :: "outgoing \<Rightarrow> string + unit"

text \<open>Posting, with the two prefixes of the error texts.\<close>

definition post :: "net \<Rightarrow> string \<Rightarrow> string \<Rightarrow> outgoing \<Rightarrow> string + http_reply" where
  "post nw failed refused r =
     (case nt_post nw r of
        Inl e \<Rightarrow> Err (failed @ '': '' @ e)
      | Inr p \<Rightarrow> if \<not> hr_success p then Err (refused @ '' '' @ hr_status p @ '': '' @ hr_text p) else Ok p)"

definition whatsapp_request :: "string \<Rightarrow> string \<Rightarrow> message \<Rightarrow> outgoing" where
  "whatsapp_request phone_number_id access_token m =
     HttpPost (''https://graph.facebook.com/v18.0/'' @ phone_number_id @ ''/messages'') (Bearer access_token)
       (Json (JObject [(''messaging_product'', JString ''whatsapp''), (''to'', JString (ms_user_id m)),
         (''type'', JString ''text''), (''text'', JObject [(''body'', JString (ms_content m))])]))"

definition telegram_request :: "string \<Rightarrow> message \<Rightarrow> string + outgoing" where
  "telegram_request bot_token m =
     (case parse_i64 (ms_user_id m) of
        None \<Rightarrow> Err (''Invalid Telegram chat_id: '' @ ms_user_id m)
      | Some chat_id \<Rightarrow> Ok (HttpPost (''https://api.telegram.org/bot'' @ bot_token @ ''/sendMessage'') NoCredentials
          (Json (JObject [(''chat_id'', JInt chat_id), (''text'', JString (ms_content m)),
            (''parse_mode'', JString ''Markdown'')]))))"

definition slack_request :: "string \<Rightarrow> message \<Rightarrow> outgoing" where
  "slack_request bot_token m =
     HttpPost ''https://slack.com/api/chat.postMessage'' (Bearer bot_token)
       (Json (JObject [(''channel'', JString (ms_channel_id m)), (''text'', JString (ms_content m))]))"

definition sms_request :: "string \<Rightarrow> string \<Rightarrow> string \<Rightarrow> message \<Rightarrow> outgoing" where
  "sms_request account_sid auth_token from_number m =
     HttpPost (''https://api.twilio.com/2010-04-01/Accounts/'' @ account_sid @ ''/Messages.json'')
       (Basic account_sid auth_token)
       (Form [(''To'', ms_user_id m), (''From'', from_number), (''Body'', ms_content m)])"

definition email_request :: "string \<Rightarrow> message \<Rightarrow> outgoing option" where
  "email_request from_address m =
     (if str_contains ''@'' (ms_user_id m) then Some (Mail from_address (ms_user_id m) (ms_content m)) else None)"

text \<open>Teams replies to where the metadata of the message point.\<close>

definition teams_request :: "string \<Rightarrow> message \<Rightarrow> outgoing option" where
  "teams_request token m =
     (let md = ms_metadata m; service_url = str_or [] (jindex md ''service_url'') in
      if service_url = [] then None
      else Some (HttpPost (trim_end_matches [''/''] service_url @ ''/v3/conversations/''
                 @ str_or [] (jindex md ''conversation_id'') @ ''/activities/'' @ str_or [] (jindex md ''activity_id''))
             (Bearer token) (Json (JObject [(''type'', JString ''message''), (''text'', JString (ms_content m))]))))"

definition webchat_session :: "message \<Rightarrow> string" where
  "webchat_session m =
     (case strip_prefix ''webchat-'' (ms_channel_id m) of Some s \<Rightarrow> s | None \<Rightarrow> ms_channel_id m)"

definition webchat_request :: "string set \<Rightarrow> message \<Rightarrow> outgoing option" where
  "webchat_request sessions m =
     (if webchat_session m \<in> sessions
      then Some (Broadcast (webchat_session m) (JObject [(''type'', JString ''message''),
             (''from'', JString (ms_username m)), (''content'', JString (ms_content m))]))
      else None)"

text \<open>The adapters a gateway can hold, with the part of their configuration and state a send
  reads. Discord's client is taken out of its cell by the task that runs it, which keeps the
  cell locked: a send waits for as long as the client runs.\<close>

datatype adapter_config =
    DiscordCh bool
  | WhatsAppCh string string
  | TelegramCh string
  | SlackCh string
  | SlackSocketCh string
  | SmsCh string string string
  | WebhookCh
  | WebchatCh "string set"
  | EmailCh string
  | TeamsCh "string + string"
  | TestCh

text \<open>The request an adapter makes for a message, if it gets that far.\<close>

fun request_of :: "adapter_config \<Rightarrow> message \<Rightarrow> outgoing option" where
  "request_of (DiscordCh _) m = None"
| "request_of (WhatsAppCh p t) m = Some (whatsapp_request p t m)"
| "request_of (TelegramCh t) m = (case telegram_request t m of Inr r \<Rightarrow> Some r | Inl _ \<Rightarrow> None)"
| "request_of (SlackCh t) m = Some (slack_request t m)"
| "request_of (SlackSocketCh t) m = Some (slack_request t m)"
| "request_of (SmsCh a k n) m = Some (sms_request a k n m)"
| "request_of WebhookCh m = None"
| "request_of (WebchatCh ss) m = webchat_request ss m"
| "request_of (EmailCh a) m = email_request a m"
| "request_of (TeamsCh token) m = (case token of Inr t \<Rightarrow> teams_request t m | Inl _ \<Rightarrow> None)"
| "request_of TestCh m = Some (Captured m)"

definition whatsapp_send :: "net \<Rightarrow> string \<Rightarrow> string \<Rightarrow> message \<Rightarrow> string + unit" where
  "whatsapp_send nw p t m =
     try_bind (post nw ''WhatsApp send failed'' ''WhatsApp API returned'' (whatsapp_request p t m)) (\<lambda>_. Ok ())"

definition telegram_send :: "net \<Rightarrow> string \<Rightarrow> message \<Rightarrow> string + unit" where
  "telegram_send nw t m =
     try_bind (telegram_request t m) (\<lambda>r.
       try_bind (post nw ''Telegram send failed'' ''Telegram API returned'' r) (\<lambda>_. Ok ()))"

definition slack_send :: "net \<Rightarrow> string \<Rightarrow> message \<Rightarrow> string + unit" where
  "slack_send nw t m =
     try_bind (post nw ''Slack send failed'' ''Slack API returned'' (slack_request t m)) (\<lambda>p.
       try_bind (case hr_json p of Inl e \<Rightarrow> Err (''Slack response parse error: '' @ e) | Inr j \<Rightarrow> Ok j) (\<lambda>j.
         if jindex j ''ok'' \<noteq> JBool True
         then Err (''Slack chat.postMessage failed: '' @ str_or ''unknown'' (jindex j ''error'')) else Ok ()))"

definition slack_socket_send :: "net \<Rightarrow> string \<Rightarrow> message \<Rightarrow> string + unit" where
  "slack_socket_send nw t m =
     try_bind (post nw ''Slack send error'' ''Slack API error'' (slack_request t m)) (\<lambda>_. Ok ())"

definition sms_send :: "net \<Rightarrow> string \<Rightarrow> string \<Rightarrow> string \<Rightarrow> message \<Rightarrow> string + unit" where
  "sms_send nw a k n m =
     try_bind (post nw ''Twilio send error'' ''Twilio API error'' (sms_request a k n m)) (\<lambda>_. Ok ())"

definition email_send :: "net \<Rightarrow> string \<Rightarrow> message \<Rightarrow> string + unit" where
  "email_send nw a m = (case email_request a m of None \<Rightarrow> Ok () | Some r \<Rightarrow> nt_mail nw r)"

text \<open>A refused Teams reply is only logged.\<close>

definition teams_send :: "net \<Rightarrow> string + string \<Rightarrow> message \<Rightarrow> string + unit" where
  "teams_send nw token m =
     (if str_or [] (jindex (ms_metadata m) ''service_url'') = [] then Ok ()
      else try_bind token (\<lambda>t. case teams_request t m of
        None \<Rightarrow> Ok ()
      | Some r \<Rightarrow> (case nt_post nw r of Inl e \<Rightarrow> Err (''Teams send failed: '' @ e) | Inr _ \<Rightarrow> Ok ())))"

definition discord_send :: "bool \<Rightarrow> (string + unit) option" where
  "discord_send running = (if running then None else Some (Err ''Discord client not initialized''))"

text \<open>The result of a send; \<open>None\<close> is a send that does not return.\<close>

fun channel_send :: "net \<Rightarrow> adapter_config \<Rightarrow> message \<Rightarrow> (string + unit) option" where
  "channel_send nw (DiscordCh running) m = discord_send running"
| "channel_send nw (WhatsAppCh p t) m = Some (whatsapp_send nw p t m)"
| "channel_send nw (TelegramCh t) m = Some (telegram_send nw t m)"
| "channel_send nw (SlackCh t) m = Some (slack_send nw t m)"
| "channel_send nw (SlackSocketCh t) m = Some (slack_socket_send nw t m)"
| "channel_send nw (SmsCh a k n) m = Some (sms_send nw a k n m)"
| "channel_send nw WebhookCh m = Some (Ok ())"
| "channel_send nw (WebchatCh ss) m = Some (Ok ())"
| "channel_send nw (EmailCh a) m = Some (email_send nw a m)"
| "channel_send nw (TeamsCh token) m = Some (teams_send nw token m)"
| "channel_send nw TestCh m = Some (Ok ())"

text \<open>The network is touched with that request only: networks that agree on it give the same
  result, and without a request the result does not depend on the network at all.\<close>

lemma sends_only_its_request:
  assumes "\<And>q. request_of a m = Some q \<Longrightarrow> nt_post nw q = nt_post nw' q \<and> nt_mail nw q = nt_mail nw' q"
  shows "channel_send nw a m = channel_send nw' a m"
  using assms
  by (cases a)
     (auto simp: post_def whatsapp_send_def telegram_send_def slack_send_def slack_socket_send_def sms_send_def
       email_send_def teams_send_def try_bind_def split: option.splits sum.splits)

subsection \<open>The inbox\<close>

definition mail_uid :: "nat option \<times> string option \<Rightarrow> nat" where
  "mail_uid mail = (case fst mail of Some x \<Rightarrow> x | None \<Rightarrow> 0)"

definition new_mail :: "(nat \<Rightarrow> string \<Rightarrow> message option option) \<Rightarrow> nat \<Rightarrow> nat option \<times> string option
    \<Rightarrow> message option" where
  "new_mail parse last_uid mail =
     (if mail_uid mail \<le> last_uid then None
      else Option.bind (snd mail) (\<lambda>raw. Option.bind (parse (mail_uid mail) raw) (\<lambda>m. m)))"

definition never_panics :: "(nat \<Rightarrow> string \<Rightarrow> 'a option) \<Rightarrow> bool" where
  "never_panics parse \<longleftrightarrow> (\<forall>u raw. parse u raw \<noteq> None)"

lemma parse_mails_result:
  assumes "never_panics parse"
  shows "parse_mails parse l mails mx ms
    = Some (ms @ List.map_filter (new_mail parse l) mails, foldl max mx (map mail_uid mails))"
proof (induction mails arbitrary: mx ms)
  case (Cons mail mails)
  obtain uid body where mail: "mail = (uid, body)" by (cases mail)
  have mx: "(if mx < mail_uid mail then mail_uid mail else mx) = max mx (mail_uid mail)" by auto
  show ?case
  proof (cases body)
    case (Some raw)
    then obtain r where "parse (mail_uid mail) raw = Some r" using assms by (auto simp: never_panics_def)
    then show ?thesis
      using Some mx Cons.IH
      by (cases r) (auto simp: mail mail_uid_def new_mail_def map_filter_simps Let_def split: option.splits)
  qed (use mx Cons.IH in \<open>auto simp: mail mail_uid_def new_mail_def map_filter_simps Let_def split: option.splits\<close>)
qed (simp add: map_filter_simps)

lemma parse_mails_panics:
  assumes "(Some u, Some raw) \<in> set mails" and "l < u" and "parse u raw = None"
  shows "parse_mails parse l mails mx ms = None"
  using assms(1)
proof (induction mails arbitrary: mx ms)
  case (Cons mail mails)
  then show ?case
    using assms(2,3) by (cases mail) (auto simp: Let_def split: option.splits)
qed simp

lemma foldl_max_ge: "(mx::nat) \<le> foldl max mx us" "u \<in> set us \<Longrightarrow> u \<le> foldl max mx us"
proof -
  have ge: "(mx::nat) \<le> foldl max mx us" for mx us
    by (induction us arbitrary: mx) (auto intro: order_trans [OF max.cobounded1])
  then show "mx \<le> foldl max mx us" .
  show "u \<in> set us \<Longrightarrow> u \<le> foldl max mx us"
  proof (induction us arbitrary: mx)
    case (Cons x xs)
    then show ?case using ge [of "max mx x" xs] by auto
  qed simp
qed

lemma poll_new_mails:
  assumes "never_panics parse" and "server (ib_last_uid ib) = Inr mails"
  shows "poll_inbox parse server ib =
    ib\<lparr>ib_queue := ib_queue ib @ List.map_filter (new_mail parse (ib_last_uid ib)) mails,
       ib_last_uid := foldl max (ib_last_uid ib) (map mail_uid mails)\<rparr>"
  using foldl_max_ge(1) [of "ib_last_uid ib" "map mail_uid mails"] assms(2)
  by (auto simp: poll_inbox_def parse_mails_result [OF assms(1)])

subsection \<open>Properties\<close>

text \<open>A mail is delivered once. As long as no mail makes the parser panic, a poll passes on
  exactly the mails with a number above the last seen, in the order of the server's answer,
  and remembers the largest; however often the same mails are offered again, as the range
  \<open>n:*\<close> does with the newest, nothing is passed on twice.\<close>

theorem mails_are_delivered_once:
  assumes "never_panics parse" and "server (ib_last_uid ib) = Inr mails"
    and "ib' = poll_inbox parse server ib" and "server' (ib_last_uid ib') = Inr mails'"
    and "set mails' \<subseteq> set mails"
  shows "ib_queue ib' = ib_queue ib @ List.map_filter (new_mail parse (ib_last_uid ib)) mails
    \<and> ib_last_uid ib' = foldl max (ib_last_uid ib) (map mail_uid mails)
    \<and> poll_inbox parse server' ib' = ib'"
proof -
  have ib': "ib' = ib\<lparr>ib_queue := ib_queue ib @ List.map_filter (new_mail parse (ib_last_uid ib)) mails,
       ib_last_uid := foldl max (ib_last_uid ib) (map mail_uid mails)\<rparr>"
    unfolding assms(3) using assms(1,2) by (rule poll_new_mails)
  have old: "mail_uid x \<le> ib_last_uid ib'" if "x \<in> set mails'" for x
    using that assms(5) foldl_max_ge(2) by (auto simp: ib')
  then have "List.map_filter (new_mail parse (ib_last_uid ib')) mails' = []"
    by (auto simp: map_filter_def new_mail_def filter_empty_conv)
  moreover have "foldl max (ib_last_uid ib') (map mail_uid mails') = ib_last_uid ib'"
    using old by (induction mails') (simp_all add: max_absorb1)
  ultimately have "poll_inbox parse server' ib' = ib'"
    using poll_new_mails [of parse server' ib' mails'] assms(1,4) by simp
  with ib' show ?thesis by simp
qed

lemma mails_are_delivered_once_witness:
  "\<exists>ib'. ib' = poll_inbox (\<lambda>u raw. Some None) (\<lambda>_. Ok [(Some 4, Some ''x''), (Some 7, Some ''y'')])
        \<lparr>ib_last_uid = 4, ib_health = Healthy, ib_queue = []\<rparr>
    \<and> ib_last_uid ib' = 7 \<and> poll_inbox (\<lambda>u raw. Some None) (\<lambda>_. Ok [(Some 7, Some ''y'')]) ib' = ib'"
proof -
  let ?p = "\<lambda>(u::nat) (raw::string). Some (None :: message option)"
  let ?ib = "\<lparr>ib_last_uid = 4, ib_health = Healthy, ib_queue = []\<rparr>"
  let ?ms = "[(Some (4::nat), Some ''x''), (Some 7, Some ''y'')]"
  have n: "never_panics ?p" by (simp add: never_panics_def)
  have s: "(\<lambda>_. Ok ?ms) (ib_last_uid ?ib) = Inr ?ms"
    "(\<lambda>_. Ok [(Some 7, Some ''y'')]) (ib_last_uid (poll_inbox ?p (\<lambda>_. Ok ?ms) ?ib)) = Inr [(Some 7, Some ''y'')]"
    by simp_all
  from mails_are_delivered_once [where parse = ?p and server = "\<lambda>_. Ok ?ms" and ib = ?ib
      and server' = "\<lambda>_. Ok [(Some 7, Some ''y'')]", OF n s(1) refl s(2)]
  show ?thesis by (simp add: mail_uid_def)
qed

text \<open>One malformed sender stops the mail for good. When the brackets in the header are the
  wrong way round, as in \<open>a > b < c\<close>, the slice between them panics. The panic loses the mails
  fetched with it, and the number of the last mail seen stays where it was, so that every
  later poll fetches the same mail and panics again: nothing is delivered any more.\<close>

theorem malformed_sender_blocks_the_inbox:
  assumes "server (ib_last_uid ib) = Inr mails" and "(Some u, Some raw) \<in> set mails" and "ib_last_uid ib < u"
    and "header_from ulc alphabetic (utf8_lossy raw) = Some from" and "mail_body (utf8_lossy raw) \<noteq> []"
    and "str_find ''<'' from = Some i" and "str_find ''>'' from = Some j" and "j < i"
  shows "(poll_inbox (\<lambda>u. parse_email utf8_lossy ulc alphabetic (st u) channel_id) server ^^ n) ib = ib"
proof -
  have "parse_email utf8_lossy ulc alphabetic (st u) channel_id raw = None"
    using assms(4-8) by (simp add: parse_email_def extract_email_address_def)
  then have "poll_inbox (\<lambda>u. parse_email utf8_lossy ulc alphabetic (st u) channel_id) server ib = ib"
    using assms(1) parse_mails_panics [OF assms(2,3)] by (simp add: poll_inbox_def)
  then show ?thesis by (induction n) simp_all
qed


lemma malformed_sender_blocks_the_inbox_witness:
  "(poll_inbox (\<lambda>u. parse_email (\<lambda>s. s) (\<lambda>s. s) (\<lambda>u. u \<noteq> '' '') (''id'', u) ''email-main'')
     (\<lambda>_. Ok [(Some 1, Some (''From: a > b < c'' @ newline @ newline @ ''hi''))]) ^^ 1000)
     \<lparr>ib_last_uid = 0, ib_health = Healthy, ib_queue = []\<rparr> = \<lparr>ib_last_uid = 0, ib_health = Healthy, ib_queue = []\<rparr>"
proof -
  let ?raw = "''From: a > b < c'' @ newline @ newline @ ''hi''"
  have h: "header_from (\<lambda>s. s) (\<lambda>u. u \<noteq> '' '') ?raw = Some ''a > b < c''" "mail_body ?raw \<noteq> []"
    "str_find ''<'' ''a > b < c'' = Some 6" "str_find ''>'' ''a > b < c'' = Some 2" by code_simp+
  show ?thesis
    by (rule malformed_sender_blocks_the_inbox [where ib = "\<lparr>ib_last_uid = 0, ib_health = Healthy, ib_queue = []\<rparr>"
          and u = 1 and raw = ?raw and utf8_lossy = "\<lambda>s. s" and ulc = "\<lambda>s. s"
          and alphabetic = "\<lambda>u. u \<noteq> '' ''" and st = "\<lambda>u. (''id'', u)" and channel_id = "''email-main''"
          and server = "\<lambda>_. Ok [(Some 1, Some ?raw)]" and mails = "[(Some 1, Some ?raw)]", OF _ _ _ h(1,2,3,4)]) simp_all
qed

end
