(* ===== verification/Delivery.thy ===== *)
theory Delivery
  imports Pipeline Channels
begin

section \<open>From a platform through the gateway and back\<close>

text \<open>
  The composition of the adapters with the pipeline: the channels a configuration registers
  (\<open>Gateway::start\<close> in \<open>src/gateway/mod.rs\<close>), the platform's payload as the message the
  pipeline is given, and the request that goes out for what the pipeline sends.
\<close>

subsection \<open>The registered channels\<close>

text \<open>The sections of the configuration, each with its switch.\<close>

record channels_config =
  cf_discord :: "bool option"
  cf_whatsapp :: "(bool \<times> string \<times> string) option"
  cf_telegram :: "(bool \<times> string \<times> string) option"
  cf_slack :: "(bool \<times> string \<times> string) option"
  cf_sms :: "(bool \<times> string \<times> string \<times> string) option"
  cf_webhook :: "bool option"
  cf_webchat :: "bool option"
  cf_email :: "(bool \<times> string) option"
  cf_teams :: "(bool \<times> (string + string)) option"
  cf_test_channel :: bool

text \<open>Discord is registered by the start command, before the gateway starts.\<close>

definition registered :: "channels_config \<Rightarrow> (string \<times> adapter_config) list" where
  "registered c =
     (case cf_discord c of Some True \<Rightarrow> [(''discord-main'', DiscordCh True)] | _ \<Rightarrow> [])
   @ (case cf_whatsapp c of Some (True, p, t) \<Rightarrow> [(''whatsapp-main'', WhatsAppCh p t)] | _ \<Rightarrow> [])
   @ (case cf_telegram c of Some (True, mode, t) \<Rightarrow> [(''telegram-main'', TelegramCh t)] | _ \<Rightarrow> [])
   @ (case cf_slack c of
        Some (True, mode, t) \<Rightarrow> [(''slack-main'', if mode = ''socket'' then SlackSocketCh t else SlackCh t)] | _ \<Rightarrow> [])
   @ (case cf_sms c of Some (True, a, k, n) \<Rightarrow> [(''sms-main'', SmsCh a k n)] | _ \<Rightarrow> [])
   @ (case cf_webhook c of Some True \<Rightarrow> [(''webhook-main'', WebhookCh)] | _ \<Rightarrow> [])
   @ (case cf_webchat c of Some True \<Rightarrow> [(''webchat-main'', WebchatCh {})] | _ \<Rightarrow> [])
   @ (case cf_email c of Some (True, a) \<Rightarrow> [(''email-main'', EmailCh a)] | _ \<Rightarrow> [])
   @ (case cf_teams c of Some (True, t) \<Rightarrow> [(''teams-main'', TeamsCh t)] | _ \<Rightarrow> [])
   @ (if cf_test_channel c then [(''testchan-main'', TestCh)] else [])"

subsection \<open>Whom a request is addressed to\<close>

fun recipient :: "outgoing \<Rightarrow> string option" where
  "recipient (HttpPost url cr (Json j)) =
     (case jindex j ''to'' of
        JString t \<Rightarrow> Some t
      | _ \<Rightarrow> (case jindex j ''chat_id'' of JInt i \<Rightarrow> Some (show_int i) | _ \<Rightarrow> as_str (jindex j ''channel'')))"
| "recipient (HttpPost url cr (Form fs)) = map_of fs ''To''"
| "recipient (Mail from to body) = Some to"
| "recipient (Broadcast session frame) = Some session"
| "recipient (Captured m) = Some (ms_channel_id m)"

text \<open>A platform that is addressed by the user a message names: what it delivers can be answered
  by a message that keeps its user, and what is signed by the gateway goes to no one else
  than a user of the gateway's name.\<close>

locale addressed_by_user =
  fixes receive :: "'i \<Rightarrow> message list" and genuine :: "'i \<Rightarrow> bool" and request :: "message \<Rightarrow> outgoing option"
  assumes own_address: "genuine i \<Longrightarrow> m \<in> set (receive i) \<Longrightarrow>
      \<exists>q. request (m\<lparr>ms_content := t\<rparr>) = Some q \<and> recipient q = Some (ms_user_id m)"
    and only_the_user: "request r = Some q \<Longrightarrow> ms_user_id r = ''assistant'' \<Longrightarrow> recipient q = Some ''assistant''"
begin

definition reaches :: "message \<Rightarrow> message \<Rightarrow> bool" where
  "reaches r m \<longleftrightarrow> (\<exists>q. request r = Some q \<and> recipient q = Some (ms_user_id m))"

lemma sender_can_be_reached: "genuine i \<Longrightarrow> m \<in> set (receive i) \<Longrightarrow> reaches (m\<lparr>ms_content := t\<rparr>) m"
  using own_address by (simp add: reaches_def)

lemma reply_misses_the_sender: "gateway_reply r \<Longrightarrow> ms_user_id m \<noteq> ''assistant'' \<Longrightarrow> \<not> reaches r m"
  using only_the_user by (auto simp: reaches_def gateway_reply_def)

end


lemma parse_i64_show:
  assumes "in_i64 i"
  shows "parse_i64 (show_int i) = Some i"
proof -
  have digit: "is_digit c \<Longrightarrow> c \<noteq> CHR ''-'' \<and> c \<noteq> CHR ''+''" for c by (auto simp: is_digit_def)
  have head: "(case show_nat n of [] \<Rightarrow> (False, show_nat n) | c # cs \<Rightarrow>
      if c = CHR ''-'' then (True, cs) else if c = CHR ''+'' then (False, cs) else (False, show_nat n))
    = (False, show_nat n)" for n
    using show_nat_digits [of _ n] digit by (cases "show_nat n") auto
  have "list_all is_digit (show_nat n)" for n using show_nat_digits by (simp add: list_all_iff)
  then show ?thesis using assms head by (simp add: parse_i64_def show_int_def)
qed

interpretation to_whatsapp: addressed_by_user
    "parse_webhook st channel_id" "\<lambda>_. True" "request_of (WhatsAppCh p t)" for st channel_id p t
  by unfold_locales
     (auto simp: parse_webhook_def whatsapp_request_def new_message_def)

interpretation to_telegram: addressed_by_user
    "\<lambda>u. case parse_update st u of Some m \<Rightarrow> [m] | None \<Rightarrow> []"
    "\<lambda>u. case tg_message u of Some m \<Rightarrow> in_i64 (tm_chat_id m) | None \<Rightarrow> True"
    "request_of (TelegramCh t)" for st t
proof unfold_locales
  fix i m x
  assume i: "case tg_message i of Some m \<Rightarrow> in_i64 (tm_chat_id m) | None \<Rightarrow> True"
    and "m \<in> set (case parse_update st i of Some m \<Rightarrow> [m] | None \<Rightarrow> [])"
  then have p: "parse_update st i = Some m" by (auto split: option.splits)
  then obtain w where w: "tg_message i = Some w" "ms_user_id m = show_int (tm_chat_id w)"
    by (auto simp: parse_update_def new_message_def Let_def bind_eq_Some_conv)
  with i have "parse_i64 (show_int (tm_chat_id w)) = Some (tm_chat_id w)" by (simp add: parse_i64_show)
  with w show "\<exists>q. request_of (TelegramCh t) (m\<lparr>ms_content := x\<rparr>) = Some q \<and> recipient q = Some (ms_user_id m)"
    by (simp add: telegram_request_def)
next
  fix r q assume "request_of (TelegramCh t) r = Some q" "ms_user_id r = ''assistant''"
  moreover have "parse_i64 ''assistant'' = None" by code_simp
  ultimately show "recipient q = Some ''assistant''" by (simp add: telegram_request_def)
qed

interpretation to_sms: addressed_by_user
    "\<lambda>form. case parse_sms_webhook st channel_id form of Some m \<Rightarrow> [m] | None \<Rightarrow> []" "\<lambda>_. True"
    "request_of (SmsCh a k n)" for st channel_id a k n
  by unfold_locales
     (auto simp: parse_sms_webhook_def sms_request_def new_message_def split: option.splits)

text \<open>A mail can be answered when its sender is an address.\<close>

interpretation to_email: addressed_by_user
    "\<lambda>raw. case parse_email utf8_lossy ulc alphabetic st channel_id raw of Some (Some m) \<Rightarrow> [m] | _ \<Rightarrow> []"
    "\<lambda>raw. \<forall>m. parse_email utf8_lossy ulc alphabetic st channel_id raw = Some (Some m) \<longrightarrow>
        str_contains ''@'' (ms_user_id m)"
    "request_of (EmailCh a)" for utf8_lossy ulc alphabetic st channel_id a
proof unfold_locales
  fix i m t
  assume "\<forall>m. parse_email utf8_lossy ulc alphabetic st channel_id i = Some (Some m) \<longrightarrow>
      str_contains ''@'' (ms_user_id m)"
    and "m \<in> set (case parse_email utf8_lossy ulc alphabetic st channel_id i of Some (Some m) \<Rightarrow> [m] | _ \<Rightarrow> [])"
  then show "\<exists>q. request_of (EmailCh a) (m\<lparr>ms_content := t\<rparr>) = Some q \<and> recipient q = Some (ms_user_id m)"
    by (auto simp: email_request_def split: option.splits)
next
  fix r q assume "request_of (EmailCh a) r = Some q" "ms_user_id r = ''assistant''"
  moreover have "\<not> str_contains ''@'' ''assistant''" by code_simp
  ultimately show "recipient q = Some ''assistant''" by (simp add: email_request_def)
qed

subsection \<open>Replies\<close>

text \<open>Whether the request an adapter makes for a reply is addressed to the sender of a message.\<close>

definition reaches_sender :: "adapter_config \<Rightarrow> message \<Rightarrow> message \<Rightarrow> bool" where
  "reaches_sender a r m \<longleftrightarrow> (\<exists>q. request_of a r = Some q \<and> recipient q = Some (ms_user_id m))"

fun addresses_users :: "adapter_config \<Rightarrow> bool" where
  "addresses_users (WhatsAppCh _ _) = True"
| "addresses_users (TelegramCh _) = True"
| "addresses_users (SmsCh _ _ _) = True"
| "addresses_users (EmailCh _) = True"
| "addresses_users _ = False"

lemma reaches_sender_simps:
  "reaches_sender (WhatsAppCh p t) = to_whatsapp.reaches p t"
  "reaches_sender (TelegramCh b) = to_telegram.reaches b"
  "reaches_sender (SmsCh x k n) = to_sms.reaches x k n"
  "reaches_sender (EmailCh f) = to_email.reaches f"
  by (intro ext, simp add: reaches_sender_def to_whatsapp.reaches_def to_telegram.reaches_def
      to_sms.reaches_def to_email.reaches_def)+

lemma gateway_reply_misses:
  assumes "addresses_users a" and "gateway_reply r" and "ms_user_id m \<noteq> ''assistant''"
  shows "\<not> reaches_sender a r m"
  using assms to_whatsapp.reply_misses_the_sender to_telegram.reply_misses_the_sender
    to_sms.reply_misses_the_sender to_email.reply_misses_the_sender
  by (cases a) (simp_all add: reaches_sender_simps)

lemma teams_needs_metadata: "gateway_reply r \<Longrightarrow> request_of (TeamsCh tk) r = None"
  by (cases tk) (auto simp: gateway_reply_def teams_request_def str_or_def)

lemma new_sends:
  assumes "handle_awaited cfg e awaiting m g = Some (res, g')"
    and "(r, ok) \<in> set (drop (length (gw_sends g)) (gw_sends g'))"
  shows "gateway_reply r \<and> ms_channel_id r \<in> {ms_channel_id m, response_channel g m} \<inter> set (en_channels e)"
proof -
  from handled_own_effects [OF assms(1)] obtain new where
    "gw_sends g' = gw_sends g @ new"
    "\<forall>x \<in> set new. ms_channel_id (fst x) \<in> {ms_channel_id m, response_channel g m} \<inter> set (en_channels e)
       \<and> gateway_reply (fst x)"
    by (auto simp: own_effects_def sent_on_def)
  with assms(2) show ?thesis by auto
qed


text \<open>What the three platforms that know a sender by an address of its own deliver.\<close>

datatype arrival = WhatsAppIn webhook_body | TelegramIn tg_update | SmsIn "(string \<times> string) list"

fun arrived :: "(nat \<Rightarrow> stamp) \<Rightarrow> arrival \<Rightarrow> message list" where
  "arrived st (WhatsAppIn b) = parse_webhook st ''whatsapp-main'' b"
| "arrived st (TelegramIn u) = (case parse_update (st 0) u of Some m \<Rightarrow> [m] | None \<Rightarrow> [])"
| "arrived st (SmsIn form) = (case parse_sms_webhook (st 0) ''sms-main'' form of Some m \<Rightarrow> [m] | None \<Rightarrow> [])"

fun on_platform :: "arrival \<Rightarrow> adapter_config \<Rightarrow> bool" where
  "on_platform (WhatsAppIn _) (WhatsAppCh _ _) = True"
| "on_platform (TelegramIn u) (TelegramCh _) = (case tg_message u of Some m \<Rightarrow> in_i64 (tm_chat_id m) | None \<Rightarrow> True)"
| "on_platform (SmsIn _) (SmsCh _ _ _) = True"
| "on_platform _ _ = False"

lemma arrival_addresses_users: "on_platform x a \<Longrightarrow> addresses_users a"
  by (cases "(x, a)" rule: on_platform.cases) auto

lemma arrival_can_be_answered:
  assumes "m \<in> set (arrived st x)" and "on_platform x a"
  shows "reaches_sender a (m\<lparr>ms_content := t\<rparr>) m"
proof (cases x)
  case (WhatsAppIn b)
  with assms obtain p k where "a = WhatsAppCh p k" by (cases a) auto
  then show ?thesis
    using assms(1) WhatsAppIn to_whatsapp.sender_can_be_reached [where i = b and m = m]
    by (simp add: reaches_sender_simps)
next
  case (TelegramIn u)
  with assms obtain k where "a = TelegramCh k" by (cases a) auto
  then show ?thesis
    using assms TelegramIn to_telegram.sender_can_be_reached [where i = u and m = m]
    by (simp add: reaches_sender_simps)
next
  case (SmsIn form)
  with assms obtain p k n where "a = SmsCh p k n" by (cases a) auto
  then show ?thesis
    using assms(1) SmsIn to_sms.sender_can_be_reached [where i = form and m = m]
    by (simp add: reaches_sender_simps)
qed

subsection \<open>Rooms\<close>

text \<open>Slack and Discord deliver under the platform's own name of the room.\<close>

datatype room_arrival = SlackIn slack_payload | SlackSocketIn json | DiscordIn discord_message

fun room_message :: "stamp \<Rightarrow> room_arrival \<Rightarrow> message option" where
  "room_message st (SlackIn p) = parse_event st p"
| "room_message st (SlackSocketIn v) = parse_socket_event st v ''slack-main''"
| "room_message st (DiscordIn d) = discord_inbound st d"

text \<open>Platforms name rooms by letters and digits.\<close>

definition plain_room :: "string \<Rightarrow> bool" where
  "plain_room s \<longleftrightarrow> CHR ''-'' \<notin> set s"

lemma discord_room_is_plain: "discord_inbound st d = Some m \<Longrightarrow> plain_room (ms_channel_id m)"
  using show_nat_digits [of "CHR ''-''" "dm_channel_id d"]
  by (auto simp: discord_inbound_def new_message_def plain_room_def is_digit_def split: if_splits)

lemma parse_event_unrouted: "parse_event st p = Some m \<Longrightarrow> ms_preferred_channel_id m = None"
  by (cases "(st, p)" rule: parse_event.cases) (auto simp: new_message_def bind_eq_Some_conv split: if_splits)

lemma room_message_unrouted: "room_message st x = Some m \<Longrightarrow> ms_preferred_channel_id m = None"
  by (cases x)
     (auto simp: parse_event_unrouted parse_socket_event_def discord_inbound_def new_message_def Let_def
       split: if_splits)

lemma registered_not_plain: "ch \<in> set (map fst (registered c)) \<Longrightarrow> \<not> plain_room ch"
  by (auto simp: registered_def plain_room_def split: option.splits bool.splits if_splits prod.splits)

subsection \<open>Two small gateways\<close>

definition sms_surroundings :: surroundings where
  "sms_surroundings = demo_surroundings\<lparr>en_channels := [''sms-main'']\<rparr>"

definition sms_message :: message where
  "sms_message = new_message (''id'', 0) ''sms-main'' ''u'' ''u'' ''hi''"

lemma sms_over_limit:
  "\<exists>g' r. handle_awaited demo_config sms_surroundings False sms_message (demo_gateway [''u'' \<mapsto> (2, 0)] quiet_registry)
      = Some (Ok (), g') \<and> gw_sends g' = [(r, True)] \<and> ms_content r = rate_limit_text"
  by (simp add: handle_awaited_def is_duplicate_def seen_def message_key_def new_deduplicator_def
      limit_and_answer_def within_rate_def check_and_record_def rate_window_def audited_def deny_def
      send_message_def assistant_message_def sms_message_def sms_surroundings_def demo_simps Let_def)

definition discord_only :: channels_config where
  "discord_only = \<lparr>cf_discord = Some True, cf_whatsapp = None, cf_telegram = None, cf_slack = None, cf_sms = None,
     cf_webhook = None, cf_webchat = None, cf_email = None, cf_teams = None, cf_test_channel = False\<rparr>"

definition discord_surroundings :: surroundings where
  "discord_surroundings = demo_surroundings\<lparr>en_channels := map fst (registered discord_only)\<rparr>"

definition discord_demo :: message where
  "discord_demo = new_message (''id'', 0) ''7'' ''9'' ''Ann'' ''hi''"

lemma seven_nine: "show_nat 7 = ''7''" "show_nat 9 = ''9''" by code_simp+

lemma discord_answered:
  "\<exists>g'. handle_awaited demo_config discord_surroundings False discord_demo (demo_gateway Map.empty quiet_registry)
      = Some (Ok (), g') \<and> gw_prompts g' = [(''9'', ''hi'')]"
proof -
  let ?g = "demo_gateway Map.empty quiet_registry"
  obtain g1 where 1: "is_duplicate demo_config discord_surroundings False discord_demo ?g = (False, g1)"
    by (simp add: is_duplicate_def seen_def message_key_def new_deduplicator_def discord_demo_def
        discord_surroundings_def demo_simps)
  let ?ev = "MessageReceived (ms_user_id discord_demo) (ms_channel_id discord_demo) (length (ms_content discord_demo))"
  obtain g2 where 2: "within_rate demo_config discord_surroundings discord_demo (audited demo_config ?ev g1) = (True, g2)"
    using is_duplicate_frame(3) [OF 1]
    by (simp add: within_rate_def check_and_record_def rate_window_def demo_simps Let_def discord_surroundings_def)
  note fd = is_duplicate_frame [OF 1] and fr = within_rate_frame [OF 2]
  have ch: "response_channel g2 discord_demo = ''7''"
    using fd(4) fr(4) by (simp add: response_channel_def prefs_get_def discord_demo_def new_message_def demo_gateway_def)
  obtain ans g4 where 4: "answer_message demo_config discord_surroundings discord_demo g2
      = send_text demo_config discord_surroundings (response_channel g2 discord_demo) ans g4"
    and ans: "ans = (case en_model discord_surroundings (gw_prompts g2 @ [(ms_user_id discord_demo,
       routed_content demo_config discord_demo)]) of Inr a \<Rightarrow> a | Inl _ \<Rightarrow> trouble_text)"
    and g4: "gw_prompts g4 = gw_prompts g2 @ [(ms_user_id discord_demo, routed_content demo_config discord_demo)]"
    by (rule answer_message_cases)
  have "ans = ''hello there''" using ans by (simp add: discord_surroundings_def demo_surroundings_def)
  moreover have "outgoing_chunks demo_config ''7'' ''hello there'' = Some [''hello there'']" by code_simp
  moreover have "''7'' \<notin> set (en_channels discord_surroundings)"
    by (simp add: discord_surroundings_def registered_def discord_only_def)
  ultimately have "send_text demo_config discord_surroundings ''7'' ans g4 = Some (Ok (), g4)"
    by (simp add: send_text_def)
  moreover have "gw_prompts g4 = [(''9'', ''hi'')]"
    using g4 fd(1) fr(2) by (simp add: discord_demo_def routed_content_def new_message_def demo_gateway_def)
  ultimately show ?thesis
    using 1 2 4 ch by (simp add: handle_awaited_def limit_and_answer_def)
qed

subsection \<open>Properties\<close>

text \<open>Nobody is answered on the platforms that address a user. A WhatsApp, Telegram or SMS
  message could be answered by a message that keeps its user, but every message the gateway
  sends in reply to it, the answer and the rate limit notice alike, is signed by the user
  \<open>assistant\<close>, so that no request any adapter makes for it is addressed to the sender; and
  the Teams adapter makes none, because the reply lost the metadata it needs.\<close>

theorem replies_miss_their_sender:
  assumes "m \<in> set (arrived st x)" and "on_platform x a" and "ms_user_id m \<noteq> ''assistant''"
    and "handle_awaited cfg e awaiting m g = Some (res, g')"
    and "(r, ok) \<in> set (drop (length (gw_sends g)) (gw_sends g'))"
  shows "reaches_sender a (m\<lparr>ms_content := ms_content r\<rparr>) m \<and> \<not> reaches_sender a r m
    \<and> request_of (TeamsCh tk) r = None"
  using arrival_can_be_answered [OF assms(1,2)] arrival_addresses_users [OF assms(2)] new_sends [OF assms(4,5)] assms(3)
    gateway_reply_misses teams_needs_metadata by blast

lemma replies_miss_their_sender_witness:
  "\<exists>g' r. handle_awaited demo_config sms_surroundings False sms_message (demo_gateway [''u'' \<mapsto> (2, 0)] quiet_registry)
      = Some (Ok (), g') \<and> gw_sends g' = [(r, True)] \<and> ms_content r = rate_limit_text
    \<and> reaches_sender (SmsCh ''a'' ''k'' ''n'') (sms_message\<lparr>ms_content := ms_content r\<rparr>) sms_message
    \<and> \<not> reaches_sender (SmsCh ''a'' ''k'' ''n'') r sms_message"
proof -
  obtain g' r where g': "handle_awaited demo_config sms_surroundings False sms_message
      (demo_gateway [''u'' \<mapsto> (2, 0)] quiet_registry) = Some (Ok (), g')" "gw_sends g' = [(r, True)]"
      "ms_content r = rate_limit_text"
    using sms_over_limit by blast
  have m: "sms_message \<in> set (arrived (\<lambda>n. (''id'', n)) (SmsIn [(''From'', ''u''), (''Body'', ''hi'')]))"
    "ms_user_id sms_message \<noteq> ''assistant''"
    by (simp_all add: parse_sms_webhook_def sms_message_def new_message_def)
  have p: "on_platform (SmsIn [(''From'', ''u''), (''Body'', ''hi'')]) (SmsCh ''a'' ''k'' ''n'')" by simp
  have "(r, True) \<in> set (drop (length (gw_sends (demo_gateway [''u'' \<mapsto> (2, 0)] quiet_registry))) (gw_sends g'))"
    using g'(2) by (simp add: demo_gateway_def)
  from replies_miss_their_sender [OF m(1) p m(2) g'(1) this] g' show ?thesis by blast
qed

text \<open>Nobody is answered in a room. A Slack or Discord message carries the platform's name of
  its room as its channel, and no channel is registered under such a name, so unless the
  sender has stored a preference nothing is sent at all: not the answer, not the rate limit
  notice, not the plan gate's question.\<close>

theorem rooms_are_never_answered:
  assumes "room_message st x = Some m" and "plain_room (ms_channel_id m)"
    and "prefs_get (gw_prefs g) (ms_user_id m) = None" and "en_channels e = map fst (registered c)"
    and "handle_awaited cfg e awaiting m g = Some (res, g')"
  shows "gw_sends g' = gw_sends g"
proof -
  have "response_channel g m = ms_channel_id m"
    using room_message_unrouted [OF assms(1)] assms(3) by (simp add: response_channel_def)
  moreover have "ms_channel_id m \<notin> set (en_channels e)"
    using registered_not_plain [of _ c] assms(2,4) by auto
  moreover obtain new where "gw_sends g' = gw_sends g @ new"
    "\<forall>y \<in> set new. ms_channel_id (fst y) \<in> {ms_channel_id m, response_channel g m} \<inter> set (en_channels e)"
    using handled_own_effects [OF assms(5)] by (auto simp: own_effects_def sent_on_def)
  ultimately show ?thesis by (cases new) auto
qed


lemma rooms_are_never_answered_witness:
  "\<exists>g'. handle_awaited demo_config discord_surroundings False discord_demo (demo_gateway Map.empty quiet_registry)
      = Some (Ok (), g') \<and> gw_prompts g' = [(''9'', ''hi'')] \<and> gw_sends g' = []"
proof -
  obtain g' where g': "handle_awaited demo_config discord_surroundings False discord_demo
      (demo_gateway Map.empty quiet_registry) = Some (Ok (), g')" "gw_prompts g' = [(''9'', ''hi'')]"
    using discord_answered by blast
  have m: "room_message (''id'', 0)
      (DiscordIn \<lparr>dm_channel_id = 7, dm_author_id = 9, dm_author_name = ''Ann'', dm_author_bot = False, dm_content = ''hi''\<rparr>)
      = Some discord_demo"
    by (simp add: discord_inbound_def discord_demo_def seven_nine)
  have p: "plain_room (ms_channel_id discord_demo)" by (simp add: plain_room_def discord_demo_def new_message_def)
  have q: "prefs_get (gw_prefs (demo_gateway Map.empty quiet_registry)) (ms_user_id discord_demo) = None"
    by (simp add: prefs_get_def demo_gateway_def)
  have "en_channels discord_surroundings = map fst (registered discord_only)"
    by (simp add: discord_surroundings_def)
  from rooms_are_never_answered [OF m p q this g'(1)] g' show ?thesis by (auto simp: demo_gateway_def)
qed

end
