(* ===== verification/Receipt.thy ===== *)
theory Receipt
  imports Approval Supervisor
begin

section \<open>The receipt (\<open>src/quarry/receipt.rs\<close>)\<close>

text \<open>
  What a sender is told after a run: \<open>Receipt::from_outcome\<close> collects it from the
  supervisor's \<open>RunOutcome\<close>, \<open>render\<close> writes the reply. The record's fields carry the prefix
  \<open>rp_\<close>. Texts are the source's, byte for byte; the parts of the footer that the source
  appends in turn are the functions \<open>footer_*\<close>, in its order.
\<close>

subsection \<open>Stability\<close>

datatype stability = NotMeasured | Published f64

definition stability_from_provenance :: "provenance option \<Rightarrow> stability" where
  "stability_from_provenance p =
     (case p of None \<Rightarrow> NotMeasured | Some p \<Rightarrow> Published (prov_stability p))"

fun stability_render :: "stability \<Rightarrow> string" where
  "stability_render NotMeasured =
     ''Stability: not measured '' @ em_dash
     @ '' one run is one sample, not a distribution (quarry P7). This is not 0%.''"
| "stability_render (Published rate) =
     ''Stability: at least '' @ fmt_fixed 0 (f64_mul rate (Fin 100)) @ ''% of claims replicated.''"

subsection \<open>The receipt and how it is extracted\<close>

record receipt =
  rp_answer :: "string option"
  rp_spend_micro_usd :: "int option"
  rp_cap_micro_usd :: "int option"
  rp_cap_unlimited :: bool
  rp_latency_cap :: "duration option"
  rp_due :: "string option"
  rp_bound_by :: "string option"
  rp_gaps :: nat
  rp_unfunded :: nat
  rp_gap_nodes :: "string list"
  rp_unverified_nodes :: "string list"
  rp_stability :: stability
  rp_adversarial_findings :: "nat option"
  rp_run_id :: "string option"
  rp_record_url :: "string option"
  rp_run_dir :: string
  rp_rows_reconcile :: bool
  rp_row_count :: nat
  rp_model_spend_micro_usd :: "int option"
  rp_termination :: run_end
  rp_duration :: duration

fun artifact_of :: "run_event \<Rightarrow> artifact_event option" where
  "artifact_of (Artifact a) = Some a"
| "artifact_of _ = None"

fun receipt_of :: "run_event \<Rightarrow> receipt_event option" where
  "receipt_of (Receipt r) = Some r"
| "receipt_of _ = None"

fun model_of :: "run_event \<Rightarrow> model_event option" where
  "model_of (Model m) = Some m"
| "model_of _ = None"

definition find_artifact :: "run_event list \<Rightarrow> artifact_event option" where
  "find_artifact = find_map artifact_of"

definition find_receipt :: "run_event list \<Rightarrow> receipt_event option" where
  "find_receipt = find_map receipt_of"

definition collect_models :: "run_event list \<Rightarrow> model_event list" where
  "collect_models events = List.map_filter model_of events"

definition model_spend :: "model_event list \<Rightarrow> int option" where
  "model_spend ms = (if ms = [] then None else Some (i64_sum (map model_cost_micro_usd ms)))"

definition from_outcome :: "run_outcome \<Rightarrow> receipt" where
  "from_outcome outcome =
     (let terminal = terminal_outcome (ro_events outcome);
          artifact = find_artifact (ro_events outcome);
          provenance = Option.bind artifact art_provenance;
          receipt_event = find_receipt (ro_events outcome);
          record = ro_record outcome
      in \<lparr>rp_answer = outcome_answer outcome,
          rp_spend_micro_usd = map_option oc_total_micros terminal,
          rp_cap_micro_usd = Option.bind record (\<lambda>r. caps_spend_micro_usd (rr_caps r)),
          rp_cap_unlimited = (case record of None \<Rightarrow> False | Some r \<Rightarrow> spend_unlimited (rr_caps r)),
          rp_latency_cap = Option.bind record (\<lambda>r. caps_latency (rr_caps r)),
          rp_due = Option.bind record (\<lambda>r. caps_due (rr_caps r)),
          rp_bound_by = Option.bind terminal (\<lambda>t. non_empty_text (oc_bound_by t)),
          rp_gaps = (case terminal of None \<Rightarrow> 0 | Some t \<Rightarrow> oc_gaps t),
          rp_unfunded = (case terminal of None \<Rightarrow> 0 | Some t \<Rightarrow> oc_unfunded t),
          rp_gap_nodes = (case record of None \<Rightarrow> [] | Some r \<Rightarrow> map no_node_id (record_gaps r)),
          rp_unverified_nodes = (case record of None \<Rightarrow> [] | Some r \<Rightarrow> rr_unverified r),
          rp_stability = stability_from_provenance provenance,
          rp_adversarial_findings = map_option prov_adversarial_findings provenance,
          rp_run_id = map_option art_run_id artifact,
          rp_record_url = Option.bind artifact (\<lambda>a. non_empty_text (art_url a)),
          rp_run_dir = ro_run_dir outcome,
          rp_rows_reconcile = (case receipt_event of None \<Rightarrow> True | Some r \<Rightarrow> rows_reconcile r),
          rp_row_count = (case receipt_event of None \<Rightarrow> 0 | Some r \<Rightarrow> length (rcpt_rows r)),
          rp_model_spend_micro_usd = model_spend (collect_models (ro_events outcome)),
          rp_termination = ro_termination outcome,
          rp_duration = ro_duration outcome\<rparr>)"

definition residual_micro_usd :: "receipt \<Rightarrow> int option" where
  "residual_micro_usd r =
     (case (rp_spend_micro_usd r, rp_model_spend_micro_usd r) of
        (Some spend, Some model) \<Rightarrow>
          (let n = wrap_i64 (spend - model) in if n = 0 then None else Some n)
      | _ \<Rightarrow> None)"

fun cut_short :: "run_end \<Rightarrow> bool" where
  "cut_short (Truncated _) = True"
| "cut_short NoAnswer = True"
| "cut_short _ = False"

definition receipt_truncated :: "receipt \<Rightarrow> bool" where
  "receipt_truncated r \<longleftrightarrow>
     cut_short (rp_termination r) \<or> rp_gaps r > 0 \<or> rp_unfunded r > 0 \<or> rp_bound_by r \<noteq> None"

subsection \<open>Rendering\<close>

definition remedy_for :: "string \<Rightarrow> string" where
  "remedy_for d =
     (if d = ''spend'' then ''a higher spend limit would let it go further. More time would not.''
      else if d = ''latency'' then ''more time would let it go further. More money would not.''
      else if d = ''due'' then ''a later deadline would let it go further. More money would not.''
      else ''raising that specific limit is what would let it go further.'')"

definition receipt_spend :: "int \<Rightarrow> string" where
  "receipt_spend micro =
     (if micro < 0 then ''no limit''
      else ''$'' @ fmt_fixed 4 (f64_div_const (f64_of_int micro) 1000000))"

definition receipt_duration :: "duration \<Rightarrow> string" where
  "receipt_duration d =
     (let secs = as_secs d
      in if secs = 0 then show_nat (as_millis d) @ ''ms''
         else if 3600 \<le> secs
           then show_nat (secs div 3600) @ ''h'' @ show_nat (secs mod 3600 div 60) @ ''m''
         else if 60 \<le> secs then show_nat (secs div 60) @ ''m'' @ show_nat (secs mod 60) @ ''s''
         else show_nat secs @ ''s'')"

definition plural :: "nat \<Rightarrow> string \<Rightarrow> string \<Rightarrow> string" where
  "plural n one many = (if n = 1 then one else many)"

fun termination_note :: "run_end \<Rightarrow> string option" where
  "termination_note Completed = None"
| "termination_note (Truncated _) = None"
| "termination_note NoAnswer = None"
| "termination_note (TimedOut after) = Some
     (''Cut off by this gateway after '' @ receipt_duration after @ '' '' @ em_dash
      @ '' not by quarry. Anything above was already paid for.'')"
| "termination_note RunCancelled = Some
     ''Cancelled while running. Anything above was already paid for.''"
| "termination_note (Crashed exit_code) = Some
     (''quarry failed (exit '' @ show_int exit_code
      @ ''). Anything above is what it had reached before failing, and is still citable.'')"
| "termination_note (KilledBySignal signal) = Some
     (case signal of
        Some sig \<Rightarrow> ''quarry was killed by signal '' @ show_int sig @ ''. Anything above is partial.''
      | None \<Rightarrow> ''quarry was killed by a signal. Anything above is partial.'')"
| "termination_note StreamMalformed = Some
     ''quarry produced no readable events, so this receipt is incomplete. The record on disk is still the citable artifact.''"
| "termination_note (StreamVersionUnsupported declared) = Some
     (''quarry declared event-stream version '' @ show_nat declared
      @ '', which this gateway does not understand, so its events were not read. The record on disk is unaffected and still citable.'')"
| "termination_note (StreamIncomplete events_read) = Some
     (''quarry'' @ [CHR 0x27] @ ''s event stream stopped after '' @ show_nat events_read @ '' ''
      @ plural events_read ''event'' ''events''
      @ '' without a closing event, which means the run was cut off. Anything above is partial and the spend may be understated.'')"
| "termination_note UsageError = Some
     ''quarry rejected how this gateway invoked it, so nothing ran and nothing was spent. This is a fault here, not in your request.''"

definition footer_spend :: "receipt \<Rightarrow> string" where
  "footer_spend r =
     (case rp_spend_micro_usd r of
        Some spend \<Rightarrow>
          item (''Spend: '' @ receipt_spend spend
            @ (if rp_cap_unlimited r then '' of no limit''
               else case rp_cap_micro_usd r of Some cap \<Rightarrow> '' of '' @ receipt_spend cap | None \<Rightarrow> []))
      | None \<Rightarrow>
          item (''Spend: **not reported** '' @ em_dash
            @ '' the run ended without stating its total, so this is unknown rather than zero.''))"

definition footer_residual :: "receipt \<Rightarrow> string" where
  "footer_residual r =
     (case residual_micro_usd r of
        None \<Rightarrow> []
      | Some residual \<Rightarrow>
          item (''Of that, '' @ receipt_spend residual @ '' is not attributable to a specific model ''
            @ em_dash @ '' quarry'' @ [CHR 0x27]
            @ ''s reduce steps spend without recording a model version (quarry#20). The total above is still exact.''))"

definition footer_bound :: "receipt \<Rightarrow> string" where
  "footer_bound r =
     (case rp_bound_by r of
        Some d \<Rightarrow> item (''Stopped by: **'' @ d @ ''** '' @ em_dash @ '' '' @ remedy_for d)
      | None \<Rightarrow> item ''No limit was reached.'')"

definition footer_gaps :: "receipt \<Rightarrow> string" where
  "footer_gaps r =
     (if rp_gaps r > 0
      then newline @ ''**Missing because time ran out** ('' @ show_nat (rp_gaps r) @ '' ''
        @ plural (rp_gaps r) ''node'' ''nodes'' @ '')'' @ newline
        @ (if rp_gap_nodes r = [] then [] else item (''Nodes: '' @ join_with '', '' (rp_gap_nodes r)))
        @ item ''More time would recover these. More money would not.''
      else [])"

definition footer_unfunded :: "receipt \<Rightarrow> string" where
  "footer_unfunded r =
     (if rp_unfunded r > 0
      then newline @ ''**Not attempted, because the budget did not cover it** ('' @ show_nat (rp_unfunded r)
        @ '' '' @ plural (rp_unfunded r) ''node'' ''nodes'' @ '')'' @ newline
        @ item ''This is planned degradation, not lost work: quarry fitted its plan to the limit you approved.''
        @ item ''A higher spend limit would fund these. More time would not.''
      else [])"

definition warning_sign :: string where
  "warning_sign = [CHR 0xE2, CHR 0x9A, CHR 0xA0, CHR 0xEF, CHR 0xB8, CHR 0x8F]"

definition footer_trust :: "receipt \<Rightarrow> string" where
  "footer_trust r =
     newline @ ''**How much to trust it**'' @ newline
     @ item (stability_render (rp_stability r))
     @ (if rp_unverified_nodes r = [] then []
        else item (''Unverified: '' @ show_nat (length (rp_unverified_nodes r)) @ '' ''
          @ plural (length (rp_unverified_nodes r)) ''node'' ''nodes'' @ '' '' @ em_dash @ '' ''
          @ join_with '', '' (rp_unverified_nodes r)))
     @ (case rp_adversarial_findings r of
          Some findings \<Rightarrow>
            if findings > 0
            then item (''An adversarial pass refuted '' @ show_nat findings @ '' ''
              @ plural findings ''claim'' ''claims'' @ ''.'')
            else []
        | None \<Rightarrow> [])
     @ (if rp_row_count r > 0 \<and> \<not> rp_rows_reconcile r
        then item (warning_sign @ '' The itemised lines in quarry'' @ [CHR 0x27]
          @ ''s receipt do not sum to its stated total. Treat the breakdown as unreliable; the total is quarry''
          @ [CHR 0x27] @ ''s own figure.'')
        else [])"

definition footer_note :: "receipt \<Rightarrow> string" where
  "footer_note r =
     (case termination_note (rp_termination r) of
        Some note \<Rightarrow> newline @ ''**'' @ note @ ''**'' @ newline
      | None \<Rightarrow> [])"

definition footer_citation :: "receipt \<Rightarrow> string" where
  "footer_citation r =
     newline @ ''**Full record**'' @ newline
     @ (case rp_run_id r of Some i \<Rightarrow> item (''Run: '' @ backtick @ i @ backtick) | None \<Rightarrow> [])
     @ (case rp_record_url r of
          Some url \<Rightarrow> item (''Record: '' @ url)
        | None \<Rightarrow> item (''Record directory: '' @ backtick @ rp_run_dir r @ backtick))"

definition render_footer :: "receipt \<Rightarrow> string" where
  "render_footer r =
     ''**Receipt**'' @ newline
     @ footer_spend r @ footer_residual r
     @ item (''Took: '' @ receipt_duration (rp_duration r))
     @ footer_bound r @ footer_gaps r @ footer_unfunded r @ footer_trust r @ footer_note r
     @ footer_citation r"

definition receipt_render :: "receipt \<Rightarrow> string" where
  "receipt_render r =
     (case rp_answer r of
        Some text \<Rightarrow> trim_end text @ newline @ newline
      | None \<Rightarrow> ''**No answer.** This run produced nothing usable.'' @ newline @ newline)
     @ ''---'' @ newline @ render_footer r"

subsection \<open>Properties\<close>

lemma from_outcome_money:
  "rp_spend_micro_usd (from_outcome out) = map_option oc_total_micros (terminal_outcome (ro_events out))"
  "rp_model_spend_micro_usd (from_outcome out) = model_spend (collect_models (ro_events out))"
  by (simp_all add: from_outcome_def Let_def)

lemma model_spend_of_ledger:
  assumes "\<forall>m \<in> set ms. 0 \<le> m" and "sum_list ms \<le> 2 ^ 50"
    and "map me_cost models = map wire_usd ms"
  shows "model_spend models = (if ms = [] then None else Some (sum_list ms))"
proof -
  have "map model_cost_micro_usd models = map usd_to_micro (map wire_usd ms)"
    by (simp add: model_cost_micro_usd_def flip: assms(3))
  moreover have "models = [] \<longleftrightarrow> ms = []" using assms(3) by auto
  ultimately show ?thesis
    using ledger_back [OF assms(1,2)] ledger_sum [OF assms(1,2)] by (simp add: model_spend_def)
qed

text \<open>The spend no model accounts for is disclosed to the micro-dollar. If the model events
  carry the doubles of integer costs and the terminal event an integer total, the residual of
  the receipt is exactly total minus the sum of those costs, and it is absent exactly when
  they agree: float summation never invents or hides a difference.\<close>

theorem residual_is_the_ledger_difference:
  assumes "\<forall>m \<in> set ms. 0 \<le> m" and "sum_list ms \<le> 2 ^ 50" and "ms \<noteq> []"
    and "map me_cost (collect_models (ro_events out)) = map wire_usd ms"
    and "terminal_outcome (ro_events out) = Some oc" and "\<bar>oc_total_micros oc\<bar> \<le> 2 ^ 62"
  shows "residual_micro_usd (from_outcome out) =
    (if oc_total_micros oc = sum_list ms then None else Some (oc_total_micros oc - sum_list ms))"
proof -
  have "0 \<le> sum_list ms" using assms(1) by (simp add: sum_list_nonneg)
  then have "in_i64 (oc_total_micros oc - sum_list ms)"
    using assms(2,6) by (simp add: in_i64_def abs_le_iff)
  then show ?thesis
    using model_spend_of_ledger [OF assms(1,2,4)] assms(3,5)
    by (simp add: residual_micro_usd_def from_outcome_money wrap_i64_id Let_def)
qed

definition reduce_run :: run_outcome where
  "reduce_run = \<lparr>ro_run_id = ''r'', ro_termination = Completed,
     ro_events = [Model \<lparr>me_tier = ''t'', me_label = ''m'', me_state = ''done'', me_cost = wire_usd 38395\<rparr>,
       Outcome (default_outcome\<lparr>oc_outcome := ''complete'', oc_total_micros := 80437\<rparr>)],
     ro_stats = default_stats, ro_stderr = [], ro_run_dir = ''d'', ro_record = None, ro_duration = 0\<rparr>"

lemma residual_is_the_ledger_difference_witness:
  "residual_micro_usd (from_outcome reduce_run) = Some 42042"
  using residual_is_the_ledger_difference [of "[38395]" reduce_run
      "default_outcome\<lparr>oc_outcome := ''complete'', oc_total_micros := 80437\<rparr>"]
  by (simp add: reduce_run_def collect_models_def List.map_filter_def terminal_outcome_def)

text \<open>The footer's parts, found again in the whole.\<close>

lemma footer_parts:
  "\<exists>pre post. render_footer r = pre @ footer_spend r @ post"
  "\<exists>pre post. render_footer r = pre @ footer_bound r @ post"
  "\<exists>pre. render_footer r = pre @ footer_citation r"
  unfolding render_footer_def
  by (metis append.assoc)+

text \<open>A limit that cut a run short can be denied by its own receipt: when the stream has no
  terminal event, as with an unframed quarry whose record or exit code names the
  denomination, the run is classified as truncated by it while the footer says that no limit
  was reached.\<close>

theorem footer_denies_the_limit_that_stopped_the_run:
  assumes "ro_termination out = Truncated (Some d)" and "terminal_outcome (ro_events out) = None"
  shows "receipt_truncated (from_outcome out) \<and>
    (\<exists>pre post. render_footer (from_outcome out) = pre @ item ''No limit was reached.'' @ post)"
proof
  show "receipt_truncated (from_outcome out)"
    using assms(1) by (simp add: receipt_truncated_def from_outcome_def Let_def)
  have "footer_bound (from_outcome out) = item ''No limit was reached.''"
    using assms(2) by (simp add: footer_bound_def from_outcome_def Let_def)
  then show "\<exists>pre post. render_footer (from_outcome out) = pre @ item ''No limit was reached.'' @ post"
    using footer_parts(2) [of "from_outcome out"] by simp
qed

definition unframed_run :: run_outcome where
  "unframed_run = reduce_run
     \<lparr>ro_events := [Answer \<lparr>ans_title = [], ans_text = ''partial''\<rparr>],
      ro_termination := classify NotForced (Some (ExitCode 3))
        [Answer \<lparr>ans_title = [], ans_text = ''partial''\<rparr>] (default_stats\<lparr>ss_events := 1\<rparr>) None 0\<rparr>"

lemma footer_denies_the_limit_that_stopped_the_run_witness:
  "ro_termination unframed_run = Truncated (Some ''latency'')
   \<and> (\<exists>pre post. render_footer (from_outcome unframed_run) = pre @ item ''No limit was reached.'' @ post)"
proof -
  have "ro_termination unframed_run = Truncated (Some ''latency'')"
    "terminal_outcome (ro_events unframed_run) = None"
    by (simp_all add: unframed_run_def classify_def classify_unframed_def terminal_outcome_def
        stream_version_def exit_codes)
  then show ?thesis using footer_denies_the_limit_that_stopped_the_run [of unframed_run] by simp
qed

text \<open>C25: Whatever happened, the reply is complete: it opens with the run's answer, or says that
  there is none; it states the total of the terminal event, or that the spend is unknown
  rather than zero, exactly when no terminal event arrived; and it ends by naming a record
  address, or the gateway's own run directory.\<close>

theorem every_reply_states_spend_and_citation:
  fixes out :: run_outcome
  defines "r \<equiv> from_outcome out"
  shows "\<exists>mid1 mid2. receipt_render r =
      (case outcome_answer out of
         Some a \<Rightarrow> trim_end a
       | None \<Rightarrow> ''**No answer.** This run produced nothing usable.'')
      @ mid1
      @ (case terminal_outcome (ro_events out) of
           Some oc \<Rightarrow> bullet @ '' Spend: '' @ receipt_spend (oc_total_micros oc)
         | None \<Rightarrow> bullet @ '' Spend: **not reported**'')
      @ mid2
      @ (case find_artifact (ro_events out) of
           Some a \<Rightarrow>
             if art_url a = [] then item (''Record directory: '' @ backtick @ ro_run_dir out @ backtick)
             else item (''Record: '' @ art_url a)
         | None \<Rightarrow> item (''Record directory: '' @ backtick @ ro_run_dir out @ backtick))"
  (is "\<exists>mid1 mid2. _ = ?a @ mid1 @ ?s @ mid2 @ ?c")
proof -
  have x: "receipt_render r = ?a @ (newline @ newline @ ''---'' @ newline) @ render_footer r" (is "_ = _ @ ?x @ _")
    by (simp add: receipt_render_def r_def from_outcome_def Let_def split: option.split)
  have "\<exists>y. footer_spend r = ?s @ y"
    by (simp add: footer_spend_def item_def r_def from_outcome_money split: option.split)
  then obtain y where y: "footer_spend r = ?s @ y" ..
  obtain z where z: "footer_citation r = z @ ?c"
  proof -
    have "footer_citation r =
        (newline @ ''**Full record**'' @ newline
          @ (case rp_run_id r of Some i \<Rightarrow> item (''Run: '' @ backtick @ i @ backtick) | None \<Rightarrow> [])) @ ?c"
      by (simp add: footer_citation_def r_def from_outcome_def non_empty_text_def Let_def split: option.split)
    then show thesis by (rule that)
  qed
  obtain u v where u: "render_footer r = u @ footer_spend r @ v @ footer_citation r"
    unfolding render_footer_def by (metis append.assoc)
  have "receipt_render r = ?a @ (?x @ u) @ ?s @ (y @ v @ z) @ ?c"
    by (simp only: x u y z append.assoc)
  then show ?thesis by blast
qed

end
