(* ===== verification/Dashboard.thy ===== *)
theory Dashboard
  imports Receipt Pipeline
begin

section \<open>Finished runs (\<open>src/gateway/dashboard.rs\<close>, \<open>src/gateway/mod.rs\<close>)\<close>

text \<open>
  What a finished quarry run leaves behind: the decomposition tree published to the
  dashboard, and the reply, which goes out the way every answer of the gateway does. The
  subscribers of the dashboard are the list of events published.
\<close>

subsection \<open>The tree\<close>

record quarry_tree_node =
  qn_id :: string
  qn_problem :: string
  qn_cost_micro_usd :: int
  qn_children :: "string list"
  qn_gap :: bool
  qn_unfunded :: bool
  qn_cache_hit :: bool
  qn_verified :: "bool option"

record quarry_run =
  qr_run_id :: string
  qr_record_id :: string
  qr_outcome :: string
  qr_bound_by :: string
  qr_spend_micro_usd :: "int option"
  qr_cap_micro_usd :: "int option"
  qr_gaps :: nat
  qr_unfunded :: nat
  qr_stability_measured :: bool
  qr_stability :: "f64 option"
  qr_nodes :: "quarry_tree_node list"

text \<open>A node is labelled by whether its identifier is among those of a class.\<close>

definition tree_node :: "run_record \<Rightarrow> node_outcome \<Rightarrow> quarry_tree_node" where
  "tree_node r n =
     \<lparr>qn_id = no_node_id n, qn_problem = preview 160 (no_content n), qn_cost_micro_usd = no_cost n,
      qn_children = no_children n, qn_gap = (no_node_id n \<in> set (map no_node_id (record_gaps r))),
      qn_unfunded = (no_node_id n \<in> set (map no_node_id (record_unfunded r))),
      qn_cache_hit = no_cache_hit n, qn_verified = no_verified n\<rparr>"

definition tree_nodes :: "run_record option \<Rightarrow> quarry_tree_node list" where
  "tree_nodes record = (case record of None \<Rightarrow> [] | Some r \<Rightarrow> map (tree_node r) (rr_outcomes r))"

definition quarry_run_event :: "run_outcome \<Rightarrow> quarry_run" where
  "quarry_run_event outcome =
     (let rc = from_outcome outcome; terminal = terminal_outcome (ro_events outcome);
          (measured, rate) = (case rp_stability rc of NotMeasured \<Rightarrow> (False, None) | Published x \<Rightarrow> (True, Some x))
      in \<lparr>qr_run_id = ro_run_id outcome,
          qr_record_id = (case rp_run_id rc of Some i \<Rightarrow> i | None \<Rightarrow> []),
          qr_outcome = (case terminal of Some t \<Rightarrow> oc_outcome t | None \<Rightarrow> []),
          qr_bound_by = (case terminal of Some t \<Rightarrow> oc_bound_by t | None \<Rightarrow> []),
          qr_spend_micro_usd = rp_spend_micro_usd rc, qr_cap_micro_usd = rp_cap_micro_usd rc,
          qr_gaps = rp_gaps rc, qr_unfunded = rp_unfunded rc,
          qr_stability_measured = measured, qr_stability = rate,
          qr_nodes = tree_nodes (ro_record outcome)\<rparr>)"

definition record_quarry_run :: "run_outcome \<Rightarrow> quarry_run list \<Rightarrow> quarry_run list" where
  "record_quarry_run outcome published = published @ [quarry_run_event outcome]"

subsection \<open>Delivery\<close>

text \<open>Published first, then sent; the result is that of the send.\<close>

definition deliver_quarry_outcome ::
    "pipeline_config \<Rightarrow> surroundings \<Rightarrow> string \<Rightarrow> run_outcome \<Rightarrow> gateway \<times> quarry_run list
     \<Rightarrow> ((string + unit) \<times> gateway \<times> quarry_run list) option" where
  "deliver_quarry_outcome cfg e channel_id outcome s =
     (let published = record_quarry_run outcome (snd s) in
      map_option (\<lambda>(r, g'). (r, g', published))
        (send_text cfg e channel_id (receipt_render (from_outcome outcome)) (fst s)))"

subsection \<open>A small run\<close>

definition demo_node :: "string \<Rightarrow> string \<Rightarrow> bool \<Rightarrow> string list \<Rightarrow> node_outcome" where
  "demo_node i c gap children = \<lparr>no_node_id = i, no_content = c, no_cost = 0, no_gap = gap, no_cache_hit = False,
     no_model = [], no_verified = None, no_children = children\<rparr>"

definition demo_record :: run_record where
  "demo_record = \<lparr>rr_run_id = ''r'', rr_bound_by = [], rr_caps = default_caps, rr_unverified = [],
     rr_outcomes = [demo_node ''n0'' ''why'' False [''n0.0'', ''n0.1''], demo_node ''n0.0'' ''how'' True [],
       demo_node ''n0.1'' [] False []]\<rparr>"

definition demo_outcome :: run_outcome where
  "demo_outcome = \<lparr>ro_run_id = ''run'', ro_termination = NoAnswer, ro_events = [], ro_stats = default_stats,
     ro_stderr = [], ro_run_dir = ''d'', ro_record = Some demo_record, ro_duration = 0\<rparr>"

subsection \<open>Properties\<close>

lemma preview_short: "length (chars (preview n s)) \<le> n" if "valid_utf8 s"
proof -
  have "list_all valid_char (take n (chars s))"
    using that by (auto simp: valid_utf8_def list_all_iff dest: in_set_takeD)
  from chars_concat [OF this] show ?thesis by (simp add: preview_def)
qed

text \<open>The dashboard's tree is the record's. Its nodes are the record's in its order, with
  its costs, edges and verdicts; where the record names each node once, a node is shown as a
  gap exactly when the record says time cut it short and as unfunded exactly when the
  budget priced it out, never as both, and as many nodes carry each mark as the record has
  in the class. No text shown is longer than 160 characters.\<close>

theorem tree_is_the_record:
  assumes "ro_record outcome = Some r" and "distinct (map no_node_id (rr_outcomes r))"
    and "list_all (\<lambda>n. valid_utf8 (no_content n)) (rr_outcomes r)"
  shows "map qn_id (qr_nodes (quarry_run_event outcome)) = map no_node_id (rr_outcomes r)
    \<and> map qn_cost_micro_usd (qr_nodes (quarry_run_event outcome)) = map no_cost (rr_outcomes r)
    \<and> map qn_children (qr_nodes (quarry_run_event outcome)) = map no_children (rr_outcomes r)
    \<and> map qn_verified (qr_nodes (quarry_run_event outcome)) = map no_verified (rr_outcomes r)
    \<and> map qn_gap (qr_nodes (quarry_run_event outcome)) = map no_gap (rr_outcomes r)
    \<and> map qn_unfunded (qr_nodes (quarry_run_event outcome)) = map is_unfunded (rr_outcomes r)
    \<and> list_all (\<lambda>n. \<not> (qn_gap n \<and> qn_unfunded n) \<and> length (chars (qn_problem n)) \<le> 160)
        (qr_nodes (quarry_run_event outcome))"
proof -
  have nodes: "qr_nodes (quarry_run_event outcome) = map (tree_node r) (rr_outcomes r)"
    using assms(1) by (simp add: quarry_run_event_def tree_nodes_def Let_def split: prod.split)
  have mark: "no_node_id n \<in> no_node_id ` set (filter P (rr_outcomes r)) \<longleftrightarrow> P n"
    if "n \<in> set (rr_outcomes r)" for n P
    using that assms(2) by (auto simp: distinct_map inj_on_def)
  have gap: "qn_gap (tree_node r n) = no_gap n" and unf: "qn_unfunded (tree_node r n) = is_unfunded n"
    if "n \<in> set (rr_outcomes r)" for n
    using mark [OF that] by (simp_all add: tree_node_def record_gaps_def record_unfunded_def)
  have short: "length (chars (qn_problem (tree_node r n))) \<le> 160" if "n \<in> set (rr_outcomes r)" for n
    using that assms(3) preview_short by (simp add: tree_node_def list_all_iff)
  show ?thesis
    using gap unf short
    by (auto simp: nodes comp_def list_all_iff is_unfunded_def) (simp_all add: tree_node_def)
qed

lemma tree_is_the_record_witness:
  "map qn_gap (qr_nodes (quarry_run_event demo_outcome)) = [False, True, False]
   \<and> map qn_unfunded (qr_nodes (quarry_run_event demo_outcome)) = [False, False, True]"
proof -
  have "ro_record demo_outcome = Some demo_record" by (simp add: demo_outcome_def)
  moreover have "distinct (map no_node_id (rr_outcomes demo_record))"
    "list_all (\<lambda>n. valid_utf8 (no_content n)) (rr_outcomes demo_record)" by code_simp+
  moreover have "map no_gap (rr_outcomes demo_record) = [False, True, False]"
    "map is_unfunded (rr_outcomes demo_record) = [False, False, True]" by code_simp+
  ultimately show ?thesis using tree_is_the_record [of demo_outcome demo_record] by simp
qed

text \<open>A finished run reaches its sender with the whole receipt. However the channel limits
  its messages, the pieces sent together show every visible character of the formatted
  answer and footer, in order, and the run is published to the dashboard first, whether or
  not the reply can be sent.\<close>

theorem delivered_run_carries_its_receipt:
  assumes "formatted = format_response (pc_format cfg) (receipt_render (from_outcome outcome)) channel_id"
    and "valid_utf8 formatted" and "workable_limit cfg channel_id" and "channel_id \<in> set (en_channels e)"
  shows "\<exists>r g'. deliver_quarry_outcome cfg e channel_id outcome (g, published)
      = Some (r, g', published @ [quarry_run_event outcome])
    \<and> ((\<forall>n x. en_deliver e n x = Ok ()) \<longrightarrow>
        (\<exists>pieces. gw_sends g' = gw_sends g @ pieces
          \<and> concat (map (\<lambda>x. visible (ms_content (fst x))) pieces) = visible formatted))"
proof -
  obtain cs where cs: "outgoing_chunks cfg channel_id (receipt_render (from_outcome outcome)) = Some cs"
    "concat (map visible cs) = visible formatted"
    using outgoing_chunks_total [OF assms(1-3)] by blast
  obtain r g' where s: "send_chunks e channel_id cs g = (r, g')" by force
  have d: "deliver_quarry_outcome cfg e channel_id outcome (g, published)
      = Some (r, g', published @ [quarry_run_event outcome])"
    using cs(1) s assms(4) by (simp add: deliver_quarry_outcome_def send_text_def record_quarry_run_def Let_def)
  moreover have "\<exists>pieces. gw_sends g' = gw_sends g @ pieces
      \<and> concat (map (\<lambda>x. visible (ms_content (fst x))) pieces) = visible formatted"
    if "\<forall>n x. en_deliver e n x = Ok ()"
  proof -
    have ok: "en_deliver e n x = Ok ()" for n x using that by simp
    obtain g'' pieces where p: "send_chunks e channel_id cs g = (Ok (), g'')" "gw_sends g'' = gw_sends g @ pieces"
      "map (\<lambda>x. ms_content (fst x)) pieces = cs"
      using send_chunks_delivers [OF ok] by blast
    have "concat (map (\<lambda>x. visible (ms_content (fst x))) pieces) = visible formatted"
      using cs(2) by (simp add: p(3) [symmetric] comp_def)
    with p s show ?thesis by auto
  qed
  ultimately show ?thesis by blast
qed


lemma demo_receipt_text:
  "receipt_render (from_outcome demo_outcome) =
     ''**No answer.** This run produced nothing usable.'' @ newline @ newline @ ''---'' @ newline
     @ ''**Receipt**'' @ newline
     @ item (''Spend: **not reported** '' @ em_dash
          @ '' the run ended without stating its total, so this is unknown rather than zero.'')
     @ item ''Took: 0ms'' @ item ''No limit was reached.''
     @ newline @ ''**How much to trust it**'' @ newline @ item (stability_render NotMeasured)
     @ newline @ ''**Full record**'' @ newline @ item (''Record directory: '' @ backtick @ ''d'' @ backtick)"
proof -
  have "show_nat 0 = ''0''" by code_simp
  then have "receipt_duration 0 = ''0ms''"
    by (simp add: receipt_duration_def as_secs_def as_millis_def)
  then show ?thesis
    by (simp add: receipt_render_def render_footer_def footer_spend_def footer_residual_def footer_bound_def
        footer_gaps_def footer_unfunded_def footer_trust_def footer_note_def footer_citation_def
        from_outcome_def residual_micro_usd_def demo_outcome_def demo_record_def outcome_answer_def
        terminal_outcome_def find_artifact_def find_receipt_def collect_models_def model_spend_def
        stability_from_provenance_def List.map_filter_def Let_def)
qed

lemma delivered_run_carries_its_receipt_witness:
  "\<exists>r g'. deliver_quarry_outcome demo_config demo_surroundings ''sms'' demo_outcome (demo_gateway Map.empty quiet_registry, [])
      = Some (r, g', [quarry_run_event demo_outcome])
    \<and> (\<exists>pieces. gw_sends g' = pieces \<and> concat (map (\<lambda>x. visible (ms_content (fst x))) pieces)
         = visible (receipt_render (from_outcome demo_outcome)))"
proof -
  let ?t = "receipt_render (from_outcome demo_outcome)"
  have f: "?t = format_response (pc_format demo_config) ?t ''sms''"
    by (simp add: format_response_def split_first_def)
  have "valid_utf8 ?t" by (simp only: demo_receipt_text) code_simp
  moreover have "limit_for [(''sms'', 6)] ''sms'' = Some 6" by code_simp
  then have "workable_limit demo_config ''sms''" by (simp add: workable_limit_def demo_config_def)
  moreover have "''sms'' \<in> set (en_channels demo_surroundings)" "en_deliver demo_surroundings n x = Ok ()" for n x
    by (simp_all add: demo_surroundings_def)
  ultimately show ?thesis
    using delivered_run_carries_its_receipt [OF f, of demo_surroundings "demo_gateway Map.empty quiet_registry" "[]"]
    by (auto simp: demo_gateway_def)
qed

end
