(* ===== verification/Skills.thy ===== *)
theory Skills
  imports Rust_Str
begin

section \<open>Skills (\<open>src/skills/mod.rs\<close>)\<close>

text \<open>
  The \<open>SKILL.md\<close> files found one level below the configured directories and the text they add
  to a system prompt. The file system and the home directory are parameters; paths are the
  strings they are printed as.
\<close>

record skill =
  sk_name :: string
  sk_content :: string

record skill_files =
  sf_home :: "string option"
  sf_exists :: "string \<Rightarrow> bool"
  sf_read_dir :: "string \<Rightarrow> string + string list"
  sf_is_dir :: "string \<Rightarrow> bool"
  sf_read :: "string \<Rightarrow> string + string"

definition expand_tilde :: "skill_files \<Rightarrow> string \<Rightarrow> string" where
  "expand_tilde fs path =
     (case strip_prefix ''~/'' path of
        Some rest \<Rightarrow> (case sf_home fs of Some home \<Rightarrow> home @ ''/'' @ rest | None \<Rightarrow> path)
      | None \<Rightarrow> path)"

definition load_skill :: "skill_files \<Rightarrow> string \<Rightarrow> string \<Rightarrow> skill option" where
  "load_skill fs base name =
     (let dir = base @ ''/'' @ name; file = dir @ ''/SKILL.md'' in
      if \<not> sf_is_dir fs dir \<or> \<not> sf_exists fs file then None
      else case sf_read fs file of
        Inr content \<Rightarrow> Some \<lparr>sk_name = name, sk_content = content\<rparr>
      | Inl _ \<Rightarrow> None)"

definition skills_in :: "skill_files \<Rightarrow> string \<Rightarrow> skill list" where
  "skills_in fs dir =
     (let base = expand_tilde fs dir in
      if \<not> sf_exists fs base then []
      else case sf_read_dir fs base of
        Inl _ \<Rightarrow> []
      | Inr names \<Rightarrow> List.map_filter (load_skill fs base) names)"

text \<open>The registry after discovery, and how many were loaded.\<close>

definition discover_skills :: "skill_files \<Rightarrow> string list \<Rightarrow> skill list \<Rightarrow> nat \<times> skill list" where
  "discover_skills fs dirs skills =
     (let found = concat (map (skills_in fs) dirs) in (length found, skills @ found))"

definition skill_section :: "skill \<Rightarrow> string" where
  "skill_section s = newline @ ''## '' @ sk_name s @ newline @ sk_content s"

definition build_skill_context :: "skill list \<Rightarrow> nat \<Rightarrow> string option" where
  "build_skill_context skills max_active =
     (if skills = [] then None
      else Some (newline @ newline @ ''--- Skills / Behavioral Guidance ---''
             @ concat (map skill_section (take max_active skills))))"

lemma discover_counts: "discover_skills fs dirs skills = (n, found) \<Longrightarrow> length found = length skills + n"
  by (auto simp: discover_skills_def Let_def)

text \<open>Discovering twice loads everything twice, and a limit of zero still announces the section.\<close>

lemma discovery_is_not_idempotent:
  assumes "discover_skills fs dirs [] = (n, found)"
  shows "discover_skills fs dirs found = (n, found @ found)"
  using assms by (auto simp: discover_skills_def Let_def)

lemma empty_section_is_announced:
  "skills \<noteq> [] \<Longrightarrow>
     build_skill_context skills 0 = Some (newline @ newline @ ''--- Skills / Behavioral Guidance ---'')"
  by (simp add: build_skill_context_def)

end
