(* ===== verification/Event_Types.thy ===== *)
theory Event_Types
  imports Supervisor
begin

section \<open>The types of what is read from a run\<close>
















end
