(* ===== verification/Http.thy ===== *)
theory Http
  imports Hot_Config Channels Openai_Api Cron Skills
begin

section \<open>The HTTP server (\<open>src/gateway/http.rs\<close>, \<open>src/gateway/dashboard.rs\<close>)\<close>

text \<open>
  Every route of the server as a function on its state: the token check in front of all of
  them, the webhooks of the platforms, the administration, preferences, test and status
  handlers, and the table that routes a request. The extractors of axum (what they refuse a
  request with, and what they decode it to) are the record \<open>extractors\<close>; the state behind the
  agent manager is a type of its own. A handler answers \<open>None\<close> when it panics.
\<close>

subsection \<open>Requests and answers\<close>

datatype http_method = GET | POST | DELETE | HEAD | OTHER string

record http_request =
  rq_method :: http_method
  rq_path :: string
  rq_headers :: "(string \<times> string) list"
  rq_query :: string
  rq_body :: string

datatype answer_body =
    NoBody
  | Plain string
  | Js json
  | Events "sse list"
  | Upgrade "string option"

record http_answer =
  an_status :: nat
  an_headers :: "(string \<times> string) list"
  an_body :: answer_body

definition answer :: "nat \<Rightarrow> answer_body \<Rightarrow> http_answer" where
  "answer status body = \<lparr>an_status = status, an_headers = [], an_body = body\<rparr>"

text \<open>Header names are kept in lower case. The text of a value is there when all of it is visible
  ASCII or a tab.\<close>

definition header_byte_visible :: "char \<Rightarrow> bool" where
  "header_byte_visible c \<longleftrightarrow> byte c = 9 \<or> 32 \<le> byte c \<and> byte c < 127"

definition header_text :: "string \<Rightarrow> http_request \<Rightarrow> string option" where
  "header_text name r =
     (case map_of (rq_headers r) name of
        Some v \<Rightarrow> if list_all header_byte_visible v then Some v else None | None \<Rightarrow> None)"

definition header_or_empty :: "string \<Rightarrow> http_request \<Rightarrow> string" where
  "header_or_empty name r = (case header_text name r of Some v \<Rightarrow> v | None \<Rightarrow> [])"

subsection \<open>Configuration and state\<close>

record verify_params =
  vp_mode :: "string option"
  vp_verify_token :: "string option"
  vp_challenge :: "string option"

record prefs_update =
  pu_preferred_channel_id :: "string option"
  pu_timezone :: "string option"

text \<open>What is behind the extractors and the parsers the handlers call. A left value is the answer
  axum refuses the request with.\<close>

record extractors =
  ex_hmac :: "string \<Rightarrow> string \<Rightarrow> string"
  ex_lossy :: "string \<Rightarrow> string"
  ex_segment :: "string \<Rightarrow> http_answer + string"
  ex_bytes :: "http_request \<Rightarrow> http_answer + string"
  ex_upgrade :: "http_request \<Rightarrow> http_answer + unit"
  ex_verify_params :: "string \<Rightarrow> http_answer + verify_params"
  ex_session :: "string \<Rightarrow> http_answer + string option"
  ex_whatsapp :: "http_request \<Rightarrow> http_answer + webhook_body"
  ex_telegram :: "http_request \<Rightarrow> http_answer + tg_update"
  ex_test_send :: "http_request \<Rightarrow> http_answer + string \<times> string"
  ex_prefs :: "http_request \<Rightarrow> http_answer + prefs_update"
  ex_chat :: "http_request \<Rightarrow> http_answer + chat_request"
  ex_slack :: "string \<Rightarrow> string + slack_payload"
  ex_form :: "string \<Rightarrow> (string \<times> string) list option"
  ex_teams :: "string \<Rightarrow> string + teams_activity"
  ex_jsonpath :: "string \<Rightarrow> string \<Rightarrow> string option"
  ex_timezone :: "string \<Rightarrow> bool"
  ex_debug :: "string \<Rightarrow> string"

text \<open>What stays as it was when the server started. A sender is there or not; all of them lead into
  the same queue.\<close>

record server_config =
  sc_whatsapp_tx :: bool
  sc_whatsapp_verify_token :: string
  sc_telegram_tx :: bool
  sc_telegram_webhook_secret :: string
  sc_slack_tx :: bool
  sc_slack_signing_secret :: string
  sc_sms_tx :: bool
  sc_sms_auth_token :: string
  sc_webhook_endpoints :: "webhook_endpoint list"
  sc_webhook_tx :: bool
  sc_webchat :: bool
  sc_webchat_tx :: bool
  sc_teams_tx :: bool
  sc_teams_hmac_secret :: string
  sc_dashboard_expected_auth :: "string option"
  sc_test_channel :: bool
  sc_test_tx :: bool
  sc_audit :: bool
  sc_skills_paths :: "string list"
  sc_skills_max_active :: nat
  sc_cron_jobs :: "cron_job_status list"
  sc_allowed_ws_origins :: "string list"

text \<open>A channel as the status handlers see it.\<close>

record channel_state =
  ch_id :: string
  ch_name :: string
  ch_adapter :: adapter_config
  ch_running :: bool

record 'm server =
  sv_hot :: hot_config
  sv_accepting :: bool
  sv_queue :: "message list"
  sv_prefs :: user_prefs
  sv_stats :: message_stats
  sv_audit_log :: "audit_event list"
  sv_captured :: "message list"
  sv_skills_context :: "string option"
  sv_channels :: "channel_state list"
  sv_sessions :: "string list"
  sv_manager :: 'm

text \<open>What one request meets: the stamps of its messages, a fresh identifier, the time, the agent
  manager, the file system of the skills, the text of the metrics, the page of the dashboard and
  the script of the web chat.\<close>

record 'm backend =
  bk_stamp :: "nat \<Rightarrow> stamp"
  bk_uuid :: string
  bk_created :: nat
  bk_version :: string
  bk_start_time :: string
  bk_uptime_seconds :: nat
  bk_time_text :: "nat \<Rightarrow> string"
  bk_agents :: "'m manager"
  bk_clear_history :: "string \<Rightarrow> 'm \<Rightarrow> 'm"
  bk_active_users :: "'m \<Rightarrow> nat"
  bk_files :: skill_files
  bk_metrics :: "message_stats \<Rightarrow> nat \<Rightarrow> nat \<Rightarrow> string + string"
  bk_html :: string
  bk_widget :: string

type_synonym 'm handled = "http_answer option \<times> 'm server"

text \<open>Passing a message on fails when the gateway no longer takes messages.\<close>

definition enqueue :: "message \<Rightarrow> 'm server \<Rightarrow> bool \<times> 'm server" where
  "enqueue m s = (if sv_accepting s then (True, s\<lparr>sv_queue := sv_queue s @ [m]\<rparr>) else (False, s))"

definition enqueue_opt :: "message option \<Rightarrow> 'm server \<Rightarrow> 'm server" where
  "enqueue_opt m s = (case m of Some x \<Rightarrow> snd (enqueue x s) | None \<Rightarrow> s)"

definition log_audit :: "server_config \<Rightarrow> audit_event \<Rightarrow> 'm server \<Rightarrow> 'm server" where
  "log_audit c a s = (if sc_audit c then s\<lparr>sv_audit_log := sv_audit_log s @ [a]\<rparr> else s)"

definition replied :: "nat \<Rightarrow> answer_body \<Rightarrow> 'm server \<Rightarrow> 'm handled" where
  "replied status body s = (Some (answer status body), s)"

text \<open>An extractor in front of a handler.\<close>

definition extracted :: "http_answer + 'a \<Rightarrow> 'm server \<Rightarrow> ('a \<Rightarrow> 'm handled) \<Rightarrow> 'm handled" where
  "extracted x s f = (case x of Inl refusal \<Rightarrow> (Some refusal, s) | Inr v \<Rightarrow> f v)"

subsection \<open>The token\<close>

definition expected_token :: "hot_config \<Rightarrow> string option" where
  "expected_token h = (case hc_api_token h of Some t \<Rightarrow> if t \<noteq> [] then Some t else None | None \<Rightarrow> None)"

definition provided_token :: "http_request \<Rightarrow> string" where
  "provided_token r =
     (case Option.bind (header_text ''authorization'' r) (strip_prefix ''Bearer '') of Some t \<Rightarrow> t | None \<Rightarrow> [])"

definition unauthorized :: http_answer where
  "unauthorized = \<lparr>an_status = 401,
     an_headers = [(''www-authenticate'', ''Bearer realm='' @ [CHR 0x22] @ ''RustyNail'' @ [CHR 0x22])],
     an_body = Plain ''Unauthorized''\<rparr>"

definition bearer_auth :: "server_config \<Rightarrow> http_request \<Rightarrow> ('m server \<Rightarrow> 'm handled) \<Rightarrow> 'm server \<Rightarrow> 'm handled" where
  "bearer_auth c r run_next s =
     (case expected_token (sv_hot s) of
        None \<Rightarrow> run_next s
      | Some expected \<Rightarrow>
         if rq_path r = ''/live'' \<or> rq_path r = ''/ready'' then run_next s
         else if provided_token r = expected then run_next s
         else (Some unauthorized,
               log_audit c (AuthRejected (rq_path r) ''invalid_token'')
                 (s\<lparr>sv_stats := record_auth_failure (sv_stats s)\<rparr>)))"

subsection \<open>Health\<close>

definition health_json :: "'m backend \<Rightarrow> string \<Rightarrow> answer_body" where
  "health_json b status = Js (JObject [(''status'', JString status), (''version'', JString (bk_version b))])"

text \<open>The adapters that keep their health in a tokio lock read it with \<open>blocking_read\<close>, which
  panics on a thread that runs an asynchronous task, as every handler does: \<open>None\<close>.\<close>

fun read_health :: "channel_state \<Rightarrow> channel_health option" where
  "read_health ch =
     (case ch_adapter ch of
        TestCh \<Rightarrow> Some Healthy
      | TeamsCh _ \<Rightarrow> Some (if ch_running ch then Healthy else Unhealthy ''channel not started'')
      | _ \<Rightarrow> None)"

fun read_all :: "channel_state list \<Rightarrow> (channel_state \<times> channel_health) list option" where
  "read_all [] = Some []"
| "read_all (ch # chs) =
     Option.bind (read_health ch) (\<lambda>h. map_option (\<lambda>hs. (ch, h) # hs) (read_all chs))"

fun any_operational :: "channel_state list \<Rightarrow> bool option" where
  "any_operational [] = Some False"
| "any_operational (ch # chs) =
     Option.bind (read_health ch) (\<lambda>h. if is_operational h then Some True else any_operational chs)"

fun health_debug :: "(string \<Rightarrow> string) \<Rightarrow> channel_health \<Rightarrow> string" where
  "health_debug dbg Healthy = ''Healthy''"
| "health_debug dbg (Degraded r) = ''Degraded { reason: '' @ dbg r @ '' }''"
| "health_debug dbg (Unhealthy r) = ''Unhealthy { reason: '' @ dbg r @ '' }''"

definition channel_status :: "(string \<Rightarrow> string) \<Rightarrow> channel_state \<times> channel_health \<Rightarrow> json" where
  "channel_status dbg p = (case p of (ch, h) \<Rightarrow>
     JObject [(''id'', JString (ch_id ch)), (''name'', JString (ch_name ch)),
       (''health'', JString (health_debug dbg h)), (''running'', JBool (ch_running ch))])"

definition status_handler :: "extractors \<Rightarrow> 'm backend \<Rightarrow> 'm server \<Rightarrow> 'm handled" where
  "status_handler x b s =
     (case read_all (sv_channels s) of
        None \<Rightarrow> (None, s)
      | Some hs \<Rightarrow> replied 200 (Js (JObject
          [(''status'', JString ''running''), (''version'', JString (bk_version b)),
           (''channels'', JArray (map (channel_status (ex_debug x)) hs)),
           (''active_users'', JInt (int (bk_active_users b (sv_manager s))))])) s)"

definition metrics_handler :: "'m backend \<Rightarrow> 'm server \<Rightarrow> 'm handled" where
  "metrics_handler b s =
     (case read_all (sv_channels s) of
        None \<Rightarrow> (None, s)
      | Some hs \<Rightarrow>
         (case bk_metrics b (sv_stats s) (bk_active_users b (sv_manager s))
                 (length (filter (is_healthy \<circ> snd) hs)) of
            Inl e \<Rightarrow> replied 500 (Plain (''metrics encoding error: '' @ e)) s
          | Inr t \<Rightarrow> (Some \<lparr>an_status = 200,
                an_headers = [(''content-type'', ''text/plain; version=0.0.4; charset=utf-8'')],
                an_body = Plain t\<rparr>, s)))"

definition readiness_handler :: "'m backend \<Rightarrow> 'm server \<Rightarrow> 'm handled" where
  "readiness_handler b s =
     (case any_operational (sv_channels s) of
        None \<Rightarrow> (None, s)
      | Some True \<Rightarrow> replied 200 (health_json b ''ready'') s
      | Some False \<Rightarrow> replied 503 (health_json b ''not ready'') s)"

subsection \<open>Webhooks of the platforms\<close>

definition whatsapp_webhook_verify :: "server_config \<Rightarrow> extractors \<Rightarrow> http_request \<Rightarrow> 'm server \<Rightarrow> 'm handled" where
  "whatsapp_webhook_verify c x r s = extracted (ex_verify_params x (rq_query r)) s (\<lambda>p.
     if or_empty (vp_mode p) = ''subscribe'' \<and> or_empty (vp_verify_token p) = sc_whatsapp_verify_token c
     then replied 200 (Plain (or_empty (vp_challenge p))) s
     else replied 403 NoBody s)"

definition whatsapp_webhook_receive ::
    "server_config \<Rightarrow> extractors \<Rightarrow> 'm backend \<Rightarrow> http_request \<Rightarrow> 'm server \<Rightarrow> 'm handled" where
  "whatsapp_webhook_receive c x b r s = extracted (ex_whatsapp x r) s (\<lambda>body.
     if \<not> sc_whatsapp_tx c then replied 503 NoBody s
     else replied 200 NoBody
       (fold (\<lambda>m s. snd (enqueue m s)) (parse_webhook (bk_stamp b) ''whatsapp-main'' body) s))"

definition telegram_webhook_receive ::
    "server_config \<Rightarrow> extractors \<Rightarrow> 'm backend \<Rightarrow> http_request \<Rightarrow> 'm server \<Rightarrow> 'm handled" where
  "telegram_webhook_receive c x b r s = extracted (ex_telegram x r) s (\<lambda>u.
     if sc_telegram_webhook_secret c \<noteq> []
        \<and> header_or_empty ''x-telegram-bot-api-secret-token'' r \<noteq> sc_telegram_webhook_secret c
     then replied 403 NoBody s
     else if \<not> sc_telegram_tx c then replied 503 NoBody s
     else replied 200 NoBody (enqueue_opt (parse_update (bk_stamp b 0) u) s))"

definition slack_webhook_receive ::
    "server_config \<Rightarrow> extractors \<Rightarrow> 'm backend \<Rightarrow> http_request \<Rightarrow> 'm server \<Rightarrow> 'm handled" where
  "slack_webhook_receive c x b r s = extracted (ex_bytes x r) s (\<lambda>body.
     if sc_slack_signing_secret c \<noteq> []
        \<and> \<not> is_ok (verify_slack_signature (ex_hmac x) (ex_lossy x) (sc_slack_signing_secret c)
                (header_or_empty ''x-slack-request-timestamp'' r) body (header_or_empty ''x-slack-signature'' r))
     then replied 403 NoBody s
     else case ex_slack x body of
       Inl _ \<Rightarrow> replied 400 NoBody s
     | Inr (UrlVerification challenge) \<Rightarrow> replied 200 (Js (JObject [(''challenge'', JString challenge)])) s
     | Inr payload \<Rightarrow>
         if \<not> sc_slack_tx c then replied 503 NoBody s
         else replied 200 NoBody (enqueue_opt (parse_event (bk_stamp b 0) payload) s))"

definition twiml :: string where
  "twiml = (let q = [CHR 0x22] in ''<?xml version='' @ q @ ''1.0'' @ q @ '' encoding='' @ q @ ''UTF-8'' @ q
     @ ''?><Response></Response>'')"

text \<open>The signature header is read, and the form decoded, before a check that never refuses: the
  inner condition repeats the outer one with the opposite sign.\<close>

definition sms_refuses :: "server_config \<Rightarrow> extractors \<Rightarrow> http_request \<Rightarrow> string \<Rightarrow> bool" where
  "sms_refuses c x r body =
     (sc_sms_auth_token c \<noteq> []
      \<and> (let signature = header_or_empty ''x-twilio-signature'' r;
             params = (case ex_form x body of Some ps \<Rightarrow> ps | None \<Rightarrow> [])
         in signature \<noteq> [] \<and> params \<noteq> [] \<and> signature = []))"

definition sms_webhook_receive ::
    "server_config \<Rightarrow> extractors \<Rightarrow> 'm backend \<Rightarrow> http_request \<Rightarrow> 'm server \<Rightarrow> 'm handled" where
  "sms_webhook_receive c x b r s = extracted (ex_bytes x r) s (\<lambda>body.
     if sms_refuses c x r body then replied 403 NoBody s
     else if \<not> sc_sms_tx c then replied 503 NoBody s
     else (Some \<lparr>an_status = 200, an_headers = [(''content-type'', ''text/xml'')], an_body = Plain twiml\<rparr>,
           enqueue_opt (parse_sms_webhook (bk_stamp b 0) ''sms-main''
             (case ex_form x body of Some ps \<Rightarrow> ps | None \<Rightarrow> [])) s))"

definition generic_webhook_receive ::
    "server_config \<Rightarrow> extractors \<Rightarrow> 'm backend \<Rightarrow> http_request \<Rightarrow> string \<Rightarrow> 'm server \<Rightarrow> 'm handled" where
  "generic_webhook_receive c x b r segment s =
     extracted (ex_segment x segment) s (\<lambda>name. extracted (ex_bytes x r) s (\<lambda>body.
       case find (\<lambda>ep. ep_path ep = name) (sc_webhook_endpoints c) of
         None \<Rightarrow> replied 404 NoBody s
       | Some ep \<Rightarrow>
          if (case ep_secret ep of
                Some secret \<Rightarrow> \<not> is_ok (verify_webhook_signature (ex_hmac x) secret body
                                          (header_or_empty ''x-webhook-signature'' r))
              | None \<Rightarrow> False)
          then replied 403 NoBody s
          else if \<not> sc_webhook_tx c then replied 503 NoBody s
          else replied 200 NoBody
            (enqueue_opt (parse_webhook_body (ex_jsonpath x) (bk_stamp b 0) ''webhook-main'' ep body) s)))"

definition teams_webhook_receive ::
    "server_config \<Rightarrow> extractors \<Rightarrow> 'm backend \<Rightarrow> http_request \<Rightarrow> 'm server \<Rightarrow> 'm handled" where
  "teams_webhook_receive c x b r s = extracted (ex_bytes x r) s (\<lambda>body.
     if sc_teams_hmac_secret c \<noteq> []
        \<and> \<not> is_ok (verify_teams_signature (ex_hmac x) (sc_teams_hmac_secret c) body (header_or_empty ''authorization'' r))
     then replied 401 NoBody s
     else case ex_teams x body of
       Inl _ \<Rightarrow> replied 400 NoBody s
     | Inr activity \<Rightarrow>
         if \<not> sc_teams_tx c then replied 503 NoBody s
         else replied 200 NoBody (enqueue_opt (parse_activity (bk_stamp b 0) ''teams-main'' activity) s))"

subsection \<open>Sockets\<close>

definition origin_allowed :: "server_config \<Rightarrow> http_request \<Rightarrow> bool" where
  "origin_allowed c r \<longleftrightarrow>
     sc_allowed_ws_origins c = [] \<or> header_or_empty ''origin'' r \<in> set (sc_allowed_ws_origins c)"

text \<open>An accepted upgrade carries the session of the socket, when it is one of the web chat.\<close>

definition webchat_ws_handler ::
    "server_config \<Rightarrow> extractors \<Rightarrow> 'm backend \<Rightarrow> http_request \<Rightarrow> 'm server \<Rightarrow> 'm handled" where
  "webchat_ws_handler c x b r s =
     extracted (ex_upgrade x r) s (\<lambda>_. extracted (ex_session x (rq_query r)) s (\<lambda>session.
       if \<not> origin_allowed c r then replied 403 NoBody s
       else replied 101 (Upgrade (Some (case session of Some i \<Rightarrow> i | None \<Rightarrow> bk_uuid b))) s))"

definition dashboard_ws_handler :: "server_config \<Rightarrow> extractors \<Rightarrow> http_request \<Rightarrow> 'm server \<Rightarrow> 'm handled" where
  "dashboard_ws_handler c x r s = extracted (ex_upgrade x r) s (\<lambda>_.
     if \<not> origin_allowed c r then replied 403 NoBody s else replied 101 (Upgrade None) s)"

subsection \<open>The test channel\<close>

definition test_send_handler ::
    "server_config \<Rightarrow> extractors \<Rightarrow> 'm backend \<Rightarrow> http_request \<Rightarrow> 'm server \<Rightarrow> 'm handled" where
  "test_send_handler c x b r s = extracted (ex_test_send x r) s (\<lambda>(user_id, content).
     if \<not> sc_test_tx c then replied 404 (Plain ''test channel not enabled'') s
     else case enqueue (new_message (bk_stamp b 0) ''testchan-main'' user_id ''test-user'' content) s of
       (False, s') \<Rightarrow> replied 503 (Plain ''gateway not accepting messages'') s'
     | (True, s') \<Rightarrow> replied 200 (Js (JObject [(''status'', JString ''queued'')])) s')"

definition captured_json :: "message \<Rightarrow> json" where
  "captured_json m = JObject [(''channel_id'', JString (ms_channel_id m)), (''user_id'', JString (ms_user_id m)),
     (''content'', JString (ms_content m))]"

definition test_responses_handler :: "server_config \<Rightarrow> 'm server \<Rightarrow> 'm handled" where
  "test_responses_handler c s =
     (if \<not> sc_test_channel c then replied 404 (Plain ''test channel not enabled'') s
      else replied 200 (Js (JArray (map captured_json (sv_captured s)))) (s\<lparr>sv_captured := []\<rparr>))"

subsection \<open>Preferences\<close>

definition opt_json :: "string option \<Rightarrow> json" where
  "opt_json v = (case v of None \<Rightarrow> JNull | Some t \<Rightarrow> JString t)"

definition preferences_json :: "preferences \<Rightarrow> json" where
  "preferences_json p = JObject ((''preferred_channel_id'', opt_json (pf_preferred_channel_id p))
     # (case pf_timezone p of None \<Rightarrow> [] | Some z \<Rightarrow> [(''timezone'', JString z)]))"

definition get_user_preferences :: "extractors \<Rightarrow> string \<Rightarrow> 'm server \<Rightarrow> 'm handled" where
  "get_user_preferences x segment s = extracted (ex_segment x segment) s (\<lambda>user_id.
     replied 200 (Js (preferences_json (prefs_all (sv_prefs s) user_id))) s)"

definition unknown_timezone :: "extractors \<Rightarrow> string \<Rightarrow> json" where
  "unknown_timezone x z = JObject
     [(''error'', JString ''unknown timezone''),
      (''detail'', JString (ex_debug x z @ '' is not an IANA timezone name. Use a name from the tz database, e.g. ''
         @ [CHR 0x22] @ ''America/New_York'' @ [CHR 0x22] @ ''.''))]"

definition set_user_preferences :: "extractors \<Rightarrow> http_request \<Rightarrow> string \<Rightarrow> 'm server \<Rightarrow> 'm handled" where
  "set_user_preferences x r segment s =
     extracted (ex_segment x segment) s (\<lambda>user_id. extracted (ex_prefs x r) s (\<lambda>u.
       case pu_timezone u of
         Some z \<Rightarrow>
           if \<not> ex_timezone x z then replied 400 (Js (unknown_timezone x z)) s
           else replied 200 NoBody (s\<lparr>sv_prefs := prefs_set_timezone user_id z
                  (case pu_preferred_channel_id u of
                     Some ch \<Rightarrow> prefs_set user_id ch (sv_prefs s) | None \<Rightarrow> sv_prefs s)\<rparr>)
       | None \<Rightarrow> replied 200 NoBody (s\<lparr>sv_prefs :=
                  (case pu_preferred_channel_id u of
                     Some ch \<Rightarrow> prefs_set user_id ch (sv_prefs s) | None \<Rightarrow> sv_prefs s)\<rparr>)))"

subsection \<open>The dashboard\<close>

definition verify_dashboard_auth :: "http_request \<Rightarrow> string option \<Rightarrow> bool" where
  "verify_dashboard_auth r expected =
     (case expected of None \<Rightarrow> True | Some v \<Rightarrow> header_or_empty ''authorization'' r = v)"

definition basic_realm :: "string \<times> string" where
  "basic_realm = (''www-authenticate'', ''Basic realm='' @ [CHR 0x22] @ ''RustyNail Dashboard'' @ [CHR 0x22])"

definition dashboard_html_handler :: "server_config \<Rightarrow> 'm backend \<Rightarrow> http_request \<Rightarrow> 'm server \<Rightarrow> 'm handled" where
  "dashboard_html_handler c b r s =
     (if \<not> verify_dashboard_auth r (sc_dashboard_expected_auth c)
      then (Some \<lparr>an_status = 401, an_headers = [basic_realm, (''content-type'', ''text/plain'')],
              an_body = Plain ''Unauthorized''\<rparr>, s)
      else replied 200 (Plain (bk_html b)) s)"

definition recent_json :: "(nat \<Rightarrow> string) \<Rightarrow> recent_message \<Rightarrow> json" where
  "recent_json tm e = JObject
     [(''timestamp'', JString (tm (rm_timestamp e))), (''channel_id'', JString (rm_channel_id e)),
      (''user_id'', JString (rm_user_id e)), (''content_preview'', JString (rm_content_preview e)),
      (''direction'', JString (rm_direction e))]"

definition dashboard_data_handler ::
    "server_config \<Rightarrow> extractors \<Rightarrow> 'm backend \<Rightarrow> http_request \<Rightarrow> 'm server \<Rightarrow> 'm handled" where
  "dashboard_data_handler c x b r s =
     (if \<not> verify_dashboard_auth r (sc_dashboard_expected_auth c)
      then (Some \<lparr>an_status = 401, an_headers = [basic_realm],
              an_body = Js (JObject [(''error'', JString ''unauthorized'')])\<rparr>, s)
      else case read_all (sv_channels s) of
        None \<Rightarrow> (None, s)
      | Some hs \<Rightarrow> (let st = sv_stats s in replied 200 (Js (JObject
          [(''version'', JString (bk_version b)), (''start_time'', JString (bk_start_time b)),
           (''uptime_seconds'', JInt (int (bk_uptime_seconds b))),
           (''messages_in'', JInt (int (st_messages_in st))), (''messages_out'', JInt (int (st_messages_out st))),
           (''tokens_in'', JInt (int (st_tokens_in st))), (''tokens_out'', JInt (int (st_tokens_out st))),
           (''active_users'', JInt (int (bk_active_users b (sv_manager s)))),
           (''channels'', JArray (map (channel_status (ex_debug x)) hs)),
           (''recent_messages'', JArray (map (recent_json (bk_time_text b)) (st_recent st)))])) s))"

subsection \<open>Administration\<close>

definition admin_clear_memory_handler ::
    "server_config \<Rightarrow> extractors \<Rightarrow> 'm backend \<Rightarrow> string \<Rightarrow> 'm server \<Rightarrow> 'm handled" where
  "admin_clear_memory_handler c x b segment s = extracted (ex_segment x segment) s (\<lambda>user_id.
     replied 200 (Js (JObject [(''status'', JString ''ok''), (''user_id'', JString user_id), (''cleared'', JBool True)]))
       (log_audit c (AdminAction ''clear_memory'' (Some user_id) True)
         (s\<lparr>sv_manager := bk_clear_history b user_id (sv_manager s)\<rparr>)))"

definition admin_reload_skills_handler :: "server_config \<Rightarrow> 'm backend \<Rightarrow> 'm server \<Rightarrow> 'm handled" where
  "admin_reload_skills_handler c b s =
     (let (n, skills) = discover_skills (bk_files b) (sc_skills_paths c) []
      in replied 200 (Js (JObject [(''status'', JString ''ok''), (''skills_loaded'', JInt (int n))]))
           (log_audit c (AdminAction ''reload_skills'' None True)
             (s\<lparr>sv_skills_context := build_skill_context skills (sc_skills_max_active c)\<rparr>)))"

fun health_reason :: "channel_health \<Rightarrow> string option" where
  "health_reason (Degraded r) = Some r"
| "health_reason (Unhealthy r) = Some r"
| "health_reason Healthy = None"

definition channel_health_entry :: "(string \<Rightarrow> string) \<Rightarrow> channel_state \<times> channel_health \<Rightarrow> json" where
  "channel_health_entry dbg p = (case p of (ch, h) \<Rightarrow>
     JObject [(''id'', JString (ch_id ch)), (''name'', JString (ch_name ch)),
       (''health'', JString (health_debug dbg h)), (''running'', JBool (ch_running ch)),
       (''health_detail'', opt_json (health_reason h))])"

definition admin_channels_health_handler :: "server_config \<Rightarrow> extractors \<Rightarrow> 'm server \<Rightarrow> 'm handled" where
  "admin_channels_health_handler c x s =
     (case read_all (sv_channels s) of
        None \<Rightarrow> (None, s)
      | Some hs \<Rightarrow> replied 200 (Js (JArray (map (channel_health_entry (ex_debug x)) hs)))
          (log_audit c (AdminAction ''channels_health'' None True) s))"

definition job_json :: "cron_job_status \<Rightarrow> json" where
  "job_json j = JObject [(''name'', JString (cs_name j)), (''schedule'', JString (cs_schedule j)),
     (''channel_id'', JString (cs_channel_id j)), (''user_id'', JString (cs_user_id j)), (''enabled'', JBool (cs_enabled j))]"

definition cron_jobs_handler :: "server_config \<Rightarrow> 'm server \<Rightarrow> 'm handled" where
  "cron_jobs_handler c s = replied 200 (Js (JArray (map job_json (sc_cron_jobs c)))) s"

definition openai_chat_completions ::
    "extractors \<Rightarrow> 'm backend \<Rightarrow> http_request \<Rightarrow> 'm server \<Rightarrow> 'm handled" where
  "openai_chat_completions x b r s = extracted (ex_chat x r) s (\<lambda>rq.
     (let (a, mgr) = chat_completions (bk_agents b) (''chatcmpl-'' @ bk_uuid b) (bk_created b) rq (sv_manager s);
          s' = s\<lparr>sv_manager := mgr\<rparr>
      in case a of
           ApiError e \<Rightarrow> replied (error_status e) (Js (error_body e)) s'
         | Completion p \<Rightarrow> replied 200 (Js (response_body p)) s'
         | Stream es \<Rightarrow> replied 200 (Events es) s'))"

subsection \<open>Routes\<close>

datatype endpoint =
    Health | Status | Metrics | Ready | Live
  | WhatsAppVerify | WhatsAppReceive | TelegramReceive | SlackReceive | SmsReceive | GenericReceive
  | TeamsReceive | WebchatSocket | WebchatWidget | GetPreferences | SetPreferences
  | DashboardPage | DashboardPageData | DashboardSocket | TestSend | TestResponses
  | ClearMemory | ReloadSkills | ChannelsHealth | CronJobs | ChatCompletions

definition ROUTES :: "(string \<times> http_method \<times> endpoint) list" where
  "ROUTES =
     [(''/health'', GET, Health), (''/status'', GET, Status), (''/metrics'', GET, Metrics),
      (''/ready'', GET, Ready), (''/live'', GET, Live),
      (''/webhooks/whatsapp'', GET, WhatsAppVerify), (''/webhooks/whatsapp'', POST, WhatsAppReceive),
      (''/webhooks/telegram'', POST, TelegramReceive), (''/webhooks/slack'', POST, SlackReceive),
      (''/webhooks/sms'', POST, SmsReceive), (''/webhooks/:name'', POST, GenericReceive),
      (''/channels/teams/messages'', POST, TeamsReceive), (''/channels/webchat/ws'', GET, WebchatSocket),
      (''/channels/webchat/widget.js'', GET, WebchatWidget),
      (''/users/:user_id/preferences'', GET, GetPreferences), (''/users/:user_id/preferences'', POST, SetPreferences),
      (''/dashboard'', GET, DashboardPage), (''/dashboard/data'', GET, DashboardPageData),
      (''/dashboard/ws'', GET, DashboardSocket), (''/test/send'', POST, TestSend),
      (''/test/responses'', GET, TestResponses), (''/admin/memory/:user_id'', DELETE, ClearMemory),
      (''/admin/skills/reload'', POST, ReloadSkills), (''/admin/channels/health'', GET, ChannelsHealth),
      (''/cron/jobs'', GET, CronJobs), (''/v1/chat/completions'', POST, ChatCompletions)]"

text \<open>A pattern matches segment by segment; a segment that starts with a colon stands for any that is
  not empty, and is what the handler is given. The fixed routes stand before \<open>/webhooks/:name\<close>, which
  they go before.\<close>

fun match_segments :: "string list \<Rightarrow> string list \<Rightarrow> string option option" where
  "match_segments [] [] = Some None"
| "match_segments (p # ps) (v # vs) =
     (if starts_with '':'' p
      then (if v = [] then None else map_option (\<lambda>_. Some v) (match_segments ps vs))
      else if p = v then match_segments ps vs else None)"
| "match_segments _ _ = None"

definition match_path :: "string \<Rightarrow> string \<Rightarrow> string option option" where
  "match_path pattern path = match_segments (split_on (CHR ''/'') pattern) (split_on (CHR ''/'') path)"

definition serves :: "http_method \<Rightarrow> http_method \<Rightarrow> bool" where
  "serves offered asked \<longleftrightarrow> offered = asked \<or> offered = GET \<and> asked = HEAD"

datatype routed = NotFound | MethodNotAllowed | Routed endpoint string

definition route :: "http_method \<Rightarrow> string \<Rightarrow> routed" where
  "route m path =
     (case find (\<lambda>(p, _, _). match_path p path \<noteq> None) ROUTES of
        None \<Rightarrow> NotFound
      | Some (p, _, _) \<Rightarrow>
         (case find (\<lambda>(p', m', _). p' = p \<and> serves m' m) ROUTES of
            None \<Rightarrow> MethodNotAllowed
          | Some (_, _, e) \<Rightarrow> Routed e (case match_path p path of Some (Some v) \<Rightarrow> v | _ \<Rightarrow> [])))"

definition handle_endpoint ::
    "server_config \<Rightarrow> extractors \<Rightarrow> 'm backend \<Rightarrow> http_request \<Rightarrow> string \<Rightarrow> endpoint \<Rightarrow> 'm server \<Rightarrow> 'm handled" where
  "handle_endpoint c x b r v e s =
     (case e of
        Health \<Rightarrow> replied 200 (health_json b ''ok'') s
      | Status \<Rightarrow> status_handler x b s
      | Metrics \<Rightarrow> metrics_handler b s
      | Ready \<Rightarrow> readiness_handler b s
      | Live \<Rightarrow> replied 200 (health_json b ''alive'') s
      | WhatsAppVerify \<Rightarrow> whatsapp_webhook_verify c x r s
      | WhatsAppReceive \<Rightarrow> whatsapp_webhook_receive c x b r s
      | TelegramReceive \<Rightarrow> telegram_webhook_receive c x b r s
      | SlackReceive \<Rightarrow> slack_webhook_receive c x b r s
      | SmsReceive \<Rightarrow> sms_webhook_receive c x b r s
      | GenericReceive \<Rightarrow> generic_webhook_receive c x b r v s
      | TeamsReceive \<Rightarrow> teams_webhook_receive c x b r s
      | WebchatSocket \<Rightarrow> webchat_ws_handler c x b r s
      | WebchatWidget \<Rightarrow> (Some \<lparr>an_status = 200,
            an_headers = [(''content-type'', ''application/javascript; charset=utf-8'')], an_body = Plain (bk_widget b)\<rparr>, s)
      | GetPreferences \<Rightarrow> get_user_preferences x v s
      | SetPreferences \<Rightarrow> set_user_preferences x r v s
      | DashboardPage \<Rightarrow> dashboard_html_handler c b r s
      | DashboardPageData \<Rightarrow> dashboard_data_handler c x b r s
      | DashboardSocket \<Rightarrow> dashboard_ws_handler c x r s
      | TestSend \<Rightarrow> test_send_handler c x b r s
      | TestResponses \<Rightarrow> test_responses_handler c s
      | ClearMemory \<Rightarrow> admin_clear_memory_handler c x b v s
      | ReloadSkills \<Rightarrow> admin_reload_skills_handler c b s
      | ChannelsHealth \<Rightarrow> admin_channels_health_handler c x s
      | CronJobs \<Rightarrow> cron_jobs_handler c s
      | ChatCompletions \<Rightarrow> openai_chat_completions x b r s)"

text \<open>The handler of a request, or the answers of a router that has none. A HEAD request is a GET
  whose body is not sent. The limits on time and on the size of a body are layers of the library
  around the router.\<close>

definition dispatch ::
    "server_config \<Rightarrow> extractors \<Rightarrow> 'm backend \<Rightarrow> http_request \<Rightarrow> 'm server \<Rightarrow> 'm handled" where
  "dispatch c x b r s =
     (case route (rq_method r) (rq_path r) of
        NotFound \<Rightarrow> replied 404 NoBody s
      | MethodNotAllowed \<Rightarrow> replied 405 NoBody s
      | Routed e v \<Rightarrow>
         (let (a, s') = handle_endpoint c x b r v e s
          in (if rq_method r = HEAD then map_option (\<lambda>p. p\<lparr>an_body := NoBody\<rparr>) a else a, s')))"

text \<open>The token is asked for in front of everything.\<close>

definition serve ::
    "server_config \<Rightarrow> extractors \<Rightarrow> 'm backend \<Rightarrow> http_request \<Rightarrow> 'm server \<Rightarrow> 'm handled" where
  "serve c x b r s = bearer_auth c r (dispatch c x b r) s"

end
