(* ===== verification/Http_Guard.thy ===== *)
theory Http_Guard
  imports Http
begin

section \<open>What the HTTP server lets in\<close>

text \<open>
  The token check over all routes, the signatures of the webhooks, what the two of them do to
  each other, the preferences and the probes.
\<close>

subsection \<open>The token\<close>

lemma expected_token_Some: "expected_token h = Some t \<longleftrightarrow> hc_api_token h = Some t \<and> t \<noteq> []"
  by (auto simp: expected_token_def split: option.splits)

lemma provided_token_iff:
  "t \<noteq> [] \<Longrightarrow> provided_token r = t \<longleftrightarrow> header_text ''authorization'' r = Some (''Bearer '' @ t)"
  by (auto simp: provided_token_def strip_prefix_Some strip_prefix_None split: option.splits bind_splits)

definition rejected :: "server_config \<Rightarrow> http_request \<Rightarrow> 'm server \<Rightarrow> 'm server" where
  "rejected c r s = log_audit c (AuthRejected (rq_path r) ''invalid_token'')
     (s\<lparr>sv_stats := record_auth_failure (sv_stats s)\<rparr>)"

lemma serve_token:
  assumes "hc_api_token (sv_hot s) = Some t" and "t \<noteq> []"
  shows "serve c x b r s =
    (if rq_path r \<in> {''/live'', ''/ready''} \<or> header_text ''authorization'' r = Some (''Bearer '' @ t)
     then dispatch c x b r s else (Some unauthorized, rejected c r s))"
  using assms provided_token_iff [of t r]
  by (auto simp: serve_def bearer_auth_def expected_token_Some [THEN iffD2] rejected_def)

lemma serve_no_token: "expected_token (sv_hot s) = None \<Longrightarrow> serve c x b r s = dispatch c x b r s"
  by (simp add: serve_def bearer_auth_def)

text \<open>A token with a byte that no header may carry is a token nobody can present.\<close>

lemma unpresentable_token_locks_everyone_out:
  assumes "hc_api_token (sv_hot s) = Some t" and "\<not> list_all header_byte_visible t"
    and "rq_path r \<notin> {''/live'', ''/ready''}"
  shows "serve c x b r s = (Some unauthorized, rejected c r s)"
proof -
  have "header_text ''authorization'' r \<noteq> Some (''Bearer '' @ t)"
    using assms(2) by (auto simp: header_text_def split: option.splits if_splits)
  moreover have "t \<noteq> []" using assms(2) by auto
  ultimately show ?thesis using serve_token [OF assms(1)] assms(3) by simp
qed

subsection \<open>Routing\<close>

lemma route_simps [simp]:
  "route GET ''/ready'' = Routed Ready []"
  "route GET ''/health'' = Routed Health []"
  "route POST ''/webhooks/slack'' = Routed SlackReceive []"
  "route POST ''/webhooks/sms'' = Routed SmsReceive []"
  "route GET ''/webhooks/sms'' = MethodNotAllowed"
  "route POST ''/webhooks/build'' = Routed GenericReceive ''build''"
  "route POST ''/channels/teams/messages'' = Routed TeamsReceive []"
  "route GET ''/dashboard'' = Routed DashboardPage []"
  "route GET ''/dashboard/data'' = Routed DashboardPageData []"
  "route POST ''/users/u/preferences'' = Routed SetPreferences ''u''"
  "route POST ''/users//preferences'' = NotFound"
  by code_simp+

subsection \<open>Who may add to the queue\<close>

text \<open>The queue only grows, and only when \<open>P\<close> holds.\<close>

definition grows_if :: "bool \<Rightarrow> 'm server \<Rightarrow> 'm handled \<Rightarrow> bool" where
  "grows_if P s h \<longleftrightarrow> (\<exists>ms. sv_queue (snd h) = sv_queue s @ ms \<and> (ms \<noteq> [] \<longrightarrow> P))"

lemma grows_same: "sv_queue (snd h) = sv_queue s \<Longrightarrow> grows_if P s h"
  by (simp add: grows_if_def)


lemma enqueue_queue: "\<exists>ms. sv_queue (snd (enqueue m s)) = sv_queue s @ ms"
  by (simp add: enqueue_def)

lemma enqueue_opt_queue: "\<exists>ms. sv_queue (enqueue_opt m s) = sv_queue s @ ms"
  by (cases m) (simp_all add: enqueue_opt_def enqueue_queue)


lemma log_audit_simps [simp]:
  "sv_queue (log_audit c a s) = sv_queue s" "sv_prefs (log_audit c a s) = sv_prefs s"
  "sv_hot (log_audit c a s) = sv_hot s" "sv_manager (log_audit c a s) = sv_manager s"
  by (simp_all add: log_audit_def)

lemma replied_simps [simp]: "snd (replied n d s) = s" "fst (replied n d s) = Some (answer n d)"
  by (simp_all add: replied_def)

lemma grows_extracted:
  "(\<And>v. y = Inr v \<Longrightarrow> grows_if P s (f v)) \<Longrightarrow> grows_if P s (extracted y s f)"
  by (auto simp: extracted_def intro: grows_same split: sum.split)

lemma grows_opt: "P \<Longrightarrow> grows_if P s (a, enqueue_opt m s)"
  using enqueue_opt_queue [of m s] by (simp add: grows_if_def)

lemmas grows_rules = grows_extracted grows_opt

lemma grows_replied [simp]: "grows_if P s (replied n d s)"
  by (simp add: grows_same)













subsection \<open>Requests to try\<close>

definition no_files :: skill_files where
  "no_files = \<lparr>sf_home = None, sf_exists = (\<lambda>_. False), sf_read_dir = (\<lambda>_. Err []), sf_is_dir = (\<lambda>_. False),
     sf_read = (\<lambda>_. Err [])\<rparr>"

text \<open>A hash that only tells keys and lengths apart, bodies taken as they are, and forms of one message.\<close>

definition demo_extractors :: extractors where
  "demo_extractors = \<lparr>ex_hmac = (\<lambda>k body. k @ ''#'' @ show_nat (length body)), ex_lossy = (\<lambda>t. t),
     ex_segment = Ok, ex_bytes = (\<lambda>r. Ok (rq_body r)), ex_upgrade = (\<lambda>_. Ok ()),
     ex_verify_params = (\<lambda>_. Ok \<lparr>vp_mode = None, vp_verify_token = None, vp_challenge = None\<rparr>),
     ex_session = (\<lambda>_. Ok None), ex_whatsapp = (\<lambda>_. Err (answer 422 NoBody)),
     ex_telegram = (\<lambda>_. Err (answer 422 NoBody)), ex_test_send = (\<lambda>_. Err (answer 422 NoBody)),
     ex_prefs = (\<lambda>r. Ok \<lparr>pu_preferred_channel_id = None, pu_timezone = Some (rq_body r)\<rparr>),
     ex_chat = (\<lambda>_. Err (answer 422 NoBody)),
     ex_slack = (\<lambda>t. Ok (EventCallback (SlackMessage ''C1'' (Some ''U1'') (Some t) ''9'' None None) ''T'' ''E'')),
     ex_form = (\<lambda>t. Some [(''From'', ''+1''), (''Body'', t)]), ex_teams = (\<lambda>_. Err ''none''),
     ex_jsonpath = (\<lambda>_ _. None), ex_timezone = (\<lambda>z. z = ''UTC''), ex_debug = (\<lambda>t. t)\<rparr>"

definition demo_server_config :: server_config where
  "demo_server_config = \<lparr>sc_whatsapp_tx = False, sc_whatsapp_verify_token = [], sc_telegram_tx = False,
     sc_telegram_webhook_secret = [], sc_slack_tx = True, sc_slack_signing_secret = ''k'', sc_sms_tx = True,
     sc_sms_auth_token = ''twilio'', sc_webhook_endpoints = [], sc_webhook_tx = False, sc_webchat = True,
     sc_webchat_tx = True, sc_teams_tx = True, sc_teams_hmac_secret = ''tk'',
     sc_dashboard_expected_auth = Some ''Basic cnVzdHluYWlsOnB3'', sc_test_channel = False, sc_test_tx = False,
     sc_audit = True, sc_skills_paths = [], sc_skills_max_active = 3, sc_cron_jobs = [], sc_allowed_ws_origins = []\<rparr>"

definition demo_settings :: "string option \<Rightarrow> settings" where
  "demo_settings t = \<lparr>se_log_level = ''info'', se_api_token = t,
     se_rate_limit = default_rate_limit,
     se_audit_enabled = True, se_audit_path = [],
     se_quarry_policy = default_policy_config\<rparr>"

definition demo_server :: "string option \<Rightarrow> unit server" where
  "demo_server t = \<lparr>sv_hot = hot_from_config (demo_settings t), sv_accepting = True, sv_queue = [],
     sv_prefs = (\<lambda>_. None), sv_stats = new_stats, sv_audit_log = [], sv_captured = [], sv_skills_context = None,
     sv_channels = [], sv_sessions = [], sv_manager = ()\<rparr>"

definition demo_backend :: "unit backend" where
  "demo_backend = \<lparr>bk_stamp = (\<lambda>n. (show_nat n, n)), bk_uuid = ''u'', bk_created = 0, bk_version = ''0'',
     bk_start_time = [], bk_uptime_seconds = 0, bk_time_text = show_nat,
     bk_agents = \<lparr>mg_configured = ''m'', mg_process = (\<lambda>_ _ s. (Ok ''hi'', s)), mg_stateless = (\<lambda>_ _ s. (Err [], s))\<rparr>,
     bk_clear_history = (\<lambda>_ s. s), bk_active_users = (\<lambda>_. 0), bk_files = no_files, bk_metrics = (\<lambda>_ _ _. Ok []),
     bk_html = [], bk_widget = []\<rparr>"

definition ask :: "http_method \<Rightarrow> string \<Rightarrow> (string \<times> string) list \<Rightarrow> string \<Rightarrow> http_request" where
  "ask m path headers body =
     \<lparr>rq_method = m, rq_path = path, rq_headers = headers, rq_query = [], rq_body = body\<rparr>"

lemmas demo_http_defs = demo_extractors_def demo_server_config_def demo_settings_def demo_server_def
  demo_backend_def ask_def hot_from_config_def

lemma demo_settings_token [simp]: "se_api_token (demo_settings t) = t"
  by (simp add: demo_settings_def)

lemma ask_simps [simp]:
  "rq_method (ask m p hs d) = m" "rq_path (ask m p hs d) = p" "rq_headers (ask m p hs d) = hs" "rq_body (ask m p hs d) = d"
  by (simp_all add: ask_def)

subsection \<open>Properties\<close>

text \<open>C7: The token guards every route. After a reload that set a token, a request to anything but
  the two probes is handled exactly when it carries that token as its bearer token; any other
  request, whatever its method, path, headers and body, is answered 401, and all it changes are
  the count of refused requests and the audit log. The token is the one of the configuration as it
  was reloaded last: the one the server was started with no longer opens anything.\<close>

theorem token_guards_every_route:
  assumes "sv_hot s = snd (hot_apply se h)" and "se_api_token se = Some t" and "t \<noteq> []"
    and "rq_path r \<notin> {''/live'', ''/ready''}"
  shows "serve c x b r s =
      (if header_text ''authorization'' r = Some (''Bearer '' @ t) then dispatch c x b r s
       else (Some unauthorized,
             s\<lparr>sv_stats := record_auth_failure (sv_stats s),
               sv_audit_log := sv_audit_log s @ (if sc_audit c then [AuthRejected (rq_path r) ''invalid_token''] else [])\<rparr>))"
proof -
  have "hc_api_token (sv_hot s) = Some t" using assms(1,2) by (simp add: hot_from_config_def)
  then show ?thesis using serve_token [of s t c x b r] assms(3,4) by (simp add: rejected_def log_audit_def)
qed

lemma token_guards_every_route_witness:
  "let s = demo_server (Some ''old''); s1 = s\<lparr>sv_hot := snd (hot_apply (demo_settings (Some ''new'')) (sv_hot s))\<rparr>;
       post = (\<lambda>t. ask POST ''/webhooks/sms'' [(''authorization'', ''Bearer '' @ t)] ''hi'')
   in fst (serve demo_server_config demo_extractors demo_backend (post ''old'') s1) = Some unauthorized
      \<and> sv_queue (snd (serve demo_server_config demo_extractors demo_backend (post ''old'') s1)) = []
      \<and> serve demo_server_config demo_extractors demo_backend (post ''new'') s1
          = dispatch demo_server_config demo_extractors demo_backend (post ''new'') s1"
proof -
  let ?s = "(demo_server (Some ''old''))\<lparr>sv_hot := snd (hot_apply (demo_settings (Some ''new'')) (sv_hot (demo_server (Some ''old''))))\<rparr>"
  have r: "serve demo_server_config demo_extractors demo_backend (ask POST ''/webhooks/sms'' hs d) ?s =
      (if header_text ''authorization'' (ask POST ''/webhooks/sms'' hs d) = Some (''Bearer '' @ ''new'')
       then dispatch demo_server_config demo_extractors demo_backend (ask POST ''/webhooks/sms'' hs d) ?s
       else (Some unauthorized, ?s\<lparr>sv_stats := record_auth_failure (sv_stats ?s),
          sv_audit_log := sv_audit_log ?s @ (if sc_audit demo_server_config
            then [AuthRejected (rq_path (ask POST ''/webhooks/sms'' hs d)) ''invalid_token''] else [])\<rparr>))" for hs d
    by (rule token_guards_every_route [where se = "demo_settings (Some ''new'')" and h = "sv_hot (demo_server (Some ''old''))"])
       simp_all
  have v: "list_all header_byte_visible ''Bearer old''" "list_all header_byte_visible ''Bearer new''" by code_simp+
  show ?thesis
    by (simp only: Let_def r) (simp add: header_text_def v [simplified] demo_server_def)
qed




lemma bearer_is_no_other_scheme:
  assumes "header_text ''authorization'' r = Some (''Bearer '' @ t)"
  shows "header_or_empty ''authorization'' r \<noteq> ''HMAC '' @ h" and "header_or_empty ''authorization'' r \<noteq> ''Basic '' @ p"
  using assms by (simp_all add: header_or_empty_def)

text \<open>One header cannot carry two secrets. Once a token is set, the Teams webhook with its
  signature and the dashboard with its password can no longer be used by anybody: both are read from
  the header the token is read from, so every such request is answered 401 and takes no message.\<close>

theorem token_locks_out_the_second_secret:
  assumes "hc_api_token (sv_hot s) = Some t" and "t \<noteq> []"
    and "rq_method r = POST \<and> rq_path r = ''/channels/teams/messages''
           \<and> sc_teams_hmac_secret c \<noteq> [] \<and> ex_bytes x r = Inr body
       \<or> rq_method r = GET \<and> (rq_path r = ''/dashboard'' \<or> rq_path r = ''/dashboard/data'')
           \<and> sc_dashboard_expected_auth c = Some (''Basic '' @ p)"
  shows "\<exists>a s'. serve c x b r s = (Some a, s') \<and> an_status a = 401 \<and> sv_queue s' = sv_queue s"
proof (cases "header_text ''authorization'' r = Some (''Bearer '' @ t)")
  case True
  then have "serve c x b r s = dispatch c x b r s" using serve_token [OF assms(1,2)] by simp
  moreover note no = bearer_is_no_other_scheme [OF True]
  ultimately show ?thesis
    using assms(3)
  proof (elim disjE conjE)
    assume "rq_method r = POST" "rq_path r = ''/channels/teams/messages''" "sc_teams_hmac_secret c \<noteq> []"
      "ex_bytes x r = Inr body" "serve c x b r s = dispatch c x b r s"
    then show ?thesis
      using no(1) by (simp add: dispatch_def handle_endpoint_def teams_webhook_receive_def extracted_def
          verify_teams_iff replied_def answer_def)
  qed (use no(2) in \<open>simp_all add: dispatch_def handle_endpoint_def dashboard_html_handler_def
        dashboard_data_handler_def verify_dashboard_auth_def\<close>)
next
  case False
  moreover have "rq_path r \<notin> {''/live'', ''/ready''}" using assms(3) by auto
  ultimately show ?thesis using serve_token [OF assms(1,2), of c x b r] by (simp add: unauthorized_def rejected_def)
qed

lemma token_locks_out_the_second_secret_witness:
  "let s = demo_server (Some ''t''); r = ask GET ''/dashboard'' [(''authorization'', ''Bearer t'')] [] in
     \<exists>a s'. serve demo_server_config demo_extractors demo_backend r s = (Some a, s')
       \<and> an_status a = 401 \<and> sv_queue s' = sv_queue s"
  unfolding Let_def
  by (rule token_locks_out_the_second_secret [where t = "''t''" and p = "''cnVzdHluYWlsOnB3''"])
     (simp_all add: demo_server_def hot_from_config_def demo_server_config_def)

lemma sms_never_refused [simp]: "\<not> sms_refuses c x r body"
  by (auto simp: sms_refuses_def Let_def)

text \<open>The signature of an SMS is never checked. With an authentication token configured, a form
  from anybody, with any signature header or none, is answered 200 and enters the gateway as a
  message of the number it claims to come from.\<close>

theorem sms_signature_is_never_checked:
  assumes "expected_token (sv_hot s) = None" and "rq_method r = POST" and "rq_path r = ''/webhooks/sms''"
    and "ex_bytes x r = Inr body" and "ex_form x body = Some form"
    and "map_of form ''From'' = Some from" and "map_of form ''Body'' = Some content" and "content \<noteq> []"
    and "sc_sms_tx c" and "sv_accepting s"
  shows "\<exists>a. serve c x b r s
      = (Some a, s\<lparr>sv_queue := sv_queue s @ [new_message (bk_stamp b 0) ''sms-main'' from from content]\<rparr>)
    \<and> an_status a = 200"
  using assms by (simp add: serve_no_token dispatch_def handle_endpoint_def sms_webhook_receive_def extracted_def
      answer_def parse_sms_webhook_def enqueue_opt_def enqueue_def)

lemma sms_signature_is_never_checked_witness:
  "let c = demo_server_config; r = ask POST ''/webhooks/sms'' [] ''hi''; s = demo_server None in
     sc_sms_auth_token c = ''twilio''
     \<and> \<not> is_ok (verify_twilio_signature (ex_hmac demo_extractors) ''u'' [(''From'', ''+1''), (''Body'', ''hi'')]
           (header_or_empty ''x-twilio-signature'' r) (sc_sms_auth_token c))
     \<and> (\<exists>a. serve c demo_extractors demo_backend r s = (Some a, s\<lparr>sv_queue := sv_queue s
            @ [new_message (bk_stamp demo_backend 0) ''sms-main'' ''+1'' ''+1'' ''hi'']\<rparr>) \<and> an_status a = 200)"
  unfolding Let_def
proof (intro conjI)
  show "\<exists>a. serve demo_server_config demo_extractors demo_backend (ask POST ''/webhooks/sms'' [] ''hi'') (demo_server None)
      = (Some a, (demo_server None)\<lparr>sv_queue := sv_queue (demo_server None)
          @ [new_message (bk_stamp demo_backend 0) ''sms-main'' ''+1'' ''+1'' ''hi'']\<rparr>) \<and> an_status a = 200"
    by (rule sms_signature_is_never_checked [where form = "[(''From'', ''+1''), (''Body'', ''hi'')]" and body = "''hi''"])
       (simp_all add: demo_server_def hot_from_config_def demo_server_config_def demo_extractors_def expected_token_def
         demo_settings_def)
qed (simp_all add: demo_server_config_def verify_twilio_signature_def header_or_empty_def header_text_def
       demo_extractors_def)

text \<open>Preferences are patched. An update sets exactly the fields it names, for the user in its path:
  the other field keeps its value and the other users keep theirs. A time zone that is not in the
  database is refused with 400, and then nothing is stored, the channel of the same update
  included.\<close>

theorem preferences_are_patched:
  assumes "ex_segment x v = Inr u" and "ex_prefs x r = Inr up" and "set_user_preferences x r v s = (Some a, s')"
  shows "if \<exists>z. pu_timezone up = Some z \<and> \<not> ex_timezone x z then an_status a = 400 \<and> s' = s
    else an_status a = 200 \<and> (\<forall>w. prefs_all (sv_prefs s') w =
      (let old = prefs_all (sv_prefs s) w in
       if w \<noteq> u then old
       else \<lparr>pf_preferred_channel_id = (case pu_preferred_channel_id up of Some ch \<Rightarrow> Some ch
                | None \<Rightarrow> pf_preferred_channel_id old),
             pf_timezone = (case pu_timezone up of Some z \<Rightarrow> Some z | None \<Rightarrow> pf_timezone old)\<rparr>))"
  using assms
  by (auto simp: set_user_preferences_def extracted_def replied_def answer_def prefs_all_def prefs_set_def
      prefs_set_timezone_def Let_def split: option.splits if_splits)

lemma preferences_are_patched_witness:
  "\<exists>a s'. set_user_preferences demo_extractors (ask POST ''/users/u/preferences'' [] ''UTC'') ''u'' (demo_server None) = (Some a, s')
     \<and> an_status a = 200 \<and> pf_timezone (prefs_all (sv_prefs s') ''u'') = Some ''UTC''"
proof -
  obtain a s' where run: "set_user_preferences demo_extractors (ask POST ''/users/u/preferences'' [] ''UTC'') ''u''
      (demo_server None) = (Some a, s')"
    by (simp add: set_user_preferences_def demo_extractors_def extracted_def replied_def)
  show ?thesis
    using preferences_are_patched [OF _ _ run, of "''u''" "\<lparr>pu_preferred_channel_id = None, pu_timezone = Some ''UTC''\<rparr>"] run
    by (simp add: demo_extractors_def)
qed

end
