(* ===== verification/Webchat.thy ===== *)
theory Webchat
  imports Http_Guard Delivery
begin

section \<open>Starting the server, and its web chat (\<open>src/gateway/mod.rs\<close>, \<open>src/gateway/http.rs\<close>)\<close>

text \<open>
  What \<open>Gateway::start\<close> hands to the HTTP server, the turns of a chat over a socket, and the
  life of the sockets that share a session.
\<close>

subsection \<open>What the server is started with\<close>

text \<open>The sections of the configuration beside the switches that register the channels.\<close>

record server_sections = channels_config +
  hs_whatsapp_verify_token :: string
  hs_telegram_webhook_secret :: string
  hs_slack_signing_secret :: string
  hs_sms_auth_token :: string
  hs_webhook_endpoints :: "webhook_endpoint list"
  hs_teams_hmac_secret :: string
  hs_dashboard_password :: "string option"
  hs_audit :: bool
  hs_skills_paths :: "string list"
  hs_skills_max_active :: nat
  hs_cron_jobs :: "cron_job list option"
  hs_allowed_ws_origins :: "string list"

text \<open>A text of a section that may be missing.\<close>

definition section_text :: "'a option \<Rightarrow> string \<Rightarrow> string" where
  "section_text sec t = (case sec of Some _ \<Rightarrow> t | None \<Rightarrow> [])"

definition dashboard_auth :: "(string \<Rightarrow> string) \<Rightarrow> string option \<Rightarrow> string option" where
  "dashboard_auth base64 pw = map_option (\<lambda>p. ''Basic '' @ base64 (''rustynail:'' @ p)) pw"

definition server_config_of :: "(string \<Rightarrow> string) \<Rightarrow> server_sections \<Rightarrow> server_config" where
  "server_config_of base64 c =
     (let webchat = (cf_webchat c = Some True);
          endpoints = (case cf_webhook c of Some True \<Rightarrow> hs_webhook_endpoints c | _ \<Rightarrow> [])
      in \<lparr>sc_whatsapp_tx = (case cf_whatsapp c of Some (enabled, _) \<Rightarrow> enabled | None \<Rightarrow> False),
          sc_whatsapp_verify_token = section_text (cf_whatsapp c) (hs_whatsapp_verify_token c),
          sc_telegram_tx = (case cf_telegram c of Some (enabled, mode, _) \<Rightarrow> enabled \<and> mode \<noteq> ''longpoll'' | None \<Rightarrow> False),
          sc_telegram_webhook_secret = section_text (cf_telegram c) (hs_telegram_webhook_secret c),
          sc_slack_tx = (case cf_slack c of Some (enabled, mode, _) \<Rightarrow> enabled \<and> mode \<noteq> ''socket'' | None \<Rightarrow> False),
          sc_slack_signing_secret = section_text (cf_slack c) (hs_slack_signing_secret c),
          sc_sms_tx = (case cf_sms c of Some (enabled, _) \<Rightarrow> enabled | None \<Rightarrow> False),
          sc_sms_auth_token = section_text (cf_sms c) (hs_sms_auth_token c),
          sc_webhook_endpoints = endpoints,
          sc_webhook_tx = (endpoints \<noteq> []),
          sc_webchat = webchat,
          sc_webchat_tx = webchat,
          sc_teams_tx = (case cf_teams c of Some (enabled, _) \<Rightarrow> enabled | None \<Rightarrow> False),
          sc_teams_hmac_secret = section_text (cf_teams c) (hs_teams_hmac_secret c),
          sc_dashboard_expected_auth = dashboard_auth base64 (hs_dashboard_password c),
          sc_test_channel = cf_test_channel c,
          sc_test_tx = cf_test_channel c,
          sc_audit = hs_audit c,
          sc_skills_paths = hs_skills_paths c,
          sc_skills_max_active = hs_skills_max_active c,
          sc_cron_jobs = (case hs_cron_jobs c of Some jobs \<Rightarrow> job_status jobs | None \<Rightarrow> []),
          sc_allowed_ws_origins = hs_allowed_ws_origins c\<rparr>)"

text \<open>The registered channels after their start, as the server's handlers see them.\<close>

definition started :: "(string \<times> adapter_config) list \<Rightarrow> channel_state list" where
  "started chs = map (\<lambda>(i, a). \<lparr>ch_id = i, ch_name = [], ch_adapter = a, ch_running = True\<rparr>) chs"

subsection \<open>A turn of a chat\<close>

text \<open>The text of a frame: its \<open>content\<close> field when it is an object that has one, the frame itself
  otherwise.\<close>

definition webchat_text :: "(string \<Rightarrow> json option) \<Rightarrow> string \<Rightarrow> string" where
  "webchat_text decode t = (case decode t of Some v \<Rightarrow> str_or t (jindex v ''content'') | None \<Rightarrow> t)"

definition chat_frame :: "string \<Rightarrow> string \<Rightarrow> json" where
  "chat_frame kind content = JObject [(''type'', JString kind), (''content'', JString content)]"

definition done_frame :: json where
  "done_frame = JObject [(''type'', JString ''done'')]"

text \<open>Forwarding the events of the model to a socket that takes the \<open>n\<close>-th frame or not: the frames it
  gets, and the whole text once the stream is done.\<close>

fun forward_stream :: "(nat \<Rightarrow> bool) \<Rightarrow> nat \<Rightarrow> string \<Rightarrow> llm_stream_event list \<Rightarrow> json list \<times> string option" where
  "forward_stream takes n full [] = ([], None)"
| "forward_stream takes n full (Token t # es) =
     (if takes n then (let (fs, r) = forward_stream takes (Suc n) (full @ t) es in (chat_frame ''token'' t # fs, r))
      else ([], None))"
| "forward_stream takes n full (StreamDone # es) = (if takes n then [done_frame] else [], Some full)"
| "forward_stream takes n full (StreamError e # es) = (if takes n then [chat_frame ''error'' e] else [], None)"

definition webchat_reply :: "'m backend \<Rightarrow> string \<Rightarrow> string \<Rightarrow> message" where
  "webchat_reply b session t = new_message (bk_stamp b 0) (''webchat-'' @ session) ''assistant'' ''RustyNail'' t"

definition webchat_message ::
    "server_config \<Rightarrow> 'm backend \<Rightarrow> (string \<Rightarrow> json option) \<Rightarrow> (nat \<Rightarrow> bool) \<Rightarrow> string \<Rightarrow> string \<Rightarrow> 'm server
     \<Rightarrow> json list \<times> 'm server" where
  "webchat_message c b decode takes session t s =
     (let (r, mgr) = mg_process (bk_agents b) session (webchat_text decode t) (sv_manager s);
          (frames, full) = forward_stream takes 0 [] (stream_events r);
          s1 = s\<lparr>sv_manager := mgr\<rparr>
      in (frames,
          case full of
            Some x \<Rightarrow> if sc_webchat_tx c then enqueue_opt (Some (webchat_reply b session x)) s1 else s1
          | None \<Rightarrow> s1))"

text \<open>The loop of a socket over what happens to it: the frames the client gets and the state it leaves.
  \<open>True\<close> at the end of a broadcast is a frame the socket took.\<close>

datatype socket_event =
    ClientText string "nat \<Rightarrow> bool"
  | ClientOther
  | ClientGone
  | Broadcasted json bool
  | BroadcastLagged
  | BroadcastClosed

fun socket_loop ::
    "server_config \<Rightarrow> 'm backend \<Rightarrow> (string \<Rightarrow> json option) \<Rightarrow> string \<Rightarrow> socket_event list \<Rightarrow> 'm server
     \<Rightarrow> json list \<times> 'm server" where
  "socket_loop c b decode session [] s = ([], s)"
| "socket_loop c b decode session (ClientText t takes # es) s =
     (let (fs, s1) = webchat_message c b decode takes session t s;
          (gs, s2) = socket_loop c b decode session es s1
      in (fs @ gs, s2))"
| "socket_loop c b decode session (ClientOther # es) s = socket_loop c b decode session es s"
| "socket_loop c b decode session (BroadcastLagged # es) s = socket_loop c b decode session es s"
| "socket_loop c b decode session (Broadcasted j taken # es) s =
     (if taken then (let (gs, s2) = socket_loop c b decode session es s in (j # gs, s2)) else ([], s))"
| "socket_loop c b decode session (ClientGone # es) s = ([], s)"
| "socket_loop c b decode session (BroadcastClosed # es) s = ([], s)"

definition welcome_frame :: "string \<Rightarrow> json" where
  "welcome_frame session = JObject [(''type'', JString ''welcome''),
     (''content'', JString ''Connected to RustyNail. How can I help?''), (''session_id'', JString session)]"

text \<open>The whole life of a socket whose session is its alone.\<close>

definition handle_webchat_socket ::
    "server_config \<Rightarrow> 'm backend \<Rightarrow> (string \<Rightarrow> json option) \<Rightarrow> string \<Rightarrow> socket_event list \<Rightarrow> 'm server
     \<Rightarrow> json list \<times> 'm server" where
  "handle_webchat_socket c b decode session es s =
     (if \<not> sc_webchat c then ([chat_frame ''error'' ''webchat not configured''], s)
      else let (fs, s1) = socket_loop c b decode session es (s\<lparr>sv_sessions := session # sv_sessions s\<rparr>)
           in (welcome_frame session # fs, s1\<lparr>sv_sessions := removeAll session (sv_sessions s1)\<rparr>))"

subsection \<open>Sockets that share a session\<close>

text \<open>The map from sessions to the sending half of the socket that registered last, and the open
  sockets. Registering replaces the half that was there, which ends the broadcast of the socket it
  belonged to. A socket that sees the end of its broadcast, or of its connection, takes the entry
  of its session out of the map, whosever it is.\<close>

record sockets =
  sk_senders :: "string \<Rightarrow> nat option"
  sk_open :: "(nat \<times> string) set"

definition no_sockets :: sockets where
  "no_sockets = \<lparr>sk_senders = Map.empty, sk_open = {}\<rparr>"

definition open_socket :: "nat \<Rightarrow> string \<Rightarrow> sockets \<Rightarrow> sockets" where
  "open_socket n session k =
     k\<lparr>sk_senders := (sk_senders k)(session \<mapsto> n), sk_open := insert (n, session) (sk_open k)\<rparr>"

definition close_socket :: "nat \<Rightarrow> string \<Rightarrow> sockets \<Rightarrow> sockets" where
  "close_socket n session k =
     k\<lparr>sk_senders := (sk_senders k)(session := None), sk_open := sk_open k - {(n, session)}\<rparr>"

definition broadcast_ended :: "nat \<Rightarrow> string \<Rightarrow> sockets \<Rightarrow> bool" where
  "broadcast_ended n session k \<longleftrightarrow> sk_senders k session \<noteq> Some n"

inductive closing :: "sockets \<Rightarrow> sockets \<Rightarrow> bool" where
  ended: "(n, session) \<in> sk_open k \<Longrightarrow> broadcast_ended n session k \<Longrightarrow> closing k (close_socket n session k)"
| hung_up: "(n, session) \<in> sk_open k \<Longrightarrow> closing k (close_socket n session k)"

inductive_cases closingE: "closing k k'"

text \<open>Every socket that is still open has its broadcast.\<close>

definition quiescent :: "sockets \<Rightarrow> bool" where
  "quiescent k \<longleftrightarrow> (\<forall>(n, session) \<in> sk_open k. \<not> broadcast_ended n session k)"

subsection \<open>Properties\<close>

lemma closing_step:
  assumes "closing k k'"
  obtains n session where "(n, session) \<in> sk_open k" "k' = close_socket n session k"
  using assms by (elim closingE) auto

lemma closing_frame:
  assumes "closing\<^sup>*\<^sup>* k k'"
  shows "sk_open k' \<subseteq> sk_open k
    \<and> (\<forall>i n. sk_senders k' i = Some n \<longrightarrow> sk_senders k i = Some n)
    \<and> (\<forall>n i. (n, i) \<in> sk_open k \<and> (n, i) \<notin> sk_open k' \<longrightarrow> sk_senders k' i = None)"
  using assms
proof (induction rule: rtranclp_induct)
  case (step y z)
  from step.hyps(2) obtain n i where z: "z = close_socket n i y" by (rule closing_step)
  show ?case using step.IH by (auto simp: z close_socket_def split: if_splits)
qed simp

text \<open>Closing comes to an end: every step takes a socket away.\<close>

lemma closing_ends: "closing k k' \<Longrightarrow> finite (sk_open k) \<Longrightarrow> card (sk_open k') < card (sk_open k)"
proof -
  assume "closing k k'" and fin: "finite (sk_open k)"
  then obtain n i where n: "(n, i) \<in> sk_open k" "k' = close_socket n i k" by (elim closing_step)
  with card_Diff1_less [OF fin n(1)] show ?thesis by (simp add: close_socket_def)
qed

text \<open>Two sockets on one session are the end of both. Whatever happens to the sockets of a state in
  which two share a session, once each that is still open has its broadcast, neither of the two is
  open: the later one takes the broadcast of the earlier one, and the earlier one, on leaving, takes
  the entry of the later one out of the map. A page that reconnects before its old socket is gone
  is disconnected again, and whoever names another's session ends it.\<close>

theorem shared_session_ends_both:
  assumes "closing\<^sup>*\<^sup>* k k'" and "quiescent k'"
    and "(n, session) \<in> sk_open k" and "(m, session) \<in> sk_open k" and "n \<noteq> m"
  shows "(n, session) \<notin> sk_open k' \<and> (m, session) \<notin> sk_open k'"
proof -
  have kept: "sk_senders k' session = Some i" if "(i, session) \<in> sk_open k'" for i
    using that assms(2) by (auto simp: quiescent_def broadcast_ended_def)
  have gone: "sk_senders k' session = None" if "(i, session) \<in> sk_open k" "(i, session) \<notin> sk_open k'" for i
    using closing_frame [OF assms(1)] that by blast
  show ?thesis
    using kept [of n] kept [of m] gone [OF assms(3)] gone [OF assms(4)] assms(5) by fastforce
qed

lemma shared_session_ends_both_witness:
  "let k = open_socket 2 ''s'' (open_socket 1 ''s'' no_sockets); k' = close_socket 2 ''s'' (close_socket 1 ''s'' k)
   in closing\<^sup>*\<^sup>* k k' \<and> sk_open k = {(1, ''s''), (2, ''s'')} \<and> (1, ''s'') \<notin> sk_open k' \<and> (2, ''s'') \<notin> sk_open k'"
proof -
  let ?k = "open_socket 2 ''s'' (open_socket 1 ''s'' no_sockets)"
  let ?k1 = "close_socket 1 ''s'' ?k"
  let ?k2 = "close_socket 2 ''s'' ?k1"
  have "closing ?k ?k1"
    by (rule closing.ended) (simp_all add: open_socket_def no_sockets_def broadcast_ended_def)
  moreover have "closing ?k1 ?k2"
    by (rule closing.ended) (simp_all add: open_socket_def close_socket_def no_sockets_def broadcast_ended_def)
  ultimately have run: "closing\<^sup>*\<^sup>* ?k ?k2" by auto
  have o: "sk_open ?k = {(1, ''s''), (2, ''s'')}" by (auto simp: open_socket_def no_sockets_def)
  have "quiescent ?k2" by (auto simp: quiescent_def open_socket_def close_socket_def no_sockets_def)
  from shared_session_ends_both [OF run this, of 1 "''s''" 2] run o show ?thesis by (simp add: Let_def)
qed

subsection \<open>Probes\<close>

text \<open>The adapters whose health cannot be read from a handler.\<close>

fun locked :: "adapter_config \<Rightarrow> bool" where
  "locked (TeamsCh _) = False"
| "locked TestCh = False"
| "locked _ = True"

lemma locked_unreadable: "read_health ch = None \<longleftrightarrow> locked (ch_adapter ch)"
  by (cases "ch_adapter ch") auto

text \<open>They are registered before the others.\<close>

lemma front_extend:
  "list_all P xs \<Longrightarrow> \<exists>f. ys = f @ rear \<and> list_all P f \<Longrightarrow> \<exists>f. xs @ ys = f @ rear \<and> list_all P f"
proof -
  assume "list_all P xs" "\<exists>f. ys = f @ rear \<and> list_all P f"
  then obtain f where "xs @ ys = (xs @ f) @ rear" "list_all P (xs @ f)" by auto
  then show ?thesis by blast
qed

lemma front_empty: "\<exists>f. rear = f @ rear \<and> list_all P f"
  by (rule exI [of _ "[]"]) simp

lemma registered_locked_first:
  obtains front rear where "registered c = front @ rear"
    "list_all (locked \<circ> snd) front" "list_all (Not \<circ> locked \<circ> snd) rear"
proof -
  let ?rear = "(case cf_teams c of Some (True, t) \<Rightarrow> [(''teams-main'', TeamsCh t)] | _ \<Rightarrow> [])
     @ (if cf_test_channel c then [(''testchan-main'', TestCh)] else [])"
  have "\<exists>f. registered c = f @ ?rear \<and> list_all (locked \<circ> snd) f"
    unfolding registered_def
    by (rule front_empty | rule front_extend, (simp split: option.split bool.split prod.split; fail))+
  moreover have "list_all (Not \<circ> locked \<circ> snd) ?rear" by (simp split: option.split bool.split)
  ultimately show ?thesis using that by blast
qed

lemma readable_operational:
  "list_all (Not \<circ> locked \<circ> snd) chs \<Longrightarrow> any_operational (started chs) = Some (chs \<noteq> [])"
  by (induction chs) (auto simp: started_def elim: locked.elims)

lemma any_operational_locked: "chs \<noteq> [] \<Longrightarrow> locked (snd (hd chs)) \<Longrightarrow> any_operational (started chs) = None"
proof (cases chs)
  case (Cons p ps)
  moreover assume "locked (snd (hd chs))"
  ultimately have "read_health \<lparr>ch_id = fst p, ch_name = [], ch_adapter = snd p, ch_running = True\<rparr> = None"
    by (simp add: locked_unreadable del: read_health.simps)
  then show ?thesis using Cons by (cases p) (simp add: started_def del: read_health.simps)
qed simp

lemma ready_handler: "rq_method r = GET \<Longrightarrow> rq_path r = ''/ready'' \<Longrightarrow> serve c x b r s = readiness_handler b s"
  by (simp add: serve_def bearer_auth_def dispatch_def handle_endpoint_def split: option.split)

text \<open>The readiness probe never answers a gateway that has channels. As soon as one adapter is
  registered that keeps its health behind a lock, which is every one but Teams and the test channel,
  the handler of \<open>/ready\<close> panics and the probe gets no answer; without such an adapter it answers 200
  when a channel is registered and 503 when none is.\<close>

theorem readiness_answers_only_unlocked_channels:
  assumes "sv_channels s = started (registered chans)" and "rq_method r = GET" and "rq_path r = ''/ready''"
  shows "(if \<exists>(i, a) \<in> set (registered chans). locked a then fst (serve c x b r s) = None
     else \<exists>p. fst (serve c x b r s) = Some p \<and> an_status p = (if registered chans = [] then 503 else 200))"
proof -
  obtain front rear where reg: "registered chans = front @ rear"
    and f: "list_all (locked \<circ> snd) front" and b: "list_all (Not \<circ> locked \<circ> snd) rear"
    by (rule registered_locked_first)
  show ?thesis
  proof (cases "front = []")
    case True
    then have "\<not> (\<exists>(i, a) \<in> set (registered chans). locked a)" using reg b by (auto simp: list_all_iff)
    then show ?thesis
      using readable_operational [OF b] reg True assms by (simp add: ready_handler readiness_handler_def replied_def answer_def)
  next
    case False
    then have "locked (snd (hd (registered chans)))" "registered chans \<noteq> []"
      using f reg by (auto simp: list_all_iff)
    moreover from this have "\<exists>(i, a) \<in> set (registered chans). locked a"
      using hd_in_set [of "registered chans"] by (cases "hd (registered chans)") auto
    ultimately show ?thesis
      using any_operational_locked assms by (simp add: ready_handler readiness_handler_def)
  qed
qed

lemma readiness_answers_only_unlocked_channels_witness:
  "fst (serve demo_server_config demo_extractors demo_backend (ask GET ''/ready'' [] [])
     ((demo_server None)\<lparr>sv_channels := started (registered discord_only)\<rparr>)) = None"
proof -
  have "\<exists>(i, a) \<in> set (registered discord_only). locked a" by (simp add: registered_def discord_only_def)
  with readiness_answers_only_unlocked_channels [of "(demo_server None)\<lparr>sv_channels := started (registered discord_only)\<rparr>"
      discord_only "ask GET ''/ready'' [] []" demo_server_config demo_extractors demo_backend]
  show ?thesis by simp
qed

subsection \<open>What becomes of an answer\<close>

lemma forward_all:
  assumes "\<And>n. takes n"
  shows "snd (forward_stream takes n full (map Token ts @ [StreamDone])) = Some (full @ concat ts)"
  using assms by (induction ts arbitrary: n full) (simp_all add: split_beta)

text \<open>A message that passes the filters is put to the model whatever becomes of the answer.\<close>

lemma passed_message_is_asked:
  assumes "is_duplicate cfg e False m g = (False, g1)"
    and "within_rate cfg e m (audited cfg (MessageReceived (ms_user_id m) (ms_channel_id m)
           (length (ms_content m))) g1) = (True, g2)"
    and "handle_awaited cfg e False m g = Some (res, g')"
  shows "gw_prompts g' = gw_prompts g @ [(ms_user_id m, routed_content cfg m)]"
proof -
  note fd = is_duplicate_frame [OF assms(1)] and fr = within_rate_frame [OF assms(2)]
  have run: "answer_message cfg e m g2 = Some (res, g')"
    using assms by (simp add: handle_awaited_def limit_and_answer_def)
  obtain a g4 where 4: "answer_message cfg e m g2 = send_text cfg e (response_channel g2 m) a g4"
    "gw_prompts g4 = gw_prompts g2 @ [(ms_user_id m, routed_content cfg m)]"
    by (rule answer_message_cases)
  have "behind g' = behind g4" using send_text_frame run 4(1) by metis
  then show ?thesis using 4(2) fd fr by (simp add: behind_def)
qed

text \<open>Every answer of the web chat is asked again. When a turn is over, its whole answer is put
  into the queue of incoming messages, as one of the user \<open>assistant\<close> on a channel of the session's
  name; the gateway treats it as a question: it puts it to the model, and what the model answers
  is sent to nobody, because no channel is registered under that name.\<close>

theorem webchat_answer_is_asked_again:
  assumes "mg_process (bk_agents b) session (webchat_text decode t) (sv_manager s) = (Ok reply, mgr)"
    and "list_all is_ascii reply" and "\<And>n. takes n" and "sc_webchat_tx c" and "sv_accepting s"
    and "''webchat-'' @ session \<notin> set (map fst (registered chans))"
    and "m = webchat_reply b session reply"
    and "is_duplicate cfg e False m g = (False, g1)"
    and "within_rate cfg e m (audited cfg (MessageReceived (ms_user_id m) (ms_channel_id m)
           (length (ms_content m))) g1) = (True, g2)"
    and "en_channels e = map fst (registered chans)" and "prefs_get (gw_prefs g) ''assistant'' = None"
    and "handle_awaited cfg e False m g = Some (res, g')"
  shows "sv_queue (snd (webchat_message c b decode takes session t s)) = sv_queue s @ [m]
    \<and> gw_prompts g' = gw_prompts g @ [(''assistant'', reply)] \<and> gw_sends g' = gw_sends g"
proof -
  obtain ts where ts: "stream_events (Ok reply) = map Token ts @ [StreamDone]" "concat ts = reply"
    using ascii_streams_unchanged [OF assms(2)] by blast
  obtain fs where "forward_stream takes 0 [] (stream_events (Ok reply)) = (fs, Some reply)"
    using forward_all [where takes = takes and n = 0 and full = "[]" and ts = ts, OF assms(3)] ts by (metis append_Nil prod.collapse)
  then have queue: "sv_queue (snd (webchat_message c b decode takes session t s)) = sv_queue s @ [m]"
    using assms(1,4,5,7) by (simp add: webchat_message_def enqueue_opt_def enqueue_def)
  have m: "ms_user_id m = ''assistant''" "ms_content m = reply" "ms_channel_id m = ''webchat-'' @ session"
    "ms_preferred_channel_id m = None" "ms_attachments m = []"
    using assms(7) by (simp_all add: webchat_reply_def new_message_def)
  have asked: "gw_prompts g' = gw_prompts g @ [(''assistant'', reply)]"
    using passed_message_is_asked [OF assms(8,9,12)] m by (simp add: routed_content_def)
  have "response_channel g m = ''webchat-'' @ session" using m assms(11) by (simp add: response_channel_def)
  then have "{ms_channel_id m, response_channel g m} \<inter> set (en_channels e) = {}" using m assms(6,10) by simp
  moreover obtain new where new: "gw_sends g' = gw_sends g @ new"
      "\<forall>y \<in> set new. ms_channel_id (fst y) \<in> {ms_channel_id m, response_channel g m} \<inter> set (en_channels e)"
    using handled_own_effects [OF assms(12)] by (auto simp: own_effects_def sent_on_def)
  ultimately have "new = []" by (cases new) auto
  then have "gw_sends g' = gw_sends g" using new(1) by simp
  with asked queue show ?thesis by simp
qed

definition echo_message :: message where
  "echo_message = webchat_reply demo_backend ''s'' ''hi''"

definition chat_surroundings :: surroundings where
  "chat_surroundings = demo_surroundings\<lparr>en_channels := map fst (registered (discord_only\<lparr>cf_webchat := Some True\<rparr>))\<rparr>"

lemma chat_channels: "en_channels chat_surroundings = [''discord-main'', ''webchat-main'']"
  by (simp add: chat_surroundings_def registered_def discord_only_def)

lemma echo_fields: "ms_user_id echo_message = ''assistant''" "ms_content echo_message = ''hi''"
    "ms_channel_id echo_message = ''webchat-s''" "ms_preferred_channel_id echo_message = None"
    "ms_attachments echo_message = []"
  by (simp_all add: echo_message_def webchat_reply_def new_message_def)

lemma webchat_answer_is_asked_again_witness:
  "\<exists>g'. handle_awaited demo_config chat_surroundings False echo_message (demo_gateway Map.empty quiet_registry) = Some (Ok (), g')
    \<and> sv_queue (snd (webchat_message demo_server_config demo_backend (\<lambda>_. None) (\<lambda>_. True) ''s'' ''hello''
        (demo_server None))) = [echo_message]
    \<and> gw_prompts g' = [(''assistant'', ''hi'')] \<and> gw_sends g' = []"
proof -
  let ?g = "demo_gateway Map.empty quiet_registry" and ?m = echo_message and ?e = chat_surroundings
  obtain g1 where 1: "is_duplicate demo_config ?e False ?m ?g = (False, g1)"
    by (simp add: is_duplicate_def seen_def message_key_def new_deduplicator_def echo_fields
        chat_surroundings_def demo_simps)
  let ?ev = "MessageReceived (ms_user_id ?m) (ms_channel_id ?m) (length (ms_content ?m))"
  obtain g2 where 2: "within_rate demo_config ?e ?m (audited demo_config ?ev g1) = (True, g2)"
    using is_duplicate_frame(3) [OF 1]
    by (simp add: within_rate_def check_and_record_def rate_window_def demo_simps Let_def chat_surroundings_def)
  obtain a g4 where 4: "answer_message demo_config ?e ?m g2 = send_text demo_config ?e (response_channel g2 ?m) a g4"
    "a = (case en_model ?e (gw_prompts g2 @ [(ms_user_id ?m, routed_content demo_config ?m)]) of Inr x \<Rightarrow> x | Inl _ \<Rightarrow> trouble_text)"
    by (rule answer_message_cases)
  have "gw_prefs g2 = gw_prefs ?g" using is_duplicate_frame(4) [OF 1] within_rate_frame(4) [OF 2] by simp
  then have "response_channel g2 ?m = ''webchat-s''"
    by (simp add: response_channel_def prefs_get_def echo_fields demo_gateway_def)
  moreover have "a = ''hello there''" using 4(2) by (simp add: chat_surroundings_def demo_surroundings_def)
  moreover have "outgoing_chunks demo_config ''webchat-s'' ''hello there'' = Some [''hello there'']" by code_simp
  ultimately have "send_text demo_config ?e (response_channel g2 ?m) a g4 = Some (Ok (), g4)"
    by (simp add: send_text_def chat_channels)
  with 1 2 4 have run: "handle_awaited demo_config ?e False ?m ?g = Some (Ok (), g4)"
    by (simp add: handle_awaited_def limit_and_answer_def)
  have ascii: "list_all is_ascii ''hi''" by code_simp
  have "sv_queue (snd (webchat_message demo_server_config demo_backend (\<lambda>_. None) (\<lambda>_. True) ''s'' ''hello''
        (demo_server None))) = sv_queue (demo_server None) @ [?m]
      \<and> gw_prompts g4 = gw_prompts ?g @ [(''assistant'', ''hi'')] \<and> gw_sends g4 = gw_sends ?g"
    by (rule webchat_answer_is_asked_again [OF _ ascii _ _ _ _ _ 1 2 _ _ run, where mgr = "()"
          and chans = "discord_only\<lparr>cf_webchat := Some True\<rparr>"])
       (simp_all add: demo_backend_def demo_server_config_def demo_server_def registered_def discord_only_def
         echo_message_def chat_surroundings_def prefs_get_def demo_gateway_def)
  with run show ?thesis by (auto simp: demo_server_def demo_gateway_def)
qed

end
