(* ===== verification/Config.thy ===== *)
theory Config
  imports Webchat Shell_Tool Supervisor
begin

section \<open>The configuration (\<open>src/config/mod.rs\<close>)\<close>

text \<open>
  The sections of the configuration and \<open>Config::load\<close>: a file when one is named, otherwise the
  environment, variable by variable with the defaults of the source. The environment is a map
  from names to the values that are valid Unicode; reading and decoding a file is a parameter.
\<close>

subsection \<open>Sections\<close>

record deduplication_config =
  ddc_enabled :: bool
  ddc_window_size :: nat

record gateway_config =
  gc_websocket_port :: nat
  gc_http_port :: nat
  gc_log_level :: string
  gc_api_token :: "string option"
  gc_rate_limit :: rate_limit_config
  gc_max_body_bytes :: nat
  gc_request_timeout_seconds :: nat
  gc_allowed_ws_origins :: "string list"
  gc_shutdown_timeout_seconds :: nat
  gc_chunking_enabled :: bool
  gc_chunking_limits :: limits
  gc_formatting_enabled :: bool
  gc_auto_route_attachments :: bool
  gc_deduplication :: deduplication_config

record audit_config =
  auc_enabled :: bool
  auc_path :: string

record discord_config =
  dsc_enabled :: bool
  dsc_token :: string

record whatsapp_config =
  wac_enabled :: bool
  wac_phone_number_id :: string
  wac_access_token :: string
  wac_verify_token :: string

record telegram_config =
  tgc_enabled :: bool
  tgc_bot_token :: string
  tgc_webhook_secret :: string
  tgc_mode :: string

record slack_config =
  slc_enabled :: bool
  slc_bot_token :: string
  slc_signing_secret :: string
  slc_app_token :: "string option"
  slc_mode :: string

record sms_config =
  smc_enabled :: bool
  smc_account_sid :: string
  smc_auth_token :: string
  smc_from_number :: string

record webhook_config =
  whc_enabled :: bool
  whc_endpoints :: "webhook_endpoint list"

record webchat_config =
  wcc_enabled :: bool
  wcc_allowed_origins :: "string list"
  wcc_welcome_message :: "string option"

record imap_config =
  imc_host :: string
  imc_port :: nat
  imc_username :: string
  imc_password :: string
  imc_inbox :: string

record smtp_config =
  smt_host :: string
  smt_port :: nat
  smt_username :: string
  smt_password :: string
  smt_from_address :: string

record email_config =
  emc_enabled :: bool
  emc_imap :: imap_config
  emc_smtp :: smtp_config

record teams_config =
  tmc_enabled :: bool
  tmc_app_id :: string
  tmc_app_password :: string
  tmc_hmac_secret :: string

record channel_sections =
  chs_discord :: "discord_config option"
  chs_whatsapp :: "whatsapp_config option"
  chs_telegram :: "telegram_config option"
  chs_slack :: "slack_config option"
  chs_sms :: "sms_config option"
  chs_webhook :: "webhook_config option"
  chs_webchat :: "webchat_config option"
  chs_email :: "email_config option"
  chs_teams :: "teams_config option"
  chs_test_channel :: bool

text \<open>The agents section: the primary provider is the one of \<open>AgentManager\<close>'s chain. The temperature
  is the 32-bit float it is kept as.\<close>

record agent_section =
  ags_agents :: agents_config
  ags_max_history :: nat
  ags_temperature :: f64
  ags_planning_enabled :: bool
  ags_planning_max_steps :: nat
  ags_retry :: retry_config

record shell_section =
  shs_enabled :: bool
  shs_shell :: shell_tool_config

record tools_config =
  tlc_enabled :: bool
  tlc_max_steps :: nat
  tlc_filesystem_root :: "string option"
  tlc_web_search_api_key :: "string option"
  tlc_shell :: shell_section
  tlc_pdf_enabled :: bool
  tlc_image_enabled :: bool

record memory_config =
  mmc_backend :: string
  mmc_redis_url :: "string option"
  mmc_redis_ttl_seconds :: nat
  mmc_sqlite_path :: "string option"
  mmc_postgres_url :: "string option"
  mmc_vector_store :: string
  mmc_vector_store_url :: "string option"
  mmc_embedding_provider :: string
  mmc_embedding_model :: string
  mmc_summarization :: summarization_config
  mmc_summarization_model :: string
  mmc_vector_decay_half_life_seconds :: f64

record skills_config =
  skc_enabled :: bool
  skc_paths :: "string list"
  skc_max_active :: nat

record mcp_server =
  mcp_name :: string
  mcp_transport :: string
  mcp_command :: "string option"
  mcp_args :: "string list"
  mcp_env :: "(string \<times> string) list"
  mcp_url :: "string option"

record config =
  cfg_gateway :: gateway_config
  cfg_channels :: channel_sections
  cfg_agents :: agent_section
  cfg_tools :: tools_config
  cfg_otel_endpoint :: "string option"
  cfg_otel_service_name :: string
  cfg_dashboard_password :: "string option"
  cfg_memory :: memory_config
  cfg_mcp :: "mcp_server list"
  cfg_skills :: skills_config
  cfg_audit :: audit_config
  cfg_cron :: "cron_job list"
  cfg_quarry :: quarry_config

subsection \<open>Variables\<close>

type_synonym environment = "string \<Rightarrow> string option"

fun parse_bool :: "string \<Rightarrow> bool option" where
  "parse_bool s = (if s = ''true'' then Some True else if s = ''false'' then Some False else None)"

text \<open>\<open>parse::<u16>()\<close> and its wider relatives.\<close>

definition parse_uint :: "nat \<Rightarrow> string \<Rightarrow> nat option" where
  "parse_uint w s =
     (let ds = (case s of c # cs \<Rightarrow> if c = CHR ''+'' then cs else s | [] \<Rightarrow> s)
      in if ds \<noteq> [] \<and> list_all is_digit ds \<and> digits_value ds < 2 ^ w then Some (digits_value ds) else None)"

text \<open>A variable that is missing, or does not parse, is the default.\<close>

definition env_parsed :: "(string \<Rightarrow> 'a option) \<Rightarrow> environment \<Rightarrow> string \<Rightarrow> 'a \<Rightarrow> 'a" where
  "env_parsed parse env k d = (case Option.bind (env k) parse of Some v \<Rightarrow> v | None \<Rightarrow> d)"

definition env_text :: "environment \<Rightarrow> string \<Rightarrow> string \<Rightarrow> string" where
  "env_text env k d = (case env k of Some v \<Rightarrow> v | None \<Rightarrow> d)"

definition env_list :: "environment \<Rightarrow> char \<Rightarrow> string \<Rightarrow> string list \<Rightarrow> string list" where
  "env_list env sep k d = (case env k of Some v \<Rightarrow> map trim (split_on sep v) | None \<Rightarrow> d)"

abbreviation env_bool :: "environment \<Rightarrow> string \<Rightarrow> bool \<Rightarrow> bool" where
  "env_bool \<equiv> env_parsed parse_bool"

abbreviation env_uint :: "nat \<Rightarrow> environment \<Rightarrow> string \<Rightarrow> nat \<Rightarrow> nat" where
  "env_uint w \<equiv> env_parsed (parse_uint w)"

subsection \<open>Loading from the environment\<close>

definition env_discord :: "environment \<Rightarrow> discord_config option" where
  "env_discord env = map_option (\<lambda>t. \<lparr>dsc_enabled = True, dsc_token = t\<rparr>) (env ''DISCORD_BOT_TOKEN'')"

definition env_whatsapp :: "environment \<Rightarrow> whatsapp_config option" where
  "env_whatsapp env =
     (case (env ''WHATSAPP_PHONE_NUMBER_ID'', env ''WHATSAPP_ACCESS_TOKEN'', env ''WHATSAPP_VERIFY_TOKEN'') of
        (Some p, Some a, Some v) \<Rightarrow>
          Some \<lparr>wac_enabled = True, wac_phone_number_id = p, wac_access_token = a, wac_verify_token = v\<rparr>
      | _ \<Rightarrow> None)"

definition env_telegram :: "environment \<Rightarrow> telegram_config option" where
  "env_telegram env =
     (case (env ''TELEGRAM_BOT_TOKEN'', env ''TELEGRAM_WEBHOOK_SECRET'') of
        (Some t, Some s) \<Rightarrow> Some \<lparr>tgc_enabled = True, tgc_bot_token = t, tgc_webhook_secret = s,
          tgc_mode = env_text env ''TELEGRAM_MODE'' ''webhook''\<rparr>
      | _ \<Rightarrow> None)"

definition env_slack :: "environment \<Rightarrow> slack_config option" where
  "env_slack env =
     (case (env ''SLACK_BOT_TOKEN'', env ''SLACK_SIGNING_SECRET'') of
        (Some t, Some s) \<Rightarrow> Some \<lparr>slc_enabled = True, slc_bot_token = t, slc_signing_secret = s,
          slc_app_token = env ''SLACK_APP_TOKEN'', slc_mode = env_text env ''SLACK_MODE'' ''webhook''\<rparr>
      | _ \<Rightarrow> None)"

definition env_sms :: "environment \<Rightarrow> sms_config option" where
  "env_sms env =
     (case (env ''TWILIO_ACCOUNT_SID'', env ''TWILIO_AUTH_TOKEN'', env ''TWILIO_FROM_NUMBER'') of
        (Some a, Some t, Some f) \<Rightarrow>
          Some \<lparr>smc_enabled = True, smc_account_sid = a, smc_auth_token = t, smc_from_number = f\<rparr>
      | _ \<Rightarrow> None)"

definition env_webchat :: "environment \<Rightarrow> webchat_config option" where
  "env_webchat env =
     (if env_bool env ''WEBCHAT_ENABLED'' False
      then Some \<lparr>wcc_enabled = True, wcc_allowed_origins = env_list env (CHR '','') ''WEBCHAT_ALLOWED_ORIGINS'' [],
                 wcc_welcome_message = env ''WEBCHAT_WELCOME_MESSAGE''\<rparr>
      else None)"

definition env_email :: "environment \<Rightarrow> email_config option" where
  "env_email env =
     (case (env ''EMAIL_IMAP_HOST'', env ''EMAIL_SMTP_HOST'', env ''EMAIL_USERNAME'', env ''EMAIL_PASSWORD'') of
        (Some i, Some s, Some u, Some p) \<Rightarrow> Some
          \<lparr>emc_enabled = True,
           emc_imap = \<lparr>imc_host = i, imc_port = env_uint 16 env ''EMAIL_IMAP_PORT'' 993, imc_username = u,
             imc_password = p, imc_inbox = env_text env ''EMAIL_INBOX'' ''INBOX''\<rparr>,
           emc_smtp = \<lparr>smt_host = s, smt_port = env_uint 16 env ''EMAIL_SMTP_PORT'' 587, smt_username = u,
             smt_password = p, smt_from_address = env_text env ''EMAIL_FROM_ADDRESS'' []\<rparr>\<rparr>
      | _ \<Rightarrow> None)"

definition env_teams :: "environment \<Rightarrow> teams_config option" where
  "env_teams env =
     (case (env ''TEAMS_APP_ID'', env ''TEAMS_APP_PASSWORD'') of
        (Some a, Some p) \<Rightarrow> Some \<lparr>tmc_enabled = True, tmc_app_id = a, tmc_app_password = p,
          tmc_hmac_secret = env_text env ''TEAMS_HMAC_SECRET'' []\<rparr>
      | _ \<Rightarrow> None)"

definition env_channels :: "environment \<Rightarrow> channel_sections" where
  "env_channels env =
     \<lparr>chs_discord = env_discord env, chs_whatsapp = env_whatsapp env, chs_telegram = env_telegram env,
      chs_slack = env_slack env, chs_sms = env_sms env, chs_webhook = None, chs_webchat = env_webchat env,
      chs_email = env_email env, chs_teams = env_teams env,
      chs_test_channel = env_bool env ''TEST_CHANNEL'' False\<rparr>"

definition env_gateway :: "environment \<Rightarrow> gateway_config" where
  "env_gateway env =
     \<lparr>gc_websocket_port = env_uint 16 env ''GATEWAY_WEBSOCKET_PORT'' 18789,
      gc_http_port = env_uint 16 env ''GATEWAY_HTTP_PORT'' 8080,
      gc_log_level = env_text env ''LOG_LEVEL'' ''info'',
      gc_api_token = env ''GATEWAY_API_TOKEN'',
      gc_rate_limit = \<lparr>rl_enabled = env_bool env ''RATE_LIMIT_ENABLED'' False,
        rl_messages_per_window = env_uint 32 env ''RATE_LIMIT_MESSAGES'' 20,
        rl_window_seconds = env_uint 64 env ''RATE_LIMIT_WINDOW_SECONDS'' 60\<rparr>,
      gc_max_body_bytes = env_uint 64 env ''GATEWAY_MAX_BODY_BYTES'' 1048576,
      gc_request_timeout_seconds = env_uint 64 env ''GATEWAY_REQUEST_TIMEOUT_SECONDS'' 30,
      gc_allowed_ws_origins = filter (\<lambda>x. x \<noteq> []) (env_list env (CHR '','') ''GATEWAY_ALLOWED_WS_ORIGINS'' []),
      gc_shutdown_timeout_seconds = env_uint 64 env ''GATEWAY_SHUTDOWN_TIMEOUT_SECONDS'' 30,
      gc_chunking_enabled = env_bool env ''GATEWAY_CHUNKING_ENABLED'' False,
      gc_chunking_limits = [],
      gc_formatting_enabled = env_bool env ''GATEWAY_FORMATTING_ENABLED'' True,
      gc_auto_route_attachments = env_bool env ''GATEWAY_AUTO_ROUTE_ATTACHMENTS'' False,
      gc_deduplication = \<lparr>ddc_enabled = env_bool env ''GATEWAY_DEDUP_ENABLED'' False,
        ddc_window_size = env_uint 64 env ''GATEWAY_DEDUP_WINDOW_SIZE'' 256\<rparr>\<rparr>"

text \<open>The nearest 32-bit float to 0.7.\<close>

definition DEFAULT_TEMPERATURE :: f64 where
  "DEFAULT_TEMPERATURE = Fin (11744051 / 16777216)"

definition env_agents :: "environment \<Rightarrow> string \<Rightarrow> agent_section" where
  "env_agents env api_key =
     \<lparr>ags_agents = \<lparr>ac_primary = \<lparr>pv_provider = env_text env ''LLM_PROVIDER'' ''anthropic'', pv_api_key = api_key,
          pv_model = env_text env ''LLM_MODEL'' ''claude-3-5-sonnet-20241022'', pv_api_base = env ''ANTHROPIC_API_BASE''\<rparr>,
        ac_aws_region = env ''AWS_REGION'', ac_fallbacks = []\<rparr>,
      ags_max_history = 20, ags_temperature = DEFAULT_TEMPERATURE,
      ags_planning_enabled = env_bool env ''AGENTS_PLANNING_ENABLED'' False,
      ags_planning_max_steps = env_uint 64 env ''AGENTS_PLANNING_MAX_STEPS'' 10,
      ags_retry = \<lparr>rc_enabled = env_bool env ''AGENTS_RETRY_ENABLED'' True,
        rc_max_attempts = env_uint 32 env ''AGENTS_RETRY_MAX_ATTEMPTS'' 3,
        rc_base_delay_ms = env_uint 64 env ''AGENTS_RETRY_BASE_DELAY_MS'' 100,
        rc_jitter_enabled = env_bool env ''AGENT_RETRY_JITTER_ENABLED'' False\<rparr>\<rparr>"

definition env_tools :: "environment \<Rightarrow> tools_config" where
  "env_tools env =
     \<lparr>tlc_enabled = env_bool env ''TOOLS_ENABLED'' False, tlc_max_steps = env_uint 64 env ''TOOLS_MAX_STEPS'' 10,
      tlc_filesystem_root = env ''TOOLS_FILESYSTEM_ROOT'', tlc_web_search_api_key = env ''TAVILY_API_KEY'',
      tlc_shell = \<lparr>shs_enabled = env_bool env ''TOOLS_SHELL_ENABLED'' False,
        shs_shell = \<lparr>sh_require_approval = env_bool env ''TOOLS_SHELL_REQUIRE_APPROVAL'' True,
          sh_allowed_commands = env_list env (CHR '','') ''TOOLS_SHELL_ALLOWED_COMMANDS'' []\<rparr>\<rparr>,
      tlc_pdf_enabled = env_bool env ''TOOLS_PDF_ENABLED'' False,
      tlc_image_enabled = env_bool env ''TOOLS_IMAGE_ENABLED'' False\<rparr>"

definition env_memory :: "environment \<Rightarrow> (string \<Rightarrow> f64 option) \<Rightarrow> memory_config" where
  "env_memory env read_f64 =
     \<lparr>mmc_backend = env_text env ''MEMORY_BACKEND'' ''inmemory'', mmc_redis_url = env ''REDIS_URL'',
      mmc_redis_ttl_seconds = env_uint 64 env ''REDIS_TTL_SECONDS'' 86400, mmc_sqlite_path = env ''SQLITE_PATH'',
      mmc_postgres_url = env ''DATABASE_URL'', mmc_vector_store = env_text env ''VECTOR_STORE'' ''memory'',
      mmc_vector_store_url = env ''VECTOR_STORE_URL'',
      mmc_embedding_provider = env_text env ''EMBEDDING_PROVIDER'' ''simple'',
      mmc_embedding_model = env_text env ''EMBEDDING_MODEL'' ''none'',
      mmc_summarization = \<lparr>sz_enabled = env_bool env ''SUMMARIZATION_ENABLED'' False,
        sz_trigger_at = env_uint 64 env ''SUMMARIZATION_TRIGGER_AT'' 40,
        sz_trigger_token_budget = env_uint 64 env ''SUMMARIZATION_TRIGGER_TOKEN_BUDGET'' 0,
        sz_keep_recent = env_uint 64 env ''SUMMARIZATION_KEEP_RECENT'' 20\<rparr>,
      mmc_summarization_model = env_text env ''SUMMARIZATION_MODEL'' ''claude-haiku-4-5-20251001'',
      mmc_vector_decay_half_life_seconds = env_parsed read_f64 env ''VECTOR_DECAY_HALF_LIFE_SECONDS'' (Fin 3600)\<rparr>"

definition env_skills :: "environment \<Rightarrow> skills_config" where
  "env_skills env =
     \<lparr>skc_enabled = env_bool env ''SKILLS_ENABLED'' False,
      skc_paths = env_list env (CHR '':'') ''SKILLS_PATHS'' [''skills/''],
      skc_max_active = env_uint 64 env ''SKILLS_MAX_ACTIVE'' 3\<rparr>"

definition env_verification :: "environment \<Rightarrow> verification_config" where
  "env_verification env =
     \<lparr>vc_enabled = env_bool env ''QUARRY_VERIFY_ENABLED'' True,
      vc_expected_identity = env_text env ''QUARRY_VERIFY_IDENTITY'' [],
      vc_expected_issuer = env_text env ''QUARRY_VERIFY_ISSUER'' [],
      vc_cosign_path = env_text env ''QUARRY_VERIFY_COSIGN_PATH'' ''cosign'',
      vc_allow_writable_binary = env_bool env ''QUARRY_VERIFY_ALLOW_WRITABLE_BINARY'' False,
      vc_manifest_path = env_text env ''QUARRY_VERIFY_MANIFEST_PATH'' []\<rparr>"

definition env_quarry :: "environment \<Rightarrow> quarry_config" where
  "env_quarry env =
     \<lparr>qc_enabled = env_bool env ''QUARRY_ENABLED'' False,
      qc_binary_path = env_text env ''QUARRY_BINARY_PATH'' ''quarry'',
      qc_max_concurrent_runs = env_uint 64 env ''QUARRY_MAX_CONCURRENT_RUNS'' 2,
      qc_run_record_dir = env_text env ''QUARRY_RUN_RECORD_DIR'' ''quarry-runs'',
      qc_retention_max_runs = env_uint 64 env ''QUARRY_RETENTION_MAX_RUNS'' 50,
      qc_retention_max_age_seconds = env_uint 64 env ''QUARRY_RETENTION_MAX_AGE_SECONDS'' 0,
      qc_run_timeout_seconds = env_uint 64 env ''QUARRY_RUN_TIMEOUT_SECONDS'' 900,
      qc_default_timezone = env_text env ''QUARRY_DEFAULT_TIMEZONE'' [],
      qc_approval_timeout_seconds = env_uint 64 env ''QUARRY_APPROVAL_TIMEOUT_SECONDS'' 300,
      qc_policy = default_policy_config,
      qc_verification = env_verification env\<rparr>"

definition config_from_env :: "environment \<Rightarrow> (string \<Rightarrow> f64 option) \<Rightarrow> string + config" where
  "config_from_env env read_f64 =
     (case env ''ANTHROPIC_API_KEY'' of
        None \<Rightarrow> Err ''ANTHROPIC_API_KEY not set''
      | Some api_key \<Rightarrow> Ok
         \<lparr>cfg_gateway = env_gateway env, cfg_channels = env_channels env, cfg_agents = env_agents env api_key,
          cfg_tools = env_tools env, cfg_otel_endpoint = env ''OTEL_EXPORTER_OTLP_ENDPOINT'',
          cfg_otel_service_name = env_text env ''OTEL_SERVICE_NAME'' ''rustynail'',
          cfg_dashboard_password = env ''DASHBOARD_AUTH_PASSWORD'', cfg_memory = env_memory env read_f64,
          cfg_mcp = [], cfg_skills = env_skills env,
          cfg_audit = \<lparr>auc_enabled = env_bool env ''AUDIT_ENABLED'' False, auc_path = env_text env ''AUDIT_PATH'' []\<rparr>,
          cfg_cron = [], cfg_quarry = env_quarry env\<rparr>)"

text \<open>\<open>from_file\<close> reads and decodes the file a variable names.\<close>

definition config_load ::
    "environment \<Rightarrow> (string \<Rightarrow> string + config) \<Rightarrow> (string \<Rightarrow> f64 option) \<Rightarrow> string + config" where
  "config_load env from_file read_f64 =
     (case env ''CONFIG_FILE'' of Some path \<Rightarrow> from_file path | None \<Rightarrow> config_from_env env read_f64)"

subsection \<open>The parts the gateway takes\<close>

definition settings_of :: "config \<Rightarrow> settings" where
  "settings_of c =
     \<lparr>se_log_level = gc_log_level (cfg_gateway c), se_api_token = gc_api_token (cfg_gateway c),
      se_rate_limit = gc_rate_limit (cfg_gateway c), se_audit_enabled = auc_enabled (cfg_audit c),
      se_audit_path = auc_path (cfg_audit c), se_quarry_policy = qc_policy (cfg_quarry c)\<rparr>"

text \<open>What \<open>Gateway::start\<close> reads of the sections. The token of a Teams reply is fetched when it is sent;
  the scheduler is there when jobs are configured.\<close>

definition sections_of :: "(string \<Rightarrow> string \<Rightarrow> string + string) \<Rightarrow> config \<Rightarrow> server_sections" where
  "sections_of teams_token c =
     (let k = cfg_channels c in
      \<lparr>cf_discord = map_option dsc_enabled (chs_discord k),
       cf_whatsapp = map_option (\<lambda>w. (wac_enabled w, wac_phone_number_id w, wac_access_token w)) (chs_whatsapp k),
       cf_telegram = map_option (\<lambda>t. (tgc_enabled t, tgc_mode t, tgc_bot_token t)) (chs_telegram k),
       cf_slack = map_option (\<lambda>s. (slc_enabled s, slc_mode s, slc_bot_token s)) (chs_slack k),
       cf_sms = map_option (\<lambda>s. (smc_enabled s, smc_account_sid s, smc_auth_token s, smc_from_number s)) (chs_sms k),
       cf_webhook = map_option whc_enabled (chs_webhook k),
       cf_webchat = map_option wcc_enabled (chs_webchat k),
       cf_email = map_option (\<lambda>e. (emc_enabled e, smt_from_address (emc_smtp e))) (chs_email k),
       cf_teams = map_option (\<lambda>t. (tmc_enabled t, teams_token (tmc_app_id t) (tmc_app_password t))) (chs_teams k),
       cf_test_channel = chs_test_channel k,
       hs_whatsapp_verify_token = (case chs_whatsapp k of Some w \<Rightarrow> wac_verify_token w | None \<Rightarrow> []),
       hs_telegram_webhook_secret = (case chs_telegram k of Some t \<Rightarrow> tgc_webhook_secret t | None \<Rightarrow> []),
       hs_slack_signing_secret = (case chs_slack k of Some s \<Rightarrow> slc_signing_secret s | None \<Rightarrow> []),
       hs_sms_auth_token = (case chs_sms k of Some s \<Rightarrow> smc_auth_token s | None \<Rightarrow> []),
       hs_webhook_endpoints = (case chs_webhook k of Some w \<Rightarrow> whc_endpoints w | None \<Rightarrow> []),
       hs_teams_hmac_secret = (case chs_teams k of Some t \<Rightarrow> tmc_hmac_secret t | None \<Rightarrow> []),
       hs_dashboard_password = cfg_dashboard_password c,
       hs_audit = auc_enabled (cfg_audit c),
       hs_skills_paths = skc_paths (cfg_skills c),
       hs_skills_max_active = skc_max_active (cfg_skills c),
       hs_cron_jobs = (if cfg_cron c = [] then None else Some (cfg_cron c)),
       hs_allowed_ws_origins = gc_allowed_ws_origins (cfg_gateway c)\<rparr>)"

end
