(* ===== verification/Backends.thy ===== *)
theory Backends
  imports Stores F64_Ops "HOL-Library.Multiset"
begin

section \<open>Conversation memory in databases (\<open>src/memory/redis.rs\<close>, \<open>sqlite.rs\<close>, \<open>postgres.rs\<close>, \<open>vector.rs\<close>)\<close>

text \<open>
  The stores behind \<open>memory.backend\<close>. The commands of a Redis server are a parameter with the laws
  its documentation states; a SQL table is the list of its rows and each statement the function
  its text describes, less the order of rows with equal keys, which is a parameter; the
  exponential function and the square root are parameters. The runtime each SQL store and the
  vector store keeps for itself may only be waited on from a thread that drives no other runtime:
  where it is, \<open>block_on\<close> panics, here \<open>None\<close>.
\<close>

definition block_on :: "bool \<Rightarrow> 'a \<Rightarrow> 'a option" where
  "block_on may_block result = (if may_block then Some result else None)"

subsection \<open>Redis\<close>

text \<open>The commands the store sends, on a server's contents. A list is read from its head; the last
  argument of a range may be negative and then counts from the end.\<close>

record 'd redis =
  rd_connects :: "'d \<Rightarrow> bool"
  rd_lpush :: "string \<Rightarrow> string \<Rightarrow> 'd \<Rightarrow> 'd"
  rd_ltrim :: "string \<Rightarrow> int \<Rightarrow> int \<Rightarrow> 'd \<Rightarrow> 'd"
  rd_lrange :: "string \<Rightarrow> int \<Rightarrow> int \<Rightarrow> 'd \<Rightarrow> string list"
  rd_expire :: "string \<Rightarrow> int \<Rightarrow> 'd \<Rightarrow> 'd"
  rd_del :: "string \<Rightarrow> 'd \<Rightarrow> 'd"

definition history_key :: "string \<Rightarrow> string" where
  "history_key user_id = ''rustynail:history:'' @ user_id"

definition redis_history :: "'d redis \<Rightarrow> 'd \<Rightarrow> string \<Rightarrow> string list" where
  "redis_history r d user_id =
     (if rd_connects r d then rev (rd_lrange r (history_key user_id) 0 (-1) d) else [])"

text \<open>\<open>max_history as isize\<close> and \<open>ttl_seconds as i64\<close>.\<close>

definition redis_add :: "'d redis \<Rightarrow> nat \<Rightarrow> nat \<Rightarrow> string \<Rightarrow> string \<Rightarrow> 'd \<Rightarrow> 'd" where
  "redis_add r max_history ttl_seconds user_id message d =
     (if \<not> rd_connects r d then d
      else (let key = history_key user_id;
                d1 = rd_lpush r key message d;
                d2 = rd_ltrim r key 0 (wrap_i64 (int max_history) - 1) d1
            in if 0 < wrap_i64 (int ttl_seconds) then rd_expire r key (wrap_i64 (int ttl_seconds)) d2 else d2))"

definition redis_clear :: "'d redis \<Rightarrow> string \<Rightarrow> 'd \<Rightarrow> 'd" where
  "redis_clear r user_id d = (if rd_connects r d then rd_del r (history_key user_id) d else d)"

text \<open>What the documentation of the commands says of a server that is up, of the arguments used here:
  the whole list, a push at its head, the part from the head to an index, and everything if the
  index is the last. An expiry renewed in time changes nothing that can be read.\<close>

definition redis_laws :: "'d redis \<Rightarrow> bool" where
  "redis_laws r \<longleftrightarrow>
     (\<forall>d. rd_connects r d)
   \<and> (\<forall>d k x j. rd_lrange r j 0 (-1) (rd_lpush r k x d) =
        (if j = k then x # rd_lrange r j 0 (-1) d else rd_lrange r j 0 (-1) d))
   \<and> (\<forall>d k e j. 0 \<le> e \<longrightarrow> rd_lrange r j 0 (-1) (rd_ltrim r k 0 e d) =
        (if j = k then take (Suc (nat e)) (rd_lrange r j 0 (-1) d) else rd_lrange r j 0 (-1) d))
   \<and> (\<forall>d k j. rd_lrange r j 0 (-1) (rd_ltrim r k 0 (-1) d) = rd_lrange r j 0 (-1) d)
   \<and> (\<forall>d k s j. 0 < s \<longrightarrow> rd_lrange r j 0 (-1) (rd_expire r k s d) = rd_lrange r j 0 (-1) d)
   \<and> (\<forall>d k j. rd_lrange r j 0 (-1) (rd_del r k d) = (if j = k then [] else rd_lrange r j 0 (-1) d))"

subsection \<open>SQL\<close>

record table_row =
  tr_id :: string
  tr_user :: string
  tr_content :: string
  tr_ts :: int

type_synonym message_table = "table_row list"

text \<open>The two databases treat a negative \<open>LIMIT\<close> differently: SQLite takes it for none, PostgreSQL fails.\<close>

datatype dialect = Sqlite | Postgres

definition sql_limit :: "dialect \<Rightarrow> int \<Rightarrow> 'a list \<Rightarrow> 'a list option" where
  "sql_limit dia l xs =
     (if 0 \<le> l then Some (take (nat l) xs) else case dia of Sqlite \<Rightarrow> Some xs | Postgres \<Rightarrow> None)"

text \<open>\<open>ordered\<close> is the order the database returns rows in under \<open>ORDER BY ts ASC\<close>.\<close>

definition ts_order :: "(message_table \<Rightarrow> message_table) \<Rightarrow> bool" where
  "ts_order ordered \<longleftrightarrow> (\<forall>rs. mset (ordered rs) = mset rs \<and> sorted (map tr_ts (ordered rs)))"

definition user_rows :: "string \<Rightarrow> message_table \<Rightarrow> message_table" where
  "user_rows user_id t = filter (\<lambda>r. tr_user r = user_id) t"

definition select_messages ::
    "dialect \<Rightarrow> (message_table \<Rightarrow> message_table) \<Rightarrow> nat \<Rightarrow> string \<Rightarrow> message_table \<Rightarrow> string list option" where
  "select_messages dia ordered max_history user_id t =
     map_option (map tr_content) (sql_limit dia (wrap_i64 (int max_history)) (ordered (user_rows user_id t)))"

definition trim_messages ::
    "(message_table \<Rightarrow> message_table) \<Rightarrow> nat \<Rightarrow> string \<Rightarrow> message_table \<Rightarrow> message_table" where
  "trim_messages ordered max_history user_id t =
     (let mine = user_rows user_id t;
          excess = nat (max 0 (int (length mine) - wrap_i64 (int max_history)));
          old = map tr_id (take excess (ordered mine))
      in filter (\<lambda>r. tr_id r \<notin> set old) t)"

text \<open>The primary key refuses a second row of one id.\<close>

definition insert_message :: "table_row \<Rightarrow> message_table \<Rightarrow> message_table option" where
  "insert_message r t = (if tr_id r \<in> tr_id ` set t then None else Some (t @ [r]))"

text \<open>The calls of the store. A statement the database fails (\<open>up\<close> is false for it) is logged; the
  history is then empty and the rest of an addition is skipped.\<close>

definition sql_history ::
    "bool \<Rightarrow> dialect \<Rightarrow> (message_table \<Rightarrow> message_table) \<Rightarrow> nat \<Rightarrow> bool \<Rightarrow> message_table \<Rightarrow> string \<Rightarrow> string list option" where
  "sql_history may_block dia ordered max_history up t user_id =
     block_on may_block
       (if up then (case select_messages dia ordered max_history user_id t of Some ms \<Rightarrow> ms | None \<Rightarrow> []) else [])"

definition sql_add ::
    "bool \<Rightarrow> (message_table \<Rightarrow> message_table) \<Rightarrow> nat \<Rightarrow> bool \<times> bool \<Rightarrow> string \<Rightarrow> int \<Rightarrow> string \<Rightarrow> string
     \<Rightarrow> message_table \<Rightarrow> message_table option" where
  "sql_add may_block ordered max_history up fresh_id now_ms user_id message t =
     block_on may_block
       (if \<not> fst up then t
        else case insert_message \<lparr>tr_id = fresh_id, tr_user = user_id, tr_content = message, tr_ts = now_ms\<rparr> t of
               None \<Rightarrow> t
             | Some t' \<Rightarrow> if snd up then trim_messages ordered max_history user_id t' else t')"

definition sql_clear :: "bool \<Rightarrow> bool \<Rightarrow> string \<Rightarrow> message_table \<Rightarrow> message_table option" where
  "sql_clear may_block up user_id t =
     block_on may_block (if up then filter (\<lambda>r. tr_user r \<noteq> user_id) t else t)"



definition sqlite_add where "sqlite_add = sql_add"

definition postgres_add where "postgres_add = sql_add"

definition postgres_clear where "postgres_clear = sql_clear"

text \<open>Opening a store first builds its runtime and, for SQLite, the directory of its file; only then the
  runtime is waited on, for the connection and the table.\<close>

definition sql_open :: "bool \<Rightarrow> bool \<Rightarrow> bool \<Rightarrow> bool option" where
  "sql_open may_block prepares connects = (if \<not> prepares then Some False else block_on may_block connects)"

subsection \<open>The vector store\<close>

definition f64_less :: "f64 \<Rightarrow> f64 \<Rightarrow> bool" where
  "f64_less a b \<longleftrightarrow> f64_le a b \<and> \<not> f64_le b a"

text \<open>The double nearest to the logarithm of two.\<close>

definition LN_2 :: f64 where
  "LN_2 = Fin (6243314768165359 / 9007199254740992)"

definition recency_weight :: "(f64 \<Rightarrow> f64) \<Rightarrow> f64 \<Rightarrow> f64 \<Rightarrow> f64" where
  "recency_weight expf half_life_secs age_secs =
     (if f64_le half_life_secs (Fin 0) then Fin 1
      else expf (f64_mul (f64_neg (f64_div LN_2 half_life_secs)) age_secs))"

text \<open>The ring of a user: messages with the millisecond they came in. A stable sort by descending weight,
  where weights that do not compare count as equal.\<close>

record vector_store =
  vs_ring :: "string \<Rightarrow> (string \<times> int) list option"
  vs_max_history :: nat
  vs_half_life :: f64

fun insert_by_weight :: "string \<times> f64 \<Rightarrow> (string \<times> f64) list \<Rightarrow> (string \<times> f64) list" where
  "insert_by_weight x [] = [x]"
| "insert_by_weight x (y # ys) = (if f64_less (snd x) (snd y) then y # insert_by_weight x ys else x # y # ys)"

definition sort_by_weight :: "(string \<times> f64) list \<Rightarrow> (string \<times> f64) list" where
  "sort_by_weight xs = foldr insert_by_weight xs []"

definition age_secs :: "int \<Rightarrow> int \<Rightarrow> f64" where
  "age_secs now_ms ts = f64_div (f64_of_int (max 0 (now_ms - ts))) (Fin 1000)"

definition vector_history :: "(f64 \<Rightarrow> f64) \<Rightarrow> int \<Rightarrow> vector_store \<Rightarrow> string \<Rightarrow> string list" where
  "vector_history expf now_ms s user_id =
     (case vs_ring s user_id of
        None \<Rightarrow> []
      | Some entries \<Rightarrow>
          if f64_le (vs_half_life s) (Fin 0) then map fst entries
          else map fst (sort_by_weight
                 (map (\<lambda>(m, ts). (m, recency_weight expf (vs_half_life s) (age_secs now_ms ts))) entries)))"

text \<open>The ring is updated before the runtime is waited on. What agenkit's vector memory does with the
  message is never read.\<close>

definition ring_add :: "int \<Rightarrow> string \<Rightarrow> string \<Rightarrow> vector_store \<Rightarrow> vector_store" where
  "ring_add now_ms user_id message s =
     (let h = (case vs_ring s user_id of None \<Rightarrow> [] | Some h \<Rightarrow> h) @ [(message, now_ms)];
          h' = (if vs_max_history s < length h then drop (length h - vs_max_history s) h else h)
      in s\<lparr>vs_ring := (vs_ring s)(user_id \<mapsto> h')\<rparr>)"

definition vector_add :: "bool \<Rightarrow> int \<Rightarrow> string \<Rightarrow> string \<Rightarrow> vector_store \<Rightarrow> vector_store option" where
  "vector_add may_block now_ms user_id message s = block_on may_block (ring_add now_ms user_id message s)"

definition vector_clear :: "bool \<Rightarrow> string \<Rightarrow> vector_store \<Rightarrow> vector_store option" where
  "vector_clear may_block user_id s = block_on may_block (s\<lparr>vs_ring := (vs_ring s)(user_id := None)\<rparr>)"

definition new_vector_store :: "nat \<Rightarrow> f64 \<Rightarrow> vector_store" where
  "new_vector_store max_history half_life =
     \<lparr>vs_ring = (\<lambda>_. None), vs_max_history = max_history, vs_half_life = half_life\<rparr>"

text \<open>\<open>SimpleEmbeddingProvider\<close>: pairs of neighbouring characters, each cut to its low byte, counted in
  64 places and scaled to length one. Characters are code points.\<close>

definition bigram_place :: "nat \<Rightarrow> nat \<Rightarrow> nat" where
  "bigram_place a b = (a mod 256 * 31 + b mod 256) mod 64"

fun count_bigrams :: "nat list \<Rightarrow> f64 list \<Rightarrow> f64 list" where
  "count_bigrams (a # b # cs) v =
     count_bigrams (b # cs) (v[bigram_place a b := f64_add (v ! bigram_place a b) (Fin 1)])"
| "count_bigrams _ v = v"

definition embed :: "(f64 \<Rightarrow> f64) \<Rightarrow> nat list \<Rightarrow> f64 list" where
  "embed sqrtf lowered =
     (let v = count_bigrams lowered (replicate 64 (Fin 0));
          norm = sqrtf (fold (\<lambda>x acc. f64_add acc (f64_mul x x)) v (Fin 0))
      in if f64_less (Fin 0) norm then map (\<lambda>x. f64_div x norm) v else v)"

subsection \<open>Properties\<close>

lemma recent_rev: "recent n (rev xs) = rev (take n xs)"
  by (simp add: recent_def rev_take)

lemma small_bound:
  assumes "n < 2 ^ 63"
  shows "wrap_i64 (int n) = int n"
proof (rule wrap_i64_id)
  have "int n < int (2 ^ 63)" using assms by (simp only: of_nat_less_iff)
  then show "in_i64 (int n)" by (simp add: in_i64_def)
qed

text \<open>A server with the documented commands keeps the contract of the trait, for every positive bound.\<close>

lemma redis_laws_D:
  assumes "redis_laws r"
  shows "rd_connects r d"
    and "rd_lrange r j 0 (-1) (rd_lpush r k x d) =
      (if j = k then x # rd_lrange r j 0 (-1) d else rd_lrange r j 0 (-1) d)"
    and "0 \<le> e \<Longrightarrow> rd_lrange r j 0 (-1) (rd_ltrim r k 0 e d) =
      (if j = k then take (Suc (nat e)) (rd_lrange r j 0 (-1) d) else rd_lrange r j 0 (-1) d)"
    and "rd_lrange r j 0 (-1) (rd_ltrim r k 0 (-1) d) = rd_lrange r j 0 (-1) d"
    and "0 < s \<Longrightarrow> rd_lrange r j 0 (-1) (rd_expire r k s d) = rd_lrange r j 0 (-1) d"
    and "rd_lrange r j 0 (-1) (rd_del r k d) = (if j = k then [] else rd_lrange r j 0 (-1) d)"
  using assms by (simp_all add: redis_laws_def)

theorem redis_keeps_the_contract:
  assumes laws: "redis_laws r" and pos: "0 < n" and small: "n < 2 ^ 63"
  shows "history_store (redis_history r) (redis_add r n ttl) (redis_clear r) (\<lambda>_. n)"
proof
  note D = redis_laws_D [OF laws]
  have key: "history_key u = history_key v \<longleftrightarrow> u = v" for u v by (simp add: history_key_def)
  have n: "Suc (nat (int n - 1)) = n" "0 \<le> int n - 1" using pos by auto
  show "redis_history r (redis_add r n ttl u x d) v =
      (if v = u then recent n (redis_history r d u @ [x]) else redis_history r d v)" for u x d v
    using recent_rev [of n "x # rd_lrange r (history_key u) 0 (-1) d"]
    by (simp add: redis_history_def redis_add_def Let_def D(1,2,5) D(3) [OF n(2)] n(1) key small_bound [OF small])
  show "redis_history r (redis_clear r u d) v = (if v = u then [] else redis_history r d v)" for u d v
    by (simp add: redis_history_def redis_clear_def D(1,6) key)
qed auto

text \<open>With the bound zero, which the in-memory store takes at its word, Redis keeps everything.\<close>

lemma redis_without_a_bound:
  assumes "redis_laws r"
  shows "redis_history r (redis_add r 0 ttl u x d) u = redis_history r d u @ [x]"
proof -
  have "wrap_i64 0 = 0" by (simp add: wrap_i64_def)
  then show ?thesis
    by (simp add: redis_history_def redis_add_def Let_def redis_laws_D [OF assms])
qed

subsection \<open>SQL: the tail of the log\<close>

text \<open>What is done to a table, each step with the identifier and the millisecond it draws.\<close>

type_synonym sql_step = "string \<times> int \<times> store_op"

fun sql_steps :: "(message_table \<Rightarrow> message_table) \<Rightarrow> nat \<Rightarrow> sql_step list \<Rightarrow> message_table \<Rightarrow> message_table option" where
  "sql_steps ordered n [] t = Some t"
| "sql_steps ordered n ((i, ts, op) # ss) t =
     Option.bind (case op of AddOp u x \<Rightarrow> sql_add True ordered n (True, True) i ts u x t
                           | ClearOp u \<Rightarrow> sql_clear True True u t)
       (sql_steps ordered n ss)"













text \<open>Two messages of one millisecond, a question and its quick answer, may come back the wrong way round.\<close>

definition newest_first :: "message_table \<Rightarrow> message_table" where
  "newest_first rs = sort_key tr_ts (rev rs)"

lemma one_millisecond_loses_the_order:
  "ts_order newest_first
    \<and> Option.bind (sql_steps newest_first 5 [(''a'', 1, AddOp ''u'' ''question''), (''b'', 1, AddOp ''u'' ''answer'')] [])
        (\<lambda>t. sql_history True dia newest_first 5 True t ''u'') = Some [''answer'', ''question'']"
proof
  show "ts_order newest_first" by (simp add: ts_order_def newest_first_def)
  have five: "wrap_i64 5 = 5" using small_bound [of 5] by simp
  show "Option.bind (sql_steps newest_first 5 [(''a'', 1, AddOp ''u'' ''question''), (''b'', 1, AddOp ''u'' ''answer'')] [])
        (\<lambda>t. sql_history True dia newest_first 5 True t ''u'') = Some [''answer'', ''question'']"
    by (simp add: sql_add_def block_on_def insert_message_def trim_messages_def user_rows_def newest_first_def
        sql_history_def select_messages_def sql_limit_def five)
qed

subsection \<open>The vector store: recency\<close>

lemma sort_rising:
  "sorted_wrt (\<lambda>a b. f64_less (snd a) (snd b)) xs \<Longrightarrow> sort_by_weight xs = rev xs"
proof (induction xs)
  case (Cons x xs)
  have "\<forall>y \<in> set ys. f64_less (snd x) (snd y) \<Longrightarrow> insert_by_weight x ys = ys @ [x]" for ys
    by (induction ys) auto
  from this [of "rev xs"] show ?case using Cons by (simp add: sort_by_weight_def)
qed (simp add: sort_by_weight_def)

lemma sort_level: "(\<And>a b. a \<in> set xs \<Longrightarrow> b \<in> set xs \<Longrightarrow> \<not> f64_less (snd a) (snd b)) \<Longrightarrow> sort_by_weight xs = xs"
proof (induction xs)
  case (Cons x xs)
  have "insert_by_weight x xs = x # xs" using Cons.prems by (cases xs) auto
  then show ?case using Cons by (simp add: sort_by_weight_def)
qed (simp add: sort_by_weight_def)

text \<open>Weights that do not decay, or too little to tell, leave the order of arrival.\<close>

lemma weightless_history:
  assumes "vs_ring s u = Some es" and "\<And>x y. \<not> f64_less (expf x) (expf y)"
  shows "vector_history expf now s u = map fst es"
proof -
  let ?w = "\<lambda>(m, ts). (m, recency_weight expf (vs_half_life s) (age_secs now ts))"
  have "\<not> f64_less (Fin 1) (Fin 1)" by (simp add: f64_less_def)
  then have "sort_by_weight (map ?w es) = map ?w es"
    by (intro sort_level) (auto simp: recency_weight_def assms(2) split: if_splits)
  then show ?thesis by (simp add: vector_history_def assms(1) comp_def case_prod_beta)
qed

text \<open>The vector store turns the history round. Whenever the weights of a user's messages tell them
  apart, which is what decay is for, the newest comes first; the summarizer, which takes every
  history for one that grows at its end, then condenses the newest messages and keeps the oldest
  ones, newest of these first.\<close>

theorem vector_store_summarises_the_newest:
  assumes "vs_ring s u = Some es" and "\<not> f64_le (vs_half_life s) (Fin 0)"
    and "sorted_wrt (\<lambda>a b. f64_less (recency_weight expf (vs_half_life s) (age_secs now (snd a)))
                              (recency_weight expf (vs_half_life s) (age_secs now (snd b)))) es"
    and "summary_split cfg u (vector_history expf now s u) = Some task"
  shows "vector_history expf now s u = rev (map fst es)
    \<and> su_to_summarize task = rev (map fst (drop (sz_keep_recent cfg) es))
    \<and> su_keep task = rev (map fst (take (sz_keep_recent cfg) es))"
proof -
  let ?w = "\<lambda>(m, ts). (m, recency_weight expf (vs_half_life s) (age_secs now ts))"
  have "sort_by_weight (map ?w es) = rev (map ?w es)"
    using assms(3) by (intro sort_rising) (simp add: sorted_wrt_map case_prod_beta)
  then have h: "vector_history expf now s u = rev (map fst es)"
    using assms(1,2) by (simp add: vector_history_def rev_map comp_def case_prod_beta)
  have "su_to_summarize task = take (length es - sz_keep_recent cfg) (rev (map fst es))
      \<and> su_keep task = drop (length es - sz_keep_recent cfg) (rev (map fst es))"
    using assms(4) by (auto simp: h summary_split_def Let_def split: if_splits)
  then show ?thesis by (simp add: h take_rev drop_rev drop_map take_map) (cases "sz_keep_recent cfg \<le> length es"; simp)
qed

definition demo_vector :: vector_store where
  "demo_vector = ring_add 2000 ''u'' ''new'' (ring_add 1000 ''u'' ''old'' (new_vector_store 20 LN_2))"

definition demo_exp :: "f64 \<Rightarrow> f64" where
  "demo_exp x = (if f64_less x (Fin 0) then Fin (1 / 2) else Fin 1)"

lemma fl_close:
  assumes "1 / 10 ^ 7 \<le> \<bar>x\<bar>" and "\<bar>x\<bar> \<le> 10 ^ 20"
  obtains v where "fl x = Fin v" and "\<bar>v - x\<bar> \<le> \<bar>x\<bar> / 2"
proof -
  obtain v where v: "fl x = Fin v" "\<bar>v - x\<bar> \<le> \<bar>x\<bar> / 9007199254740992"
    using fl_small [of x] assms by auto
  moreover have "\<bar>x\<bar> / 9007199254740992 \<le> \<bar>x\<bar> / 2" by (simp add: field_simps)
  ultimately show ?thesis using that order_trans by blast
qed

lemma demo_weights:
  "recency_weight demo_exp LN_2 (age_secs 2000 2000) = Fin 1"
  "recency_weight demo_exp LN_2 (age_secs 2000 1000) = Fin (1 / 2)"
proof -
  obtain a where a: "fl 1000 = Fin a" "\<bar>a - 1000\<bar> \<le> 500" by (rule fl_close [of 1000]) auto
  then have "250 \<le> a" "a \<le> 2000" by linarith+
  then obtain b where b: "fl (a / 1000) = Fin b" "\<bar>b - a / 1000\<bar> \<le> \<bar>a / 1000\<bar> / 2"
    by (elim fl_close [of "a / 1000", rotated 2]) auto
  with \<open>250 \<le> a\<close> \<open>a \<le> 2000\<close> have b': "1 / 8 \<le> b" "b \<le> 3" by (auto simp: abs_le_iff abs_if split: if_splits)
  obtain c where c: "fl 1 = Fin c" "\<bar>c - 1\<bar> \<le> 1 / 2" by (rule fl_close [of 1]) auto
  from c(2) have c': "1 / 2 \<le> c" "c \<le> 3 / 2" by linarith+
  have cb: "1 / 2 * (1 / 8) \<le> c * b" "c * b \<le> 3 / 2 * 3"
    using b' c' by (intro mult_mono; simp)+
  obtain d where d: "fl (- (c * b)) = Fin d" "\<bar>d - - (c * b)\<bar> \<le> \<bar>- (c * b)\<bar> / 2"
    using cb by (elim fl_close [of "- (c * b)", rotated 2]) auto
  define e where "e = c * b"
  have "0 < e" "\<bar>d + e\<bar> \<le> e / 2" using cb d(2) by (simp_all add: e_def)
  then have "d < 0" by linarith
  show "recency_weight demo_exp LN_2 (age_secs 2000 2000) = Fin 1"
    by (simp add: recency_weight_def LN_2_def age_secs_def f64_of_int_def demo_exp_def f64_less_def c)
  show "recency_weight demo_exp LN_2 (age_secs 2000 1000) = Fin (1 / 2)"
    using \<open>d < 0\<close>
    by (simp add: recency_weight_def LN_2_def age_secs_def f64_of_int_def demo_exp_def f64_less_def a b c d)
qed

lemma vector_store_summarises_the_newest_witness:
  "\<exists>task. summary_split \<lparr>sz_enabled = True, sz_trigger_at = 1, sz_trigger_token_budget = 0, sz_keep_recent = 1\<rparr> ''u''
      (vector_history demo_exp 2000 demo_vector ''u'') = Some task
    \<and> su_to_summarize task = [''new''] \<and> su_keep task = [''old'']"
proof -
  let ?cfg = "\<lparr>sz_enabled = True, sz_trigger_at = 1, sz_trigger_token_budget = 0, sz_keep_recent = 1\<rparr>"
  have ring: "vs_ring demo_vector ''u'' = Some [(''old'', 1000), (''new'', 2000)]"
    and half: "vs_half_life demo_vector = LN_2"
    by (simp_all add: demo_vector_def ring_add_def new_vector_store_def)
  have decays: "\<not> f64_le (vs_half_life demo_vector) (Fin 0)"
    "sorted_wrt (\<lambda>a b. f64_less (recency_weight demo_exp (vs_half_life demo_vector) (age_secs 2000 (snd a)))
                          (recency_weight demo_exp (vs_half_life demo_vector) (age_secs 2000 (snd b))))
       [(''old'', 1000), (''new'', 2000)]"
    unfolding half by (simp add: LN_2_def, simp add: demo_weights f64_less_def)
  have "length (vector_history demo_exp 2000 demo_vector ''u'') = 2"
    by (simp add: vector_history_def ring decays(1) sort_by_weight_def half demo_weights f64_less_def)
  then obtain task where "summary_split ?cfg ''u'' (vector_history demo_exp 2000 demo_vector ''u'') = Some task"
    by (simp add: summary_split_def)
  from vector_store_summarises_the_newest [OF ring decays this] this show ?thesis by auto
qed

text \<open>Redis, on a server that is a map of lists.\<close>

definition demo_redis :: "(string \<Rightarrow> string list) redis" where
  "demo_redis =
     \<lparr>rd_connects = (\<lambda>_. True),
      rd_lpush = (\<lambda>k x d. d(k := x # d k)),
      rd_ltrim = (\<lambda>k a e d. if e < 0 then d else d(k := take (Suc (nat e)) (d k))),
      rd_lrange = (\<lambda>k a e d. if e < 0 then d k else take (Suc (nat e)) (d k)),
      rd_expire = (\<lambda>_ _ d. d), rd_del = (\<lambda>k d. d(k := []))\<rparr>"

lemma redis_keeps_the_contract_witness:
  "redis_history demo_redis (redis_add demo_redis 1 60 ''u'' ''y'' (redis_add demo_redis 1 60 ''u'' ''x'' (\<lambda>_. []))) ''u''
     = [''y'']"
proof -
  have "redis_laws demo_redis" by (simp add: redis_laws_def demo_redis_def)
  then have "history_store (redis_history demo_redis) (redis_add demo_redis 1 60) (redis_clear demo_redis) (\<lambda>_. 1)"
    by (rule redis_keeps_the_contract) simp_all
  from history_store.add_history [OF this] show ?thesis by (simp add: recent_def)
qed

end
