(* ===== verification/Assembly.thy ===== *)
theory Assembly
  imports Config Caps Backends
begin

section \<open>Putting the gateway together (\<open>src/gateway/mod.rs\<close>, \<open>src/main.rs\<close>)\<close>

text \<open>
  What \<open>Gateway::new\<close> builds of a configuration, the loop that handles the queue, what a run of
  quarry is given, how the gateway stops, and the two commands that report on a configuration.
  Connecting to a database is a parameter; \<open>None\<close> is a panic.
\<close>

subsection \<open>Memory\<close>

datatype memory_backend =
    InMemory nat
  | RedisBacked string nat nat
  | SqliteBacked string nat
  | PostgresBacked string nat
  | VectorBacked nat f64

definition dirs_path_expand :: "environment \<Rightarrow> string \<Rightarrow> string" where
  "dirs_path_expand env rest =
     (case env ''HOME'' of Some home \<Rightarrow> home @ ''/'' @ rest | None \<Rightarrow> ''/tmp/'' @ rest)"

definition sqlite_file :: "environment \<Rightarrow> string option \<Rightarrow> string" where
  "sqlite_file env path =
     (let p = (case path of Some x \<Rightarrow> x | None \<Rightarrow> ''~/.rustynail/memory.db'')
      in case strip_prefix ''~/'' p of Some rest \<Rightarrow> dirs_path_expand env rest | None \<Rightarrow> p)"

text \<open>A store that cannot be opened, or that lacks its address, is replaced by the one in memory.\<close>

definition select_memory :: "environment \<Rightarrow> (memory_backend \<Rightarrow> bool option) \<Rightarrow> config \<Rightarrow> memory_backend option" where
  "select_memory env opens c =
     (let mm = cfg_memory c; n = ags_max_history (cfg_agents c);
          opened = (\<lambda>b. map_option (\<lambda>ok. if ok then b else InMemory n) (opens b))
      in if mmc_backend mm = ''redis'' then
           (case mmc_redis_url mm of
              Some url \<Rightarrow> opened (RedisBacked url n (mmc_redis_ttl_seconds mm))
            | None \<Rightarrow> Some (InMemory n))
         else if mmc_backend mm = ''sqlite'' then opened (SqliteBacked (sqlite_file env (mmc_sqlite_path mm)) n)
         else if mmc_backend mm = ''postgres'' then
           (case mmc_postgres_url mm of Some url \<Rightarrow> opened (PostgresBacked url n) | None \<Rightarrow> Some (InMemory n))
         else if mmc_backend mm = ''vector'' then opened (VectorBacked n (mmc_vector_decay_half_life_seconds mm))
         else Some (InMemory n))"

text \<open>How the constructors end on a thread that may, or may not, wait on a runtime of its own. Redis only
  parses its address, and the vector store only builds its runtime.\<close>

definition opens_on :: "bool \<Rightarrow> (memory_backend \<Rightarrow> bool) \<Rightarrow> (memory_backend \<Rightarrow> bool) \<Rightarrow> memory_backend \<Rightarrow> bool option" where
  "opens_on may_block prepares connects b =
     (case b of
        InMemory _ \<Rightarrow> Some True
      | RedisBacked _ _ _ \<Rightarrow> Some (prepares b)
      | SqliteBacked _ _ \<Rightarrow> sql_open may_block (prepares b) (connects b)
      | PostgresBacked _ _ \<Rightarrow> sql_open may_block (prepares b) (connects b)
      | VectorBacked _ _ \<Rightarrow> Some (prepares b))"

subsection \<open>Tools\<close>

datatype tool_kind =
    Calculator
  | FileSystem string
  | WebSearch string
  | WebFetch
  | Shell shell_tool_config
  | Calendar
  | Formatter
  | PdfAnalysis string string string
  | ImageAnalysis string string string

fun tool_name :: "tool_kind \<Rightarrow> string" where
  "tool_name Calculator = ''calculator''"
| "tool_name (FileSystem _) = ''filesystem''"
| "tool_name (WebSearch _) = ''web_search''"
| "tool_name WebFetch = ''web_fetch''"
| "tool_name (Shell _) = ''shell''"
| "tool_name Calendar = ''calendar''"
| "tool_name Formatter = ''formatter''"
| "tool_name (PdfAnalysis _ _ _) = ''pdf_analysis''"
| "tool_name (ImageAnalysis _ _ _) = ''image_analysis''"

definition vision_args :: "config \<Rightarrow> (string \<Rightarrow> string \<Rightarrow> string \<Rightarrow> tool_kind) \<Rightarrow> tool_kind" where
  "vision_args c k =
     (let p = ac_primary (ags_agents (cfg_agents c))
      in k (pv_api_key p) (case pv_api_base p of Some b \<Rightarrow> b | None \<Rightarrow> ''https://api.anthropic.com'') (pv_model p))"

definition tools_of :: "config \<Rightarrow> tool_kind list" where
  "tools_of c =
     (let t = cfg_tools c in
      if \<not> tlc_enabled t then []
      else [Calculator]
        @ (case tlc_filesystem_root t of Some r \<Rightarrow> [FileSystem r] | None \<Rightarrow> [])
        @ (case tlc_web_search_api_key t of Some k \<Rightarrow> [WebSearch k] | None \<Rightarrow> [])
        @ [WebFetch]
        @ (if shs_enabled (tlc_shell t) then [Shell (shs_shell (tlc_shell t))] else [])
        @ [Calendar, Formatter]
        @ (if tlc_pdf_enabled t then [vision_args c PdfAnalysis] else [])
        @ (if tlc_image_enabled t then [vision_args c ImageAnalysis] else []))"

text \<open>A registration that fails is logged.\<close>

definition register_or_log :: "tool_kind \<Rightarrow> tool_kind tool_registry \<Rightarrow> tool_kind tool_registry" where
  "register_or_log t r = (case register (tool_name t) t r of Inr r' \<Rightarrow> r' | Inl _ \<Rightarrow> r)"

definition build_registry :: "config \<Rightarrow> tool_kind tool_registry" where
  "build_registry c = fold register_or_log (tools_of c) []"

subsection \<open>The gateway\<close>

definition initial_skills :: "skill_files \<Rightarrow> config \<Rightarrow> string option" where
  "initial_skills fs c =
     (let k = cfg_skills c in
      if skc_enabled k then build_skill_context (snd (discover_skills fs (skc_paths k) [])) (skc_max_active k) else None)"

text \<open>The stages of the pipeline. The limiter is always there and reads its limits of the hot
  configuration with every message; the auditor stays the one of the start.\<close>

definition pipeline_of :: "config \<Rightarrow> hot_config \<Rightarrow> pipeline_config" where
  "pipeline_of c h =
     \<lparr>pc_rate_limit = Some (hc_rate_limit h), pc_dedup = ddc_enabled (gc_deduplication (cfg_gateway c)),
      pc_chunk_limits = (if gc_chunking_enabled (cfg_gateway c) then Some (gc_chunking_limits (cfg_gateway c)) else None),
      pc_format = gc_formatting_enabled (cfg_gateway c),
      pc_auto_route = gc_auto_route_attachments (cfg_gateway c),
      pc_summarization = (if sz_enabled (mmc_summarization (cfg_memory c)) then Some (mmc_summarization (cfg_memory c)) else None),
      pc_audit = auc_enabled (cfg_audit c), pc_approvals = True\<rparr>"

definition new_gateway :: "config \<Rightarrow> gateway" where
  "new_gateway c =
     \<lparr>gw_memory = new_store (ags_max_history (cfg_agents c)), gw_summaries = [], gw_prefs = (\<lambda>_. None),
      gw_stats = new_stats, gw_limits = (\<lambda>_. None),
      gw_dedup = new_deduplicator (ddc_window_size (gc_deduplication (cfg_gateway c))),
      gw_registry = new_registry (auc_enabled (cfg_audit c)), gw_audit = [], gw_sends = [], gw_prompts = []\<rparr>"

text \<open>The loop over the queue: one message after the other, an error of one is logged. Each message
  comes with the hot configuration and the surroundings it meets; a message whose handling does not
  end, ends the loop.\<close>

fun message_loop :: "config \<Rightarrow> (hot_config \<times> surroundings \<times> message) list \<Rightarrow> gateway \<Rightarrow> gateway option" where
  "message_loop c [] g = Some g"
| "message_loop c ((h, e, m) # ms) g =
     (case handle_message (pipeline_of c h) e m g of
        None \<Rightarrow> None
      | Some (_, g') \<Rightarrow> message_loop c ms g')"

subsection \<open>What a run of quarry is given\<close>

definition quarry_child_env :: "config \<Rightarrow> hot_config \<Rightarrow> policy_refusal + env" where
  "quarry_child_env c h =
     mint_child_env (hc_api_token h) (''http://127.0.0.1:'' @ show_nat (gc_http_port (cfg_gateway c)) @ ''/v1'')"

definition sender_timezone ::
    "(string \<Rightarrow> tz option) \<Rightarrow> tz \<Rightarrow> config \<Rightarrow> user_prefs \<Rightarrow> string \<Rightarrow> tz \<times> timezone_source" where
  "sender_timezone parse_tz utc c prefs user_id =
     resolve_timezone parse_tz utc (prefs_timezone prefs user_id)
       (let d = qc_default_timezone (cfg_quarry c) in if d = [] then None else Some d)"

definition quarry_policy_decision ::
    "(instant \<Rightarrow> string) \<Rightarrow> config \<Rightarrow> hot_config \<Rightarrow> string \<Rightarrow> string \<Rightarrow> requested_caps
     \<Rightarrow> (policy_refusal + grant) \<times> audit_event list" where
  "quarry_policy_decision rfc3339 c h user_id channel_id requested =
     resolve rfc3339 (auc_enabled (cfg_audit c)) (hc_quarry_policy h) user_id channel_id requested"

definition reaper_runs :: "config \<Rightarrow> bool" where
  "reaper_runs c \<longleftrightarrow> qc_enabled (cfg_quarry c)
     \<and> (0 < qc_retention_max_runs (cfg_quarry c) \<or> 0 < qc_retention_max_age_seconds (cfg_quarry c))"

subsection \<open>Stopping\<close>

text \<open>Waiting for runs: a look every hundred milliseconds, each at least that much after the one
  before; \<open>late\<close> is what the clock shows beyond that.\<close>

function drain :: "(nat \<Rightarrow> nat) \<Rightarrow> (nat \<Rightarrow> nat) \<Rightarrow> nat \<Rightarrow> nat \<Rightarrow> nat" where
  "drain active late budget_ms k =
     (if 0 < active k \<and> 100 * k + late k < budget_ms then drain active late budget_ms (Suc k) else k)"
  by pat_completeness auto
termination by (relation "measure (\<lambda>(_, _, budget_ms, k). budget_ms - 100 * k)") auto

declare drain.simps [simp del]

datatype stop_action =
    StopCron
  | AnnounceShutdown
  | StopChannel string
  | WaitedForRuns nat
  | LostRuns nat
  | AbortTasks

text \<open>The actions of \<open>Gateway::stop\<close> with the milliseconds after which each is done. Telling a channel to
  stop takes as long as the channel says.\<close>

fun stop_channels :: "nat \<Rightarrow> (string \<times> nat) list \<Rightarrow> (nat \<times> stop_action) list" where
  "stop_channels t [] = []"
| "stop_channels t ((name, ms) # chs) = (t, StopChannel name) # stop_channels (t + ms) chs"

definition stop_gateway ::
    "config \<Rightarrow> (string \<times> nat) list \<Rightarrow> (nat \<Rightarrow> nat) \<Rightarrow> (nat \<Rightarrow> nat) \<Rightarrow> (nat \<times> stop_action) list" where
  "stop_gateway c channels active late =
     (let t = sum_list (map snd channels);
          k = drain active late (1000 * gc_shutdown_timeout_seconds (cfg_gateway c)) 0;
          t' = (if 0 < active 0 then t + (100 * k + late k) else t)
      in (if cfg_cron c \<noteq> [] then [(0, StopCron)] else []) @ [(0, AnnounceShutdown)]
         @ stop_channels 0 channels
         @ (if 0 < active 0
            then (t', WaitedForRuns k) # (if 0 < active k then [(t', LostRuns (active k))] else [])
            else [])
         @ [(t', AbortTasks)])"

text \<open>\<open>cmd_start\<close> gives the whole of it the time \<open>Gateway::stop\<close> gives to the runs alone, and drops what
  is not done by then.\<close>

definition shut_down ::
    "config \<Rightarrow> (string \<times> nat) list \<Rightarrow> (nat \<Rightarrow> nat) \<Rightarrow> (nat \<Rightarrow> nat) \<Rightarrow> stop_action list \<times> bool" where
  "shut_down c channels active late =
     (let budget = 1000 * gc_shutdown_timeout_seconds (cfg_gateway c);
          actions = stop_gateway c channels active late;
          in_time = (\<forall>(t, a) \<in> set actions. t \<le> budget)
      in (map snd (filter (\<lambda>(t, a). t \<le> budget) actions), in_time))"

subsection \<open>Reports on a configuration\<close>

datatype check_line = Pass string | Fail string | Warn string | Note string

definition blank :: "string \<Rightarrow> bool" where
  "blank t \<longleftrightarrow> trim t = []"

definition em_dash :: string where
  "em_dash = [CHR 0xE2, CHR 0x80, CHR 0x94]"

definition has_verifier :: "spawn_gate \<Rightarrow> bool" where
  "has_verifier g \<longleftrightarrow> sg_verifier g \<noteq> None"

text \<open>The gate a check asks is a new one, of the same configuration.\<close>

definition gate_of :: "config \<Rightarrow> spawn_gate" where
  "gate_of c = new_spawn_gate (qc_verification (cfg_quarry c)) (qc_run_record_dir (cfg_quarry c))
     (Some (gc_http_port (cfg_gateway c)))"

definition check_quarry_verification :: "config \<Rightarrow> check_line list \<times> nat" where
  "check_quarry_verification c =
     (let v = qc_verification (cfg_quarry c);
          missing = (if blank (vc_expected_identity v) then [''quarry.verification.expected_identity''] else [])
            @ (if blank (vc_expected_issuer v) then [''quarry.verification.expected_issuer''] else [])
      in if \<not> qc_enabled (cfg_quarry c)
         then ([Pass ''Quarry: disabled (no binary is spawned, nothing to verify)''], 0)
         else if \<not> vc_enabled v
         then ([Warn ''Quarry: signature verification DISABLED (quarry.verification.enabled = false)'',
                Note ''Runs will execute unverified. The capability manifest is still'',
                Note ''checked, but from an unsigned sidecar that proves nothing about'',
                Note (''provenance. Development only '' @ em_dash @ '' do not ship this.'')], 0)
         else if \<not> has_verifier (gate_of c)
         then ([Fail ''Quarry: verification is enabled but no verifier is installed'',
                Note ''Every quarry run will be REFUSED (mechanism_unavailable).'',
                Note ''The cosign mechanism is tracked as #103 and is not implemented'',
                Note ''yet. Until it lands, either leave quarry disabled or set'',
                Note ''quarry.verification.enabled: false to run unverified.''], 1)
         else if missing \<noteq> []
         then ([Fail (''Quarry: verification is enabled but '' @ join_with '' and '' missing @ '' is not set''),
                Note ''Every quarry run will be REFUSED: verifying without an expected'',
                Note ''identity would accept any signature at all.''], 1)
         else ([Pass ''Quarry: signature verification enabled'',
                Note (''identity: '' @ vc_expected_identity v),
                Note (''issuer:   '' @ vc_expected_issuer v),
                Note (''cosign:   '' @ vc_cosign_path v)]
               @ (if vc_allow_writable_binary v
                  then [Warn (''Quarry: allow_writable_binary is set, so a writable binary or ''
                          @ ''directory will not stop a spawn'')] else []), 0))"

definition unset :: "string option \<Rightarrow> bool" where
  "unset v \<longleftrightarrow> (case v of Some u \<Rightarrow> u = [] | None \<Rightarrow> True)"

definition check_backend :: "memory_config \<Rightarrow> check_line list \<times> nat" where
  "check_backend mm =
     (if mmc_backend mm = ''redis'' then
        (if unset (mmc_redis_url mm) then ([Fail ''Memory backend is redis but memory.redis_url is not set''], 1)
         else ([Pass ''Memory backend: redis (url set)''], 0))
      else if mmc_backend mm = ''sqlite'' then
        (if unset (mmc_sqlite_path mm) then ([Fail ''Memory backend is sqlite but memory.sqlite_path is not set''], 1)
         else ([Pass ''Memory backend: sqlite (path set)''], 0))
      else if mmc_backend mm = ''postgres'' then
        (if unset (mmc_postgres_url mm) then ([Fail ''Memory backend is postgres but memory.postgres_url is not set''], 1)
         else ([Pass ''Memory backend: postgres (url set)''], 0))
      else ([Pass (''Memory backend: '' @ mmc_backend mm)], 0))"

definition check_api_key :: "config \<Rightarrow> check_line list \<times> nat" where
  "check_api_key c =
     (let p = ac_primary (ags_agents (cfg_agents c)) in
      if blank (pv_api_key p) then ([Fail ''API key missing (agents.api_key / ANTHROPIC_API_KEY)''], 1)
      else ([Pass (''API key present ('' @ pv_provider p @ '')'')], 0))"

text \<open>\<open>config validate\<close>: the lines it prints and the status it exits with.\<close>

definition failed_summary :: "nat \<Rightarrow> check_line" where
  "failed_summary n = Note (newline @ show_nat n @ '' check(s) failed.'')"

definition cmd_config_validate :: "environment \<Rightarrow> string + config \<Rightarrow> check_line list \<times> nat" where
  "cmd_config_validate env loaded =
     (case loaded of
        Inl e \<Rightarrow> ([Fail (''Config load failed: '' @ e), failed_summary 1], 1)
      | Inr c \<Rightarrow>
         (let (l2, n2) = check_api_key c; (l3, n3) = check_backend (cfg_memory c);
              (l4, n4) = check_quarry_verification c; n = n2 + n3 + n4;
              lines = Pass (''Config loaded ('' @ env_text env ''CONFIG_FILE'' ''(env vars)'' @ '')'') # l2 @ l3 @ l4
          in if n = 0 then (lines @ [Pass ''All checks passed.''], 0) else (lines @ [failed_summary n], 1)))"

text \<open>The channels \<open>config check\<close> lists.\<close>

definition listed_channels :: "channel_sections \<Rightarrow> string list" where
  "listed_channels k =
     (case chs_discord k of Some d \<Rightarrow> if dsc_enabled d then [''discord''] else [] | None \<Rightarrow> [])
   @ (case chs_whatsapp k of Some w \<Rightarrow> if wac_enabled w then [''whatsapp''] else [] | None \<Rightarrow> [])
   @ (case chs_telegram k of
        Some t \<Rightarrow> if tgc_enabled t
          then [if tgc_mode t = ''longpoll'' then ''telegram (long-poll)'' else ''telegram (webhook)''] else []
      | None \<Rightarrow> [])
   @ (case chs_slack k of
        Some s \<Rightarrow> if slc_enabled s
          then [if slc_mode s = ''socket'' then ''slack (socket mode)'' else ''slack (webhook)''] else []
      | None \<Rightarrow> [])
   @ (case chs_sms k of Some s \<Rightarrow> if smc_enabled s then [''sms''] else [] | None \<Rightarrow> [])
   @ (case chs_webchat k of Some w \<Rightarrow> if wcc_enabled w then [''webchat''] else [] | None \<Rightarrow> [])
   @ (case chs_email k of Some e \<Rightarrow> if emc_enabled e then [''email''] else [] | None \<Rightarrow> [])
   @ (case chs_teams k of Some t \<Rightarrow> if tmc_enabled t then [''teams''] else [] | None \<Rightarrow> [])"

definition on_off :: "bool \<Rightarrow> string" where
  "on_off b = (if b then ''enabled'' else ''disabled'')"

definition quarry_summary :: "config \<Rightarrow> string" where
  "quarry_summary c =
     (if \<not> qc_enabled (cfg_quarry c) then ''disabled''
      else if \<not> vc_enabled (qc_verification (cfg_quarry c))
      then ''enabled (UNVERIFIED '' @ em_dash @ '' signature checks off)''
      else if has_verifier (gate_of c) then ''enabled (signature verification on)''
      else ''enabled (every run refused: no verifier '' @ em_dash @ '' see config validate)'')"

definition cmd_config_check :: "skill_files \<Rightarrow> config \<Rightarrow> (string \<times> string) list" where
  "cmd_config_check fs c =
     (let g = cfg_gateway c; p = ac_primary (ags_agents (cfg_agents c)); sz = mmc_summarization (cfg_memory c);
          channels = listed_channels (cfg_channels c); k = cfg_skills c
      in [(''HTTP port'', show_nat (gc_http_port g)), (''WebSocket port'', show_nat (gc_websocket_port g)),
          (''Log level'', gc_log_level g), (''LLM provider'', pv_provider p), (''LLM model'', pv_model p),
          (''Memory backend'', mmc_backend (cfg_memory c)),
          (''Tools enabled'', if tlc_enabled (cfg_tools c) then ''true'' else ''false''),
          (''Summarization'', if sz_enabled sz
             then ''enabled (trigger_at='' @ show_nat (sz_trigger_at sz) @ '', keep_recent='' @ show_nat (sz_keep_recent sz) @ '')''
             else ''disabled''),
          (''OTel endpoint'', text_or ''(disabled)'' (cfg_otel_endpoint c)),
          (''Dashboard auth'', on_off (cfg_dashboard_password c \<noteq> None)),
          (''Channels'', if channels = [] then ''(none configured)'' else join_with '', '' channels),
          (''Gateway auth'', on_off (case gc_api_token g of Some t \<Rightarrow> t \<noteq> [] | None \<Rightarrow> False)),
          (''Skills'', if skc_enabled k
             then ''enabled ('' @ show_nat (length (skc_paths k)) @ '' paths, ''
                    @ show_nat (fst (discover_skills fs (skc_paths k) [])) @ '' skills loaded)''
             else ''disabled''),
          (''WS origins'', if gc_allowed_ws_origins g = [] then ''allow all'' else join_with '', '' (gc_allowed_ws_origins g)),
          (''Shutdown timeout'', show_nat (gc_shutdown_timeout_seconds g) @ ''s''),
          (''Cron jobs'', show_nat (length (cfg_cron c))),
          (''PDF tool'', on_off (tlc_pdf_enabled (cfg_tools c))),
          (''Image tool'', on_off (tlc_image_enabled (cfg_tools c))),
          (''Quarry'', quarry_summary c)])"

subsection \<open>Properties\<close>

text \<open>No registration of a tool fails, so the registry holds the tools of the configuration in order.\<close>

lemma register_all:
  assumes "distinct (map tool_name ts)" and "set (map tool_name ts) \<inter> fst ` set r = {}"
  shows "fold register_or_log ts r = r @ map (\<lambda>t. (tool_name t, t)) ts"
  using assms
proof (induction ts arbitrary: r)
  case (Cons t ts)
  then have "register_or_log t r = r @ [(tool_name t, t)]"
    by (simp add: register_or_log_def register_def)
  then show ?case using Cons by auto
qed simp

lemma registry_holds_the_tools: "build_registry c = map (\<lambda>t. (tool_name t, t)) (tools_of c)"
proof -
  have "distinct (map tool_name (tools_of c))"
    by (auto simp: tools_of_def Let_def vision_args_def split: option.split)
  then show ?thesis using register_all [of "tools_of c" "[]"] by (simp add: build_registry_def)
qed

text \<open>The fields of a reload that are reported but read by nothing: the pipeline takes only the limits.\<close>

lemma reloaded_audit_is_not_used:
  "pipeline_of c (h\<lparr>hc_audit_enabled := b, hc_audit_path := p, hc_log_level := l\<rparr>) = pipeline_of c h"
  by (simp add: pipeline_of_def)

text \<open>The preflight refuses a configuration the gateway starts with: without a path, SQLite has one.\<close>

lemma preflight_refuses_the_default_path:
  assumes "mmc_backend (cfg_memory c) = ''sqlite''" and "mmc_sqlite_path (cfg_memory c) = None" and "\<And>b. opens b = Some True"
  shows "snd (check_backend (cfg_memory c)) = 1
    \<and> select_memory env opens c
        = Some (SqliteBacked (dirs_path_expand env ''.rustynail/memory.db'') (ags_max_history (cfg_agents c)))"
proof -
  have "strip_prefix ''~/'' ''~/.rustynail/memory.db'' = Some ''.rustynail/memory.db''" by code_simp
  then show ?thesis using assms by (simp add: check_backend_def unset_def select_memory_def Let_def sqlite_file_def)
qed

text \<open>\<open>Gateway::new\<close> runs on the thread that drives the gateway's own runtime, where it may not wait on
  another: with SQLite or PostgreSQL it panics before it has begun, and with the vector store the
  first message does.\<close>

lemma database_memory_never_starts:
  assumes "\<And>b. prepares b"
  shows "select_memory env (opens_on False prepares connects) c = None
    \<longleftrightarrow> mmc_backend (cfg_memory c) = ''sqlite''
      \<or> mmc_backend (cfg_memory c) = ''postgres'' \<and> mmc_postgres_url (cfg_memory c) \<noteq> None"
  using assms by (auto simp: select_memory_def Let_def opens_on_def sql_open_def block_on_def split: option.split)

lemma vector_memory_panics_on_use: "vector_add False now u m s = None"
  by (simp add: vector_add_def block_on_def)

text \<open>A gateway whose only channel is the generic webhook is listed as having none.\<close>

lemma webhook_is_not_listed:
  "listed_channels \<lparr>chs_discord = None, chs_whatsapp = None, chs_telegram = None, chs_slack = None, chs_sms = None,
     chs_webhook = w, chs_webchat = None, chs_email = None, chs_teams = None, chs_test_channel = b\<rparr> = []"
  by (simp add: listed_channels_def)

lemma parse_bool_False: "parse_bool s = Some False \<longleftrightarrow> s = ''false''"
  by auto

text \<open>A security switch that is on by default stays on whatever its variable says, but for one word.\<close>

lemma verification_stays_on:
  "vc_enabled (env_verification env) \<longleftrightarrow> env ''QUARRY_VERIFY_ENABLED'' \<noteq> Some ''false''"
  by (auto simp: env_verification_def env_parsed_def split: option.splits bind_splits)

text \<open>C16: The environment alone runs nothing. A gateway configured by variables, whatever they are,
  grants nobody a run: no sender and no channel has a policy. And unless the variable that switches
  verification off is exactly the word \<open>false\<close>, a value that does not parse included, every check
  of a binary in any sequence of them ends in a refusal as well.\<close>

theorem environment_alone_runs_nothing:
  assumes "config_from_env env read_f64 = Ok c"
  shows "fst (quarry_policy_decision rfc3339 c (hot_from_config (settings_of c)) u ch rq) = Err (NoPolicy u ch)
    \<and> (env ''QUARRY_VERIFY_ENABLED'' \<noteq> Some ''false'' \<longrightarrow>
        (\<forall>r \<in> set (check_all sha256 parse_json serde_msg ops (gate_of c)). \<exists>refusal. r = Err refusal))"
proof
  have q: "cfg_quarry c = env_quarry env"
    using assms by (auto simp: config_from_env_def split: option.splits)
  have "hc_quarry_policy (hot_from_config (settings_of c)) = default_policy_config"
    by (simp add: hot_from_config_def settings_of_def q env_quarry_def)
  then have "decide rfc3339 (hc_quarry_policy (hot_from_config (settings_of c))) u ch rq = Inl (NoPolicy u ch)"
    by (simp only: default_deny_most_specific_wins) (simp add: default_policy_config_def)
  then show "fst (quarry_policy_decision rfc3339 c (hot_from_config (settings_of c)) u ch rq) = Err (NoPolicy u ch)"
    by (simp add: quarry_policy_decision_def resolve_def Let_def)
  show "env ''QUARRY_VERIFY_ENABLED'' \<noteq> Some ''false'' \<longrightarrow>
      (\<forall>r \<in> set (check_all sha256 parse_json serde_msg ops (gate_of c)). \<exists>refusal. r = Err refusal)"
  proof (intro impI ballI)
    fix r assume "env ''QUARRY_VERIFY_ENABLED'' \<noteq> Some ''false''"
      and r: "r \<in> set (check_all sha256 parse_json serde_msg ops (gate_of c))"
    then have "vc_enabled (qc_verification (cfg_quarry c))"
      using verification_stays_on by (simp add: q env_quarry_def)
    then show "\<exists>refusal. r = Err refusal"
      using enabled_without_verifier_refuses_everything r by (simp add: gate_of_def)
  qed
qed

definition demo_env :: environment where
  "demo_env = [''ANTHROPIC_API_KEY'' \<mapsto> ''k'', ''QUARRY_ENABLED'' \<mapsto> ''true'', ''QUARRY_VERIFY_ENABLED'' \<mapsto> ''no'']"

lemma environment_alone_runs_nothing_witness:
  "\<exists>c. config_from_env demo_env (\<lambda>_. None) = Ok c \<and> qc_enabled (cfg_quarry c)
    \<and> fst (quarry_policy_decision (\<lambda>_. []) c (hot_from_config (settings_of c)) ''u'' ''sms-main'' default_requested)
        = Err (NoPolicy ''u'' ''sms-main'')
    \<and> (\<exists>refusal. hd (check_all (\<lambda>b. b) demo_manifest_parser (\<lambda>_ _. []) [(demo_os, ''/bin/quarry'')] (gate_of c)) = Err refusal)"
proof -
  obtain c where c: "config_from_env demo_env (\<lambda>_. None) = Ok c"
    by (simp add: config_from_env_def demo_env_def)
  have "qc_enabled (cfg_quarry c)"
    using c by (auto simp: config_from_env_def demo_env_def env_quarry_def env_parsed_def)
  moreover have "demo_env ''QUARRY_VERIFY_ENABLED'' \<noteq> Some ''false''" by (simp add: demo_env_def)
  moreover have "hd (check_all (\<lambda>b. b) demo_manifest_parser (\<lambda>_ _. []) [(demo_os, ''/bin/quarry'')] (gate_of c))
      \<in> set (check_all (\<lambda>b. b) demo_manifest_parser (\<lambda>_ _. []) [(demo_os, ''/bin/quarry'')] (gate_of c))"
    by (simp add: case_prod_beta)
  ultimately show ?thesis
    using environment_alone_runs_nothing [OF c, of "\<lambda>_. []" "''u''" "''sms-main''" default_requested "\<lambda>b. b"
        demo_manifest_parser "\<lambda>_ _. []" "[(demo_os, ''/bin/quarry'')]"] c
    by blast
qed

lemma no_verifier [simp]: "\<not> has_verifier (gate_of c)"
  by (simp add: has_verifier_def gate_of_def new_spawn_gate_def)

text \<open>C17: The preflight tells what the gate will do. The check of quarry fails exactly when runs and
  their verification are both on, and then every spawn is refused indeed; so a configuration that
  validates with status 0 either runs nothing or runs unverified, and says so in a warning.\<close>

theorem preflight_tells_what_the_gate_does:
  assumes "cmd_config_validate env (Ok c) = (lines, status)"
  shows "(snd (check_quarry_verification c) = 1 \<longleftrightarrow> qc_enabled (cfg_quarry c) \<and> vc_enabled (qc_verification (cfg_quarry c)))
    \<and> (snd (check_quarry_verification c) = 1 \<longrightarrow>
        (\<forall>r \<in> set (check_all sha256 parse_json serde_msg ops (gate_of c)). \<exists>refusal. r = Err refusal))
    \<and> (status = 0 \<and> qc_enabled (cfg_quarry c) \<longrightarrow>
        \<not> vc_enabled (qc_verification (cfg_quarry c))
        \<and> Warn ''Quarry: signature verification DISABLED (quarry.verification.enabled = false)'' \<in> set lines)"
proof -
  have check: "snd (check_quarry_verification c) = 1
      \<longleftrightarrow> qc_enabled (cfg_quarry c) \<and> vc_enabled (qc_verification (cfg_quarry c))"
    by (simp add: check_quarry_verification_def Let_def)
  have refused: "\<exists>refusal. r = Err refusal"
    if "vc_enabled (qc_verification (cfg_quarry c))"
      and "r \<in> set (check_all sha256 parse_json serde_msg ops (gate_of c))" for r
    using enabled_without_verifier_refuses_everything that by (simp add: gate_of_def)
  have warned: "\<not> vc_enabled (qc_verification (cfg_quarry c))
      \<and> Warn ''Quarry: signature verification DISABLED (quarry.verification.enabled = false)'' \<in> set lines"
    if st: "status = 0" and en: "qc_enabled (cfg_quarry c)"
  proof -
    obtain l2 n2 l3 n3 l4 n4 where parts: "check_api_key c = (l2, n2)" "check_backend (cfg_memory c) = (l3, n3)"
      "check_quarry_verification c = (l4, n4)" by (metis surj_pair)
    have n4: "n4 = 0" and l4: "set l4 \<subseteq> set lines"
      using assms st parts by (auto simp: cmd_config_validate_def Let_def split: if_splits)
    have off: "\<not> vc_enabled (qc_verification (cfg_quarry c))" using check parts(3) n4 en by simp
    then have "Warn ''Quarry: signature verification DISABLED (quarry.verification.enabled = false)'' \<in> set l4"
      using parts(3) en by (auto simp: check_quarry_verification_def Let_def)
    with off l4 show ?thesis by blast
  qed
  show ?thesis using check refused warned by blast
qed

lemma preflight_tells_what_the_gate_does_witness:
  "\<exists>c lines status. config_from_env demo_env (\<lambda>_. None) = Ok c \<and> cmd_config_validate demo_env (Ok c) = (lines, status)
    \<and> snd (check_quarry_verification c) = 1
    \<and> (\<exists>refusal. hd (check_all (\<lambda>b. b) demo_manifest_parser (\<lambda>_ _. []) [(demo_os, ''/bin/quarry'')] (gate_of c)) = Err refusal)"
proof -
  obtain c where c: "config_from_env demo_env (\<lambda>_. None) = Ok c"
    by (simp add: config_from_env_def demo_env_def)
  obtain lines status where v: "cmd_config_validate demo_env (Ok c) = (lines, status)" by force
  have "qc_enabled (cfg_quarry c)" "vc_enabled (qc_verification (cfg_quarry c))"
    using c by (auto simp: config_from_env_def demo_env_def env_quarry_def env_verification_def env_parsed_def)
  moreover have "hd (check_all (\<lambda>b. b) demo_manifest_parser (\<lambda>_ _. []) [(demo_os, ''/bin/quarry'')] (gate_of c))
      \<in> set (check_all (\<lambda>b. b) demo_manifest_parser (\<lambda>_ _. []) [(demo_os, ''/bin/quarry'')] (gate_of c))"
    by (simp add: case_prod_beta)
  ultimately show ?thesis
    using preflight_tells_what_the_gate_does [OF v, of "\<lambda>b. b" demo_manifest_parser "\<lambda>_ _. []" "[(demo_os, ''/bin/quarry'')]"] c v
    by blast
qed






lemma stop_channels_only: "a \<in> snd ` set (stop_channels t chs) \<Longrightarrow> \<exists>ch. a = StopChannel ch"
  by (induction t chs rule: stop_channels.induct) auto

lemma stop_channels_snd: "map snd (stop_channels t chs) = map (\<lambda>(n, _). StopChannel n) chs"
  by (induction t chs rule: stop_channels.induct) auto

lemma not_a_channel [simp]:
  "(u, WaitedForRuns k) \<notin> set (stop_channels t chs)" "(u, LostRuns n) \<notin> set (stop_channels t chs)"
  "(u, AbortTasks) \<notin> set (stop_channels t chs)"
  by (induction t chs rule: stop_channels.induct) auto


lemma in_time:
  "snd (shut_down c channels active late) \<longleftrightarrow>
     (\<forall>(t, a) \<in> set (stop_gateway c channels active late). t \<le> 1000 * gc_shutdown_timeout_seconds (cfg_gateway c))"
  by (simp add: shut_down_def Let_def)



end
