(* ===== verification/Calendar.thy ===== *)
theory Calendar
  imports Tool_Result "HOL-Library.Multiset"
begin

section \<open>The calendar tool (\<open>src/tools/calendar.rs\<close>)\<close>

text \<open>
  A list of events kept in one file, read and written as a whole by every call. Instants are
  integers; reading and writing them as text, the JSON text of the file and what writing a file
  may run into are parameters, as is the identifier a new event draws.
\<close>

record calendar_entry =
  ce_id :: string
  ce_title :: string
  ce_description :: "string option"
  ce_start :: int
  ce_end :: "int option"
  ce_tags :: "string list"

text \<open>The file, its text of some type: whether it is there, and whether it can be read.\<close>

record 'c calendar_file =
  cf_content :: "'c option"
  cf_readable :: bool

record 'c calendar_world =
  cw_decode :: "'c \<Rightarrow> calendar_entry list option"
  cw_encode :: "calendar_entry list \<Rightarrow> 'c"
  cw_parse_time :: "string \<Rightarrow> int option"
  cw_show_time :: "int \<Rightarrow> string"

definition join_path :: "string \<Rightarrow> string \<Rightarrow> string" where
  "join_path base rest =
     (if base = [] then rest else if last base = CHR ''/'' then base @ rest else base @ ''/'' @ rest)"

definition calendar_path :: "(string \<Rightarrow> string option) \<Rightarrow> string" where
  "calendar_path env =
     join_path
       (case env ''RUSTYNAIL_DATA_DIR'' of
          Some d \<Rightarrow> d
        | None \<Rightarrow> join_path
            (case env ''HOME'' of
               Some h \<Rightarrow> h
             | None \<Rightarrow> (case env ''USERPROFILE'' of Some p \<Rightarrow> p | None \<Rightarrow> ''.''))
            ''.rustynail'')
       ''calendar.json''"

text \<open>A file that cannot be read or decoded counts as empty.\<close>

definition load_entries :: "'c calendar_world \<Rightarrow> 'c calendar_file \<Rightarrow> calendar_entry list" where
  "load_entries w f =
     (case cf_content f of
        None \<Rightarrow> []
      | Some content \<Rightarrow>
          if cf_readable f then (case cw_decode w content of Some es \<Rightarrow> es | None \<Rightarrow> []) else [])"

text \<open>\<open>fault\<close> is what creating the directory or writing the file fails with.\<close>

definition save_entries ::
    "'c calendar_world \<Rightarrow> string option \<Rightarrow> calendar_entry list \<Rightarrow> 'c calendar_file
     \<Rightarrow> (string + unit) \<times> 'c calendar_file" where
  "save_entries w fault es f =
     (case fault of
        Some e \<Rightarrow> (Err e, f)
      | None \<Rightarrow> (Ok (), \<lparr>cf_content = Some (cw_encode w es), cf_readable = True\<rparr>))"

definition text_or_null :: "string option \<Rightarrow> json" where
  "text_or_null v = (case v of Some s \<Rightarrow> JString s | None \<Rightarrow> JNull)"

definition entry_json :: "'c calendar_world \<Rightarrow> calendar_entry \<Rightarrow> json" where
  "entry_json w e = JObject
     [(''id'', JString (ce_id e)), (''title'', JString (ce_title e)),
      (''description'', text_or_null (ce_description e)), (''start_time'', JString (cw_show_time w (ce_start e))),
      (''end_time'', text_or_null (map_option (cw_show_time w) (ce_end e))),
      (''tags'', JArray (map JString (ce_tags e)))]"

definition events_json :: "'c calendar_world \<Rightarrow> calendar_entry list \<Rightarrow> json" where
  "events_json w es = JObject [(''events'', JArray (map (entry_json w) es))]"

fun as_array :: "json \<Rightarrow> json list option" where
  "as_array (JArray vs) = Some vs"
| "as_array _ = None"

definition missing_parameter :: "string \<Rightarrow> tool_result" where
  "missing_parameter name = ToolError (''missing required parameter '' @ quoted name)"

definition not_found :: "string \<Rightarrow> tool_result" where
  "not_found ident = ToolError (''event '' @ quoted ident @ '' not found'')"

definition new_entry :: "'c calendar_world \<Rightarrow> (string \<times> json) list \<Rightarrow> string \<Rightarrow> string + calendar_entry" where
  "new_entry w params fresh_id =
     (case par params ''title'' as_str of
        None \<Rightarrow> Err (''missing required parameter '' @ quoted ''title'')
      | Some title \<Rightarrow>
     (case par params ''start_time'' as_str of
        None \<Rightarrow> Err (''missing required parameter '' @ quoted ''start_time'')
      | Some start \<Rightarrow>
     (case cw_parse_time w start of
        None \<Rightarrow> Err ''invalid start_time; expected RFC3339 format''
      | Some t \<Rightarrow> Ok
         \<lparr>ce_id = fresh_id, ce_title = title, ce_description = par params ''description'' as_str, ce_start = t,
          ce_end = Option.bind (par params ''end_time'' as_str) (cw_parse_time w),
          ce_tags = (case par params ''tags'' as_array of
                       Some vs \<Rightarrow> List.map_filter as_str vs
                     | None \<Rightarrow> [])\<rparr>)))"

text \<open>The first \<open>limit\<close> events from \<open>now\<close> on, earliest first; the sort is stable.\<close>

definition upcoming :: "int \<Rightarrow> nat \<Rightarrow> calendar_entry list \<Rightarrow> calendar_entry list" where
  "upcoming now limit es = take limit (sort_key ce_start (filter (\<lambda>e. now \<le> ce_start e) es))"

definition calendar_execute ::
    "'c calendar_world \<Rightarrow> string option \<Rightarrow> string \<Rightarrow> int \<Rightarrow> (string \<times> json) list \<Rightarrow> 'c calendar_file
     \<Rightarrow> tool_result \<times> 'c calendar_file" where
  "calendar_execute w fault fresh_id now params f =
     (case par params ''op'' as_str of
        None \<Rightarrow> (missing_parameter ''op'', f)
      | Some op \<Rightarrow>
         if op = ''create'' then
           (case new_entry w params fresh_id of
              Inl e \<Rightarrow> (ToolError e, f)
            | Inr entry \<Rightarrow>
                (case save_entries w fault (load_entries w f @ [entry]) f of
                   (Inl e, f') \<Rightarrow> (ToolError e, f')
                 | (Inr _, f') \<Rightarrow> (ToolSuccess (JObject [(''id'', JString fresh_id), (''created'', JBool True)]), f')))
         else if op = ''list'' then (ToolSuccess (events_json w (load_entries w f)), f)
         else if op = ''get'' then
           (case par params ''id'' as_str of
              None \<Rightarrow> (missing_parameter ''id'', f)
            | Some ident \<Rightarrow>
                (case find (\<lambda>e. ce_id e = ident) (load_entries w f) of
                   Some e \<Rightarrow> (ToolSuccess (entry_json w e), f)
                 | None \<Rightarrow> (not_found ident, f)))
         else if op = ''delete'' then
           (case par params ''id'' as_str of
              None \<Rightarrow> (missing_parameter ''id'', f)
            | Some ident \<Rightarrow>
                (let es = load_entries w f; left = filter (\<lambda>e. ce_id e \<noteq> ident) es
                 in if length left = length es then (not_found ident, f)
                    else (case save_entries w fault left f of
                            (Inl e, f') \<Rightarrow> (ToolError e, f')
                          | (Inr _, f') \<Rightarrow> (ToolSuccess (JObject [(''deleted'', JBool True)]), f'))))
         else if op = ''upcoming'' then
           (let limit = (case par params ''limit'' as_u64 of Some n \<Rightarrow> n | None \<Rightarrow> 10)
            in (ToolSuccess (events_json w (upcoming now limit (load_entries w f))), f))
         else (ToolError (''unknown op '' @ quoted op), f))"

subsection \<open>Properties\<close>

text \<open>What the JSON library documents of the derived forms: what it has written, it reads back.\<close>

definition reads_back :: "'c calendar_world \<Rightarrow> bool" where
  "reads_back w \<longleftrightarrow> (\<forall>es. cw_decode w (cw_encode w es) = Some es)"

lemma reread [simp]:
  "reads_back w \<Longrightarrow> load_entries w \<lparr>cf_content = Some (cw_encode w es), cf_readable = True\<rparr> = es"
  by (simp add: load_entries_def reads_back_def)



lemma find_append: "find P (xs @ ys) = (case find P xs of Some x \<Rightarrow> Some x | None \<Rightarrow> find P ys)"
  by (induction xs) auto



lemma find_in_added: "find P es = None \<Longrightarrow> find P (es @ [e]) = (if P e then Some e else None)"
  by (simp add: find_append)


text \<open>Upcoming events are the earliest ones from now on, in order.\<close>

lemma upcoming_events:
  "sorted (map ce_start (upcoming now limit es)) \<and> length (upcoming now limit es) \<le> limit
   \<and> set (upcoming now limit es) \<subseteq> {e \<in> set es. now \<le> ce_start e}
   \<and> (e \<in> set es \<and> now \<le> ce_start e \<and> e \<notin> set (upcoming now limit es) \<longrightarrow>
        length (upcoming now limit es) = limit \<and> (\<forall>e' \<in> set (upcoming now limit es). ce_start e' \<le> ce_start e))"
proof -
  let ?all = "sort_key ce_start (filter (\<lambda>e. now \<le> ce_start e) es)"
  have s: "sorted (map ce_start (take limit ?all @ drop limit ?all))" by simp
  have "length (take limit ?all) = limit \<and> (\<forall>e' \<in> set (take limit ?all). ce_start e' \<le> ce_start e)"
    if "e \<in> set ?all" "e \<notin> set (take limit ?all)"
  proof -
    have "e \<in> set (drop limit ?all)" using that by (metis Un_iff append_take_drop_id set_append)
    moreover from this have "limit < length ?all" by (metis drop_all empty_iff list.set(1) not_le)
    ultimately show ?thesis using s by (auto simp: sorted_append simp del: append_take_drop_id)
  qed
  moreover have "sorted (map ce_start (take limit ?all))" using s by (simp add: sorted_append del: append_take_drop_id)
  ultimately show ?thesis by (auto simp: upcoming_def dest: in_set_takeD)
qed

text \<open>A file that does not decode, as by one event without tags, is not kept aside: the next event that
  is created replaces all of it.\<close>

lemma undecodable_calendar_is_overwritten:
  assumes "cf_content f = Some content" and "cw_decode w content = None"
    and "new_entry w params fresh_id = Ok e" and "par params ''op'' as_str = Some ''create''"
  shows "snd (calendar_execute w None fresh_id now params f) = \<lparr>cf_content = Some (cw_encode w [e]), cf_readable = True\<rparr>"
  using assms by (simp add: calendar_execute_def load_entries_def save_entries_def)



end
