(* ===== verification/Net_Tools.thy ===== *)
theory Net_Tools
  imports Text_Tools Channels
begin

section \<open>The tools that use the network (\<open>src/tools/web_fetch.rs\<close>, \<open>web_search.rs\<close>, \<open>pdf.rs\<close>, \<open>image.rs\<close>)\<close>

text \<open>
  Each tool is a function of its parameters and of what the network answers; a call's result comes
  with the requests it has made. The network, files, base64, the decoding of bytes and the HTML
  parser are parameters: a parsed page is the tree of its nodes.
\<close>

subsection \<open>Requests and answers\<close>

record tool_request =
  tq_method :: string
  tq_url :: string
  tq_headers :: "(string \<times> string) list"
  tq_body :: "json option"

text \<open>A status as it is shown, the content type if it is text, and the body or what reading it fails with.\<close>

record tool_response =
  tp_success :: bool
  tp_status :: string
  tp_content_type :: "string option"
  tp_body :: "string + string"

type_synonym network = "tool_request \<Rightarrow> string + tool_response"

text \<open>\<open>AgentError\<close>'s kinds the tools return, and the outcome of a call.\<close>

datatype tool_failure = Internal string | ProcessingError string

type_synonym tool_outcome = "tool_failure + tool_result"

definition get_request :: "string \<Rightarrow> tool_request" where
  "get_request url = \<lparr>tq_method = ''GET'', tq_url = url, tq_headers = [], tq_body = None\<rparr>"

definition max_bytes_or :: "nat \<Rightarrow> (string \<times> json) list \<Rightarrow> nat" where
  "max_bytes_or d params = (case par params ''max_bytes'' as_u64 of Some n \<Rightarrow> n | None \<Rightarrow> d)"

subsection \<open>Fetching a page\<close>

datatype html_node = Element string "html_node list" | TextNode string | OtherNode "html_node list"

definition SKIPPED :: "string list" where
  "SKIPPED = [''script'', ''style'', ''noscript'', ''head'']"

text \<open>The texts of the nodes under a node, none of whose ancestors is skipped, in document order.\<close>

fun visible_texts :: "html_node \<Rightarrow> string list" where
  "visible_texts (Element name cs) = (if name \<in> set SKIPPED then [] else concat (map visible_texts cs))"
| "visible_texts (TextNode t) = [t]"
| "visible_texts (OtherNode cs) = concat (map visible_texts cs)"

definition strip_html :: "(string \<Rightarrow> html_node) \<Rightarrow> string \<Rightarrow> string" where
  "strip_html parse_html html =
     (let parts = filter (\<lambda>t. t \<noteq> []) (map trim (visible_texts (parse_html html)))
      in join_with '' '' (split_whitespace (join_with '' '' parts)))"

definition page_request :: "string \<Rightarrow> tool_request" where
  "page_request url = (get_request url)
     \<lparr>tq_headers := [(''user-agent'', ''RustyNail/0.8 (+https://github.com/scttfrdmn/rustynail)'')]\<rparr>"

definition web_fetch ::
    "(string \<Rightarrow> html_node) \<Rightarrow> (string \<Rightarrow> string) \<Rightarrow> network \<Rightarrow> (string \<times> json) list \<Rightarrow> tool_outcome \<times> tool_request list" where
  "web_fetch parse_html utf8_lossy net params =
     (case par params ''url'' as_str of
        None \<Rightarrow> (Ok (ToolError ''url parameter is required''), [])
      | Some url \<Rightarrow>
         (let asked = page_request url in
          (case net asked of
             Inl e \<Rightarrow> (Err (Internal (''fetch error: '' @ e)), [asked])
           | Inr r \<Rightarrow>
               if \<not> tp_success r then (Ok (ToolError (''HTTP '' @ tp_status r @ '' for '' @ url)), [asked])
               else (case tp_body r of
                       Inl e \<Rightarrow> (Err (Internal (''read error: '' @ e)), [asked])
                     | Inr bytes \<Rightarrow>
                        (let raw = utf8_lossy (take (max_bytes_or 524288 params) bytes);
                             ct = (case tp_content_type r of Some t \<Rightarrow> t | None \<Rightarrow> []);
                             page = trim (if str_contains ''text/html'' ct \<or> ct = []
                                          then strip_html parse_html raw else raw)
                         in (Ok (ToolSuccess (JString (if page = [] then ''(empty page)'' else page))), [asked]))))))"

subsection \<open>Searching\<close>

definition tavily_request :: "string \<Rightarrow> string \<Rightarrow> nat \<Rightarrow> string \<Rightarrow> tool_request" where
  "tavily_request api_key query max_results depth =
     \<lparr>tq_method = ''POST'', tq_url = ''https://api.tavily.com/search'', tq_headers = [],
      tq_body = Some (JObject
        [(''api_key'', JString api_key), (''query'', JString query), (''max_results'', JInt (int max_results)),
         (''search_depth'', JString depth), (''include_answer'', JBool True)])\<rparr>"

definition clamped_results :: "(string \<times> json) list \<Rightarrow> nat" where
  "clamped_results params = max 1 (min 10 (case par params ''max_results'' as_u64 of Some n \<Rightarrow> n | None \<Rightarrow> 5))"

definition search_hit :: "json \<Rightarrow> json" where
  "search_hit r = JObject [(''title'', jindex r ''title''), (''url'', jindex r ''url''), (''content'', jindex r ''content'')]"

definition web_search ::
    "string \<Rightarrow> (string \<Rightarrow> string + json) \<Rightarrow> (string \<Rightarrow> string) \<Rightarrow> network \<Rightarrow> (string \<times> json) list
     \<Rightarrow> tool_outcome \<times> tool_request list" where
  "web_search api_key parse_json decode_text net params =
     (case par params ''query'' as_str of
        None \<Rightarrow> (Ok (ToolError ''missing required parameter: query''), [])
      | Some query \<Rightarrow>
         (let depth = (case par params ''search_depth'' as_str of Some d \<Rightarrow> d | None \<Rightarrow> ''basic'');
              asked = tavily_request api_key query (clamped_results params) depth
          in (case net asked of
                Inl e \<Rightarrow> (Err (ProcessingError (''web search request failed: '' @ e)), [asked])
              | Inr r \<Rightarrow>
                  if \<not> tp_success r
                  then (Ok (ToolError (''Tavily API returned '' @ tp_status r @ '': ''
                          @ (case tp_body r of Inl _ \<Rightarrow> [] | Inr b \<Rightarrow> decode_text b))), [asked])
                  else (case (case tp_body r of Inl e \<Rightarrow> Err e | Inr b \<Rightarrow> parse_json b) of
                          Inl e \<Rightarrow> (Err (ProcessingError (''web search response parse error: '' @ e)), [asked])
                        | Inr data \<Rightarrow>
                           (Ok (ToolSuccess (JObject
                              [(''answer'', JString (str_or [] (jindex data ''answer''))),
                               (''results'', JArray (case jindex data ''results'' of
                                                      JArray rs \<Rightarrow> map search_hit rs | _ \<Rightarrow> [])),
                               (''query'', JString query)])), [asked])))))"

subsection \<open>Documents and images\<close>

text \<open>The two tools share their shape: get the bytes, refuse too many, and put them to the model.\<close>

record vision_tool =
  vt_api_key :: string
  vt_api_base :: string
  vt_model :: string

definition vision_payload :: "vision_tool \<Rightarrow> string \<Rightarrow> string \<Rightarrow> string \<Rightarrow> string \<Rightarrow> json" where
  "vision_payload t block media b64 prompt = JObject
     [(''model'', JString (vt_model t)), (''max_tokens'', JInt 1024),
      (''messages'', JArray [JObject
        [(''role'', JString ''user''),
         (''content'', JArray
           [JObject [(''type'', JString block),
                     (''source'', JObject [(''type'', JString ''base64''), (''media_type'', JString media), (''data'', JString b64)])],
            JObject [(''type'', JString ''text''), (''text'', JString prompt)]])]])]"

definition vision_request :: "vision_tool \<Rightarrow> (string \<times> string) list \<Rightarrow> json \<Rightarrow> tool_request" where
  "vision_request t beta payload =
     \<lparr>tq_method = ''POST'', tq_url = trim_end_matches [''/''] (vt_api_base t) @ ''/v1/messages'',
      tq_headers = [(''x-api-key'', vt_api_key t), (''anthropic-version'', ''2023-06-01'')] @ beta
        @ [(''content-type'', ''application/json'')],
      tq_body = Some payload\<rparr>"

text \<open>\<open>resp_json["content"][0]["text"]\<close>: what is not there is null.\<close>

definition first_text :: "json \<Rightarrow> string" where
  "first_text v =
     (case jindex v ''content'' of
        JArray (c # _) \<Rightarrow> str_or ''(no response)'' (jindex c ''text'')
      | _ \<Rightarrow> ''(no response)'')"

definition vision_answer ::
    "(string \<Rightarrow> string + json) \<Rightarrow> (string \<Rightarrow> string) \<Rightarrow> network \<Rightarrow> tool_request \<Rightarrow> tool_outcome" where
  "vision_answer parse_json decode_text net asked =
     (case net asked of
        Inl e \<Rightarrow> Err (Internal (''API request error: '' @ e))
      | Inr r \<Rightarrow>
          if \<not> tp_success r
          then Ok (ToolError (''API error '' @ tp_status r @ '': '' @ (case tp_body r of Inl _ \<Rightarrow> [] | Inr b \<Rightarrow> decode_text b)))
          else (case (case tp_body r of Inl e \<Rightarrow> Err e | Inr b \<Rightarrow> parse_json b) of
                  Inl e \<Rightarrow> Err (Internal (''parse error: '' @ e))
                | Inr v \<Rightarrow> Ok (ToolSuccess (JString (first_text v)))))"

text \<open>The bytes of a source, from the web or from a file of the gateway's own machine, and the content
  type the web gave: or the outcome that ends the call.\<close>

definition source_bytes ::
    "network \<Rightarrow> (string \<Rightarrow> string + string) \<Rightarrow> string
     \<Rightarrow> (tool_outcome + string \<times> string option) \<times> tool_request list" where
  "source_bytes net read_file source =
     (if looks_like_url source then
        (let asked = get_request source in
         (case net asked of
            Inl e \<Rightarrow> (Err (Err (Internal (''fetch error: '' @ e))), [asked])
          | Inr r \<Rightarrow>
              if \<not> tp_success r then (Err (Ok (ToolError (''HTTP '' @ tp_status r @ '' for '' @ source))), [asked])
              else (case tp_body r of
                      Inl e \<Rightarrow> (Err (Err (Internal (''read error: '' @ e))), [asked])
                    | Inr b \<Rightarrow> (Ok (b, tp_content_type r), [asked]))))
      else (case read_file source of
              Inl e \<Rightarrow> (Err (Err (Internal (''file read error: '' @ e))), [])
            | Inr b \<Rightarrow> (Ok (b, None), [])))"

definition too_large :: "string \<Rightarrow> nat \<Rightarrow> nat \<Rightarrow> tool_outcome" where
  "too_large what n limit =
     Ok (ToolError (what @ '' exceeds size limit ('' @ show_nat n @ '' > '' @ show_nat limit @ '' bytes)''))"

definition pdf_execute ::
    "vision_tool \<Rightarrow> (string \<Rightarrow> string) \<Rightarrow> (string \<Rightarrow> string + json) \<Rightarrow> (string \<Rightarrow> string) \<Rightarrow> network
     \<Rightarrow> (string \<Rightarrow> string + string) \<Rightarrow> (string \<times> json) list \<Rightarrow> tool_outcome \<times> tool_request list" where
  "pdf_execute t base64 parse_json decode_text net read_file params =
     (case par params ''source'' as_str of
        None \<Rightarrow> (Ok (ToolError ''source parameter is required''), [])
      | Some source \<Rightarrow>
         (let prompt = (case par params ''prompt'' as_str of
                          Some p \<Rightarrow> p | None \<Rightarrow> ''Analyze this PDF and summarize its contents.'');
              limit = max_bytes_or (32 * 1024 * 1024) params
          in (case source_bytes net read_file source of
                (Inl ended, asked) \<Rightarrow> (ended, asked)
              | (Inr (bytes, _), asked) \<Rightarrow>
                  if limit < length bytes then (too_large ''PDF'' (length bytes) limit, asked)
                  else (let q = vision_request t [(''anthropic-beta'', ''pdfs-2024-09-25'')]
                                  (vision_payload t ''document'' ''application/pdf'' (base64 bytes) prompt)
                        in (vision_answer parse_json decode_text net q, asked @ [q])))))"

definition media_of_header :: "string \<Rightarrow> string option" where
  "media_of_header ct =
     (if str_contains ''image/jpeg'' ct \<or> str_contains ''image/jpg'' ct then Some ''image/jpeg''
      else if str_contains ''image/png'' ct then Some ''image/png''
      else if str_contains ''image/gif'' ct then Some ''image/gif''
      else if str_contains ''image/webp'' ct then Some ''image/webp''
      else None)"

definition ends_with :: "string \<Rightarrow> string \<Rightarrow> bool" where
  "ends_with pat s \<longleftrightarrow> strip_suffix pat s \<noteq> None"

definition media_of_name :: "(string \<Rightarrow> string) \<Rightarrow> string \<Rightarrow> string option" where
  "media_of_name ulc source =
     (let path = takeWhile (\<lambda>c. c \<noteq> CHR ''?'') (to_lowercase ulc source)
      in if ends_with ''.jpg'' path \<or> ends_with ''.jpeg'' path then Some ''image/jpeg''
         else if ends_with ''.png'' path then Some ''image/png''
         else if ends_with ''.gif'' path then Some ''image/gif''
         else if ends_with ''.webp'' path then Some ''image/webp''
         else None)"

definition detect_media_type :: "(string \<Rightarrow> string) \<Rightarrow> string \<Rightarrow> string option \<Rightarrow> string option" where
  "detect_media_type ulc source header =
     (case Option.bind header media_of_header of
        Some m \<Rightarrow> Some m
      | None \<Rightarrow> media_of_name ulc source)"

definition image_execute ::
    "(string \<Rightarrow> string) \<Rightarrow> vision_tool \<Rightarrow> (string \<Rightarrow> string) \<Rightarrow> (string \<Rightarrow> string + json) \<Rightarrow> (string \<Rightarrow> string) \<Rightarrow> network
     \<Rightarrow> (string \<Rightarrow> string + string) \<Rightarrow> (string \<times> json) list \<Rightarrow> tool_outcome \<times> tool_request list" where
  "image_execute ulc t base64 parse_json decode_text net read_file params =
     (case par params ''source'' as_str of
        None \<Rightarrow> (Ok (ToolError ''source parameter is required''), [])
      | Some source \<Rightarrow>
         (let prompt = (case par params ''prompt'' as_str of Some p \<Rightarrow> p | None \<Rightarrow> ''Describe this image in detail.'');
              limit = max_bytes_or (5 * 1024 * 1024) params
          in (case source_bytes net read_file source of
                (Inl ended, asked) \<Rightarrow> (ended, asked)
              | (Inr (bytes, header), asked) \<Rightarrow>
                  (case detect_media_type ulc source header of
                     None \<Rightarrow> (Ok (ToolError ''unsupported image format; supported: jpeg, png, gif, webp''), asked)
                   | Some media \<Rightarrow>
                       if limit < length bytes then (too_large ''image'' (length bytes) limit, asked)
                       else (let q = vision_request t [] (vision_payload t ''image'' media (base64 bytes) prompt)
                             in (vision_answer parse_json decode_text net q, asked @ [q]))))))"

subsection \<open>Properties\<close>

lemma words_of_lead: "words_of [] (dropWhile is_whitespace us) = words_of [] us"
  by (induction us) auto

lemma words_of_trail: "list_all is_whitespace vs \<Longrightarrow> words_of w (us @ vs) = words_of w us"
proof (induction us arbitrary: w)
  case Nil
  have "list_all is_whitespace vs \<Longrightarrow> words_of [] vs = []" by (induction vs) auto
  with Nil show ?case by (cases vs) auto
qed auto

lemma split_trimmed_end: "us = rev (dropWhile P (rev us)) @ rev (takeWhile P (rev us))"
  by (metis rev_append rev_rev_ident takeWhile_dropWhile_id)

lemma trimmed_words:
  assumes "valid_utf8 t"
  shows "valid_utf8 (trim t) \<and> split_whitespace (trim t) = split_whitespace t"
proof -
  define us where "us = dropWhile is_whitespace (chars t)"
  define vs where "vs = rev (dropWhile is_whitespace (rev us))"
  have us: "list_all valid_char us" using assms by (auto simp: us_def valid_utf8_def list_all_iff dest: set_dropWhileD)
  then have vs: "list_all valid_char vs" by (auto simp: vs_def list_all_iff dest: set_dropWhileD)
  have t: "trim_start t = concat us" by (simp add: trim_start_def us_def)
  have "chars (concat us) = us" using us by (rule chars_concat)
  then have "trim t = concat vs" by (simp add: trim_def t trim_end_def vs_def)
  moreover have "chars (concat vs) = vs" using vs by (rule chars_concat)
  moreover have "words_of [] vs = words_of [] us"
  proof -
    have "list_all is_whitespace (rev (takeWhile is_whitespace (rev us)))"
      by (auto simp: list_all_iff dest: set_takeWhileD)
    from words_of_trail [OF this] show ?thesis
      using split_trimmed_end [of us is_whitespace] by (simp add: vs_def) metis
  qed
  ultimately show ?thesis
    using vs by (simp add: split_whitespace_def valid_utf8_def us_def words_of_lead)
qed

text \<open>The text of a page is what it shows: the words of the text nodes outside scripts, styles and
  the head, all of them, in the order of the document and with single spaces between them; tags and
  what is hidden leave no trace, and no word is joined to another.\<close>

theorem page_text_is_the_visible_words:
  assumes "\<forall>t \<in> set (visible_texts (parse_html html)). valid_utf8 t"
  shows "strip_html parse_html html = join_with '' '' (concat (map split_whitespace (visible_texts (parse_html html))))"
proof -
  let ?ts = "visible_texts (parse_html html)"
  let ?parts = "filter (\<lambda>t. t \<noteq> []) (map trim ?ts)"
  have valid: "\<forall>p \<in> set ?parts. valid_utf8 p" using assms trimmed_words by auto
  have "concat (map split_whitespace (filter (\<lambda>t. t \<noteq> []) (map trim ts))) = concat (map split_whitespace ts)"
    if "\<forall>t \<in> set ts. valid_utf8 t" for ts
    using that
  proof (induction ts)
    case (Cons t ts)
    have "split_whitespace t = split_whitespace (trim t)" using trimmed_words Cons.prems by simp
    then show ?case using Cons by (auto simp: split_whitespace_def)
  qed simp
  moreover have "split_whitespace (join_with '' '' ?parts) = concat (map split_whitespace ?parts)"
    using split_join [OF newline_char(3,4)] valid by blast
  ultimately show ?thesis using assms by (simp add: strip_html_def)
qed

definition demo_page :: html_node where
  "demo_page = Element ''html''
     [Element ''head'' [Element ''title'' [TextNode ''Test'']],
      Element ''body'' [Element ''h1'' [TextNode '' Hello ''], Element ''script'' [TextNode ''alert(1)''],
        Element ''p'' [TextNode ''big  World'']]]"

lemma page_text_is_the_visible_words_witness:
  "strip_html (\<lambda>_. demo_page) [] = ''Hello big World''"
proof -
  have texts: "visible_texts demo_page = ['' Hello '', ''big  World'']" by (simp add: demo_page_def SKIPPED_def)
  then have "\<forall>t \<in> set (visible_texts demo_page). valid_utf8 t" by simp code_simp
  from page_text_is_the_visible_words [of "\<lambda>_. demo_page" "[]", OF this]
  have "strip_html (\<lambda>_. demo_page) []
      = join_with '' '' (concat (map split_whitespace ['' Hello '', ''big  World'']))" by (simp add: texts)
  also have "\<dots> = ''Hello big World''" by code_simp
  finally show ?thesis .
qed

lemma source_requests:
  "snd (source_bytes net read_file source) = (if looks_like_url source then [get_request source] else [])"
  by (auto simp: source_bytes_def Let_def split: sum.splits)

text \<open>What a tool of this kind may ask the network: its source, without a header, and, if the bytes of
  that source are not too many, the model, at the address of the configuration.\<close>

definition asks_properly :: "vision_tool \<Rightarrow> (string \<Rightarrow> string) \<Rightarrow> network \<Rightarrow> (string \<Rightarrow> string + string) \<Rightarrow> string \<Rightarrow> nat
    \<Rightarrow> (string \<times> string) list \<Rightarrow> tool_request \<Rightarrow> bool" where
  "asks_properly t base64 net read_file source limit beta q \<longleftrightarrow>
     looks_like_url source \<and> q = get_request source
   \<or> (\<exists>bytes header block media prompt. fst (source_bytes net read_file source) = Ok (bytes, header)
        \<and> length bytes \<le> limit \<and> q = vision_request t beta (vision_payload t block media (base64 bytes) prompt))"

lemma pdf_asks_properly:
  assumes q: "q \<in> set (snd (pdf_execute t base64 parse_json decode_text net read_file params))"
  shows "\<exists>source. par params ''source'' as_str = Some source
    \<and> asks_properly t base64 net read_file source (max_bytes_or (32 * 1024 * 1024) params)
        [(''anthropic-beta'', ''pdfs-2024-09-25'')] q"
proof -
  obtain source where src: "par params ''source'' as_str = Some source"
    using q by (cases "par params ''source'' as_str") (auto simp: pdf_execute_def)
  obtain got asked where got: "source_bytes net read_file source = (got, asked)" by (rule prod.exhaust)
  have asked: "asked = (if looks_like_url source then [get_request source] else [])"
    using source_requests [of net read_file source] got by simp
  show ?thesis
  proof (cases got)
    case (Inl ended)
    then show ?thesis using q by (auto simp: pdf_execute_def src got asked asks_properly_def split: if_splits)
  next
    case (Inr r)
    obtain bytes header where r: "r = (bytes, header)" by (rule prod.exhaust)
    show ?thesis
      using q by (auto simp: pdf_execute_def src got asked asks_properly_def Inr r Let_def not_less split: if_splits)
  qed
qed

lemma image_asks_properly:
  assumes q: "q \<in> set (snd (image_execute ulc t base64 parse_json decode_text net read_file params))"
  shows "\<exists>source. par params ''source'' as_str = Some source
    \<and> asks_properly t base64 net read_file source (max_bytes_or (5 * 1024 * 1024) params) [] q"
proof -
  obtain source where src: "par params ''source'' as_str = Some source"
    using q by (cases "par params ''source'' as_str") (auto simp: image_execute_def)
  obtain got asked where got: "source_bytes net read_file source = (got, asked)" by (rule prod.exhaust)
  have asked: "asked = (if looks_like_url source then [get_request source] else [])"
    using source_requests [of net read_file source] got by simp
  show ?thesis
  proof (cases got)
    case (Inl ended)
    then show ?thesis using q by (auto simp: image_execute_def src got asked asks_properly_def split: if_splits)
  next
    case (Inr r)
    obtain bytes header where r: "r = (bytes, header)" by (rule prod.exhaust)
    show ?thesis
      using q
      by (auto simp: image_execute_def src got asked asks_properly_def Inr r Let_def not_less
          split: if_splits option.splits)
  qed
qed

text \<open>The key of the model's API is in no request but the one to the API itself.\<close>

theorem key_goes_only_to_the_api:
  assumes "q \<in> set (snd (pdf_execute t base64 parse_json decode_text net read_file params))
      \<union> set (snd (image_execute ulc t base64 parse_json decode_text net read_file params))"
    and "(''x-api-key'', k) \<in> set (tq_headers q)"
  shows "tq_url q = trim_end_matches [''/''] (vt_api_base t) @ ''/v1/messages''"
proof -
  have api: "tq_url q = trim_end_matches [''/''] (vt_api_base t) @ ''/v1/messages''"
    if "asks_properly t base64 net read_file source limit beta q" for source limit beta
    using that assms(2) by (auto simp: asks_properly_def get_request_def vision_request_def)
  from assms(1) show ?thesis
  proof
    assume "q \<in> set (snd (pdf_execute t base64 parse_json decode_text net read_file params))"
    from pdf_asks_properly [OF this] api show ?thesis by blast
  next
    assume "q \<in> set (snd (image_execute ulc t base64 parse_json decode_text net read_file params))"
    from image_asks_properly [OF this] api show ?thesis by blast
  qed
qed

text \<open>The root that confines the file system tool does not confine these two: the bytes of any file the
  gateway can read go to the API, for a document whatever its name is.\<close>

lemma any_file_can_be_sent:
  assumes "par params ''source'' as_str = Some path" and "\<not> looks_like_url path" and "read_file path = Ok bytes"
    and "length bytes \<le> max_bytes_or (32 * 1024 * 1024) params"
  shows "\<exists>prompt. snd (pdf_execute t base64 parse_json decode_text net read_file params)
    = [vision_request t [(''anthropic-beta'', ''pdfs-2024-09-25'')]
         (vision_payload t ''document'' ''application/pdf'' (base64 bytes) prompt)]"
  using assms by (auto simp: pdf_execute_def source_bytes_def Let_def not_less[symmetric])

end
