(* ===== verification/Config_File.thy ===== *)
theory Config_File
  imports Config "HOL-Library.Monad_Syntax"
begin

section \<open>The configuration file (\<open>src/config/mod.rs\<close>)\<close>

text \<open>
  \<open>Config::from_file\<close>: the shape of a file, section by section as the derived deserialisers read it,
  with the defaults of missing fields. Parsing YAML into nodes and reading a scalar as a value are
  parameters; a file that does not fit is rejected as a whole, with an error text that is one too.
\<close>

subsection \<open>YAML\<close>

datatype 's yaml = YScalar 's | YSeq "'s yaml list" | YMap "(string \<times> 's yaml) list"

text \<open>What the library reads a scalar as. A blank one, as after a key with nothing behind it, stands for an
  empty mapping or sequence too.\<close>

record 's scalars =
  sc_null :: "'s \<Rightarrow> bool"
  sc_blank :: "'s \<Rightarrow> bool"
  sc_bool :: "'s \<Rightarrow> bool option"
  sc_uint :: "nat \<Rightarrow> 's \<Rightarrow> nat option"
  sc_int :: "'s \<Rightarrow> int option"
  sc_float :: "'s \<Rightarrow> f64 option"
  sc_float32 :: "'s \<Rightarrow> f64 option"
  sc_str :: "'s \<Rightarrow> string option"

fun y_scalar :: "('s \<Rightarrow> 'a option) \<Rightarrow> 's yaml \<Rightarrow> 'a option" where
  "y_scalar r (YScalar s) = r s"
| "y_scalar r _ = None"

definition "y_bool sc = y_scalar (sc_bool sc)"
definition "y_uint sc w = y_scalar (sc_uint sc w)"
definition "y_int sc = y_scalar (sc_int sc)"
definition "y_float sc = y_scalar (sc_float sc)"
definition "y_float32 sc = y_scalar (sc_float32 sc)"
definition "y_str sc = y_scalar (sc_str sc)"

fun y_seq :: "'s scalars \<Rightarrow> ('s yaml \<Rightarrow> 'a option) \<Rightarrow> 's yaml \<Rightarrow> 'a list option" where
  "y_seq sc d (YSeq vs) = all_some (map d vs)"
| "y_seq sc d (YScalar s) = (if sc_blank sc s then Some [] else None)"
| "y_seq sc d (YMap _) = None"

fun y_pair :: "'s scalars \<Rightarrow> 's yaml \<Rightarrow> (string \<times> string) option" where
  "y_pair sc (YSeq [a, b]) = do { x \<leftarrow> y_str sc a; y \<leftarrow> y_str sc b; Some (x, y) }"
| "y_pair sc _ = None"

text \<open>A map keeps its keys in order, and the last value of each.\<close>

fun y_map :: "'s scalars \<Rightarrow> ('s yaml \<Rightarrow> 'a option) \<Rightarrow> 's yaml \<Rightarrow> (string \<times> 'a) list option" where
  "y_map sc d (YMap m) =
     map_option (\<lambda>vs. fold (\<lambda>(k, v). bt_insert k v) (zip (map fst m) vs) []) (all_some (map (d \<circ> snd) m))"
| "y_map sc d (YScalar s) = (if sc_blank sc s then Some [] else None)"
| "y_map sc d (YSeq _) = None"

text \<open>The fields of a struct: unknown keys are passed over, a known one may not come twice.\<close>

fun y_fields :: "'s scalars \<Rightarrow> string list \<Rightarrow> 's yaml \<Rightarrow> (string \<times> 's yaml) list option" where
  "y_fields sc names (YMap m) = (if distinct (filter (\<lambda>k. k \<in> set names) (map fst m)) then Some m else None)"
| "y_fields sc names (YScalar s) = (if sc_blank sc s then Some [] else None)"
| "y_fields sc names (YSeq _) = None"

definition y_required :: "(string \<times> 's yaml) list \<Rightarrow> string \<Rightarrow> ('s yaml \<Rightarrow> 'a option) \<Rightarrow> 'a option" where
  "y_required f k d = Option.bind (map_of f k) d"

definition y_default :: "(string \<times> 's yaml) list \<Rightarrow> string \<Rightarrow> ('s yaml \<Rightarrow> 'a option) \<Rightarrow> 'a \<Rightarrow> 'a option" where
  "y_default f k d x = (case map_of f k of Some v \<Rightarrow> d v | None \<Rightarrow> Some x)"

definition y_option :: "'s scalars \<Rightarrow> ('s yaml \<Rightarrow> 'a option) \<Rightarrow> 's yaml \<Rightarrow> 'a option option" where
  "y_option sc d v =
     (case v of
        YScalar s \<Rightarrow> if sc_null sc s then Some None else map_option Some (d v)
      | _ \<Rightarrow> map_option Some (d v))"

definition y_optional :: "'s scalars \<Rightarrow> (string \<times> 's yaml) list \<Rightarrow> string \<Rightarrow> ('s yaml \<Rightarrow> 'a option) \<Rightarrow> 'a option option" where
  "y_optional sc f k d = (case map_of f k of Some v \<Rightarrow> y_option sc d v | None \<Rightarrow> Some None)"

subsection \<open>Defaults\<close>

definition default_deduplication :: deduplication_config where
  "default_deduplication = \<lparr>ddc_enabled = False, ddc_window_size = 256\<rparr>"

definition default_shell :: shell_section where
  "default_shell = \<lparr>shs_enabled = False, shs_shell = \<lparr>sh_require_approval = True, sh_allowed_commands = []\<rparr>\<rparr>"

definition default_tools :: tools_config where
  "default_tools =
     \<lparr>tlc_enabled = False, tlc_max_steps = 10, tlc_filesystem_root = None, tlc_web_search_api_key = None,
      tlc_shell = default_shell, tlc_pdf_enabled = False, tlc_image_enabled = False\<rparr>"

definition default_summarization :: "summarization_config \<times> string" where
  "default_summarization =
     (\<lparr>sz_enabled = False, sz_trigger_at = 40, sz_trigger_token_budget = 0, sz_keep_recent = 20\<rparr>,
      ''claude-haiku-4-5-20251001'')"

definition default_memory :: memory_config where
  "default_memory =
     \<lparr>mmc_backend = ''inmemory'', mmc_redis_url = None, mmc_redis_ttl_seconds = 86400, mmc_sqlite_path = None,
      mmc_postgres_url = None, mmc_vector_store = ''memory'', mmc_vector_store_url = None,
      mmc_embedding_provider = ''simple'', mmc_embedding_model = ''none'',
      mmc_summarization = fst default_summarization, mmc_summarization_model = snd default_summarization,
      mmc_vector_decay_half_life_seconds = Fin 3600\<rparr>"

definition default_skills :: skills_config where
  "default_skills = \<lparr>skc_enabled = False, skc_paths = [''skills/''], skc_max_active = 3\<rparr>"

definition default_retry :: retry_config where
  "default_retry = \<lparr>rc_enabled = True, rc_max_attempts = 3, rc_base_delay_ms = 100, rc_jitter_enabled = False\<rparr>"

definition default_audit :: audit_config where
  "default_audit = \<lparr>auc_enabled = False, auc_path = []\<rparr>"

text \<open>The endpoint and the service name.\<close>

definition default_otel :: "string option \<times> string" where
  "default_otel = (None, ''rustynail'')"

subsection \<open>Sections\<close>

definition de_rate_limit :: "'s scalars \<Rightarrow> 's yaml \<Rightarrow> rate_limit_config option" where
  "de_rate_limit sc v = do {
     f \<leftarrow> y_fields sc
       [''enabled'', ''messages_per_window'', ''window_seconds''] v;
     x0 \<leftarrow> y_default f ''enabled'' (y_bool sc) False;
     x1 \<leftarrow> y_default f ''messages_per_window'' (y_uint sc 32) 20;
     x2 \<leftarrow> y_default f ''window_seconds'' (y_uint sc 64) 60;
     Some \<lparr>rl_enabled = x0, rl_messages_per_window = x1, rl_window_seconds = x2\<rparr> }"

definition de_deduplication :: "'s scalars \<Rightarrow> 's yaml \<Rightarrow> deduplication_config option" where
  "de_deduplication sc v = do {
     f \<leftarrow> y_fields sc
       [''enabled'', ''window_size''] v;
     x0 \<leftarrow> y_default f ''enabled'' (y_bool sc) False;
     x1 \<leftarrow> y_default f ''window_size'' (y_uint sc 64) 256;
     Some \<lparr>ddc_enabled = x0, ddc_window_size = x1\<rparr> }"

definition de_gateway :: "'s scalars \<Rightarrow> 's yaml \<Rightarrow> gateway_config option" where
  "de_gateway sc v = do {
     f \<leftarrow> y_fields sc
       [''websocket_port'', ''http_port'', ''log_level'', ''api_token'', ''rate_limit'',
        ''max_body_bytes'', ''request_timeout_seconds'', ''allowed_ws_origins'',
        ''shutdown_timeout_seconds'', ''chunking_enabled'', ''chunking_limits'',
        ''formatting_enabled'', ''auto_route_attachments'', ''deduplication''] v;
     x0 \<leftarrow> y_default f ''websocket_port'' (y_uint sc 16) 18789;
     x1 \<leftarrow> y_default f ''http_port'' (y_uint sc 16) 8080;
     x2 \<leftarrow> y_default f ''log_level'' (y_str sc) ''info'';
     x3 \<leftarrow> y_optional sc f ''api_token'' (y_str sc);
     x4 \<leftarrow> y_default f ''rate_limit'' (de_rate_limit sc) default_rate_limit;
     x5 \<leftarrow> y_default f ''max_body_bytes'' (y_uint sc 64) 1048576;
     x6 \<leftarrow> y_default f ''request_timeout_seconds'' (y_uint sc 64) 30;
     x7 \<leftarrow> y_default f ''allowed_ws_origins'' (y_seq sc (y_str sc)) [];
     x8 \<leftarrow> y_default f ''shutdown_timeout_seconds'' (y_uint sc 64) 30;
     x9 \<leftarrow> y_default f ''chunking_enabled'' (y_bool sc) False;
     x10 \<leftarrow> y_default f ''chunking_limits'' (y_map sc (y_uint sc 64)) [];
     x11 \<leftarrow> y_default f ''formatting_enabled'' (y_bool sc) True;
     x12 \<leftarrow> y_default f ''auto_route_attachments'' (y_bool sc) False;
     x13 \<leftarrow> y_default f ''deduplication'' (de_deduplication sc) default_deduplication;
     Some \<lparr>gc_websocket_port = x0, gc_http_port = x1, gc_log_level = x2, gc_api_token = x3,
             gc_rate_limit = x4, gc_max_body_bytes = x5, gc_request_timeout_seconds = x6,
             gc_allowed_ws_origins = x7, gc_shutdown_timeout_seconds = x8, gc_chunking_enabled = x9,
             gc_chunking_limits = x10, gc_formatting_enabled = x11, gc_auto_route_attachments = x12,
             gc_deduplication = x13\<rparr> }"

definition de_audit :: "'s scalars \<Rightarrow> 's yaml \<Rightarrow> audit_config option" where
  "de_audit sc v = do {
     f \<leftarrow> y_fields sc
       [''enabled'', ''path''] v;
     x0 \<leftarrow> y_default f ''enabled'' (y_bool sc) False;
     x1 \<leftarrow> y_default f ''path'' (y_str sc) [];
     Some \<lparr>auc_enabled = x0, auc_path = x1\<rparr> }"

definition de_discord_auth :: "'s scalars \<Rightarrow> 's yaml \<Rightarrow> string option" where
  "de_discord_auth sc v = do {
     f \<leftarrow> y_fields sc
       [''token''] v;
     x0 \<leftarrow> y_required f ''token'' (y_str sc);
     Some x0 }"

definition de_discord :: "'s scalars \<Rightarrow> 's yaml \<Rightarrow> discord_config option" where
  "de_discord sc v = do {
     f \<leftarrow> y_fields sc
       [''enabled'', ''auth''] v;
     x0 \<leftarrow> y_default f ''enabled'' (y_bool sc) True;
     x1 \<leftarrow> y_required f ''auth'' (de_discord_auth sc);
     Some \<lparr>dsc_enabled = x0, dsc_token = x1\<rparr> }"

definition de_whatsapp :: "'s scalars \<Rightarrow> 's yaml \<Rightarrow> whatsapp_config option" where
  "de_whatsapp sc v = do {
     f \<leftarrow> y_fields sc
       [''enabled'', ''phone_number_id'', ''access_token'', ''verify_token''] v;
     x0 \<leftarrow> y_default f ''enabled'' (y_bool sc) False;
     x1 \<leftarrow> y_default f ''phone_number_id'' (y_str sc) [];
     x2 \<leftarrow> y_default f ''access_token'' (y_str sc) [];
     x3 \<leftarrow> y_default f ''verify_token'' (y_str sc) [];
     Some \<lparr>wac_enabled = x0, wac_phone_number_id = x1, wac_access_token = x2, wac_verify_token = x3\<rparr> }"

definition de_telegram :: "'s scalars \<Rightarrow> 's yaml \<Rightarrow> telegram_config option" where
  "de_telegram sc v = do {
     f \<leftarrow> y_fields sc
       [''enabled'', ''bot_token'', ''webhook_secret'', ''mode''] v;
     x0 \<leftarrow> y_default f ''enabled'' (y_bool sc) False;
     x1 \<leftarrow> y_default f ''bot_token'' (y_str sc) [];
     x2 \<leftarrow> y_default f ''webhook_secret'' (y_str sc) [];
     x3 \<leftarrow> y_default f ''mode'' (y_str sc) ''webhook'';
     Some \<lparr>tgc_enabled = x0, tgc_bot_token = x1, tgc_webhook_secret = x2, tgc_mode = x3\<rparr> }"

definition de_slack :: "'s scalars \<Rightarrow> 's yaml \<Rightarrow> slack_config option" where
  "de_slack sc v = do {
     f \<leftarrow> y_fields sc
       [''enabled'', ''bot_token'', ''signing_secret'', ''app_token'', ''mode''] v;
     x0 \<leftarrow> y_default f ''enabled'' (y_bool sc) False;
     x1 \<leftarrow> y_default f ''bot_token'' (y_str sc) [];
     x2 \<leftarrow> y_default f ''signing_secret'' (y_str sc) [];
     x3 \<leftarrow> y_optional sc f ''app_token'' (y_str sc);
     x4 \<leftarrow> y_default f ''mode'' (y_str sc) ''webhook'';
     Some \<lparr>slc_enabled = x0, slc_bot_token = x1, slc_signing_secret = x2, slc_app_token = x3,
             slc_mode = x4\<rparr> }"

definition de_sms_auth :: "'s scalars \<Rightarrow> 's yaml \<Rightarrow> (string \<times> string \<times> string) option" where
  "de_sms_auth sc v = do {
     f \<leftarrow> y_fields sc
       [''account_sid'', ''auth_token'', ''from_number''] v;
     x0 \<leftarrow> y_default f ''account_sid'' (y_str sc) [];
     x1 \<leftarrow> y_default f ''auth_token'' (y_str sc) [];
     x2 \<leftarrow> y_default f ''from_number'' (y_str sc) [];
     Some (x0, x1, x2) }"

definition de_sms :: "'s scalars \<Rightarrow> 's yaml \<Rightarrow> sms_config option" where
  "de_sms sc v = do {
     f \<leftarrow> y_fields sc
       [''enabled'', ''auth''] v;
     x0 \<leftarrow> y_default f ''enabled'' (y_bool sc) False;
     x1 \<leftarrow> y_required f ''auth'' (de_sms_auth sc);
     Some (case x1 of (a, t, n) \<Rightarrow>
       \<lparr>smc_enabled = x0, smc_account_sid = a, smc_auth_token = t, smc_from_number = n\<rparr>) }"

definition de_endpoint :: "'s scalars \<Rightarrow> 's yaml \<Rightarrow> webhook_endpoint option" where
  "de_endpoint sc v = do {
     f \<leftarrow> y_fields sc
       [''path'', ''secret'', ''user_id'', ''extract_text''] v;
     x0 \<leftarrow> y_required f ''path'' (y_str sc);
     x1 \<leftarrow> y_optional sc f ''secret'' (y_str sc);
     x2 \<leftarrow> y_required f ''user_id'' (y_str sc);
     x3 \<leftarrow> y_optional sc f ''extract_text'' (y_str sc);
     Some \<lparr>ep_path = x0, ep_secret = x1, ep_user_id = x2, ep_extract_text = x3\<rparr> }"

definition de_webhook :: "'s scalars \<Rightarrow> 's yaml \<Rightarrow> webhook_config option" where
  "de_webhook sc v = do {
     f \<leftarrow> y_fields sc
       [''enabled'', ''endpoints''] v;
     x0 \<leftarrow> y_default f ''enabled'' (y_bool sc) False;
     x1 \<leftarrow> y_default f ''endpoints'' (y_seq sc (de_endpoint sc)) [];
     Some \<lparr>whc_enabled = x0, whc_endpoints = x1\<rparr> }"

definition de_webchat :: "'s scalars \<Rightarrow> 's yaml \<Rightarrow> webchat_config option" where
  "de_webchat sc v = do {
     f \<leftarrow> y_fields sc
       [''enabled'', ''allowed_origins'', ''welcome_message''] v;
     x0 \<leftarrow> y_default f ''enabled'' (y_bool sc) False;
     x1 \<leftarrow> y_default f ''allowed_origins'' (y_seq sc (y_str sc)) [];
     x2 \<leftarrow> y_optional sc f ''welcome_message'' (y_str sc);
     Some \<lparr>wcc_enabled = x0, wcc_allowed_origins = x1, wcc_welcome_message = x2\<rparr> }"

definition de_imap :: "'s scalars \<Rightarrow> 's yaml \<Rightarrow> imap_config option" where
  "de_imap sc v = do {
     f \<leftarrow> y_fields sc
       [''host'', ''port'', ''username'', ''password'', ''inbox''] v;
     x0 \<leftarrow> y_default f ''host'' (y_str sc) [];
     x1 \<leftarrow> y_default f ''port'' (y_uint sc 16) 993;
     x2 \<leftarrow> y_default f ''username'' (y_str sc) [];
     x3 \<leftarrow> y_default f ''password'' (y_str sc) [];
     x4 \<leftarrow> y_default f ''inbox'' (y_str sc) ''INBOX'';
     Some \<lparr>imc_host = x0, imc_port = x1, imc_username = x2, imc_password = x3, imc_inbox = x4\<rparr> }"

definition de_smtp :: "'s scalars \<Rightarrow> 's yaml \<Rightarrow> smtp_config option" where
  "de_smtp sc v = do {
     f \<leftarrow> y_fields sc
       [''host'', ''port'', ''username'', ''password'', ''from_address''] v;
     x0 \<leftarrow> y_default f ''host'' (y_str sc) [];
     x1 \<leftarrow> y_default f ''port'' (y_uint sc 16) 587;
     x2 \<leftarrow> y_default f ''username'' (y_str sc) [];
     x3 \<leftarrow> y_default f ''password'' (y_str sc) [];
     x4 \<leftarrow> y_default f ''from_address'' (y_str sc) [];
     Some \<lparr>smt_host = x0, smt_port = x1, smt_username = x2, smt_password = x3, smt_from_address = x4\<rparr> }"

definition de_email :: "'s scalars \<Rightarrow> 's yaml \<Rightarrow> email_config option" where
  "de_email sc v = do {
     f \<leftarrow> y_fields sc
       [''enabled'', ''imap'', ''smtp''] v;
     x0 \<leftarrow> y_default f ''enabled'' (y_bool sc) False;
     x1 \<leftarrow> y_required f ''imap'' (de_imap sc);
     x2 \<leftarrow> y_required f ''smtp'' (de_smtp sc);
     Some \<lparr>emc_enabled = x0, emc_imap = x1, emc_smtp = x2\<rparr> }"

definition de_teams_auth :: "'s scalars \<Rightarrow> 's yaml \<Rightarrow> (string \<times> string \<times> string) option" where
  "de_teams_auth sc v = do {
     f \<leftarrow> y_fields sc
       [''app_id'', ''app_password'', ''hmac_secret''] v;
     x0 \<leftarrow> y_default f ''app_id'' (y_str sc) [];
     x1 \<leftarrow> y_default f ''app_password'' (y_str sc) [];
     x2 \<leftarrow> y_default f ''hmac_secret'' (y_str sc) [];
     Some (x0, x1, x2) }"

definition de_teams :: "'s scalars \<Rightarrow> 's yaml \<Rightarrow> teams_config option" where
  "de_teams sc v = do {
     f \<leftarrow> y_fields sc
       [''enabled'', ''auth''] v;
     x0 \<leftarrow> y_default f ''enabled'' (y_bool sc) True;
     x1 \<leftarrow> y_required f ''auth'' (de_teams_auth sc);
     Some (case x1 of (a, p, h) \<Rightarrow>
       \<lparr>tmc_enabled = x0, tmc_app_id = a, tmc_app_password = p, tmc_hmac_secret = h\<rparr>) }"

definition de_channels :: "'s scalars \<Rightarrow> 's yaml \<Rightarrow> channel_sections option" where
  "de_channels sc v = do {
     f \<leftarrow> y_fields sc
       [''discord'', ''whatsapp'', ''telegram'', ''slack'', ''sms'', ''webhook'', ''webchat'',
        ''email'', ''teams'', ''test_channel''] v;
     x0 \<leftarrow> y_optional sc f ''discord'' (de_discord sc);
     x1 \<leftarrow> y_optional sc f ''whatsapp'' (de_whatsapp sc);
     x2 \<leftarrow> y_optional sc f ''telegram'' (de_telegram sc);
     x3 \<leftarrow> y_optional sc f ''slack'' (de_slack sc);
     x4 \<leftarrow> y_optional sc f ''sms'' (de_sms sc);
     x5 \<leftarrow> y_optional sc f ''webhook'' (de_webhook sc);
     x6 \<leftarrow> y_optional sc f ''webchat'' (de_webchat sc);
     x7 \<leftarrow> y_optional sc f ''email'' (de_email sc);
     x8 \<leftarrow> y_optional sc f ''teams'' (de_teams sc);
     x9 \<leftarrow> y_default f ''test_channel'' (y_bool sc) False;
     Some \<lparr>chs_discord = x0, chs_whatsapp = x1, chs_telegram = x2, chs_slack = x3, chs_sms = x4,
             chs_webhook = x5, chs_webchat = x6, chs_email = x7, chs_teams = x8, chs_test_channel = x9\<rparr> }"

definition de_retry :: "'s scalars \<Rightarrow> 's yaml \<Rightarrow> retry_config option" where
  "de_retry sc v = do {
     f \<leftarrow> y_fields sc
       [''enabled'', ''max_attempts'', ''base_delay_ms'', ''jitter_enabled''] v;
     x0 \<leftarrow> y_default f ''enabled'' (y_bool sc) True;
     x1 \<leftarrow> y_default f ''max_attempts'' (y_uint sc 32) 3;
     x2 \<leftarrow> y_default f ''base_delay_ms'' (y_uint sc 64) 100;
     x3 \<leftarrow> y_default f ''jitter_enabled'' (y_bool sc) False;
     Some \<lparr>rc_enabled = x0, rc_max_attempts = x1, rc_base_delay_ms = x2, rc_jitter_enabled = x3\<rparr> }"

definition de_fallback :: "'s scalars \<Rightarrow> 's yaml \<Rightarrow> provider_config option" where
  "de_fallback sc v = do {
     f \<leftarrow> y_fields sc
       [''provider'', ''model'', ''api_key'', ''api_base''] v;
     x0 \<leftarrow> y_required f ''provider'' (y_str sc);
     x1 \<leftarrow> y_required f ''model'' (y_str sc);
     x2 \<leftarrow> y_required f ''api_key'' (y_str sc);
     x3 \<leftarrow> y_default f ''api_base'' (y_option sc (y_str sc)) None;
     Some \<lparr>pv_provider = x0, pv_api_key = x2, pv_model = x1, pv_api_base = x3\<rparr> }"

definition de_agents :: "'s scalars \<Rightarrow> 's yaml \<Rightarrow> agent_section option" where
  "de_agents sc v = do {
     f \<leftarrow> y_fields sc
       [''llm_provider'', ''llm_model'', ''api_key'', ''max_history'', ''temperature'',
        ''planning_enabled'', ''planning_max_steps'', ''api_base'', ''aws_region'', ''retry'',
        ''fallback_providers''] v;
     x0 \<leftarrow> y_default f ''llm_provider'' (y_str sc) ''anthropic'';
     x1 \<leftarrow> y_default f ''llm_model'' (y_str sc) ''claude-3-5-sonnet-20241022'';
     x2 \<leftarrow> y_required f ''api_key'' (y_str sc);
     x3 \<leftarrow> y_default f ''max_history'' (y_uint sc 64) 20;
     x4 \<leftarrow> y_default f ''temperature'' (y_float32 sc) DEFAULT_TEMPERATURE;
     x5 \<leftarrow> y_default f ''planning_enabled'' (y_bool sc) False;
     x6 \<leftarrow> y_default f ''planning_max_steps'' (y_uint sc 64) 10;
     x7 \<leftarrow> y_default f ''api_base'' (y_option sc (y_str sc)) None;
     x8 \<leftarrow> y_optional sc f ''aws_region'' (y_str sc);
     x9 \<leftarrow> y_default f ''retry'' (de_retry sc) default_retry;
     x10 \<leftarrow> y_default f ''fallback_providers'' (y_seq sc (de_fallback sc)) [];
     Some \<lparr>ags_agents = \<lparr>ac_primary = \<lparr>pv_provider = x0, pv_api_key = x2, pv_model = x1, pv_api_base = x7\<rparr>,
         ac_aws_region = x8, ac_fallbacks = x10\<rparr>,
       ags_max_history = x3, ags_temperature = x4, ags_planning_enabled = x5, ags_planning_max_steps = x6, ags_retry = x9\<rparr> }"

definition de_shell :: "'s scalars \<Rightarrow> 's yaml \<Rightarrow> shell_section option" where
  "de_shell sc v = do {
     f \<leftarrow> y_fields sc
       [''enabled'', ''require_approval'', ''allowed_commands''] v;
     x0 \<leftarrow> y_default f ''enabled'' (y_bool sc) False;
     x1 \<leftarrow> y_default f ''require_approval'' (y_bool sc) True;
     x2 \<leftarrow> y_default f ''allowed_commands'' (y_seq sc (y_str sc)) [];
     Some \<lparr>shs_enabled = x0, shs_shell = \<lparr>sh_require_approval = x1, sh_allowed_commands = x2\<rparr>\<rparr> }"

definition de_tools :: "'s scalars \<Rightarrow> 's yaml \<Rightarrow> tools_config option" where
  "de_tools sc v = do {
     f \<leftarrow> y_fields sc
       [''enabled'', ''max_steps'', ''filesystem_root'', ''web_search_api_key'', ''shell'',
        ''pdf_enabled'', ''image_enabled''] v;
     x0 \<leftarrow> y_default f ''enabled'' (y_bool sc) False;
     x1 \<leftarrow> y_default f ''max_steps'' (y_uint sc 64) 10;
     x2 \<leftarrow> y_optional sc f ''filesystem_root'' (y_str sc);
     x3 \<leftarrow> y_optional sc f ''web_search_api_key'' (y_str sc);
     x4 \<leftarrow> y_default f ''shell'' (de_shell sc) default_shell;
     x5 \<leftarrow> y_default f ''pdf_enabled'' (y_bool sc) False;
     x6 \<leftarrow> y_default f ''image_enabled'' (y_bool sc) False;
     Some \<lparr>tlc_enabled = x0, tlc_max_steps = x1, tlc_filesystem_root = x2, tlc_web_search_api_key = x3,
             tlc_shell = x4, tlc_pdf_enabled = x5, tlc_image_enabled = x6\<rparr> }"

text \<open>The section of the summarizer, and its model.\<close>

definition de_summarization :: "'s scalars \<Rightarrow> 's yaml \<Rightarrow> (summarization_config \<times> string) option" where
  "de_summarization sc v = do {
     f \<leftarrow> y_fields sc
       [''enabled'', ''trigger_at'', ''keep_recent'', ''model'', ''trigger_token_budget''] v;
     x0 \<leftarrow> y_default f ''enabled'' (y_bool sc) False;
     x1 \<leftarrow> y_default f ''trigger_at'' (y_uint sc 64) 40;
     x2 \<leftarrow> y_default f ''keep_recent'' (y_uint sc 64) 20;
     x3 \<leftarrow> y_default f ''model'' (y_str sc) ''claude-haiku-4-5-20251001'';
     x4 \<leftarrow> y_default f ''trigger_token_budget'' (y_uint sc 64) 0;
     Some (\<lparr>sz_enabled = x0, sz_trigger_at = x1, sz_trigger_token_budget = x4, sz_keep_recent = x2\<rparr>, x3) }"

definition de_memory :: "'s scalars \<Rightarrow> 's yaml \<Rightarrow> memory_config option" where
  "de_memory sc v = do {
     f \<leftarrow> y_fields sc
       [''backend'', ''redis_url'', ''redis_ttl_seconds'', ''sqlite_path'', ''postgres_url'',
        ''vector_store'', ''vector_store_url'', ''embedding_provider'', ''embedding_model'',
        ''summarization'', ''vector_decay_half_life_seconds''] v;
     x0 \<leftarrow> y_default f ''backend'' (y_str sc) ''inmemory'';
     x1 \<leftarrow> y_optional sc f ''redis_url'' (y_str sc);
     x2 \<leftarrow> y_default f ''redis_ttl_seconds'' (y_uint sc 64) 86400;
     x3 \<leftarrow> y_optional sc f ''sqlite_path'' (y_str sc);
     x4 \<leftarrow> y_optional sc f ''postgres_url'' (y_str sc);
     x5 \<leftarrow> y_default f ''vector_store'' (y_str sc) ''memory'';
     x6 \<leftarrow> y_optional sc f ''vector_store_url'' (y_str sc);
     x7 \<leftarrow> y_default f ''embedding_provider'' (y_str sc) ''simple'';
     x8 \<leftarrow> y_default f ''embedding_model'' (y_str sc) ''none'';
     x9 \<leftarrow> y_default f ''summarization'' (de_summarization sc) default_summarization;
     x10 \<leftarrow> y_default f ''vector_decay_half_life_seconds'' (y_float sc) (Fin 3600);
     Some \<lparr>mmc_backend = x0, mmc_redis_url = x1, mmc_redis_ttl_seconds = x2, mmc_sqlite_path = x3,
             mmc_postgres_url = x4, mmc_vector_store = x5, mmc_vector_store_url = x6,
             mmc_embedding_provider = x7, mmc_embedding_model = x8, mmc_summarization = fst x9, mmc_summarization_model = snd x9,
             mmc_vector_decay_half_life_seconds = x10\<rparr> }"

definition de_skills :: "'s scalars \<Rightarrow> 's yaml \<Rightarrow> skills_config option" where
  "de_skills sc v = do {
     f \<leftarrow> y_fields sc
       [''enabled'', ''paths'', ''max_active''] v;
     x0 \<leftarrow> y_default f ''enabled'' (y_bool sc) False;
     x1 \<leftarrow> y_default f ''paths'' (y_seq sc (y_str sc)) [''skills/''];
     x2 \<leftarrow> y_default f ''max_active'' (y_uint sc 64) 3;
     Some \<lparr>skc_enabled = x0, skc_paths = x1, skc_max_active = x2\<rparr> }"

definition de_mcp_server :: "'s scalars \<Rightarrow> 's yaml \<Rightarrow> mcp_server option" where
  "de_mcp_server sc v = do {
     f \<leftarrow> y_fields sc
       [''name'', ''transport'', ''command'', ''args'', ''env'', ''url''] v;
     x0 \<leftarrow> y_required f ''name'' (y_str sc);
     x1 \<leftarrow> y_default f ''transport'' (y_str sc) ''stdio'';
     x2 \<leftarrow> y_optional sc f ''command'' (y_str sc);
     x3 \<leftarrow> y_default f ''args'' (y_seq sc (y_str sc)) [];
     x4 \<leftarrow> y_default f ''env'' (y_seq sc (y_pair sc)) [];
     x5 \<leftarrow> y_optional sc f ''url'' (y_str sc);
     Some \<lparr>mcp_name = x0, mcp_transport = x1, mcp_command = x2, mcp_args = x3, mcp_env = x4,
             mcp_url = x5\<rparr> }"

definition de_cron_job :: "'s scalars \<Rightarrow> 's yaml \<Rightarrow> cron_job option" where
  "de_cron_job sc v = do {
     f \<leftarrow> y_fields sc
       [''name'', ''schedule'', ''message'', ''channel_id'', ''user_id'', ''enabled''] v;
     x0 \<leftarrow> y_required f ''name'' (y_str sc);
     x1 \<leftarrow> y_required f ''schedule'' (y_str sc);
     x2 \<leftarrow> y_required f ''message'' (y_str sc);
     x3 \<leftarrow> y_required f ''channel_id'' (y_str sc);
     x4 \<leftarrow> y_required f ''user_id'' (y_str sc);
     x5 \<leftarrow> y_default f ''enabled'' (y_bool sc) True;
     Some \<lparr>cj_name = x0, cj_schedule = x1, cj_message = x2, cj_channel_id = x3, cj_user_id = x4,
             cj_enabled = x5\<rparr> }"

definition de_policy_entry :: "'s scalars \<Rightarrow> 's yaml \<Rightarrow> policy_entry option" where
  "de_policy_entry sc v = do {
     f \<leftarrow> y_fields sc
       [''allowed_denominations'', ''max_spend_micro_usd'', ''default_spend_micro_usd'',
        ''max_latency_seconds'', ''default_latency_seconds'', ''allow_unlimited'',
        ''on_over_limit'', ''scope_tags''] v;
     x0 \<leftarrow> y_default f ''allowed_denominations'' (y_seq sc (y_str sc)) [];
     x1 \<leftarrow> y_default f ''max_spend_micro_usd'' (y_option sc (y_int sc)) None;
     x2 \<leftarrow> y_default f ''default_spend_micro_usd'' (y_option sc (y_int sc)) None;
     x3 \<leftarrow> y_default f ''max_latency_seconds'' (y_option sc (y_uint sc 64)) None;
     x4 \<leftarrow> y_default f ''default_latency_seconds'' (y_option sc (y_uint sc 64)) None;
     x5 \<leftarrow> y_default f ''allow_unlimited'' (y_bool sc) False;
     x6 \<leftarrow> y_default f ''on_over_limit'' (y_str sc) [];
     x7 \<leftarrow> y_default f ''scope_tags'' (y_map sc (y_str sc)) [];
     Some \<lparr>pe_allowed_denominations = x0, pe_max_spend_micro_usd = x1, pe_default_spend_micro_usd = x2,
             pe_max_latency_seconds = x3, pe_default_latency_seconds = x4, pe_allow_unlimited = x5,
             pe_on_over_limit = x6, pe_scope_tags = x7\<rparr> }"

definition de_policy :: "'s scalars \<Rightarrow> 's yaml \<Rightarrow> policy_config option" where
  "de_policy sc v = do {
     f \<leftarrow> y_fields sc
       [''default'', ''channels'', ''senders''] v;
     x0 \<leftarrow> y_default f ''default'' (y_option sc (de_policy_entry sc)) None;
     x1 \<leftarrow> y_default f ''channels'' (y_map sc (de_policy_entry sc)) [];
     x2 \<leftarrow> y_default f ''senders'' (y_map sc (de_policy_entry sc)) [];
     Some \<lparr>pc_default = x0, pc_channels = x1, pc_senders = x2\<rparr> }"

definition de_verification :: "'s scalars \<Rightarrow> 's yaml \<Rightarrow> verification_config option" where
  "de_verification sc v = do {
     f \<leftarrow> y_fields sc
       [''enabled'', ''expected_identity'', ''expected_issuer'', ''cosign_path'',
        ''allow_writable_binary'', ''manifest_path''] v;
     x0 \<leftarrow> y_default f ''enabled'' (y_bool sc) True;
     x1 \<leftarrow> y_default f ''expected_identity'' (y_str sc) [];
     x2 \<leftarrow> y_default f ''expected_issuer'' (y_str sc) [];
     x3 \<leftarrow> y_default f ''cosign_path'' (y_str sc) ''cosign'';
     x4 \<leftarrow> y_default f ''allow_writable_binary'' (y_bool sc) False;
     x5 \<leftarrow> y_default f ''manifest_path'' (y_str sc) [];
     Some \<lparr>vc_enabled = x0, vc_expected_identity = x1, vc_expected_issuer = x2, vc_cosign_path = x3,
             vc_allow_writable_binary = x4, vc_manifest_path = x5\<rparr> }"

definition de_quarry :: "'s scalars \<Rightarrow> 's yaml \<Rightarrow> quarry_config option" where
  "de_quarry sc v = do {
     f \<leftarrow> y_fields sc
       [''enabled'', ''binary_path'', ''max_concurrent_runs'', ''run_record_dir'',
        ''retention_max_runs'', ''retention_max_age_seconds'', ''run_timeout_seconds'',
        ''default_timezone'', ''approval_timeout_seconds'', ''policy'', ''verification''] v;
     x0 \<leftarrow> y_default f ''enabled'' (y_bool sc) False;
     x1 \<leftarrow> y_default f ''binary_path'' (y_str sc) ''quarry'';
     x2 \<leftarrow> y_default f ''max_concurrent_runs'' (y_uint sc 64) 2;
     x3 \<leftarrow> y_default f ''run_record_dir'' (y_str sc) ''quarry-runs'';
     x4 \<leftarrow> y_default f ''retention_max_runs'' (y_uint sc 64) 50;
     x5 \<leftarrow> y_default f ''retention_max_age_seconds'' (y_uint sc 64) 0;
     x6 \<leftarrow> y_default f ''run_timeout_seconds'' (y_uint sc 64) 900;
     x7 \<leftarrow> y_default f ''default_timezone'' (y_str sc) [];
     x8 \<leftarrow> y_default f ''approval_timeout_seconds'' (y_uint sc 64) 300;
     x9 \<leftarrow> y_default f ''policy'' (de_policy sc) default_policy_config;
     x10 \<leftarrow> y_default f ''verification'' (de_verification sc) default_verification_config;
     Some \<lparr>qc_enabled = x0, qc_binary_path = x1, qc_max_concurrent_runs = x2, qc_run_record_dir = x3,
             qc_retention_max_runs = x4, qc_retention_max_age_seconds = x5, qc_run_timeout_seconds = x6,
             qc_default_timezone = x7, qc_approval_timeout_seconds = x8, qc_policy = x9,
             qc_verification = x10\<rparr> }"

subsection \<open>The whole file\<close>

definition de_otel :: "'s scalars \<Rightarrow> 's yaml \<Rightarrow> (string option \<times> string) option" where
  "de_otel sc v = do {
     f \<leftarrow> y_fields sc [''endpoint'', ''service_name''] v;
     x0 \<leftarrow> y_optional sc f ''endpoint'' (y_str sc);
     x1 \<leftarrow> y_default f ''service_name'' (y_str sc) ''rustynail'';
     Some (x0, x1) }"

definition de_dashboard :: "'s scalars \<Rightarrow> 's yaml \<Rightarrow> string option option" where
  "de_dashboard sc v = do { f \<leftarrow> y_fields sc [''auth_password''] v; y_optional sc f ''auth_password'' (y_str sc) }"

definition de_mcp :: "'s scalars \<Rightarrow> 's yaml \<Rightarrow> mcp_server list option" where
  "de_mcp sc v = do { f \<leftarrow> y_fields sc [''servers''] v; y_default f ''servers'' (y_seq sc (de_mcp_server sc)) [] }"

definition de_cron :: "'s scalars \<Rightarrow> 's yaml \<Rightarrow> cron_job list option" where
  "de_cron sc v = do { f \<leftarrow> y_fields sc [''jobs''] v; y_default f ''jobs'' (y_seq sc (de_cron_job sc)) [] }"

definition de_config :: "'s scalars \<Rightarrow> 's yaml \<Rightarrow> config option" where
  "de_config sc v = do {
     f \<leftarrow> y_fields sc
       [''gateway'', ''channels'', ''agents'', ''tools'', ''otel'', ''dashboard'', ''memory'', ''mcp'', ''skills'',
        ''audit'', ''cron'', ''quarry''] v;
     gateway \<leftarrow> y_required f ''gateway'' (de_gateway sc);
     channels \<leftarrow> y_required f ''channels'' (de_channels sc);
     agents \<leftarrow> y_required f ''agents'' (de_agents sc);
     tools \<leftarrow> y_default f ''tools'' (de_tools sc) default_tools;
     otel \<leftarrow> y_default f ''otel'' (de_otel sc) default_otel;
     dashboard \<leftarrow> y_default f ''dashboard'' (de_dashboard sc) None;
     memory \<leftarrow> y_default f ''memory'' (de_memory sc) default_memory;
     mcp \<leftarrow> y_default f ''mcp'' (de_mcp sc) [];
     skills \<leftarrow> y_default f ''skills'' (de_skills sc) default_skills;
     audit \<leftarrow> y_default f ''audit'' (de_audit sc) default_audit;
     cron \<leftarrow> y_default f ''cron'' (de_cron sc) [];
     quarry \<leftarrow> y_default f ''quarry'' (de_quarry sc) default_quarry_config;
     Some \<lparr>cfg_gateway = gateway, cfg_channels = channels, cfg_agents = agents, cfg_tools = tools,
           cfg_otel_endpoint = fst otel, cfg_otel_service_name = snd otel, cfg_dashboard_password = dashboard,
           cfg_memory = memory, cfg_mcp = mcp, cfg_skills = skills, cfg_audit = audit, cfg_cron = cron,
           cfg_quarry = quarry\<rparr> }"

definition config_from_file ::
    "(string \<Rightarrow> string + string) \<Rightarrow> (string \<Rightarrow> string + 's yaml) \<Rightarrow> 's scalars \<Rightarrow> string \<Rightarrow> string \<Rightarrow> string + config" where
  "config_from_file read_file parse_yaml sc misfit path =
     (case read_file path of
        Inl e \<Rightarrow> Err e
      | Inr content \<Rightarrow>
          (case parse_yaml content of
             Inl e \<Rightarrow> Err e
           | Inr v \<Rightarrow> (case de_config sc v of None \<Rightarrow> Err misfit | Some c \<Rightarrow> Ok c)))"

subsection \<open>Properties\<close>





text \<open>One section that does not fit rejects the whole file, also on a reload, which then keeps what it has.\<close>

lemma misfit_rejects_the_file:
  assumes "read_file path = Ok content" and "parse_yaml content = Ok (YMap m)" and "map_of m k = Some v"
    and "k = ''quarry'' \<and> de_quarry sc v = None \<or> k = ''gateway'' \<and> de_gateway sc v = None"
  shows "config_from_file read_file parse_yaml sc misfit path = Err misfit"
  using assms by (auto simp: config_from_file_def de_config_def y_required_def y_default_def bind_eq_None_conv)

end
