(* ===== verification/Adapters.thy ===== *)
theory Adapters
  imports Channels
begin

section \<open>Adapters at work (\<open>src/channels\<close>)\<close>

text \<open>
  The life of an adapter: what starting and stopping it does to its health and to the tasks of
  the runtime, and the loops those tasks run - the connection of Slack's Socket Mode with its
  growing pauses, the long polling of Telegram, the polling of the inbox - and the token Teams
  replies with. A loop is a fold over what its rounds meet; the network, the clock and the JSON
  reader are parameters.
\<close>

subsection \<open>Life cycle\<close>

datatype channel_kind =
    DiscordKind
  | WhatsAppKind
  | TelegramKind
  | TelegramPollKind
  | SlackKind
  | SlackSocketKind (socket_app_token: "string option")
  | SmsKind
  | WebhookKind
  | WebchatKind
  | EmailKind
  | TeamsKind
  | TestKind

fun channel_name :: "channel_kind \<Rightarrow> string" where
  "channel_name DiscordKind = ''discord''"
| "channel_name WhatsAppKind = ''whatsapp''"
| "channel_name TelegramKind = ''telegram''"
| "channel_name TelegramPollKind = ''telegram-longpoll''"
| "channel_name SlackKind = ''slack''"
| "channel_name (SlackSocketKind _) = ''slack-socket''"
| "channel_name SmsKind = ''sms''"
| "channel_name WebhookKind = ''webhook''"
| "channel_name WebchatKind = ''webchat''"
| "channel_name EmailKind = ''email''"
| "channel_name TeamsKind = ''teams''"
| "channel_name TestKind = ''testchan''"

text \<open>The cell of the health, the flag of the adapters that have one instead, the handle of the task
  that an adapter keeps, and the sessions of the web chat.\<close>

record channel_adapter =
  ad_kind :: channel_kind
  ad_health :: channel_health
  ad_running :: bool
  ad_task :: "nat option"
  ad_sessions :: "string list"

text \<open>The tasks that run, by number.\<close>

record runtime =
  rt_next :: nat
  rt_tasks :: "nat list"

definition spawn :: "runtime \<Rightarrow> nat \<times> runtime" where
  "spawn r = (rt_next r, \<lparr>rt_next = Suc (rt_next r), rt_tasks = rt_tasks r @ [rt_next r]\<rparr>)"

definition abort :: "nat option \<Rightarrow> runtime \<Rightarrow> runtime" where
  "abort h r = (case h of None \<Rightarrow> r | Some t \<Rightarrow> r\<lparr>rt_tasks := removeAll t (rt_tasks r)\<rparr>)"

fun new_adapter :: "channel_kind \<Rightarrow> channel_adapter" where
  "new_adapter k =
     \<lparr>ad_kind = k, ad_health = (if k = DiscordKind then Healthy else Unhealthy ''not started''), ad_running = False,
      ad_task = None, ad_sessions = []\<rparr>"

definition with_task :: "channel_adapter \<Rightarrow> runtime \<Rightarrow> (string + unit) \<times> channel_adapter \<times> runtime" where
  "with_task a r = (let (t, r1) = spawn r in (Ok (), a\<lparr>ad_health := Healthy, ad_task := Some t\<rparr>, r1))"

text \<open>Starting. Discord's client is built first, which may fail; the task that runs it is not kept.\<close>

definition discord_start :: "string + unit \<Rightarrow> channel_adapter \<Rightarrow> runtime \<Rightarrow> (string + unit) \<times> channel_adapter \<times> runtime" where
  "discord_start client a r =
     (case client of Inl e \<Rightarrow> (Err e, a, r) | Inr _ \<Rightarrow> (Ok (), a, snd (spawn r)))"

definition slack_socket_start :: "string option \<Rightarrow> channel_adapter \<Rightarrow> runtime \<Rightarrow> (string + unit) \<times> channel_adapter \<times> runtime" where
  "slack_socket_start token a r =
     (case token of
        None \<Rightarrow> (Err ''Slack Socket Mode requires app_token (xapp-...)'', a, r)
      | Some _ \<Rightarrow> with_task a r)"

definition telegram_poll_start :: "channel_adapter \<Rightarrow> runtime \<Rightarrow> (string + unit) \<times> channel_adapter \<times> runtime" where
  "telegram_poll_start a r = with_task a r"

definition email_start :: "channel_adapter \<Rightarrow> runtime \<Rightarrow> (string + unit) \<times> channel_adapter \<times> runtime" where
  "email_start a r = with_task a r"

definition teams_start :: "channel_adapter \<Rightarrow> runtime \<Rightarrow> (string + unit) \<times> channel_adapter \<times> runtime" where
  "teams_start a r = (Ok (), a\<lparr>ad_running := True\<rparr>, r)"

definition test_start :: "channel_adapter \<Rightarrow> runtime \<Rightarrow> (string + unit) \<times> channel_adapter \<times> runtime" where
  "test_start a r = (Ok (), a\<lparr>ad_running := True\<rparr>, r)"

text \<open>The adapters whose messages come through the HTTP server have nothing to run.\<close>

definition webhook_mode_start :: "channel_adapter \<Rightarrow> runtime \<Rightarrow> (string + unit) \<times> channel_adapter \<times> runtime" where
  "webhook_mode_start a r = (Ok (), a\<lparr>ad_health := Healthy\<rparr>, r)"

definition start_adapter :: "string + unit \<Rightarrow> channel_adapter \<Rightarrow> runtime \<Rightarrow> (string + unit) \<times> channel_adapter \<times> runtime" where
  "start_adapter discord_client a r =
     (case ad_kind a of
        DiscordKind \<Rightarrow> discord_start discord_client a r
      | SlackSocketKind token \<Rightarrow> slack_socket_start token a r
      | TelegramPollKind \<Rightarrow> telegram_poll_start a r
      | EmailKind \<Rightarrow> email_start a r
      | TeamsKind \<Rightarrow> teams_start a r
      | TestKind \<Rightarrow> test_start a r
      | _ \<Rightarrow> webhook_mode_start a r)"

lemmas starts = start_adapter_def discord_start_def slack_socket_start_def telegram_poll_start_def email_start_def
  teams_start_def test_start_def webhook_mode_start_def with_task_def

definition discord_stop :: "channel_adapter \<Rightarrow> runtime \<Rightarrow> channel_adapter \<times> runtime" where
  "discord_stop a r = (a\<lparr>ad_health := Unhealthy ''Shutting down''\<rparr>, r)"

definition stop_task :: "string \<Rightarrow> channel_adapter \<Rightarrow> runtime \<Rightarrow> channel_adapter \<times> runtime" where
  "stop_task reason a r = (a\<lparr>ad_task := None, ad_health := Unhealthy reason\<rparr>, abort (ad_task a) r)"

definition slack_socket_stop :: "channel_adapter \<Rightarrow> runtime \<Rightarrow> channel_adapter \<times> runtime" where
  "slack_socket_stop a r = stop_task ''stopped'' a r"

definition telegram_poll_stop :: "channel_adapter \<Rightarrow> runtime \<Rightarrow> channel_adapter \<times> runtime" where
  "telegram_poll_stop a r = stop_task ''shutting down'' a r"

definition email_stop :: "channel_adapter \<Rightarrow> runtime \<Rightarrow> channel_adapter \<times> runtime" where
  "email_stop a r = stop_task ''stopped'' a r"

definition webchat_stop :: "channel_adapter \<Rightarrow> runtime \<Rightarrow> channel_adapter \<times> runtime" where
  "webchat_stop a r = (a\<lparr>ad_sessions := [], ad_health := Unhealthy ''stopped''\<rparr>, r)"

definition teams_stop :: "channel_adapter \<Rightarrow> runtime \<Rightarrow> channel_adapter \<times> runtime" where
  "teams_stop a r = (a\<lparr>ad_running := False\<rparr>, r)"

definition test_stop :: "channel_adapter \<Rightarrow> runtime \<Rightarrow> channel_adapter \<times> runtime" where
  "test_stop a r = (a\<lparr>ad_running := False\<rparr>, r)"

definition webhook_mode_stop :: "string \<Rightarrow> channel_adapter \<Rightarrow> runtime \<Rightarrow> channel_adapter \<times> runtime" where
  "webhook_mode_stop reason a r = (a\<lparr>ad_health := Unhealthy reason\<rparr>, r)"

definition stop_adapter :: "channel_adapter \<Rightarrow> runtime \<Rightarrow> channel_adapter \<times> runtime" where
  "stop_adapter a r =
     (case ad_kind a of
        DiscordKind \<Rightarrow> discord_stop a r
      | SlackSocketKind _ \<Rightarrow> slack_socket_stop a r
      | TelegramPollKind \<Rightarrow> telegram_poll_stop a r
      | EmailKind \<Rightarrow> email_stop a r
      | WebchatKind \<Rightarrow> webchat_stop a r
      | TeamsKind \<Rightarrow> teams_stop a r
      | TestKind \<Rightarrow> test_stop a r
      | SmsKind \<Rightarrow> webhook_mode_stop ''stopped'' a r
      | WebhookKind \<Rightarrow> webhook_mode_stop ''stopped'' a r
      | _ \<Rightarrow> webhook_mode_stop ''shutting down'' a r)"

lemmas stops = stop_adapter_def discord_stop_def stop_task_def slack_socket_stop_def telegram_poll_stop_def
  email_stop_def webchat_stop_def teams_stop_def test_stop_def webhook_mode_stop_def abort_def

text \<open>What an adapter says of itself where its lock may be waited for.\<close>

definition adapter_health :: "channel_adapter \<Rightarrow> channel_health" where
  "adapter_health a =
     (case ad_kind a of
        TestKind \<Rightarrow> Healthy
      | TeamsKind \<Rightarrow> (if ad_running a then Healthy else Unhealthy ''channel not started'')
      | _ \<Rightarrow> ad_health a)"

definition adapter_is_running :: "channel_adapter \<Rightarrow> bool" where
  "adapter_is_running a =
     (if ad_kind a = TeamsKind \<or> ad_kind a = TestKind then ad_running a
      else if ad_kind a \<in> {DiscordKind, WhatsAppKind, TelegramKind, TelegramPollKind, SlackKind}
      then is_operational (ad_health a) else is_healthy (ad_health a))"

text \<open>Telling the gateway's channels: starting ends at the first that fails, stopping goes on.\<close>

fun start_adapters :: "string + unit \<Rightarrow> channel_adapter list \<Rightarrow> runtime \<Rightarrow> (string + unit) \<times> channel_adapter list \<times> runtime" where
  "start_adapters dc [] r = (Ok (), [], r)"
| "start_adapters dc (a # as) r =
     (case start_adapter dc a r of
        (Inl e, a', r') \<Rightarrow> (Err e, a' # as, r')
      | (Inr _, a', r') \<Rightarrow> (case start_adapters dc as r' of (res, as', r'') \<Rightarrow> (res, a' # as', r'')))"

fun stop_adapters :: "channel_adapter list \<Rightarrow> runtime \<Rightarrow> channel_adapter list \<times> runtime" where
  "stop_adapters [] r = ([], r)"
| "stop_adapters (a # as) r =
     (case stop_adapter a r of (a', r') \<Rightarrow> (case stop_adapters as r' of (as', r'') \<Rightarrow> (a' # as', r'')))"

subsection \<open>Slack's Socket Mode\<close>

datatype ws_frame = WsText string | WsClose | WsPing string | WsOther | WsError string

datatype ws_sent = WsAck json | WsPong string

text \<open>One round: the address is not given, the connection is not made, or it is and these frames arrive
  until the stream ends.\<close>

datatype connection = OpenError string | ConnectError string | Connected "ws_frame list"

record socket_state =
  sl_delay :: nat
  sl_health :: channel_health
  sl_queue :: "message list"
  sl_sent :: "ws_sent list"
  sl_pauses :: "nat list"

definition max_delay :: nat where "max_delay = 60"

definition pause :: "socket_state \<Rightarrow> socket_state" where
  "pause s = s\<lparr>sl_pauses := sl_pauses s @ [sl_delay s], sl_delay := min (sl_delay s * 2) max_delay\<rparr>"

definition opt_list :: "'a option \<Rightarrow> 'a list" where
  "opt_list x = (case x of None \<Rightarrow> [] | Some a \<Rightarrow> [a])"

fun read_frames ::
    "(string \<Rightarrow> json option) \<Rightarrow> (nat \<Rightarrow> stamp) \<Rightarrow> string \<Rightarrow> ws_frame list \<Rightarrow> socket_state \<Rightarrow> bool \<times> socket_state" where
  "read_frames decode st ch [] s = (False, s)"
| "read_frames decode st ch (WsText t # fs) s =
     (let r = socket_frame decode (st (length (sl_queue s))) ch t in
      if fr_reconnect r then (True, s)
      else read_frames decode st ch fs
        (s\<lparr>sl_sent := sl_sent s @ map WsAck (opt_list (fr_ack r)), sl_queue := sl_queue s @ opt_list (fr_message r)\<rparr>))"
| "read_frames decode st ch (WsClose # fs) s = (True, s)"
| "read_frames decode st ch (WsPing d # fs) s = read_frames decode st ch fs (s\<lparr>sl_sent := sl_sent s @ [WsPong d]\<rparr>)"
| "read_frames decode st ch (WsOther # fs) s = read_frames decode st ch fs s"
| "read_frames decode st ch (WsError e # fs) s = (True, s)"

definition socket_round ::
    "(string \<Rightarrow> json option) \<Rightarrow> (nat \<Rightarrow> stamp) \<Rightarrow> string \<Rightarrow> connection \<Rightarrow> socket_state \<Rightarrow> socket_state" where
  "socket_round decode st ch c s =
     (case c of
        OpenError e \<Rightarrow> pause (s\<lparr>sl_health := Unhealthy (''connection open error: '' @ e)\<rparr>)
      | ConnectError e \<Rightarrow> pause (s\<lparr>sl_health := Unhealthy (''WS connect error: '' @ e)\<rparr>)
      | Connected fs \<Rightarrow>
          (case read_frames decode st ch fs (s\<lparr>sl_delay := 1, sl_health := Healthy\<rparr>) of
             (reconnect, s') \<Rightarrow> if reconnect then pause (s'\<lparr>sl_health := Unhealthy ''reconnecting''\<rparr>) else s'))"

definition socket_initial :: socket_state where
  "socket_initial = \<lparr>sl_delay = 1, sl_health = Healthy, sl_queue = [], sl_sent = [], sl_pauses = []\<rparr>"

definition socket_mode_loop ::
    "(string \<Rightarrow> json option) \<Rightarrow> (nat \<Rightarrow> stamp) \<Rightarrow> string \<Rightarrow> connection list \<Rightarrow> socket_state" where
  "socket_mode_loop decode st ch cs = fold (socket_round decode st ch) cs socket_initial"

text \<open>The address of the connection.\<close>

record conn_resp =
  cr_ok :: bool
  cr_url :: "string option"
  cr_error :: "string option"

definition de_conn_resp :: "json \<Rightarrow> conn_resp option" where
  "de_conn_resp v = Option.bind (de_fields [''ok'', ''url'', ''error''] v) (\<lambda>m.
     Option.bind (req m ''ok'' de_bool) (\<lambda>b.
     Option.bind (dflt m ''url'' (de_option as_str) None) (\<lambda>u.
     Option.bind (dflt m ''error'' (de_option as_str) None) (\<lambda>e.
     Some \<lparr>cr_ok = b, cr_url = u, cr_error = e\<rparr>))))"

definition open_request :: "string \<Rightarrow> outgoing" where
  "open_request app_token = HttpPost ''https://slack.com/api/apps.connections.open'' (Bearer app_token) (Form [])"

definition open_connection :: "net \<Rightarrow> string \<Rightarrow> string \<Rightarrow> string + string" where
  "open_connection nw misfit app_token =
     try_bind (nt_post nw (open_request app_token)) (\<lambda>p.
       try_bind (hr_json p) (\<lambda>j.
         case de_conn_resp j of
           None \<Rightarrow> Err misfit
         | Some r \<Rightarrow>
             if \<not> cr_ok r
             then Err (''apps.connections.open failed: '' @ (case cr_error r of Some e \<Rightarrow> e | None \<Rightarrow> []))
             else (case cr_url r of Some u \<Rightarrow> Ok u | None \<Rightarrow> Err ''apps.connections.open returned no URL'')))"

subsection \<open>Telegram's long polling\<close>

datatype poll_answer = PollFailed string | PollNotJson string | PollBody json

record poll_loop =
  pl_poll :: tg_poll
  pl_health :: channel_health
  pl_pauses :: "nat list"

definition POLL_TIMEOUT_SECS :: nat where "POLL_TIMEOUT_SECS = 30"

definition BACKOFF_SECS :: nat where "BACKOFF_SECS = 5"

definition poll_url :: "string \<Rightarrow> int \<Rightarrow> string" where
  "poll_url bot_token offset =
     ''https://api.telegram.org/bot'' @ bot_token @ ''/getUpdates?timeout='' @ show_nat POLL_TIMEOUT_SECS
     @ ''&offset='' @ show_int offset"

definition back_off :: "poll_loop \<Rightarrow> poll_loop" where
  "back_off s = s\<lparr>pl_pauses := pl_pauses s @ [BACKOFF_SECS]\<rparr>"

definition poll_round ::
    "(json \<Rightarrow> string + tg_update) \<Rightarrow> (nat \<Rightarrow> stamp) \<Rightarrow> poll_answer \<Rightarrow> poll_loop \<Rightarrow> poll_loop" where
  "poll_round decode st answer s =
     (case answer of
        PollFailed e \<Rightarrow> back_off (s\<lparr>pl_health := Degraded (''poll error: '' @ e)\<rparr>)
      | PollNotJson e \<Rightarrow> back_off (s\<lparr>pl_health := Healthy\<rparr>)
      | PollBody b \<Rightarrow>
          (let s1 = s\<lparr>pl_health := Healthy\<rparr> in
           if jindex b ''ok'' \<noteq> JBool True then back_off s1
           else (case jindex b ''result'' of
                   JArray vs \<Rightarrow> s1\<lparr>pl_poll := poll_batch decode st vs (pl_poll s1)\<rparr>
                 | _ \<Rightarrow> s1)))"

definition poll_start :: poll_loop where
  "poll_start = \<lparr>pl_poll = \<lparr>tp_offset = 0, tp_queue = []\<rparr>, pl_health = Healthy, pl_pauses = []\<rparr>"

text \<open>Each round is the server's answer to the request for what starts at the offset.\<close>

definition telegram_loop ::
    "(json \<Rightarrow> string + tg_update) \<Rightarrow> (nat \<Rightarrow> stamp) \<Rightarrow> (int \<Rightarrow> poll_answer) list \<Rightarrow> poll_loop" where
  "telegram_loop decode st servers =
     fold (\<lambda>server s. poll_round decode st (server (tp_offset (pl_poll s))) s) servers poll_start"

subsection \<open>The inbox\<close>

record mail_loop =
  ml_inbox :: inbox
  ml_healths :: "channel_health list"
  ml_pauses :: "nat list"

definition imap_round ::
    "(nat \<Rightarrow> string \<Rightarrow> message option option) \<Rightarrow> (nat \<Rightarrow> string + (nat option \<times> string option) list)
     \<Rightarrow> mail_loop \<Rightarrow> mail_loop" where
  "imap_round parse server s =
     (let s1 = s\<lparr>ml_inbox := poll_inbox parse server (ml_inbox s)\<rparr> in
      case server (ib_last_uid (ml_inbox s)) of
        Inl e \<Rightarrow> s1\<lparr>ml_healths := ml_healths s @ [Unhealthy (''IMAP error: '' @ e), Healthy],
                   ml_pauses := ml_pauses s @ [5, 30]\<rparr>
      | Inr _ \<Rightarrow> s1\<lparr>ml_pauses := ml_pauses s @ [30]\<rparr>)"

subsection \<open>The token of Teams\<close>

text \<open>Instants are nanoseconds; one past the range of the clock's seconds is a panic.\<close>

definition NANOS :: nat where "NANOS = 10 ^ 9"

definition instant_plus :: "nat \<Rightarrow> nat \<Rightarrow> nat option" where
  "instant_plus t secs = (if t div NANOS + secs < 2 ^ 63 then Some (t + secs * NANOS) else None)"

record token_cache =
  tc_token :: string
  tc_expires_at :: nat

definition de_token_response :: "json \<Rightarrow> (string \<times> nat) option" where
  "de_token_response v = Option.bind (de_fields [''access_token'', ''expires_in''] v) (\<lambda>m.
     Option.bind (req m ''access_token'' as_str) (\<lambda>t.
     Option.bind (req m ''expires_in'' (de_uint 64)) (\<lambda>n. Some (t, n))))"

definition token_request :: "string \<Rightarrow> string \<Rightarrow> outgoing" where
  "token_request app_id app_password =
     HttpPost ''https://login.microsoftonline.com/botframework.com/oauth2/v2.0/token'' NoCredentials
       (Form [(''grant_type'', ''client_credentials''), (''client_id'', app_id), (''client_secret'', app_password),
              (''scope'', ''https://api.botframework.com/.default'')])"

definition fetch_token :: "net \<Rightarrow> string \<Rightarrow> outgoing \<Rightarrow> string + string \<times> nat" where
  "fetch_token nw misfit q =
     try_bind (post nw ''token request failed'' ''token endpoint returned'' q) (\<lambda>p.
       case hr_json p of
         Inl e \<Rightarrow> Err (''failed to parse token response: '' @ e)
       | Inr j \<Rightarrow> (case de_token_response j of
                     None \<Rightarrow> Err (''failed to parse token response: '' @ misfit)
                   | Some r \<Rightarrow> Ok r))"

text \<open>The first reading of the clock is for the cached token, the second after the fetch. The result
  tells whether a request was made; \<open>None\<close> is the panic.\<close>

definition refresh_token ::
    "net \<Rightarrow> string \<Rightarrow> outgoing \<Rightarrow> nat \<Rightarrow> token_cache option \<Rightarrow> ((string + string) \<times> token_cache option \<times> bool) option" where
  "refresh_token nw misfit q later cache =
     (case fetch_token nw misfit q of
        Inl e \<Rightarrow> Some (Err e, cache, True)
      | Inr (t, secs) \<Rightarrow>
          map_option (\<lambda>x. (Ok t, Some \<lparr>tc_token = t, tc_expires_at = x\<rparr>, True)) (instant_plus later secs))"

definition get_token ::
    "net \<Rightarrow> string \<Rightarrow> outgoing \<Rightarrow> nat \<Rightarrow> nat \<Rightarrow> token_cache option
     \<Rightarrow> ((string + string) \<times> token_cache option \<times> bool) option" where
  "get_token nw misfit q now later cache =
     (case cache of
        None \<Rightarrow> refresh_token nw misfit q later cache
      | Some c \<Rightarrow> Option.bind (instant_plus now 60) (\<lambda>soon.
          if soon < tc_expires_at c then Some (Ok (tc_token c), cache, False)
          else refresh_token nw misfit q later cache))"

text \<open>A reply gets its token only when it has somewhere to go.\<close>

definition teams_reply ::
    "net \<Rightarrow> string \<Rightarrow> outgoing \<Rightarrow> nat \<Rightarrow> nat \<Rightarrow> message \<Rightarrow> token_cache option
     \<Rightarrow> ((string + unit) \<times> token_cache option) option" where
  "teams_reply nw misfit q now later m cache =
     (if str_or [] (jindex (ms_metadata m) ''service_url'') = [] then Some (Ok (), cache)
      else map_option (\<lambda>(token, cache', _). (teams_send nw token m, cache')) (get_token nw misfit q now later cache))"


subsection \<open>What stopping leaves running\<close>

definition handles :: "channel_adapter list \<Rightarrow> nat set" where
  "handles as = {t. \<exists>a \<in> set as. ad_task a = Some t}"

lemma handles_simps [simp]: "handles [] = {}" "handles (a # as) = set_option (ad_task a) \<union> handles as"
  by (auto simp: handles_def elem_set)

lemma spawn_simps: "spawn r = (rt_next r, \<lparr>rt_next = Suc (rt_next r), rt_tasks = rt_tasks r @ [rt_next r]\<rparr>)"
  by (simp add: spawn_def)

lemma unstarted_task [simp]: "ad_task (new_adapter k) = None" "ad_kind (new_adapter k) = k"
  by simp_all

declare new_adapter.simps [simp del]

fun keeps_task :: "channel_kind \<Rightarrow> bool" where
  "keeps_task (SlackSocketKind _) = True"
| "keeps_task TelegramPollKind = True"
| "keeps_task EmailKind = True"
| "keeps_task _ = False"

text \<open>One start spawns at most one task, whose handle the adapter keeps unless it is Discord's.\<close>

lemma start_adapter_task:
  assumes "start_adapter dc (new_adapter k) r = (res, a, r')"
  shows "ad_kind a = k"
    and "rt_next r' = rt_next r \<and> rt_tasks r' = rt_tasks r \<and> ad_task a = None \<and> (k = DiscordKind \<longrightarrow> res \<noteq> Ok ())
      \<or> rt_next r' = Suc (rt_next r) \<and> rt_tasks r' = rt_tasks r @ [rt_next r]
        \<and> ad_task a = (if k = DiscordKind then None else Some (rt_next r)) \<and> (k = DiscordKind \<or> keeps_task k)"
  using assms
  by (cases k; auto simp: starts spawn_simps split: sum.splits option.splits)+

definition taskless :: "channel_adapter \<Rightarrow> bool" where
  "taskless a \<longleftrightarrow> (\<not> keeps_task (ad_kind a) \<longrightarrow> ad_task a = None)"

definition started_tasks :: "channel_kind list \<Rightarrow> bool \<Rightarrow> runtime \<Rightarrow> channel_adapter list \<Rightarrow> runtime \<Rightarrow> bool" where
  "started_tasks ks ok r as r' \<longleftrightarrow>
     rt_next r \<le> rt_next r' \<and> set (rt_tasks r') = set (rt_tasks r) \<union> {rt_next r ..< rt_next r'}
     \<and> handles as \<subseteq> {rt_next r ..< rt_next r'} \<and> list_all taskless as
     \<and> (DiscordKind \<notin> set ks \<longrightarrow> handles as = {rt_next r ..< rt_next r'})
     \<and> (ok \<longrightarrow> card ({rt_next r ..< rt_next r'} - handles as) = count_list ks DiscordKind)"

lemma started_tasks_step:
  assumes "rt_next r1 = Suc (rt_next r) \<and> rt_tasks r1 = rt_tasks r @ [rt_next r]
      \<and> ad_task a = (if k = DiscordKind then None else Some (rt_next r)) \<and> taskless a
    \<or> rt_next r1 = rt_next r \<and> rt_tasks r1 = rt_tasks r \<and> ad_task a = None \<and> k \<noteq> DiscordKind"
    and "started_tasks ks ok r1 as r'"
  shows "started_tasks (k # ks) ok r (a # as) r'"
proof -
  note rest = assms(2) [unfolded started_tasks_def]
  consider (kept) "rt_next r1 = Suc (rt_next r)" "rt_tasks r1 = rt_tasks r @ [rt_next r]" "k \<noteq> DiscordKind"
      "ad_task a = Some (rt_next r)" "taskless a"
    | (lost) "rt_next r1 = Suc (rt_next r)" "rt_tasks r1 = rt_tasks r @ [rt_next r]" "k = DiscordKind"
      "ad_task a = None"
    | (none) "rt_next r1 = rt_next r" "rt_tasks r1 = rt_tasks r" "ad_task a = None" "k \<noteq> DiscordKind"
    using assms(1) by (auto split: if_splits)
  then show ?thesis
  proof cases
    case kept
    have range: "{rt_next r ..< rt_next r'} = insert (rt_next r) {rt_next r1 ..< rt_next r'}"
      using rest kept by auto
    have "{rt_next r ..< rt_next r'} - handles (a # as) = {rt_next r1 ..< rt_next r'} - handles as"
      using rest kept by (auto simp: range)
    then show ?thesis using rest kept range by (auto simp: started_tasks_def)
  next
    case lost
    have range: "{rt_next r ..< rt_next r'} = insert (rt_next r) {rt_next r1 ..< rt_next r'}"
      using rest lost by auto
    have left: "{rt_next r ..< rt_next r'} - handles (a # as) = insert (rt_next r) ({rt_next r1 ..< rt_next r'} - handles as)"
      using rest lost by (auto simp: range)
    have "rt_next r \<notin> {rt_next r1 ..< rt_next r'} - handles as" using lost by simp
    then have "card ({rt_next r ..< rt_next r'} - handles (a # as)) = Suc (card ({rt_next r1 ..< rt_next r'} - handles as))"
      unfolding left by (intro card_insert_disjoint) auto
    then show ?thesis using rest lost range by (auto simp: started_tasks_def taskless_def)
  next
    case none
    then show ?thesis using rest by (auto simp: started_tasks_def taskless_def)
  qed
qed

lemma started_tasks_unstarted:
  assumes "\<not> ok"
  shows "started_tasks ks ok r (map new_adapter ks') r"
  using assms by (auto simp: started_tasks_def handles_def taskless_def list_all_iff)

lemma start_adapters_tasks:
  "start_adapters dc (map new_adapter ks) r = (res, as, r') \<Longrightarrow> started_tasks ks (is_ok res) r as r' \<and> map ad_kind as = ks"
proof (induction ks arbitrary: r res as)
  case Nil
  then show ?case by (auto simp: started_tasks_def)
next
  case (Cons k ks)
  obtain res1 a r1 where 1: "start_adapter dc (new_adapter k) r = (res1, a, r1)" by (rule prod_cases3)
  note one = start_adapter_task [OF 1]
  show ?case
  proof (cases res1)
    case (Inl e)
    then have eqs: "as = a # map new_adapter ks" "r' = r1" "res = Err e" using Cons.prems 1 by auto
    have "r1 = r \<and> ad_task a = None" using Inl 1
      by (cases k; auto simp: starts spawn_simps split: sum.splits option.splits)
    then show ?thesis
      using one(1) by (auto simp: eqs started_tasks_def handles_def taskless_def list_all_iff comp_def)
  next
    case (Inr u)
    obtain as1 where rest: "start_adapters dc (map new_adapter ks) r1 = (res, as1, r')" and as: "as = a # as1"
      using Cons.prems 1 Inr by (auto split: prod.splits)
    have "started_tasks (k # ks) (is_ok res) r (a # as1) r'"
      by (rule started_tasks_step [of r1]) (use one Inr Cons.IH [OF rest] in \<open>auto simp: taskless_def\<close>)
    then show ?thesis using one(1) Cons.IH [OF rest] by (simp add: as)
  qed
qed

lemma stop_adapter_tasks:
  assumes "taskless a"
  shows "set (rt_tasks (snd (stop_adapter a r))) = set (rt_tasks r) - set_option (ad_task a)"
    and "ad_kind (fst (stop_adapter a r)) = ad_kind a"
    and "\<not> adapter_is_running (fst (stop_adapter a r))"
    and "ad_kind a \<noteq> TestKind \<Longrightarrow> \<not> is_operational (adapter_health (fst (stop_adapter a r)))"
  using assms
  by (auto simp: stops taskless_def adapter_is_running_def adapter_health_def split: option.splits channel_kind.splits)

lemma stop_adapters_tasks:
  "list_all taskless as \<Longrightarrow> set (rt_tasks (snd (stop_adapters as r))) = set (rt_tasks r) - handles as
    \<and> (\<forall>a \<in> set (fst (stop_adapters as r)). \<not> adapter_is_running a
         \<and> (ad_kind a \<noteq> TestKind \<longrightarrow> \<not> is_operational (adapter_health a)))"
proof (induction as arbitrary: r)
  case (Cons a as)
  then have a: "taskless a" and as: "list_all taskless as" by simp_all
  note one = stop_adapter_tasks [OF a]
  show ?case
    using one [of r] Cons.IH [OF as, of "snd (stop_adapter a r)"] by (auto split: prod.splits)
qed simp

subsection \<open>The frames of a connection\<close>

definition ends_connection :: "(string \<Rightarrow> json option) \<Rightarrow> ws_frame \<Rightarrow> bool" where
  "ends_connection decode f =
     (case f of WsText t \<Rightarrow> fr_reconnect (socket_frame decode ([], 0) [] t) | WsClose \<Rightarrow> True | WsError _ \<Rightarrow> True | _ \<Rightarrow> False)"

definition frame_answer :: "(string \<Rightarrow> json option) \<Rightarrow> ws_frame \<Rightarrow> ws_sent list" where
  "frame_answer decode f =
     (case f of WsText t \<Rightarrow> map WsAck (opt_list (fr_ack (socket_frame decode ([], 0) [] t))) | WsPing d \<Rightarrow> [WsPong d] | _ \<Rightarrow> [])"

definition unstamped :: "message \<Rightarrow> message" where
  "unstamped m = m\<lparr>ms_id := [], ms_timestamp := 0\<rparr>"

definition frame_messages :: "(string \<Rightarrow> json option) \<Rightarrow> string \<Rightarrow> ws_frame \<Rightarrow> message list" where
  "frame_messages decode ch f =
     (case f of WsText t \<Rightarrow> opt_list (fr_message (socket_frame decode ([], 0) ch t)) | _ \<Rightarrow> [])"

lemma socket_frame_stamp:
  "fr_ack (socket_frame decode st ch t) = fr_ack (socket_frame decode ([], 0) [] t)"
  "fr_reconnect (socket_frame decode st ch t) = fr_reconnect (socket_frame decode ([], 0) [] t)"
  "map unstamped (opt_list (fr_message (socket_frame decode st ch t)))
    = opt_list (fr_message (socket_frame decode ([], 0) ch t))"
  by (auto simp: socket_frame_def parse_socket_event_def Let_def unstamped_def new_message_def opt_list_def
      split: option.splits)

lemma read_frames_result:
  "\<exists>s'. read_frames decode st ch fs s = (list_ex (ends_connection decode) fs, s')
    \<and> sl_delay s' = sl_delay s \<and> sl_pauses s' = sl_pauses s \<and> sl_health s' = sl_health s
    \<and> sl_sent s' = sl_sent s @ concat (map (frame_answer decode) (takeWhile (Not \<circ> ends_connection decode) fs))
    \<and> map unstamped (sl_queue s') = map unstamped (sl_queue s)
        @ concat (map (frame_messages decode ch) (takeWhile (Not \<circ> ends_connection decode) fs))"
proof (induction fs arbitrary: s)
  case (Cons f fs)
  have ends: "fr_reconnect (socket_frame decode st ch t) = ends_connection decode (WsText t)" for st t
    using socket_frame_stamp(2) by (simp add: ends_connection_def)
  show ?case
  proof (cases f)
    case (WsText t)
    let ?r = "socket_frame decode (st (length (sl_queue s))) ch t"
    let ?s = "s\<lparr>sl_sent := sl_sent s @ map WsAck (opt_list (fr_ack ?r)), sl_queue := sl_queue s @ opt_list (fr_message ?r)\<rparr>"
    show ?thesis
    proof (cases "ends_connection decode (WsText t)")
      case True
      then show ?thesis by (simp add: WsText Let_def ends)
    next
      case False
      have answers: "frame_answer decode f = map WsAck (opt_list (fr_ack ?r))"
        "frame_messages decode ch f = map unstamped (opt_list (fr_message ?r))"
        using socket_frame_stamp(1) [of decode "st (length (sl_queue s))" ch t]
        by (simp_all add: WsText frame_answer_def frame_messages_def socket_frame_stamp(3))
      show ?thesis using Cons.IH [of ?s] False by (simp add: WsText [symmetric] answers) (simp add: WsText Let_def ends)
    qed
  qed (use Cons.IH [of s] Cons.IH [of "s\<lparr>sl_sent := sl_sent s @ [WsPong d]\<rparr>" for d] in
        \<open>auto simp: ends_connection_def frame_answer_def frame_messages_def\<close>)
qed simp

subsection \<open>The pauses between connections\<close>

fun fails :: "connection \<Rightarrow> bool" where
  "fails (Connected _) = False"
| "fails _ = True"

lemma pause_simps [simp]:
  "sl_pauses (pause s) = sl_pauses s @ [sl_delay s]" "sl_delay (pause s) = min (sl_delay s * 2) 60"
  "sl_health (pause s) = sl_health s" "sl_queue (pause s) = sl_queue s" "sl_sent (pause s) = sl_sent s"
  by (simp_all add: pause_def max_delay_def)

definition paced :: "socket_state \<Rightarrow> bool" where
  "paced s \<longleftrightarrow> 1 \<le> sl_delay s \<and> sl_delay s \<le> 60 \<and> (\<forall>p \<in> set (sl_pauses s). 1 \<le> p \<and> p \<le> 60)"

lemma socket_round_cases:
  "fails c \<Longrightarrow> sl_pauses (socket_round decode st ch c s) = sl_pauses s @ [sl_delay s]
     \<and> sl_delay (socket_round decode st ch c s) = min (sl_delay s * 2) 60"
  "sl_pauses (socket_round decode st ch (Connected fs) s)
     = sl_pauses s @ (if list_ex (ends_connection decode) fs then [1] else [])"
  "sl_delay (socket_round decode st ch (Connected fs) s) = (if list_ex (ends_connection decode) fs then 2 else 1)"
proof -
  show "fails c \<Longrightarrow> sl_pauses (socket_round decode st ch c s) = sl_pauses s @ [sl_delay s]
     \<and> sl_delay (socket_round decode st ch c s) = min (sl_delay s * 2) 60"
    by (cases c) (simp_all add: socket_round_def)
  obtain s' where "read_frames decode st ch fs (s\<lparr>sl_delay := 1, sl_health := Healthy\<rparr>) = (list_ex (ends_connection decode) fs, s')"
    "sl_delay s' = 1" "sl_pauses s' = sl_pauses s"
    using read_frames_result [of decode st ch fs "s\<lparr>sl_delay := 1, sl_health := Healthy\<rparr>"] by auto
  then show "sl_pauses (socket_round decode st ch (Connected fs) s)
     = sl_pauses s @ (if list_ex (ends_connection decode) fs then [1] else [])"
    "sl_delay (socket_round decode st ch (Connected fs) s) = (if list_ex (ends_connection decode) fs then 2 else 1)"
    by (simp_all add: socket_round_def)
qed

lemma paced_round: "paced s \<Longrightarrow> paced (socket_round decode st ch c s)"
  using socket_round_cases(1) [of c decode st ch s] socket_round_cases(2,3) [of decode st ch _ s]
  by (cases c) (auto simp: paced_def)

lemma paced_rounds: "paced s \<Longrightarrow> paced (fold (socket_round decode st ch) cs s)"
  by (induction cs arbitrary: s) (simp_all add: paced_round)

lemma doubled_delay: "min (min (d * 2) 60 * 2 ^ k) 60 = min (d * 2 ^ Suc k) (60::nat)"
proof (cases "d * 2 \<le> 60")
  case False
  have "d * 2 * 1 \<le> d * 2 * 2 ^ k" by (rule mult_le_mono2) simp
  moreover have "d * 2 ^ Suc k = d * 2 * 2 ^ k" by simp
  ultimately have "min (d * 2 ^ Suc k) 60 = 60" using False by linarith
  moreover have "min (d * 2) 60 = 60" using False by linarith
  moreover have "(60::nat) * 1 \<le> 60 * 2 ^ k" by (rule mult_le_mono2) simp
  then have "min (60 * 2 ^ k) (60::nat) = 60" by linarith
  ultimately show ?thesis by (simp only:)
qed (simp add: mult.assoc)

lemma failing_rounds:
  assumes "list_all fails cs" and "sl_delay s \<le> 60"
  shows "sl_pauses (fold (socket_round decode st ch) cs s)
    = sl_pauses s @ map (\<lambda>k. min (sl_delay s * 2 ^ k) 60) [0..<length cs]"
  using assms
proof (induction cs arbitrary: s)
  case (Cons c cs)
  let ?s = "socket_round decode st ch c s"
  have c: "sl_pauses ?s = sl_pauses s @ [sl_delay s]" "sl_delay ?s = min (sl_delay s * 2) 60"
    using Cons.prems socket_round_cases(1) [of c decode st ch s] by auto
  have "map (\<lambda>k. min (sl_delay ?s * 2 ^ k) 60) [0..<length cs]
      = map (\<lambda>k. min (sl_delay s * 2 ^ k) 60) [Suc 0..<Suc (length cs)]"
    by (simp add: c doubled_delay map_Suc_upt [symmetric] del: upt_Suc power_Suc)
  then show ?case
    using Cons.IH [of ?s] Cons.prems
    by (simp add: c upt_conv_Cons [of 0 "Suc (length cs)"] min_absorb1 del: upt_Suc)
qed simp

subsection \<open>Updates and the offset\<close>

definition update_number :: "(json \<Rightarrow> string + tg_update) \<Rightarrow> json \<Rightarrow> int option" where
  "update_number decode v =
     (case decode v of
        Inr u \<Rightarrow> Some (tg_update_id u)
      | Inl _ \<Rightarrow> (case jindex v ''update_id'' of JInt i \<Rightarrow> if in_i64 i then Some i else None | _ \<Rightarrow> None))"

definition update_messages :: "(json \<Rightarrow> string + tg_update) \<Rightarrow> json \<Rightarrow> message list" where
  "update_messages decode v =
     (case decode v of Inr u \<Rightarrow> opt_list (map_option unstamped (parse_update ([], 0) u)) | Inl _ \<Rightarrow> [])"

lemma parse_update_stamp: "map_option unstamped (parse_update st u) = map_option unstamped (parse_update ([], 0) u)"
  by (cases "tg_message u") (auto simp: parse_update_def unstamped_def new_message_def Let_def bind_eq_Some_conv
      split: bind_splits)

lemma poll_update_effect:
  assumes "update_number decode v = Some i" and "0 \<le> i" and "i < 2 ^ 63 - 1"
  shows "tp_offset (poll_update decode st v p) = i + 1
    \<and> map unstamped (tp_queue (poll_update decode st v p)) = map unstamped (tp_queue p) @ update_messages decode v"
proof -
  have "in_i64 (i + 1)" using assms by (simp add: in_i64_def)
  then have w: "wrap_i64 (i + 1) = i + 1" by (rule wrap_i64_id)
  show ?thesis
  proof (cases "decode v")
    case (Inr u)
    have "map unstamped (opt_list (parse_update st u)) = opt_list (map_option unstamped (parse_update ([], 0) u))"
      using parse_update_stamp [of st u]
      by (cases "parse_update st u"; cases "parse_update ([], 0) u") (auto simp: opt_list_def)
    then show ?thesis
      using assms(1) w Inr
      by (auto simp: poll_update_def update_number_def update_messages_def opt_list_def split: option.splits)
  next
    case (Inl e)
    then show ?thesis
      using assms(1) w
      by (cases v) (auto simp: poll_update_def update_number_def update_messages_def split: option.splits json.splits if_splits)
  qed
qed

text \<open>What the server has for the bot: updates with increasing numbers. It answers with the first \<open>n\<close> of
  those from the offset on, of the first \<open>k\<close> it has at the time.\<close>

definition update_log :: "(json \<Rightarrow> string + tg_update) \<Rightarrow> (json \<Rightarrow> int) \<Rightarrow> json list \<Rightarrow> bool" where
  "update_log decode num L \<longleftrightarrow>
     (\<forall>v \<in> set L. update_number decode v = Some (num v) \<and> 0 \<le> num v \<and> num v < 2 ^ 63 - 1) \<and> sorted_wrt (<) (map num L)"

definition telegram_server :: "(json \<Rightarrow> int) \<Rightarrow> json list \<Rightarrow> nat \<Rightarrow> nat \<Rightarrow> int \<Rightarrow> poll_answer" where
  "telegram_server num L k n offset =
     PollBody (JObject [(''ok'', JBool True), (''result'', JArray (take n (filter (\<lambda>v. offset \<le> num v) (take k L))))])"

fun no_answer :: "poll_answer \<Rightarrow> bool" where
  "no_answer (PollBody b) = (jindex b ''ok'' \<noteq> JBool True)"
| "no_answer _ = True"

lemma poll_batch_effect:
  assumes "\<forall>v \<in> set vs. update_number decode v = Some (num v) \<and> 0 \<le> num v \<and> num v < 2 ^ 63 - 1"
  shows "tp_offset (fold (\<lambda>(n, v). poll_update decode (st n) v) (enumerate m vs) p)
      = (if vs = [] then tp_offset p else num (last vs) + 1)
    \<and> map unstamped (tp_queue (fold (\<lambda>(n, v). poll_update decode (st n) v) (enumerate m vs) p))
      = map unstamped (tp_queue p) @ concat (map (update_messages decode) vs)"
  using assms
proof (induction vs arbitrary: m p)
  case (Cons v vs)
  have "tp_offset (poll_update decode (st m) v p) = num v + 1"
    "map unstamped (tp_queue (poll_update decode (st m) v p)) = map unstamped (tp_queue p) @ update_messages decode v"
    using poll_update_effect [of decode v "num v" "st m" p] Cons.prems by auto
  then show ?case using Cons.IH [of "Suc m" "poll_update decode (st m) v p"] Cons.prems by simp
qed simp

lemma sorted_split:
  fixes offset :: int
  assumes "sorted_wrt (<) (map num L)"
  defines "A \<equiv> takeWhile (\<lambda>v. num v < offset) L" and "B \<equiv> dropWhile (\<lambda>v. num v < offset) L"
  shows "filter (\<lambda>v. offset \<le> num v) (take k L) = take (k - length A) B"
proof -
  have L: "L = A @ B" by (simp add: A_def B_def)
  have A: "\<forall>v \<in> set A. num v < offset" by (auto simp: A_def dest: set_takeWhileD)
  have B: "\<forall>v \<in> set B. offset \<le> num v"
  proof (cases B)
    case (Cons b bs)
    then have "offset \<le> num b" using hd_dropWhile [of "\<lambda>v. num v < offset" L] by (simp add: B_def)
    moreover have "\<forall>v \<in> set bs. num b < num v"
      using assms(1) by (simp add: L Cons sorted_wrt_append)
    ultimately show ?thesis using Cons by auto
  qed simp
  have "filter (\<lambda>v. offset \<le> num v) (take k A) = []"
    using A by (fastforce simp: filter_empty_conv dest: in_set_takeD)
  moreover have "filter (\<lambda>v. offset \<le> num v) (take (k - length A) B) = take (k - length A) B"
    using B by (auto simp: filter_id_conv dest: in_set_takeD)
  ultimately show ?thesis by (simp add: L)
qed

lemma takeWhile_taken:
  assumes "sorted_wrt (<) (map num L)" and "L = A @ vs @ C" and "vs \<noteq> []"
  shows "takeWhile (\<lambda>v. num v < num (last vs) + (1::int)) L = A @ vs"
proof -
  have s: "\<forall>v \<in> set (A @ vs). num v \<le> num (last vs)" and c: "\<forall>v \<in> set C. num (last vs) < num v"
  proof -
    obtain ws w where vs: "vs = ws @ [w]" using assms(3) by (cases vs rule: rev_cases) auto
    show "\<forall>v \<in> set (A @ vs). num v \<le> num (last vs)" "\<forall>v \<in> set C. num (last vs) < num v"
      using assms(1) by (auto simp: assms(2) vs sorted_wrt_append)
  qed
  have "takeWhile (\<lambda>v. num v < num (last vs) + 1) C = []"
    using c by (cases C) auto
  then have "takeWhile (\<lambda>v. num v < num (last vs) + 1) ((A @ vs) @ C) = A @ vs"
    using s by (subst takeWhile_append2) (auto simp: le_imp_less_Suc)
  then show ?thesis by (simp add: assms(2))
qed

definition caught_up :: "(json \<Rightarrow> string + tg_update) \<Rightarrow> (json \<Rightarrow> int) \<Rightarrow> json list \<Rightarrow> poll_loop \<Rightarrow> bool" where
  "caught_up decode num L s \<longleftrightarrow>
     map unstamped (tp_queue (pl_poll s))
       = concat (map (update_messages decode) (takeWhile (\<lambda>v. num v < tp_offset (pl_poll s)) L))"

lemma round_catches_up:
  assumes "update_log decode num L" and "caught_up decode num L s"
  shows "caught_up decode num L (poll_round decode st (telegram_server num L k n (tp_offset (pl_poll s))) s)"
proof -
  let ?o = "tp_offset (pl_poll s)"
  let ?A = "takeWhile (\<lambda>v. num v < ?o) L" and ?B = "dropWhile (\<lambda>v. num v < ?o) L"
  define vs where "vs = take n (take (k - length ?A) ?B)"
  have sorted: "sorted_wrt (<) (map num L)" using assms(1) by (simp add: update_log_def)
  have server: "telegram_server num L k n ?o = PollBody (JObject [(''ok'', JBool True), (''result'', JArray vs)])"
    by (simp add: telegram_server_def sorted_split [OF sorted] vs_def)
  define C where "C = drop (min n (k - length ?A)) ?B"
  have L: "L = ?A @ vs @ C" by (simp add: vs_def C_def min.commute)
  have vs: "\<forall>v \<in> set vs. update_number decode v = Some (num v) \<and> 0 \<le> num v \<and> num v < 2 ^ 63 - 1"
    using assms(1) by (subst (asm) L) (auto simp: update_log_def)
  note effect = poll_batch_effect [OF vs, of st 0 "pl_poll s"]
  show ?thesis
  proof (cases "vs = []")
    case True
    then show ?thesis
      using assms(2) by (simp add: caught_up_def poll_round_def server poll_batch_def)
  next
    case False
    then show ?thesis
      using assms(2) effect takeWhile_taken [OF sorted L False]
      by (simp add: caught_up_def poll_round_def server poll_batch_def)
  qed
qed

lemma fruitless_round: "no_answer a \<Longrightarrow> pl_poll (poll_round decode st a s) = pl_poll s"
  by (cases a) (simp_all add: poll_round_def back_off_def)

lemma rounds_catch_up:
  assumes "update_log decode num L"
    and "\<forall>server \<in> set servers. (\<exists>k n. server = telegram_server num L k n) \<or> (\<forall>offset. no_answer (server offset))"
  shows "caught_up decode num L s \<Longrightarrow>
    caught_up decode num L (fold (\<lambda>server s. poll_round decode st (server (tp_offset (pl_poll s))) s) servers s)"
  using assms(2)
proof (induction servers arbitrary: s)
  case (Cons server servers)
  have "caught_up decode num L (poll_round decode st (server (tp_offset (pl_poll s))) s)"
    using Cons.prems round_catches_up [OF assms(1)] fruitless_round [of "server (tp_offset (pl_poll s))" decode st s]
    by (auto simp: caught_up_def)
  then show ?case using Cons.IH Cons.prems(2) by simp
qed simp

lemma full_round_delivers_all:
  assumes "update_log decode num L" and "caught_up decode num L s" and "length L \<le> k" and "length L \<le> n"
  shows "map unstamped (tp_queue (pl_poll (poll_round decode st (telegram_server num L k n (tp_offset (pl_poll s))) s)))
    = concat (map (update_messages decode) L)"
proof -
  let ?o = "tp_offset (pl_poll s)"
  let ?A = "takeWhile (\<lambda>v. num v < ?o) L" and ?B = "dropWhile (\<lambda>v. num v < ?o) L"
  have sorted: "sorted_wrt (<) (map num L)" using assms(1) by (simp add: update_log_def)
  have "length ?A + length ?B = length L" by (metis length_append takeWhile_dropWhile_id)
  then have B: "length ?B \<le> n" "length ?B \<le> k - length ?A" using assms(3,4) by linarith+
  have server: "telegram_server num L k n ?o = PollBody (JObject [(''ok'', JBool True), (''result'', JArray ?B)])"
    by (simp add: telegram_server_def sorted_split [OF sorted] B)
  have "\<forall>v \<in> set ?B. update_number decode v = Some (num v) \<and> 0 \<le> num v \<and> num v < 2 ^ 63 - 1"
    using assms(1) by (auto simp: update_log_def dest: set_dropWhileD)
  note effect = poll_batch_effect [OF this, of st 0 "pl_poll s"]
  have "map unstamped (tp_queue (pl_poll (poll_round decode st (telegram_server num L k n ?o) s)))
      = concat (map (update_messages decode) ?A) @ concat (map (update_messages decode) ?B)"
    using assms(2) effect by (simp add: caught_up_def poll_round_def server poll_batch_def)
  then show ?thesis by (simp flip: concat_append map_append)
qed

subsection \<open>Requests for a token\<close>

fun calls_in_order :: "nat \<Rightarrow> (nat \<times> nat) list \<Rightarrow> nat \<Rightarrow> bool" where
  "calls_in_order a [] b = (a \<le> b)"
| "calls_in_order a ((now, later) # ts) b = (a \<le> now \<and> now \<le> later \<and> calls_in_order later ts b)"

text \<open>The tokens a series of calls is given and the number of requests it makes.\<close>

fun token_calls ::
    "net \<Rightarrow> string \<Rightarrow> outgoing \<Rightarrow> (nat \<times> nat) list \<Rightarrow> token_cache option \<Rightarrow> ((string + string) list \<times> nat) option" where
  "token_calls nw misfit q [] cache = Some ([], 0)"
| "token_calls nw misfit q ((now, later) # ts) cache =
     Option.bind (get_token nw misfit q now later cache) (\<lambda>(r, cache', asked).
       map_option (\<lambda>(rs, n). (r # rs, n + (if asked then 1 else 0))) (token_calls nw misfit q ts cache'))"

lemma in_order_le: "calls_in_order a ts b \<Longrightarrow> a \<le> b"
  by (induction a ts b rule: calls_in_order.induct) auto

lemma instant_plus_Some:
  assumes "t \<le> b" and "b div NANOS + secs < 2 ^ 63"
  shows "instant_plus t secs = Some (t + secs * NANOS)"
  using assms div_le_mono [OF assms(1), of NANOS] by (simp add: instant_plus_def)

lemma token_calls_bound:
  assumes "fetch_token nw misfit q = Inr (t, e)" and "60 < e" and "b div NANOS + e < 2 ^ 63"
  shows "calls_in_order a ts b \<Longrightarrow>
    \<exists>n. token_calls nw misfit q ts (Some \<lparr>tc_token = t, tc_expires_at = a + e * NANOS\<rparr>) = Some (replicate (length ts) (Ok t), n)
      \<and> n * ((e - 60) * NANOS) \<le> b - a"
proof (induction ts arbitrary: a)
  case (Cons x ts)
  obtain now later where x: "x = (now, later)" by force
  have o: "a \<le> now" "now \<le> later" "calls_in_order later ts b" using Cons.prems by (simp_all add: x)
  have b: "later \<le> b" "now \<le> b" using in_order_le [OF o(3)] o(2) by simp_all
  have plus: "instant_plus now 60 = Some (now + 60 * NANOS)" "instant_plus later e = Some (later + e * NANOS)"
    using instant_plus_Some [OF b(2), of 60] instant_plus_Some [OF b(1) assms(3)] assms(2,3) by simp_all
  have N: "e * NANOS = (e - 60) * NANOS + 60 * NANOS" using assms(2) by (simp flip: add_mult_distrib)
  show ?case
  proof (cases "now + 60 * NANOS < a + e * NANOS")
    case True
    have "calls_in_order a ts b" using o by (cases ts) auto
    with Cons.IH obtain n where "token_calls nw misfit q ts (Some \<lparr>tc_token = t, tc_expires_at = a + e * NANOS\<rparr>)
        = Some (replicate (length ts) (Ok t), n)" "n * ((e - 60) * NANOS) \<le> b - a" by blast
    then show ?thesis using True by (simp add: x get_token_def plus)
  next
    case False
    obtain n where n: "token_calls nw misfit q ts (Some \<lparr>tc_token = t, tc_expires_at = later + e * NANOS\<rparr>)
        = Some (replicate (length ts) (Ok t), n)" "n * ((e - 60) * NANOS) \<le> b - later" using Cons.IH [OF o(3)] by blast
    have "Suc n * ((e - 60) * NANOS) \<le> (b - later) + (now - a)" using False N n(2) by simp
    also have "\<dots> \<le> b - a" using o b by simp
    finally show ?thesis using False n(1) by (simp add: x get_token_def refresh_token_def assms(1) plus)
  qed
qed simp

subsection \<open>Properties\<close>

text \<open>Stopping ends every task but Discord's. When the channels of a gateway have been started, up to
  the first that fails if one does, and are stopped, no task of theirs runs on, except the client of
  Discord, whose task nobody keeps: it goes on for as long as the process lives. And no adapter
  but the test channel calls itself healthy any more, that one included, and none running.\<close>

theorem stopping_ends_every_task_but_discords:
  assumes "start_adapters dc (map new_adapter ks) \<lparr>rt_next = 0, rt_tasks = []\<rparr> = (res, as, r)"
    and "stop_adapters as r = (as', r')"
  shows "(DiscordKind \<notin> set ks \<longrightarrow> rt_tasks r' = [])
    \<and> (res = Ok () \<longrightarrow> card (set (rt_tasks r')) = count_list ks DiscordKind)
    \<and> (\<forall>a \<in> set as'. \<not> adapter_is_running a \<and> (ad_kind a \<noteq> TestKind \<longrightarrow> \<not> is_operational (adapter_health a)))"
proof -
  have s: "started_tasks ks (is_ok res) \<lparr>rt_next = 0, rt_tasks = []\<rparr> as r"
    using start_adapters_tasks [OF assms(1)] by simp
  then have "list_all taskless as" by (simp add: started_tasks_def)
  from stop_adapters_tasks [OF this, of r] have "set (rt_tasks r') = set (rt_tasks r) - handles as"
    "\<forall>a \<in> set as'. \<not> adapter_is_running a \<and> (ad_kind a \<noteq> TestKind \<longrightarrow> \<not> is_operational (adapter_health a))"
    by (simp_all add: assms(2))
  with s show ?thesis by (auto simp: started_tasks_def)
qed

lemma stopping_ends_every_task_but_discords_witness:
  "\<exists>as r as' r'. start_adapters (Ok ()) (map new_adapter [DiscordKind, TelegramPollKind, SlackSocketKind None])
      \<lparr>rt_next = 0, rt_tasks = []\<rparr> = (Err ''Slack Socket Mode requires app_token (xapp-...)'', as, r)
    \<and> rt_tasks r = [0, 1] \<and> stop_adapters as r = (as', r') \<and> rt_tasks r' = [0]
    \<and> (\<forall>a \<in> set as'. \<not> adapter_is_running a \<and> (ad_kind a \<noteq> TestKind \<longrightarrow> \<not> is_operational (adapter_health a)))"
proof -
  let ?r0 = "\<lparr>rt_next = 0, rt_tasks = []\<rparr>" and ?ks = "[DiscordKind, TelegramPollKind, SlackSocketKind None]"
  obtain as r where s: "start_adapters (Ok ()) (map new_adapter ?ks) ?r0
      = (Err ''Slack Socket Mode requires app_token (xapp-...)'', as, r)"
    "rt_tasks r = [0, 1]" "rt_tasks (snd (stop_adapters as r)) = [0]"
    by (simp add: starts spawn_simps stops new_adapter.simps)
  obtain as' r' where t: "stop_adapters as r = (as', r')" by force
  from stopping_ends_every_task_but_discords [OF s(1) t] s t show ?thesis by auto
qed

text \<open>Reconnecting is paced but not always paused. Every pause of the Socket Mode loop is between one
  second and a minute; as long as connections fail the pauses double from one second up to the
  minute. But a connection that is made and then ends without a closing frame or an error is
  followed by the next one at once, however often that happens.\<close>

theorem socket_mode_is_paced:
  "(\<forall>p \<in> set (sl_pauses (socket_mode_loop decode st ch cs)). 1 \<le> p \<and> p \<le> 60)
    \<and> (list_all fails cs \<longrightarrow> sl_pauses (socket_mode_loop decode st ch cs) = map (\<lambda>k. min (2 ^ k) 60) [0..<length cs])
    \<and> sl_pauses (socket_mode_loop decode st ch (replicate n (Connected []))) = []"
proof (intro conjI)
  have "paced (socket_mode_loop decode st ch cs)"
    unfolding socket_mode_loop_def by (rule paced_rounds) (simp add: paced_def socket_initial_def)
  then show "\<forall>p \<in> set (sl_pauses (socket_mode_loop decode st ch cs)). 1 \<le> p \<and> p \<le> 60"
    by (simp add: paced_def)
  show "list_all fails cs \<longrightarrow> sl_pauses (socket_mode_loop decode st ch cs) = map (\<lambda>k. min (2 ^ k) 60) [0..<length cs]"
    by (simp add: socket_mode_loop_def failing_rounds socket_initial_def)
  have "sl_pauses (fold (socket_round decode st ch) (replicate n (Connected [])) s) = sl_pauses s" for s
    by (induction n arbitrary: s) (simp_all add: socket_round_cases(2))
  then show "sl_pauses (socket_mode_loop decode st ch (replicate n (Connected []))) = []"
    by (simp add: socket_mode_loop_def socket_initial_def)
qed

lemma socket_mode_is_paced_witness:
  "sl_pauses (socket_mode_loop (\<lambda>_. None) (\<lambda>_. ([], 0)) ''c'' (replicate 3 (OpenError ''e''))) = [1, 2, 4]"
proof -
  have "list_all fails (replicate 3 (OpenError ''e''))" by (simp add: list_all_iff)
  with socket_mode_is_paced [of "\<lambda>_. None" "\<lambda>_. ([], 0)" "''c''" "replicate 3 (OpenError ''e'')" 0] show ?thesis
    by (simp add: upt_rec numeral_eq_Suc)
qed

text \<open>C39: A Telegram update is taken once. The server keeps updates with increasing numbers and answers
  with some of those from the offset it is asked for, of what it has at the time, or not at all; then
  whatever it answers in however many rounds, what has been passed on are the messages of exactly the
  updates below the offset, each once and in order, and an answer that holds all the rest passes on
  all the rest.\<close>

theorem telegram_updates_are_taken_once:
  assumes "update_log decode num L"
    and "\<forall>server \<in> set servers. (\<exists>k n. server = telegram_server num L k n) \<or> (\<forall>offset. no_answer (server offset))"
    and "s = telegram_loop decode st servers"
  shows "map unstamped (tp_queue (pl_poll s))
      = concat (map (update_messages decode) (takeWhile (\<lambda>v. num v < tp_offset (pl_poll s)) L))
    \<and> (length L \<le> k \<and> length L \<le> n \<longrightarrow>
        map unstamped (tp_queue (pl_poll (poll_round decode st (telegram_server num L k n (tp_offset (pl_poll s))) s)))
          = concat (map (update_messages decode) L))"
proof -
  have "takeWhile (\<lambda>v. num v < 0) L = []"
    using assms(1) by (cases L) (auto simp: update_log_def)
  then have "caught_up decode num L poll_start" by (simp add: caught_up_def poll_start_def)
  then have "caught_up decode num L s"
    unfolding assms(3) telegram_loop_def by (rule rounds_catch_up [OF assms(1,2)])
  then show ?thesis using full_round_delivers_all [OF assms(1)] by (auto simp: caught_up_def)
qed

definition demo_update :: "int \<Rightarrow> json" where
  "demo_update i = JObject [(''update_id'', JInt i)]"

definition demo_decode :: "json \<Rightarrow> string + tg_update" where
  "demo_decode v = (case jindex v ''update_id'' of
     JInt i \<Rightarrow> Ok \<lparr>tg_update_id = i, tg_message = Some \<lparr>tm_from = None, tm_chat_id = 9, tm_text = Some (show_int i)\<rparr>\<rparr>
   | _ \<Rightarrow> Err [])"

lemma telegram_updates_are_taken_once_witness:
  "\<exists>s num. s = telegram_loop demo_decode (\<lambda>_. ([], 0)) [telegram_server num [demo_update 5, demo_update 7] 1 9, \<lambda>_. PollFailed ''e'']
    \<and> map unstamped (tp_queue (pl_poll (poll_round demo_decode (\<lambda>_. ([], 0))
          (telegram_server num [demo_update 5, demo_update 7] 2 9 (tp_offset (pl_poll s))) s)))
        = update_messages demo_decode (demo_update 5) @ update_messages demo_decode (demo_update 7)"
proof -
  let ?num = "\<lambda>v. case jindex v ''update_id'' of JInt i \<Rightarrow> i | _ \<Rightarrow> 0"
  let ?L = "[demo_update 5, demo_update 7]"
  let ?servers = "[telegram_server ?num ?L 1 9, \<lambda>_. PollFailed ''e'']"
  have log: "update_log demo_decode ?num ?L"
    by (simp add: update_log_def update_number_def demo_decode_def demo_update_def)
  have servers: "\<forall>server \<in> set ?servers. (\<exists>k n. server = telegram_server ?num ?L k n) \<or> (\<forall>offset. no_answer (server offset))"
    by auto
  from telegram_updates_are_taken_once [OF log servers refl, of "\<lambda>_. ([], 0)" 2 9] show ?thesis by auto
qed

text \<open>Teams' token is asked for rarely. While the endpoint gives tokens that live for \<open>e\<close> seconds, more
  than a minute, every reply gets that token, and in a span of time no more requests are made than one
  and the number of times \<open>e - 60\<close> seconds fit into it.\<close>

theorem teams_token_is_asked_for_rarely:
  assumes "fetch_token nw misfit q = Inr (t, e)" and "60 < e" and "b div NANOS + e < 2 ^ 63"
    and "calls_in_order now ((now, later) # ts) b"
  shows "\<exists>n. token_calls nw misfit q ((now, later) # ts) None = Some (replicate (Suc (length ts)) (Ok t), Suc n)
    \<and> n * ((e - 60) * NANOS) \<le> b - later"
proof -
  have o: "calls_in_order later ts b" using assms(4) by simp
  from in_order_le [OF o] have "instant_plus later e = Some (later + e * NANOS)"
    by (rule instant_plus_Some) (rule assms(3))
  with token_calls_bound [OF assms(1-3) o] show ?thesis
    by (auto simp: get_token_def refresh_token_def assms(1))
qed

definition demo_token_net :: net where
  "demo_token_net = \<lparr>nt_post = (\<lambda>_. Ok \<lparr>hr_success = True, hr_status = ''200 OK'', hr_text = [],
       hr_json = Ok (JObject [(''access_token'', JString ''t''), (''expires_in'', JInt 3600)])\<rparr>), nt_mail = (\<lambda>_. Ok ())\<rparr>"

lemma teams_token_is_asked_for_rarely_witness:
  "\<exists>n. token_calls demo_token_net [] (token_request ''a'' ''p'') [(0, 1), (2, 3), (5, 5)] None = Some ([Ok ''t'', Ok ''t'', Ok ''t''], n)
    \<and> n = 1"
proof -
  have f: "fetch_token demo_token_net [] (token_request ''a'' ''p'') = Inr (''t'', 3600)"
    by (simp add: fetch_token_def post_def demo_token_net_def de_token_response_def req_def try_bind_def)
  have "\<exists>n. token_calls demo_token_net [] (token_request ''a'' ''p'') ((0, 1) # [(2, 3), (5, 5)]) None
      = Some (replicate (Suc (length [(2::nat, 3::nat), (5, 5)])) (Ok ''t''), Suc n) \<and> n * ((3600 - 60) * NANOS) \<le> 5 - 1"
    by (rule teams_token_is_asked_for_rarely [OF f]) (simp_all add: NANOS_def)
  then show ?thesis by (auto simp: NANOS_def)
qed

end
