(* ===== verification/Audit_Sink.thy ===== *)
theory Audit_Sink
  imports Audit_Log
begin

section \<open>The writer of the audit log (\<open>src/audit/mod.rs\<close>)\<close>

text \<open>
  The logger as a transition system: logging queues the text of a record and returns, a task of its
  own takes the queue and writes each text and a line end to the destination. Any number of callers
  log; their calls and the writer's steps interleave. What serde makes of a record is a parameter,
  and so is how much of a write arrives when it fails.
\<close>

subsection \<open>The logger\<close>

datatype destination = StandardError | AuditFile string

text \<open>A file that cannot be opened is replaced by the standard error.\<close>

definition open_destination :: "(string \<Rightarrow> string + unit) \<Rightarrow> string \<Rightarrow> destination" where
  "open_destination open_append path =
     (if path = [] then StandardError
      else case open_append path of Inr _ \<Rightarrow> AuditFile path | Inl _ \<Rightarrow> StandardError)"

text \<open>The queue, whether the writer owes the line end of the text it has written, and what it has written
  so far.\<close>

record audit_sink =
  sk_destination :: destination
  sk_pending :: "string list"
  sk_owes_newline :: bool
  sk_written :: string

definition new_logger :: "(string \<Rightarrow> string + unit) \<Rightarrow> string \<Rightarrow> audit_sink" where
  "new_logger open_append path =
     \<lparr>sk_destination = open_destination open_append path, sk_pending = [], sk_owes_newline = False, sk_written = []\<rparr>"

definition log_event :: "(json \<Rightarrow> string option) \<Rightarrow> string \<Rightarrow> audit_event \<Rightarrow> audit_sink \<Rightarrow> audit_sink" where
  "log_event render ts ev s =
     (case render (audit_record ts ev) of
        Some t \<Rightarrow> s\<lparr>sk_pending := sk_pending s @ [t]\<rparr>
      | None \<Rightarrow> s)"

text \<open>A write that fails is ignored; so many bytes of it have arrived.\<close>

definition arrived :: "nat option \<Rightarrow> string \<Rightarrow> string" where
  "arrived fault t = (case fault of None \<Rightarrow> t | Some n \<Rightarrow> take n t)"

datatype sink_action =
    LogEvent string audit_event
  | WriteLine "nat option"
  | WriteNewline "nat option"

inductive sink_step :: "(json \<Rightarrow> string option) \<Rightarrow> sink_action \<Rightarrow> audit_sink \<Rightarrow> audit_sink \<Rightarrow> bool" for render where
  logged: "sink_step render (LogEvent ts ev) s (log_event render ts ev s)"
| line: "\<not> sk_owes_newline s \<Longrightarrow> sk_pending s = l # ls \<Longrightarrow>
    sink_step render (WriteLine fault) s
      (s\<lparr>sk_pending := ls, sk_owes_newline := True, sk_written := sk_written s @ arrived fault l\<rparr>)"
| newline: "sk_owes_newline s \<Longrightarrow>
    sink_step render (WriteNewline fault) s
      (s\<lparr>sk_owes_newline := False, sk_written := sk_written s @ arrived fault newline\<rparr>)"

inductive sink_run :: "(json \<Rightarrow> string option) \<Rightarrow> audit_sink \<Rightarrow> sink_action list \<Rightarrow> audit_sink \<Rightarrow> bool" for render where
  start: "sink_run render s [] s"
| step: "sink_run render s as s1 \<Longrightarrow> sink_step render a s1 s2 \<Longrightarrow> sink_run render s (as @ [a]) s2"

inductive_cases sink_stepE: "sink_step render a s s'"

subsection \<open>Nothing is lost, torn or reordered\<close>

fun whole :: "sink_action \<Rightarrow> bool" where
  "whole (LogEvent _ _) = True"
| "whole (WriteLine fault) = (fault = None)"
| "whole (WriteNewline fault) = (fault = None)"

fun text_logged :: "(json \<Rightarrow> string option) \<Rightarrow> sink_action \<Rightarrow> string option" where
  "text_logged render (LogEvent ts ev) = render (audit_record ts ev)"
| "text_logged render _ = None"

definition as_lines :: "string list \<Rightarrow> string" where
  "as_lines ls = concat (map (\<lambda>l. l @ newline) ls)"

lemma as_lines_simps [simp]: "as_lines [] = []" "as_lines (l # ls) = l @ newline @ as_lines ls"
  "as_lines (ls @ ms) = as_lines ls @ as_lines ms"
  by (simp_all add: as_lines_def)

definition on_its_way :: "audit_sink \<Rightarrow> string" where
  "on_its_way s = sk_written s @ (if sk_owes_newline s then newline else []) @ as_lines (sk_pending s)"

lemma step_keeps_order:
  assumes "sink_step render a s s'" and "whole a"
  shows "on_its_way s' = on_its_way s @ as_lines (case text_logged render a of None \<Rightarrow> [] | Some t \<Rightarrow> [t])"
  using assms
  by (cases rule: sink_step.cases) (auto simp: on_its_way_def log_event_def arrived_def split: option.splits)

lemma run_keeps_order:
  assumes "sink_run render s as s'" and "list_all whole as"
  shows "on_its_way s' = on_its_way s @ as_lines (List.map_filter (text_logged render) as)"
  using assms
proof (induction rule: sink_run.induct)
  case (step s as s1 a s2)
  have "List.map_filter (text_logged render) (as @ [a])
      = List.map_filter (text_logged render) as @ (case text_logged render a of None \<Rightarrow> [] | Some t \<Rightarrow> [t])"
    by (auto simp: map_filter_def split: option.split)
  then show ?case using step step_keeps_order [OF step(2)] by simp
qed (simp add: map_filter_simps)

lemma split_on_line: "c \<notin> set l \<Longrightarrow> split_on c (l @ c # t) = l # split_on c t"
  by (induction l) auto

lemma lines_of_as_lines:
  assumes "\<forall>l \<in> set ls. CHR 0x0A \<notin> set l \<and> CHR 0x0D \<notin> set l"
  shows "lines_of (as_lines ls) = ls"
proof -
  have split: "split_on (CHR 0x0A) (as_lines ls) = ls @ [[]]"
    using assms by (induction ls) (simp_all add: newline_def split_on_line)
  have "map (\<lambda>l. if l \<noteq> [] \<and> last l = CHR 0x0D then butlast l else l) ls = ls"
    using assms by (intro map_idI) (auto dest: last_in_set)
  then show ?thesis by (simp add: lines_of_def split Let_def)
qed

subsection \<open>Properties\<close>

text \<open>What is not yet written when the process ends is gone: the state alone holds it.\<close>

lemma written_is_a_prefix:
  assumes "sink_run render s as s'" and "list_all whole as" and "sk_written s = []" "sk_pending s = []" "\<not> sk_owes_newline s"
  shows "\<exists>t. as_lines (List.map_filter (text_logged render) as) = sk_written s' @ t"
  using run_keeps_order [OF assms(1,2), symmetric] assms(3-5) by (auto simp: on_its_way_def)

text \<open>C40: The audit log reads back. However the calls that log and the steps of the writer interleave, once the
  queue is empty and no write has failed, the lines of the log are the records that were logged, one
  line for each, whole and in the order of the calls: a reader that takes the log apart by lines and
  parses each gets exactly these records.\<close>

theorem audit_log_reads_back:
  assumes "sink_run render (new_logger open_append path) as s" and "list_all whole as"
    and "sk_pending s = []" and "\<not> sk_owes_newline s"
    and "\<forall>ts ev. LogEvent ts ev \<in> set as \<longrightarrow> (\<exists>t. render (audit_record ts ev) = Some t
          \<and> parse t = Ok (audit_record ts ev) \<and> CHR 0x0A \<notin> set t \<and> CHR 0x0D \<notin> set t)"
  shows "map parse (lines_of (sk_written s))
    = List.map_filter (\<lambda>a. case a of LogEvent ts ev \<Rightarrow> Some (Ok (audit_record ts ev)) | _ \<Rightarrow> None) as"
proof -
  let ?ls = "List.map_filter (text_logged render) as"
  have written: "sk_written s = as_lines ?ls"
    using run_keeps_order [OF assms(1,2)] assms(3,4) by (simp add: on_its_way_def new_logger_def)
  have good: "\<exists>ts ev. a = LogEvent ts ev" if "text_logged render a = Some t" for a t
    using that by (cases a) auto
  have "CHR 0x0A \<notin> set t \<and> CHR 0x0D \<notin> set t" if a: "a \<in> set as" and t: "text_logged render a = Some t" for a t
  proof -
    obtain ts ev where "a = LogEvent ts ev" using good [OF t] by blast
    with assms(5) a t show ?thesis by fastforce
  qed
  then have "\<forall>l \<in> set ?ls. CHR 0x0A \<notin> set l \<and> CHR 0x0D \<notin> set l"
    by (fastforce simp: map_filter_def)
  then have "lines_of (sk_written s) = ?ls" unfolding written by (rule lines_of_as_lines)
  moreover have "map parse (List.map_filter (text_logged render) as)
      = List.map_filter (\<lambda>a. case a of LogEvent ts ev \<Rightarrow> Some (Ok (audit_record ts ev)) | _ \<Rightarrow> None) as"
    using assms(5)
  proof (induction as)
    case (Cons a as)
    show ?case
    proof (cases a)
      case (LogEvent ts ev)
      then obtain t where "render (audit_record ts ev) = Some t" "parse t = Ok (audit_record ts ev)"
        using Cons.prems by auto
      then show ?thesis using Cons by (simp add: LogEvent map_filter_simps)
    qed (use Cons in \<open>simp_all add: map_filter_simps\<close>)
  qed (simp add: map_filter_simps)
  ultimately show ?thesis by simp
qed

definition demo_event :: audit_event where
  "demo_event = AgentCreated ''u''"

lemma audit_log_reads_back_witness:
  "\<exists>s. sink_run (\<lambda>_. Some ''x'') (new_logger (\<lambda>_. Err ''denied'') ''audit.log'')
      [LogEvent ''t'' demo_event, WriteLine None, LogEvent ''t'' demo_event, WriteNewline None, WriteLine None, WriteNewline None] s
    \<and> sk_destination s = StandardError
    \<and> map (\<lambda>_. Ok (audit_record ''t'' demo_event) :: string + json) (lines_of (sk_written s))
        = [Ok (audit_record ''t'' demo_event), Ok (audit_record ''t'' demo_event)]"
proof -
  let ?render = "\<lambda>_ :: json. Some ''x''" and ?parse = "\<lambda>_ :: string. Ok (audit_record ''t'' demo_event) :: string + json"
  let ?init = "new_logger (\<lambda>_. Err ''denied'') ''audit.log''"
  let ?as = "[LogEvent ''t'' demo_event, WriteLine None, LogEvent ''t'' demo_event, WriteNewline None, WriteLine None, WriteNewline None]"
  let ?final = "?init\<lparr>sk_written := ''x'' @ newline @ ''x'' @ newline\<rparr>"
  have "sink_run ?render ?init ([] @ [LogEvent ''t'' demo_event]) (?init\<lparr>sk_pending := [''x'']\<rparr>)"
    using sink_run.step [OF sink_run.start sink_step.logged [of ?render "''t''" demo_event ?init]]
    by (simp add: log_event_def new_logger_def)
  from sink_run.step [OF this sink_step.line [of "?init\<lparr>sk_pending := [''x'']\<rparr>" "''x''" "[]" ?render None]]
  have "sink_run ?render ?init ([LogEvent ''t'' demo_event] @ [WriteLine None])
      (?init\<lparr>sk_owes_newline := True, sk_written := ''x''\<rparr>)" by (simp add: new_logger_def arrived_def)
  from sink_run.step [OF this sink_step.logged [of ?render "''t''" demo_event]]
  have "sink_run ?render ?init ([LogEvent ''t'' demo_event, WriteLine None] @ [LogEvent ''t'' demo_event])
      (?init\<lparr>sk_pending := [''x''], sk_owes_newline := True, sk_written := ''x''\<rparr>)"
    by (simp add: log_event_def new_logger_def)
  from sink_run.step [OF this sink_step.newline [of _ ?render None]]
  have "sink_run ?render ?init ([LogEvent ''t'' demo_event, WriteLine None, LogEvent ''t'' demo_event] @ [WriteNewline None])
      (?init\<lparr>sk_pending := [''x''], sk_written := ''x'' @ newline\<rparr>)"
    by (simp add: arrived_def new_logger_def)
  from sink_run.step [OF this sink_step.line [of _ "''x''" "[]" ?render None]]
  have "sink_run ?render ?init
      ([LogEvent ''t'' demo_event, WriteLine None, LogEvent ''t'' demo_event, WriteNewline None] @ [WriteLine None])
      (?init\<lparr>sk_owes_newline := True, sk_written := ''x'' @ newline @ ''x''\<rparr>)"
    by (simp add: arrived_def new_logger_def)
  from sink_run.step [OF this sink_step.newline [of _ ?render None]]
  have run: "sink_run ?render ?init ?as ?final" by (simp add: arrived_def new_logger_def)
  have "map ?parse (lines_of (sk_written ?final))
      = List.map_filter (\<lambda>a. case a of LogEvent ts ev \<Rightarrow> Some (Ok (audit_record ts ev)) | _ \<Rightarrow> None) ?as"
    by (rule audit_log_reads_back [OF run]) (auto simp: new_logger_def demo_event_def)
  then show ?thesis
    using run by (intro exI [of _ ?final]) (simp add: map_filter_simps new_logger_def open_destination_def)
qed

end
