(* ===== verification/Startup.thy ===== *)
theory Startup
  imports Assembly Adapters Gate
begin

section \<open>The start of the process (\<open>src/main.rs\<close>, \<open>Gateway::start\<close>)\<close>

text \<open>
  What runs when the gateway starts and in which order: the adapters a configuration gives, the MCP
  servers whose tools are registered beside the built-in ones, the reloads while it runs, the path
  a plan takes to its sender, and the entry points tests use. The clients of MCP, sockets and
  signals are parameters.
\<close>

subsection \<open>The tools of MCP servers\<close>

text \<open>Connecting over HTTP or to a child process, and the tools a connected server lists with their names.\<close>

record ('c, 't) mcp_world =
  mw_http :: "string \<Rightarrow> string + 'c"
  mw_stdio :: "string \<Rightarrow> string list \<Rightarrow> (string \<times> string) list \<Rightarrow> string + 'c"
  mw_tools :: "'c \<Rightarrow> string + (string \<times> 't) list"

definition connect_mcp :: "('c, 't) mcp_world \<Rightarrow> mcp_server \<Rightarrow> 'c option" where
  "connect_mcp w s =
     (if mcp_transport s = ''http''
      then (case mcp_url s of None \<Rightarrow> None | Some u \<Rightarrow> (case mw_http w u of Inl _ \<Rightarrow> None | Inr c \<Rightarrow> Some c))
      else (case mcp_command s of
              None \<Rightarrow> None
            | Some c \<Rightarrow> (case mw_stdio w c (mcp_args s) (mcp_env s) of Inl _ \<Rightarrow> None | Inr c \<Rightarrow> Some c)))"

definition mcp_tools :: "('c, 't) mcp_world \<Rightarrow> mcp_server \<Rightarrow> (string \<times> 't) list" where
  "mcp_tools w s =
     (case connect_mcp w s of
        None \<Rightarrow> []
      | Some c \<Rightarrow> (case mw_tools w c of Inl _ \<Rightarrow> [] | Inr ts \<Rightarrow> ts))"

text \<open>A registration that fails is logged, and the next one tried.\<close>

definition register_tool :: "string \<times> 't \<Rightarrow> 't tool_registry \<Rightarrow> 't tool_registry" where
  "register_tool t r = (case register (fst t) (snd t) r of Inr r' \<Rightarrow> r' | Inl _ \<Rightarrow> r)"

definition register_mcp_server :: "('c, 't) mcp_world \<Rightarrow> mcp_server \<Rightarrow> 't tool_registry \<Rightarrow> 't tool_registry" where
  "register_mcp_server w s r = fold register_tool (mcp_tools w s) r"

definition register_mcp :: "('c, 't) mcp_world \<Rightarrow> config \<Rightarrow> 't tool_registry \<Rightarrow> 't tool_registry" where
  "register_mcp w c r = fold (register_mcp_server w) (cfg_mcp c) r"

text \<open>The tools \<open>rustynail mcp serve\<close> offers in turn.\<close>

definition served_tools :: "config \<Rightarrow> tool_kind list" where
  "served_tools c =
     [Calculator, Formatter]
     @ (let t = cfg_tools c in
        if \<not> tlc_enabled t then []
        else (case tlc_filesystem_root t of Some r \<Rightarrow> [FileSystem r] | None \<Rightarrow> [])
           @ (case tlc_web_search_api_key t of Some k \<Rightarrow> [WebSearch k] | None \<Rightarrow> [])
           @ [Calendar])"

subsection \<open>The adapters\<close>

definition discord_adapters :: "config \<Rightarrow> channel_kind list" where
  "discord_adapters c =
     (case chs_discord (cfg_channels c) of Some d \<Rightarrow> if dsc_enabled d then [DiscordKind] else [] | None \<Rightarrow> [])"

definition telegram_adapter :: "telegram_config \<Rightarrow> channel_kind" where
  "telegram_adapter t = (if tgc_mode t = ''longpoll'' then TelegramPollKind else TelegramKind)"

definition slack_adapter :: "slack_config \<Rightarrow> channel_kind" where
  "slack_adapter s = (if slc_mode s = ''socket'' then SlackSocketKind (slc_app_token s) else SlackKind)"

definition enabled_section :: "'a option \<Rightarrow> ('a \<Rightarrow> bool) \<Rightarrow> ('a \<Rightarrow> channel_kind) \<Rightarrow> channel_kind list" where
  "enabled_section sec enabled k = (case sec of Some x \<Rightarrow> if enabled x then [k x] else [] | None \<Rightarrow> [])"

definition section_adapters :: "config \<Rightarrow> channel_kind list" where
  "section_adapters c =
     (let k = cfg_channels c in
      enabled_section (chs_whatsapp k) wac_enabled (\<lambda>_. WhatsAppKind)
      @ enabled_section (chs_telegram k) tgc_enabled telegram_adapter
      @ enabled_section (chs_slack k) slc_enabled slack_adapter
      @ enabled_section (chs_sms k) smc_enabled (\<lambda>_. SmsKind)
      @ enabled_section (chs_webhook k) whc_enabled (\<lambda>_. WebhookKind)
      @ enabled_section (chs_webchat k) wcc_enabled (\<lambda>_. WebchatKind)
      @ enabled_section (chs_email k) emc_enabled (\<lambda>_. EmailKind)
      @ enabled_section (chs_teams k) tmc_enabled (\<lambda>_. TeamsKind)
      @ (if chs_test_channel k then [TestKind] else []))"

subsection \<open>The order of the start\<close>

datatype start_action =
    RegisterChannel channel_kind
  | ConnectMcp string
  | ServeHttp
  | StartCron
  | StartChannels
  | HandleQueue
  | ReapRuns

text \<open>The channels that were registered before are Discord's. A channel that does not start ends the
  start with its error: what was begun before goes on.\<close>

definition start_gateway ::
    "string + unit \<Rightarrow> config \<Rightarrow> channel_kind list \<Rightarrow> runtime
     \<Rightarrow> start_action list \<times> (string + unit) \<times> channel_adapter list \<times> runtime" where
  "start_gateway discord_client c before r =
     (let ks = section_adapters c;
          (res, as, r') = start_adapters discord_client (map new_adapter (before @ ks)) r
      in (map RegisterChannel ks @ map (\<lambda>s. ConnectMcp (mcp_name s)) (cfg_mcp c) @ [ServeHttp]
            @ (if cfg_cron c = [] then [] else [StartCron]) @ [StartChannels]
            @ (if is_ok res then HandleQueue # (if reaper_runs c then [ReapRuns] else []) else []),
          res, as, r'))"

text \<open>\<open>cmd_start\<close>: without a configuration nothing starts.\<close>

definition cmd_start ::
    "string + unit \<Rightarrow> string + config \<Rightarrow> start_action list \<times> (string + unit) \<times> channel_adapter list \<times> runtime" where
  "cmd_start discord_client loaded =
     (case loaded of
        Inl e \<Rightarrow> ([], Err e, [], \<lparr>rt_next = 0, rt_tasks = []\<rparr>)
      | Inr c \<Rightarrow>
          (case start_gateway discord_client c (discord_adapters c) \<lparr>rt_next = 0, rt_tasks = []\<rparr> of
             (actions, rest) \<Rightarrow> (map RegisterChannel (discord_adapters c) @ actions, rest)))"

text \<open>The task that waits for SIGHUP: each time the configuration is loaded again, and taken over if that
  succeeds. The names it logs are those of the fields that changed.\<close>

fun reloads :: "(string + config) list \<Rightarrow> hot_config \<Rightarrow> hot_config \<times> (string + string list) list" where
  "reloads [] h = (h, [])"
| "reloads (Inl e # ls) h = (case reloads ls h of (h', logged) \<Rightarrow> (h', Inl e # logged))"
| "reloads (Inr c # ls) h =
     (case hot_apply (settings_of c) h of
        (changed, h1) \<Rightarrow> (case reloads ls h1 of (h', logged) \<Rightarrow> (h', Inr changed # logged)))"

subsection \<open>Asking a running gateway\<close>

definition cmd_status ::
    "(string \<Rightarrow> string + http_reply) \<Rightarrow> (json \<Rightarrow> string + string) \<Rightarrow> nat \<Rightarrow> string + string" where
  "cmd_status http_get pretty port =
     (case http_get (''http://localhost:'' @ show_nat port @ ''/status'') of
        Inl e \<Rightarrow> Err (''Could not connect to RustyNail on port '' @ show_nat port @ '': '' @ e)
      | Inr p \<Rightarrow> if \<not> hr_success p then Err (''Status request failed: HTTP '' @ hr_status p)
                else try_bind (hr_json p) pretty)"

subsection \<open>The other ways into and out of the pipeline\<close>

text \<open>\<open>GatewayResponder\<close>: the plan gate's texts go the way of an answer.\<close>

definition responder_reply ::
    "pipeline_config \<Rightarrow> surroundings \<Rightarrow> string \<Rightarrow> string \<Rightarrow> gateway \<Rightarrow> ((string + unit) \<times> gateway) option" where
  "responder_reply cfg e channel_id t g = send_text cfg e channel_id t g"

text \<open>\<open>Gateway::handle_message\<close>, for callers outside the queue.\<close>

definition gateway_handle_message ::
    "config \<Rightarrow> hot_config \<Rightarrow> surroundings \<Rightarrow> message \<Rightarrow> gateway \<Rightarrow> ((string + unit) \<times> gateway) option" where
  "gateway_handle_message c h e m g = handle_message (pipeline_of c h) e m g"

text \<open>The pipeline with every optional stage left out, and with those a test chooses.\<close>

definition bare_pipeline :: pipeline_config where
  "bare_pipeline =
     \<lparr>pc_rate_limit = None, pc_dedup = False, pc_chunk_limits = None, pc_format = False, pc_auto_route = False,
      pc_summarization = None, pc_audit = False, pc_approvals = False\<rparr>"

definition handle_message_for_test ::
    "surroundings \<Rightarrow> message \<Rightarrow> gateway \<Rightarrow> ((string + unit) \<times> gateway) option" where
  "handle_message_for_test e m g = handle_message bare_pipeline e m g"

definition handle_message_for_test_full ::
    "bool \<Rightarrow> rate_limit_config option \<Rightarrow> bool \<Rightarrow> limits option \<Rightarrow> bool \<Rightarrow> surroundings \<Rightarrow> message \<Rightarrow> gateway
     \<Rightarrow> ((string + unit) \<times> gateway) option" where
  "handle_message_for_test_full limiter rate_limit dedup chunk_limits formatting e m g =
     handle_message
       (bare_pipeline\<lparr>pc_rate_limit := (if limiter then rate_limit else None), pc_dedup := dedup,
          pc_chunk_limits := chunk_limits, pc_format := formatting\<rparr>) e m g"

subsection \<open>The adapters are those that were registered\<close>

text \<open>The two readings of the configuration agree: the adapters with a life are, one by one, those with
  an address.\<close>

definition fits :: "channel_kind \<Rightarrow> adapter_config \<Rightarrow> bool" where
  "fits k a =
     (case a of
        DiscordCh _ \<Rightarrow> k = DiscordKind
      | WhatsAppCh _ _ \<Rightarrow> k = WhatsAppKind
      | TelegramCh _ \<Rightarrow> k = TelegramKind \<or> k = TelegramPollKind
      | SlackCh _ \<Rightarrow> k = SlackKind
      | SlackSocketCh _ \<Rightarrow> k = SlackSocketKind (socket_app_token k)
      | SmsCh _ _ _ \<Rightarrow> k = SmsKind
      | WebhookCh \<Rightarrow> k = WebhookKind
      | WebchatCh _ \<Rightarrow> k = WebchatKind
      | EmailCh _ \<Rightarrow> k = EmailKind
      | TeamsCh _ \<Rightarrow> k = TeamsKind
      | TestCh \<Rightarrow> k = TestKind)"

lemma adapters_are_the_registered:
  "list_all2 fits (discord_adapters c @ section_adapters c)
     (map snd (registered (channels_config.truncate (sections_of token c))))"
  unfolding registered_def map_append discord_adapters_def section_adapters_def Let_def
  by (intro list_all2_appendI;
      simp add: fits_def sections_of_def channels_config.truncate_def Let_def enabled_section_def telegram_adapter_def
        slack_adapter_def split: option.split bool.split)

lemma queue_is_handled_only_after_a_start:
  assumes "start_gateway dc c before r = (actions, res, as, r')"
  shows "HandleQueue \<in> set actions \<longleftrightarrow> is_ok res" and "ServeHttp \<in> set actions"
  using assms by (auto simp: start_gateway_def Let_def split: prod.splits if_splits)

lemma test_entry_returns: "\<exists>res g'. handle_message_for_test e m g = Some (res, g')"
proof -
  have sends: "\<exists>res g'. send_text bare_pipeline e ch t g = Some (res, g')" for ch t g
    by (cases "send_chunks e ch [format_response False t ch] g") (simp add: send_text_def outgoing_chunks_def bare_pipeline_def)
  have "\<exists>res g'. answer_message bare_pipeline e m g = Some (res, g')" for g
    using sends by (auto simp: answer_message_def Let_def split: prod.split)
  then have "\<exists>res g'. limit_and_answer bare_pipeline e m g = Some (res, g')" for g
    by (simp add: limit_and_answer_def within_rate_def bare_pipeline_def)
  then show ?thesis
    by (simp add: handle_message_for_test_def handle_message_def handle_awaited_def awaiting_approval_def
        is_duplicate_def bare_pipeline_def)
qed

subsection \<open>Registering more tools\<close>

lemma register_tool_cases:
  "register_tool t r = (if fst t \<in> fst ` set r then r else r @ [t])"
  by (cases t) (simp add: register_tool_def register_def)

lemma get_tool_append: "get_tool r n = Some x \<Longrightarrow> get_tool (r @ ts) n = Some x"
  by (simp add: get_tool_def)

lemma register_tools:
  "get_tool r n = Some x \<Longrightarrow> get_tool (fold register_tool ts r) n = Some x"
  "distinct (map fst r) \<Longrightarrow> distinct (map fst (fold register_tool ts r))"
  "fst ` set (fold register_tool ts r) = fst ` set r \<union> fst ` set ts"
  by (induction ts arbitrary: r) (auto simp: register_tool_cases get_tool_append)

lemma register_servers:
  "get_tool r n = Some x \<Longrightarrow> get_tool (fold (register_mcp_server w) ss r) n = Some x"
  "distinct (map fst r) \<Longrightarrow> distinct (map fst (fold (register_mcp_server w) ss r))"
  "fst ` set (fold (register_mcp_server w) ss r) = fst ` set r \<union> (\<Union>s \<in> set ss. fst ` set (mcp_tools w s))"
  by (induction ss arbitrary: r) (auto simp: register_mcp_server_def register_tools)

subsection \<open>Sending until the end\<close>


subsection \<open>Reloads\<close>

fun last_loaded :: "(string + config) list \<Rightarrow> config option" where
  "last_loaded [] = None"
| "last_loaded (l # ls) =
     (case last_loaded ls of Some c \<Rightarrow> Some c | None \<Rightarrow> (case l of Inr c \<Rightarrow> Some c | Inl _ \<Rightarrow> None))"

subsection \<open>Properties\<close>

text \<open>A tool of an MCP server replaces nothing. Whatever the configured servers list, under whatever
  names, every built-in tool the configuration switches on is the one that is found under its name;
  no name is taken twice; and the names are those of the built-in tools and of the servers' tools.\<close>

theorem mcp_tools_replace_nothing:
  assumes "k \<in> set (tools_of c)" and "r = register_mcp w c (map (apsnd f) (build_registry c))"
  shows "get_tool r (tool_name k) = Some (f k) \<and> distinct (map fst r)
    \<and> fst ` set r = tool_name ` set (tools_of c) \<union> (\<Union>s \<in> set (cfg_mcp c). fst ` set (mcp_tools w s))"
proof -
  let ?b = "map (\<lambda>t. (tool_name t, f t)) (tools_of c)"
  have b: "map (apsnd f) (build_registry c) = ?b" by (simp add: registry_holds_the_tools)
  have distinct: "distinct (map fst ?b)"
    by (auto simp: tools_of_def Let_def vision_args_def comp_def split: option.split)
  have "get_tool ?b (tool_name k) = Some (f k)"
    using assms(1) distinct by (auto simp: get_tool_def intro!: map_of_is_SomeI)
  moreover have "fst ` set ?b = tool_name ` set (tools_of c)" by force
  ultimately show ?thesis
    using distinct by (simp add: assms(2) b register_mcp_def register_servers)
qed

definition demo_mcp :: "(unit, nat) mcp_world" where
  "demo_mcp = \<lparr>mw_http = (\<lambda>_. Ok ()), mw_stdio = (\<lambda>_ _ _. Err ''no''), mw_tools = (\<lambda>_. Ok [(''calculator'', 7), (''search'', 8)])\<rparr>"

lemma mcp_tools_replace_nothing_witness:
  "\<exists>c r. r = register_mcp demo_mcp c (map (apsnd (\<lambda>_. 1)) (build_registry c)) \<and> cfg_mcp c \<noteq> []
    \<and> get_tool r ''calculator'' = Some 1 \<and> ''search'' \<in> fst ` set r"
proof -
  obtain c0 where c0: "config_from_env demo_env (\<lambda>_. None) = Ok c0"
    by (simp add: config_from_env_def demo_env_def)
  let ?s = "\<lparr>mcp_name = ''s'', mcp_transport = ''http'', mcp_command = None, mcp_args = [], mcp_env = [],
    mcp_url = Some ''http://s''\<rparr>"
  let ?c = "c0\<lparr>cfg_tools := (cfg_tools c0)\<lparr>tlc_enabled := True\<rparr>, cfg_mcp := [?s]\<rparr>"
  let ?r = "register_mcp demo_mcp ?c (map (apsnd (\<lambda>_. 1)) (build_registry ?c))"
  have "Calculator \<in> set (tools_of ?c)" by (simp add: tools_of_def Let_def)
  from mcp_tools_replace_nothing [OF this refl, of demo_mcp "\<lambda>_. 1"]
  have "get_tool ?r ''calculator'' = Some 1" "''search'' \<in> fst ` set ?r"
    by (simp_all add: mcp_tools_def connect_mcp_def demo_mcp_def)
  then show ?thesis by (intro exI [of _ ?c] exI [of _ ?r]) simp
qed

text \<open>A reload takes effect or none, and of the pipeline it reaches the rate limits only. After any
  number of signals the running configuration is the one of the last file that could be read, or
  the one of the start when none could; every signal is logged; and a message is handled as
  before but for the limits that are then in force.\<close>

theorem reloads_reach_the_limits_only:
  "\<exists>h' logged. reloads ls h = (h', logged) \<and> length logged = length ls
    \<and> h' = (case last_loaded ls of None \<Rightarrow> h | Some c \<Rightarrow> hot_from_config (settings_of c))
    \<and> pipeline_of c0 h' = (pipeline_of c0 h)\<lparr>pc_rate_limit := Some (hc_rate_limit h')\<rparr>"
proof -
  have pipe: "pipeline_of c0 h' = (pipeline_of c0 h)\<lparr>pc_rate_limit := Some (hc_rate_limit h')\<rparr>" for h'
    by (simp add: pipeline_of_def)
  have "\<exists>h' logged. reloads ls h = (h', logged) \<and> length logged = length ls
    \<and> h' = (case last_loaded ls of None \<Rightarrow> h | Some c \<Rightarrow> hot_from_config (settings_of c))"
  proof (induction ls arbitrary: h)
    case (Cons l ls)
    show ?case
    proof (cases l)
      case (Inl e)
      then show ?thesis using Cons [of h] by (auto split: option.splits prod.split)
    next
      case (Inr c)
      obtain changed where taken: "hot_apply (settings_of c) h = (changed, hot_from_config (settings_of c))"
        using hot_apply_value [of "settings_of c" h] by (metis prod.collapse)
      show ?thesis
        using Cons [of "hot_from_config (settings_of c)"] by (auto simp: Inr taken split: option.splits prod.split)
    qed
  qed simp
  with pipe show ?thesis by blast
qed




text \<open>On a channel that is not registered the same reply succeeds with nothing sent: the gate then waits
  for an answer to a plan no one has seen.\<close>

lemma plan_to_nowhere_is_waited_for:
  assumes "ch \<notin> set (en_channels e)" and "outgoing_chunks cfg ch plan = Some cs"
  shows "responder_reply cfg e ch plan g = Some (Ok (), g)"
  using assms by (simp add: responder_reply_def send_text_def)

end
