(* ===== verification/Agent_Setup.thy ===== *)
theory Agent_Setup
  imports Assembly
begin

section \<open>What an agent is made with (\<open>src/agents/manager.rs\<close>)\<close>

text \<open>
  The part of the agent manager that makes agents: the tools, the system prompt with the skills of
  the moment and the limits of the configuration. An agent is made when its user's first message
  comes and kept; registering a tool and reloading the skills reach the agents made afterwards.
  What agenkit refuses is a parameter.
\<close>

subsection \<open>The manager\<close>

definition SYSTEM_PROMPT :: string where
  "SYSTEM_PROMPT =
     ''You are a helpful AI assistant named RustyNail. Be conversational, friendly, and concise. You''
     @ [CHR 0x27] @ ''re chatting with users on Discord and other platforms.''"

text \<open>A planner: its language model and the steps it may take.\<close>

record planner =
  pn_llm :: adapter
  pn_max_steps :: nat

text \<open>One user's agent: the language model with its fallbacks, the tools and the steps of the loop around
  it, if there is one, how much it remembers and its prompt.\<close>

record 't user_agent =
  ua_chain :: "adapter list"
  ua_react :: "((string \<times> 't) list \<times> nat) option"
  ua_max_history :: nat
  ua_system_prompt :: string

record 't manager =
  mg_config :: agent_section
  mg_tools_config :: tools_config
  mg_registry :: "'t tool_registry"
  mg_planner :: "planner option"
  mg_skills :: "string option"
  mg_agents :: "string \<Rightarrow> 't user_agent option"
  mg_prices :: "string \<Rightarrow> (f64 \<times> f64) option"
  mg_seeded :: bool

text \<open>What the library says to a configuration: of an adapter, a planner, a loop with tools, an agent.\<close>

record 't library =
  lb_adapter :: "adapter \<Rightarrow> string + unit"
  lb_planner :: "planner \<Rightarrow> string + unit"
  lb_react :: "(string \<times> 't) list \<Rightarrow> nat \<Rightarrow> string + unit"
  lb_agent :: "'t user_agent \<Rightarrow> string + unit"

subsection \<open>Making a manager\<close>

text \<open>The planner is Anthropic's whatever the provider is.\<close>

definition planner_of :: "agent_section \<Rightarrow> planner" where
  "planner_of c =
     (let p = ac_primary (ags_agents c) in
      \<lparr>pn_llm = \<lparr>ad_kind = AnthropicAdapter, ad_api_key = Some (pv_api_key p), ad_model = Some (pv_model p),
          ad_base = Some (text_or ''https://api.anthropic.com'' (pv_api_base p)), ad_region = None, ad_max_tokens = Some 1024\<rparr>,
       pn_max_steps = ags_planning_max_steps c\<rparr>)"

definition with_tools_skills_and_stats ::
    "'t library \<Rightarrow> agent_section \<Rightarrow> tools_config \<Rightarrow> 't tool_registry \<Rightarrow> string option
     \<Rightarrow> (string \<Rightarrow> (f64 \<times> f64) option) \<Rightarrow> 't manager" where
  "with_tools_skills_and_stats lib c tc registry skills prices =
     \<lparr>mg_config = c, mg_tools_config = tc, mg_registry = registry,
      mg_planner = (if ags_planning_enabled c
                    then (case lb_planner lib (planner_of c) of Inr _ \<Rightarrow> Some (planner_of c) | Inl _ \<Rightarrow> None)
                    else None),
      mg_skills = skills, mg_agents = (\<lambda>_. None), mg_prices = prices, mg_seeded = False\<rparr>"

subsection \<open>Making an agent\<close>

definition create_llm :: "'t library \<Rightarrow> 't manager \<Rightarrow> string + adapter list" where
  "create_llm lib m = create_llm_with_max_tokens (lb_adapter lib) (ags_agents (mg_config m)) None"

definition system_prompt :: "string option \<Rightarrow> string" where
  "system_prompt skills =
     (case skills of Some c \<Rightarrow> if c \<noteq> [] then SYSTEM_PROMPT @ c else SYSTEM_PROMPT | None \<Rightarrow> SYSTEM_PROMPT)"

definition agent_tools :: "'t manager \<Rightarrow> ((string \<times> 't) list \<times> nat) option" where
  "agent_tools m =
     (if tlc_enabled (mg_tools_config m) \<and> mg_registry m \<noteq> []
      then Some (mg_registry m, tlc_max_steps (mg_tools_config m)) else None)"

definition create_agent :: "'t library \<Rightarrow> 't manager \<Rightarrow> string + 't user_agent" where
  "create_agent lib m =
     try_bind (create_llm lib m) (\<lambda>chain.
     try_bind (case agent_tools m of
                 None \<Rightarrow> Ok ()
               | Some (tools, steps) \<Rightarrow>
                   (case lb_react lib tools steps of
                      Inl e \<Rightarrow> Err (''failed to create ReActAgent: '' @ e) | Inr _ \<Rightarrow> Ok ())) (\<lambda>_.
       let a = \<lparr>ua_chain = chain, ua_react = agent_tools m, ua_max_history = ags_max_history (mg_config m),
                ua_system_prompt = system_prompt (mg_skills m)\<rparr>
       in case lb_agent lib a of
            Inl e \<Rightarrow> Err (''failed to create ConversationalAgent: '' @ e)
          | Inr _ \<Rightarrow> Ok a))"

subsection \<open>What is done to a manager\<close>

definition manager_register_tool :: "string \<Rightarrow> 't \<Rightarrow> 't manager \<Rightarrow> (string + unit) \<times> 't manager" where
  "manager_register_tool name t m =
     (case register name t (mg_registry m) of
        Inl e \<Rightarrow> (Err e, m) | Inr r \<Rightarrow> (Ok (), m\<lparr>mg_registry := r\<rparr>))"

definition reload_skills_context :: "string option \<Rightarrow> 't manager \<Rightarrow> 't manager" where
  "reload_skills_context ctx m = m\<lparr>mg_skills := ctx\<rparr>"

text \<open>A message's first step: the agent of its sender is there or made.\<close>

definition agent_for :: "'t library \<Rightarrow> string \<Rightarrow> 't manager \<Rightarrow> (string + unit) \<times> 't manager" where
  "agent_for lib user_id m =
     (case mg_agents m user_id of
        Some _ \<Rightarrow> (Ok (), m)
      | None \<Rightarrow> (case create_agent lib m of
                  Inl e \<Rightarrow> (Err e, m)
                | Inr a \<Rightarrow> (Ok (), m\<lparr>mg_agents := (mg_agents m)(user_id \<mapsto> a)\<rparr>)))"

definition drop_user :: "string \<Rightarrow> 't manager \<Rightarrow> 't manager" where
  "drop_user user_id m = m\<lparr>mg_agents := (mg_agents m)(user_id := None)\<rparr>"

definition set_model_pricing :: "string \<Rightarrow> f64 \<times> f64 \<Rightarrow> 't manager \<Rightarrow> 't manager" where
  "set_model_pricing model rates m = m\<lparr>mg_prices := (mg_prices m)(model \<mapsto> rates)\<rparr>"

text \<open>Before the first cost is looked up the stub's rates are set, once.\<close>

definition ensure_pricing_seeded :: "'t manager \<Rightarrow> 't manager" where
  "ensure_pricing_seeded m =
     (if mg_seeded m then m
      else (if pv_provider (ac_primary (ags_agents (mg_config m))) = ''stub''
            then set_model_pricing STUB_MODEL (Fin 1, Fin 2) m else m)\<lparr>mg_seeded := True\<rparr>)"

datatype 't manager_op =
    RegisterTool string 't
  | ReloadSkills "string option"
  | MessageOf string
  | RemoveUser string
  | SetPrice string "f64 \<times> f64"
  | SeedPrices

fun manager_step :: "'t library \<Rightarrow> 't manager_op \<Rightarrow> 't manager \<Rightarrow> 't manager" where
  "manager_step lib (RegisterTool n t) m = snd (manager_register_tool n t m)"
| "manager_step lib (ReloadSkills ctx) m = reload_skills_context ctx m"
| "manager_step lib (MessageOf u) m = snd (agent_for lib u m)"
| "manager_step lib (RemoveUser u) m = drop_user u m"
| "manager_step lib (SetPrice model rates) m = set_model_pricing model rates m"
| "manager_step lib SeedPrices m = ensure_pricing_seeded m"

definition manager_run :: "'t library \<Rightarrow> 't manager_op list \<Rightarrow> 't manager \<Rightarrow> 't manager" where
  "manager_run lib ops m = fold (manager_step lib) ops m"

subsection \<open>What steps leave alone\<close>

lemma step_config [simp]:
  "mg_config (manager_step lib op m) = mg_config m" "mg_tools_config (manager_step lib op m) = mg_tools_config m"
  by (cases op; simp add: manager_register_tool_def reload_skills_context_def agent_for_def drop_user_def
      set_model_pricing_def ensure_pricing_seeded_def split: sum.split option.split)+

lemma kept_agent:
  assumes "mg_agents m u = Some a" and "op \<noteq> RemoveUser u"
  shows "mg_agents (manager_step lib op m) u = Some a"
  using assms
  by (cases op; auto simp: manager_register_tool_def reload_skills_context_def agent_for_def drop_user_def
      set_model_pricing_def ensure_pricing_seeded_def split: sum.split option.split)

lemma kept_agents:
  assumes "mg_agents m u = Some a" and "RemoveUser u \<notin> set ops"
  shows "mg_agents (manager_run lib ops m) u = Some a"
  using assms unfolding manager_run_def
proof (induction ops arbitrary: m)
  case (Cons op ops)
  have "mg_agents (manager_step lib op m) u = Some a" by (rule kept_agent) (use Cons.prems in auto)
  then show ?case using Cons.IH Cons.prems(2) by simp
qed simp

lemma made_agent:
  assumes "create_agent lib m = Ok a"
  shows "ua_react a = agent_tools m" and "ua_system_prompt a = system_prompt (mg_skills m)"
    and "ua_max_history a = ags_max_history (mg_config m)"
    and "create_llm_with_max_tokens (lb_adapter lib) (ags_agents (mg_config m)) None = Ok (ua_chain a)"
  using assms
  by (auto simp: create_agent_def create_llm_def try_bind_def Let_def split: sum.splits option.splits prod.splits)

text \<open>Tools are only ever added.\<close>

lemma registry_grows:
  "\<exists>more. mg_registry (manager_run lib ops m) = mg_registry m @ more"
proof -
  have "\<exists>more. mg_registry (manager_step lib op m) = mg_registry m @ more" for op m
  proof (cases op)
    case (RegisterTool n t)
    then show ?thesis by (simp add: manager_register_tool_def register_def)
  next
    case (MessageOf u)
    then show ?thesis by (cases "mg_agents m u"; cases "create_agent lib m") (simp_all add: agent_for_def)
  qed (simp_all add: reload_skills_context_def drop_user_def set_model_pricing_def ensure_pricing_seeded_def)
  note one = this
  show ?thesis unfolding manager_run_def
  proof (induction ops arbitrary: m)
    case (Cons op ops)
    obtain m1 where "mg_registry (manager_step lib op m) = mg_registry m @ m1" using one by blast
    moreover obtain m2 where "mg_registry (fold (manager_step lib) ops (manager_step lib op m))
        = mg_registry (manager_step lib op m) @ m2" using Cons.IH by blast
    ultimately show ?case by simp
  qed simp
qed

subsection \<open>Properties\<close>

text \<open>An agent is what the moment of its making gave it. The first message of a user makes an agent with
  the tools that were registered and the skills that were loaded by then; whatever is registered,
  reloaded or sent afterwards, that user is answered by this very agent until it is removed, and the
  next message after that makes one of what is there at that later moment.\<close>

theorem agent_keeps_what_it_was_made_with:
  assumes "mg_agents m u = None" and "create_agent lib m = Ok a" and "RemoveUser u \<notin> set ops"
  shows "mg_agents (manager_run lib (MessageOf u # ops) m) u = Some a
    \<and> ua_react a = agent_tools m \<and> ua_system_prompt a = system_prompt (mg_skills m)
    \<and> (\<forall>b. create_agent lib (manager_run lib ops (snd (agent_for lib u m))) = Ok b \<longrightarrow>
        mg_agents (manager_run lib (MessageOf u # ops @ [RemoveUser u, MessageOf u]) m) u = Some b)"
proof -
  let ?m1 = "m\<lparr>mg_agents := (mg_agents m)(u \<mapsto> a)\<rparr>"
  have first: "agent_for lib u m = (Ok (), ?m1)" by (simp add: agent_for_def assms)
  have "mg_agents (manager_run lib ops ?m1) u = Some a" by (rule kept_agents) (simp_all add: assms(3))
  then have "mg_agents (manager_run lib (MessageOf u # ops) m) u = Some a"
    by (simp add: manager_run_def first)
  moreover have "mg_agents (manager_run lib (MessageOf u # ops @ [RemoveUser u, MessageOf u]) m) u = Some b"
    if "create_agent lib (manager_run lib ops ?m1) = Ok b" for b
  proof -
    let ?m2 = "manager_run lib ops ?m1"
    have "create_agent lib (drop_user u ?m2) = create_agent lib ?m2"
      by (simp add: create_agent_def create_llm_def agent_tools_def drop_user_def)
    then have made: "create_agent lib (drop_user u ?m2) = Ok b" using that by simp
    have "manager_run lib (MessageOf u # ops @ [RemoveUser u, MessageOf u]) m = snd (agent_for lib u (drop_user u ?m2))"
      by (simp add: manager_run_def first)
    moreover have "mg_agents (drop_user u ?m2) u = None" by (simp add: drop_user_def)
    ultimately show ?thesis by (simp add: agent_for_def made)
  qed
  ultimately show ?thesis using made_agent [OF assms(2)] by (simp add: first)
qed

definition free_library :: "nat library" where
  "free_library = \<lparr>lb_adapter = (\<lambda>_. Ok ()), lb_planner = (\<lambda>_. Ok ()), lb_react = (\<lambda>_ _. Ok ()), lb_agent = (\<lambda>_. Ok ())\<rparr>"

lemma agent_keeps_what_it_was_made_with_witness:
  "\<exists>c a. config_from_env demo_env (\<lambda>_. None) = Ok c
    \<and> mg_agents (manager_run free_library [MessageOf ''u'', ReloadSkills (Some ''new''), RegisterTool ''t'' 3]
        (with_tools_skills_and_stats free_library (cfg_agents c) (cfg_tools c) [] (Some ''old'') (\<lambda>_. None))) ''u'' = Some a
    \<and> ua_system_prompt a = SYSTEM_PROMPT @ ''old''"
proof -
  obtain c where c: "config_from_env demo_env (\<lambda>_. None) = Ok c"
    by (simp add: config_from_env_def demo_env_def)
  let ?m = "with_tools_skills_and_stats free_library (cfg_agents c) (cfg_tools c) [] (Some ''old'') (\<lambda>_. None)"
  have fresh: "mg_agents ?m ''u'' = None" by (simp add: with_tools_skills_and_stats_def)
  obtain a where a: "create_agent free_library ?m = Ok a"
    by (simp add: create_agent_def create_llm_def create_llm_with_max_tokens_def create_adapter_def free_library_def
        agent_tools_def with_tools_skills_and_stats_def Let_def)
  have "RemoveUser ''u'' \<notin> set [ReloadSkills (Some ''new''), RegisterTool ''t'' 3]" by simp
  from agent_keeps_what_it_was_made_with [OF fresh a this] c show ?thesis
    by (auto simp: with_tools_skills_and_stats_def system_prompt_def)
qed

text \<open>Seeding happens once, so a price set before the first completion of the stub is overwritten by it,
  and one set later stays.\<close>

lemma seeding_overwrites_the_stubs_price:
  assumes "\<not> mg_seeded m" and "pv_provider (ac_primary (ags_agents (mg_config m))) = ''stub''"
  shows "mg_prices (ensure_pricing_seeded (set_model_pricing STUB_MODEL rates m)) STUB_MODEL = Some (Fin 1, Fin 2)"
    and "mg_prices (ensure_pricing_seeded (set_model_pricing STUB_MODEL rates (ensure_pricing_seeded m))) STUB_MODEL = Some rates"
  using assms by (simp_all add: ensure_pricing_seeded_def set_model_pricing_def)

end
