(* ===== verification/Drain.thy ===== *)
theory Drain
  imports Supervisor "HOL-Library.Sublist"
begin

section \<open>Draining the pipes of a run (\<open>src/quarry/supervisor.rs\<close>)\<close>

text \<open>
  What the two readers have read of a child's pipes when the supervisor stops waiting for them. A
  pipe is the lines written to it, each with the time it arrives, and the time its last writer
  closes it, which a descendant of the child may put off for ever. Times are milliseconds after the
  child itself was reaped; what was written before is there at time 0.
\<close>

record pipe =
  pp_lines :: "(nat \<times> string) list"
  pp_closed :: "nat option"

text \<open>The reader takes line after line and ends at the end of the pipe, or at the first line that is
  not UTF-8: \<open>next_line\<close> fails there, and the loop is left as if the pipe had ended.\<close>

fun reader :: "(nat \<times> string) list \<Rightarrow> nat option \<Rightarrow> (nat \<times> string) list \<times> nat option" where
  "reader [] shut = ([], shut)"
| "reader ((t, l) # ls) shut =
     (if valid_utf8 l then (let (xs, e) = reader ls shut in ((t, l) # xs, e)) else ([], Some t))"

definition lines_read :: "pipe \<Rightarrow> (nat \<times> string) list" where
  "lines_read p = fst (reader (pp_lines p) (pp_closed p))"

definition reader_end :: "pipe \<Rightarrow> nat option" where
  "reader_end p = snd (reader (pp_lines p) (pp_closed p))"

definition DRAIN_GRACE :: nat where
  "DRAIN_GRACE = 500"

text \<open>One wait of \<open>drain_grace\<close>, begun at a time: whether the reader ended in it, and when the wait is
  over. Where the reader ends in the very moment the grace does, either may be noticed first.\<close>

definition wait_for_reader :: "bool \<Rightarrow> nat \<Rightarrow> nat option \<Rightarrow> bool \<times> nat" where
  "wait_for_reader tie begun ends =
     (case ends of
        Some t \<Rightarrow> if t < begun + DRAIN_GRACE \<or> t = begun + DRAIN_GRACE \<and> tie then (True, max begun t)
                  else (False, begun + DRAIN_GRACE)
      | None \<Rightarrow> (False, begun + DRAIN_GRACE))"

text \<open>The readers are waited for one after the other; a reader that is given up is aborted.\<close>

record drained =
  dr_abandoned :: bool
  dr_stdout_until :: nat
  dr_stderr_until :: nat

definition drain_grace :: "bool \<times> bool \<Rightarrow> pipe \<Rightarrow> pipe \<Rightarrow> drained" where
  "drain_grace ties out err =
     (let (stdout_done, t1) = wait_for_reader (fst ties) 0 (reader_end out);
          (stderr_done, t2) = wait_for_reader (snd ties) t1 (reader_end err)
      in \<lparr>dr_abandoned = \<not> stdout_done, dr_stdout_until = t1, dr_stderr_until = t2\<rparr>)"

definition read_by :: "nat \<Rightarrow> pipe \<Rightarrow> string list" where
  "read_by t p = map snd (takeWhile (\<lambda>x. fst x \<le> t) (lines_read p))"

text \<open>What the run goes on with.\<close>

definition drained_world :: "bool \<times> bool \<Rightarrow> pipe \<Rightarrow> pipe \<Rightarrow> world \<Rightarrow> world" where
  "drained_world ties out err w =
     (let d = drain_grace ties out err in
      w\<lparr>w_stdout := read_by (dr_stdout_until d) out, w_stderr := read_by (dr_stderr_until d) err,
        w_abandoned := dr_abandoned d\<rparr>)"

subsection \<open>What is kept\<close>

text \<open>Lines arrive in the order they are written, before the pipe is shut.\<close>

definition timely :: "pipe \<Rightarrow> bool" where
  "timely p \<longleftrightarrow> sorted (map fst (pp_lines p))
     \<and> (\<forall>c. pp_closed p = Some c \<longrightarrow> (\<forall>x \<in> set (pp_lines p). fst x \<le> c))"

definition written :: "pipe \<Rightarrow> string list" where
  "written p = map snd (pp_lines p)"

lemma cut_at:
  "list_all P xs \<Longrightarrow> \<not> P y \<Longrightarrow> takeWhile P (xs @ y # ys) = xs"
  "list_all P xs \<Longrightarrow> \<not> P y \<Longrightarrow> dropWhile P (xs @ y # ys) = y # ys"
  by (induction xs) auto

lemma reader_takes: "fst (reader ls shut) = takeWhile (\<lambda>x. valid_utf8 (snd x)) ls"
  by (induction ls shut rule: reader.induct) (auto split: prod.split)

lemma reader_whole: "list_all (\<lambda>x. valid_utf8 (snd x)) ls \<Longrightarrow> snd (reader ls shut) = shut"
  by (induction ls shut rule: reader.induct) (auto split: prod.split)

lemma reader_stops: "\<not> list_all (\<lambda>x. valid_utf8 (snd x)) ls \<Longrightarrow>
    snd (reader ls shut) = Some (fst (hd (dropWhile (\<lambda>x. valid_utf8 (snd x)) ls)))"
  by (induction ls shut rule: reader.induct) (auto split: prod.split)

lemma read_by_prefix: "prefix (read_by t p) (written p)"
proof -
  have "prefix (takeWhile (\<lambda>x. fst x \<le> t) (takeWhile (\<lambda>x. valid_utf8 (snd x)) (pp_lines p))) (pp_lines p)"
    by (rule prefix_order.order_trans [OF takeWhile_is_prefix takeWhile_is_prefix])
  then show ?thesis by (simp add: read_by_def written_def lines_read_def reader_takes map_mono_prefix)
qed

text \<open>The readers never hold up a run for more than a second.\<close>

lemma drain_ends_within_a_second:
  "dr_stdout_until (drain_grace ties out err) \<le> 500" "dr_stderr_until (drain_grace ties out err) \<le> 1000"
  by (auto simp: drain_grace_def wait_for_reader_def DRAIN_GRACE_def Let_def split: option.splits prod.splits)

lemma abandoned_iff:
  "dr_abandoned (drain_grace ties out err) \<longleftrightarrow>
     (case reader_end out of None \<Rightarrow> True | Some t \<Rightarrow> 500 < t \<or> t = 500 \<and> \<not> fst ties)"
  by (auto simp: drain_grace_def wait_for_reader_def DRAIN_GRACE_def Let_def split: option.splits prod.splits)

lemma not_abandoned_until:
  "\<not> dr_abandoned (drain_grace ties out err) \<Longrightarrow> reader_end out = Some t \<Longrightarrow>
   dr_stdout_until (drain_grace ties out err) = t"
  by (auto simp: drain_grace_def wait_for_reader_def DRAIN_GRACE_def Let_def split: option.splits prod.splits if_splits)

lemma read_by_end:
  assumes "timely p" and "reader_end p = Some t"
  shows "read_by t p = map snd (lines_read p)"
proof (cases "list_all (\<lambda>x. valid_utf8 (snd x)) (pp_lines p)")
  case True
  then have "pp_closed p = Some t" using assms(2) by (simp add: reader_end_def reader_whole)
  then have "\<forall>x \<in> set (lines_read p). fst x \<le> t"
    using assms(1) by (auto simp: timely_def lines_read_def reader_takes dest: set_takeWhileD)
  then show ?thesis by (simp add: read_by_def takeWhile_eq_all_conv [THEN iffD2])
next
  case False
  let ?v = "\<lambda>x. valid_utf8 (snd x)"
  have t: "t = fst (hd (dropWhile ?v (pp_lines p)))"
    using assms(2) False by (simp add: reader_end_def reader_stops)
  obtain y ys where d: "dropWhile ?v (pp_lines p) = y # ys"
    using False by (cases "dropWhile ?v (pp_lines p)") (auto simp: list_all_iff)
  have "pp_lines p = takeWhile ?v (pp_lines p) @ y # ys" by (metis d takeWhile_dropWhile_id)
  with assms(1) have "sorted (map fst (takeWhile ?v (pp_lines p) @ y # ys))" by (simp add: timely_def)
  then have "\<forall>x \<in> set (lines_read p). fst x \<le> t"
    by (auto simp: sorted_append t d lines_read_def reader_takes)
  then show ?thesis by (simp add: read_by_def takeWhile_eq_all_conv [THEN iffD2])
qed

text \<open>Reading is counting: what was read of a longer stream is what was read of its beginning, and
  more.\<close>

lemma read_event_stream_prefix:
  "prefix (sa_events_seen (read_event_stream pj sm xs)) (sa_events_seen (read_event_stream pj sm (xs @ ys)))"
proof (induction ys rule: rev_induct)
  case (snoc y ys)
  have "prefix (sa_events_seen acc) (sa_events_seen (read_line pj sm acc y))" for acc
    by (auto simp: read_line_def Let_def split: sum.splits)
  from prefix_order.order_trans [OF snoc this] show ?case
    by (simp add: read_event_stream_def flip: append_assoc)
qed simp

text \<open>C12: What a run says of its stream can be relied on as far as the run says so. The supervisor waits
  at most half a second for the child's output once the child is gone, and at most another half
  for its messages, whoever else holds the pipes. The events reported are a beginning of the events
  written, in every case. Where the read is not marked as abandoned and every line was UTF-8, they are all
  that was written: the outcome is the one that reading to the end would have given.\<close>

theorem drained_run_is_whole_or_marked:
  fixes ties out err w r dir pj sm
  defines "ro \<equiv> finish_run pj sm (drained_world ties out err w) r dir"
  assumes "timely out"
  shows "dr_stdout_until (drain_grace ties out err) \<le> 500
    \<and> dr_stderr_until (drain_grace ties out err) \<le> 1000
    \<and> prefix (ro_events ro) (sa_events_seen (read_event_stream pj sm (written out)))
    \<and> (\<not> ss_read_abandoned (ro_stats ro) \<longrightarrow> list_all valid_utf8 (written out) \<longrightarrow>
        ro_events ro = sa_events_seen (read_event_stream pj sm (written out))
        \<and> ro_stats ro = (sa_stats (read_event_stream pj sm (written out)))\<lparr>ss_read_abandoned := False\<rparr>)"
proof (intro conjI impI)
  let ?w = "drained_world ties out err w" and ?d = "drain_grace ties out err"
  have so: "w_stdout ?w = read_by (dr_stdout_until ?d) out" and ab: "w_abandoned ?w = dr_abandoned ?d"
    by (simp_all add: drained_world_def Let_def)
  have ev: "ro_events ro = sa_events_seen (read_event_stream pj sm (w_stdout ?w))"
    and st: "ro_stats ro = (sa_stats (read_event_stream pj sm (w_stdout ?w)))\<lparr>ss_read_abandoned := w_abandoned ?w\<rparr>"
    by (simp_all add: ro_def finish_run_def Let_def split: prod.split)
  show "dr_stdout_until ?d \<le> 500" "dr_stderr_until ?d \<le> 1000" by (rule drain_ends_within_a_second)+
  obtain rest where "written out = w_stdout ?w @ rest" using read_by_prefix so by (metis prefixE)
  then show "prefix (ro_events ro) (sa_events_seen (read_event_stream pj sm (written out)))"
    by (simp add: ev read_event_stream_prefix)
  assume "\<not> ss_read_abandoned (ro_stats ro)" and utf8: "list_all valid_utf8 (written out)"
  then have na: "\<not> dr_abandoned ?d" by (simp add: st ab)
  then obtain t where t: "reader_end out = Some t" by (auto simp: abandoned_iff split: option.splits)
  have "list_all (\<lambda>x. valid_utf8 (snd x)) (pp_lines out)" using utf8 by (simp add: written_def list_all_iff)
  then have "lines_read out = pp_lines out" by (simp add: lines_read_def reader_takes list_all_iff)
  then have "w_stdout ?w = written out"
    using read_by_end [OF assms(2) t] not_abandoned_until [OF na t] by (simp add: so written_def)
  then show "ro_events ro = sa_events_seen (read_event_stream pj sm (written out))"
    "ro_stats ro = (sa_stats (read_event_stream pj sm (written out)))\<lparr>ss_read_abandoned := False\<rparr>"
    using na by (simp_all add: ev st ab)
qed

lemma drained_run_is_whole_or_marked_witness:
  defines "out \<equiv> \<lparr>pp_lines = [(0, ''a''), (7, ''b'')], pp_closed = Some 9\<rparr>"
    and "err \<equiv> \<lparr>pp_lines = [], pp_closed = None\<rparr>"
  shows "dr_stderr_until (drain_grace (False, False) out err) \<le> 1000
    \<and> ro_stats (finish_run (\<lambda>_. Inl ''no'') (\<lambda>_ _. []) (drained_world (False, False) out err demo_world) (new_run_request ''u'' ''c'' ''why'' 5000000) ''d'')
      = (sa_stats (read_event_stream (\<lambda>_. Inl ''no'') (\<lambda>_ _. []) [''a'', ''b'']))\<lparr>ss_read_abandoned := False\<rparr>"
proof -
  have "timely out" by (simp add: out_def timely_def)
  moreover have utf8: "list_all valid_utf8 (written out)" by (simp add: out_def written_def) code_simp
  moreover have "reader_end out = Some 9"
    using utf8 by (simp add: out_def written_def reader_end_def reader_whole)
  then have "\<not> ss_read_abandoned (ro_stats (finish_run (\<lambda>_. Inl ''no'') (\<lambda>_ _. [])
      (drained_world (False, False) out err demo_world) (new_run_request ''u'' ''c'' ''why'' 5000000) ''d''))"
    by (simp add: finish_run_def drained_world_def Let_def abandoned_iff split: prod.split)
  moreover have "written out = [''a'', ''b'']" by (simp add: out_def written_def)
  ultimately show ?thesis
    using drained_run_is_whole_or_marked [of out "(False, False)" err "\<lambda>_. Inl ''no''" "\<lambda>_ _. []" demo_world
      "new_run_request ''u'' ''c'' ''why'' 5000000" "''d''"]
    by simp
qed

text \<open>A line that is not UTF-8 is not skipped like a line that is not JSON: the stream ends there. It
  is not counted, nothing after it is read, and the read is not marked as abandoned.\<close>

lemma unreadable_line_ends_the_stream:
  assumes "pp_lines out = map (Pair 0) (before @ l # after)" and "list_all valid_utf8 before" and "\<not> valid_utf8 l"
  shows "w_stdout (drained_world ties out err w) = before \<and> \<not> w_abandoned (drained_world ties out err w)"
proof -
  let ?v = "\<lambda>x. valid_utf8 (snd x)"
  have "list_all ?v (map (Pair 0) before)" "\<not> ?v (0, l)" using assms by (simp_all add: list_all_iff)
  from cut_at [OF this, of "map (Pair 0) after"]
  have "takeWhile ?v (pp_lines out) = map (Pair 0) before"
    "dropWhile ?v (pp_lines out) = (0, l) # map (Pair 0) after"
    by (simp_all add: assms(1))
  moreover have "\<not> list_all (\<lambda>x. valid_utf8 (snd x)) (pp_lines out)" using assms by simp
  ultimately have e: "reader_end out = Some 0" "lines_read out = map (Pair 0) before"
    by (simp_all add: reader_end_def lines_read_def reader_takes reader_stops)
  then have na: "\<not> dr_abandoned (drain_grace ties out err)" by (simp add: abandoned_iff)
  then show ?thesis
    using not_abandoned_until [OF na e(1)] e(2)
    by (simp add: drained_world_def Let_def read_by_def takeWhile_eq_all_conv [THEN iffD2] comp_def)
qed

end
