(* ===== verification/Live_Dashboard.thy ===== *)
theory Live_Dashboard
  imports Webchat Dashboard "HOL-Library.Sublist"
begin

section \<open>The live dashboard (\<open>src/gateway/dashboard.rs\<close>, \<open>src/gateway/http.rs\<close>)\<close>

text \<open>
  The events the gateway publishes while it works, and the socket that shows them: every five
  seconds it reports the counters, and between these it passes on what was published since it was
  opened. What a receiver of tokio's broadcast channel yields is an argument of the loop; the
  order it promises is the hypothesis \<open>observes\<close>.
\<close>

subsection \<open>Events\<close>

datatype dashboard_event =
    StatsUpdate nat nat nat nat nat
  | MessageEvent string string string string
  | QuarryRunEvent quarry_run

fun is_stats :: "dashboard_event \<Rightarrow> bool" where
  "is_stats (StatsUpdate i u a h t) = True"
| "is_stats e = False"

definition opt_int_json :: "int option \<Rightarrow> json" where
  "opt_int_json v = (case v of None \<Rightarrow> JNull | Some i \<Rightarrow> JInt i)"

text \<open>A number that is not finite is written as null.\<close>

definition opt_float_json :: "f64 option \<Rightarrow> json" where
  "opt_float_json v = (case v of Some (Fin q) \<Rightarrow> JFloat (Fin q) | _ \<Rightarrow> JNull)"

definition node_json :: "quarry_tree_node \<Rightarrow> json" where
  "node_json n = JObject
     [(''id'', JString (qn_id n)), (''problem'', JString (qn_problem n)),
      (''cost_micro_usd'', JInt (qn_cost_micro_usd n)), (''children'', JArray (map JString (qn_children n))),
      (''gap'', JBool (qn_gap n)), (''unfunded'', JBool (qn_unfunded n)), (''cache_hit'', JBool (qn_cache_hit n)),
      (''verified'', case qn_verified n of None \<Rightarrow> JNull | Some v \<Rightarrow> JBool v)]"

text \<open>An event as it is written to the socket: tagged by its kind, with the names of its fields.\<close>

fun event_json :: "dashboard_event \<Rightarrow> json" where
  "event_json (StatsUpdate messages_in messages_out users healthy uptime_seconds) = JObject
     [(''type'', JString ''stats_update''), (''messages_in'', JInt (int messages_in)),
      (''messages_out'', JInt (int messages_out)), (''active_users'', JInt (int users)),
      (''healthy_channels'', JInt (int healthy)), (''uptime_seconds'', JInt (int uptime_seconds))]"
| "event_json (MessageEvent channel user text direction) = JObject
     [(''type'', JString ''message_event''), (''channel'', JString channel), (''user'', JString user),
      (''preview'', JString text), (''direction'', JString direction)]"
| "event_json (QuarryRunEvent q) = JObject
     [(''type'', JString ''quarry_run''), (''run_id'', JString (qr_run_id q)),
      (''record_id'', JString (qr_record_id q)), (''outcome'', JString (qr_outcome q)),
      (''bound_by'', JString (qr_bound_by q)), (''spend_micro_usd'', opt_int_json (qr_spend_micro_usd q)),
      (''cap_micro_usd'', opt_int_json (qr_cap_micro_usd q)), (''gaps'', JInt (int (qr_gaps q))),
      (''unfunded'', JInt (int (qr_unfunded q))), (''stability_measured'', JBool (qr_stability_measured q)),
      (''stability'', opt_float_json (qr_stability q)), (''nodes'', JArray (map node_json (qr_nodes q)))]"

text \<open>What the gateway records is what it publishes: a message in either direction, or a run that
  ended. A run touches no counter.\<close>

datatype happening = Traffic nat direction message | RunEnded run_outcome

definition message_event :: "nat \<Rightarrow> direction \<Rightarrow> message \<Rightarrow> dashboard_event" where
  "message_event now d m = (let entry = recent_entry now d m in
     MessageEvent (rm_channel_id entry) (rm_user_id entry) (rm_content_preview entry) (direction_text d))"

fun published :: "happening \<Rightarrow> dashboard_event" where
  "published (Traffic now d m) = message_event now d m"
| "published (RunEnded outcome) = QuarryRunEvent (quarry_run_event outcome)"

fun recorded :: "happening \<Rightarrow> message_stats \<Rightarrow> message_stats" where
  "recorded (Traffic now d m) st = record_traffic (now, d, m) st"
| "recorded (RunEnded outcome) st = st"

subsection \<open>The socket\<close>

text \<open>What the loop can wake up to: the clock, with the state of the server at that moment, or the
  receiver. \<open>True\<close> is a frame the socket took.\<close>

datatype 'm wake_up =
    Tick "'m backend" "'m server" bool
  | Heard dashboard_event bool
  | Lagged nat
  | AllGone

datatype socket_end = StillOpen | SocketFailed | NoPublisher | SocketPanics

definition stats_update :: "'m backend \<Rightarrow> 'm server \<Rightarrow> dashboard_event option" where
  "stats_update b s =
     (case read_all (sv_channels s) of
        None \<Rightarrow> None
      | Some hs \<Rightarrow> Some (StatsUpdate (st_messages_in (sv_stats s)) (st_messages_out (sv_stats s))
          (bk_active_users b (sv_manager s)) (length (filter (is_healthy \<circ> snd) hs)) (bk_uptime_seconds b)))"

definition shown :: "dashboard_event \<Rightarrow> bool \<Rightarrow> dashboard_event list \<times> socket_end \<Rightarrow> dashboard_event list \<times> socket_end" where
  "shown e taken rest = (if taken then (e # fst rest, snd rest) else ([], SocketFailed))"

fun ws_loop :: "'m wake_up list \<Rightarrow> dashboard_event list \<times> socket_end" where
  "ws_loop [] = ([], StillOpen)"
| "ws_loop (Tick b s taken # wakes) =
     (case stats_update b s of None \<Rightarrow> ([], SocketPanics) | Some e \<Rightarrow> shown e taken (ws_loop wakes))"
| "ws_loop (Heard e taken # wakes) = shown e taken (ws_loop wakes)"
| "ws_loop (Lagged n # wakes) = ws_loop wakes"
| "ws_loop (AllGone # wakes) = ([], NoPublisher)"

definition handle_ws_socket :: "'m wake_up list \<Rightarrow> json list \<times> socket_end" where
  "handle_ws_socket wakes = (let (es, x) = ws_loop wakes in (map event_json es, x))"

text \<open>The promise of the broadcast channel: a receiver hears what is published after it subscribed,
  in order; where it is too slow it is told of a gap and goes on behind it; it hears of the end of
  the publishers after everything else.\<close>

fun observes :: "dashboard_event list \<Rightarrow> 'm wake_up list \<Rightarrow> bool" where
  "observes feed [] = True"
| "observes feed (Tick b s taken # wakes) = observes feed wakes"
| "observes feed (Heard e taken # wakes) = (case feed of [] \<Rightarrow> False | x # xs \<Rightarrow> e = x \<and> observes xs wakes)"
| "observes feed (Lagged n # wakes) = (n \<le> length feed \<and> observes (drop n feed) wakes)"
| "observes feed (AllGone # wakes) = (feed = [] \<and> observes feed wakes)"

text \<open>How many events the receiver was told it missed.\<close>

fun lagged_by :: "'m wake_up list \<Rightarrow> nat" where
  "lagged_by [] = 0"
| "lagged_by (Lagged n # wakes) = n + lagged_by wakes"
| "lagged_by (w # wakes) = lagged_by wakes"

subsection \<open>What it shows\<close>

lemma published_is_no_count [simp]: "\<not> is_stats (published h)"
  by (cases h) (simp_all add: message_event_def Let_def)

lemma stats_update_is_count: "stats_update b s = Some e \<Longrightarrow> is_stats e"
  by (auto simp: stats_update_def split: option.splits)

lemma shown_runs_are_published:
  "observes feed wakes \<Longrightarrow> list_all (\<lambda>e. \<not> is_stats e) feed \<Longrightarrow>
   subseq (filter (\<lambda>e. \<not> is_stats e) (fst (ws_loop wakes))) feed"
proof (induction wakes arbitrary: feed rule: ws_loop.induct)
  case (2 b s taken wakes)
  then show ?case
    by (cases "stats_update b s") (auto simp: shown_def dest: stats_update_is_count)
next
  case (3 e taken wakes)
  then show ?case by (cases feed) (auto simp: shown_def)
next
  case (4 n wakes)
  then have "subseq (filter (\<lambda>e. \<not> is_stats e) (fst (ws_loop wakes))) (drop n feed)"
    by (auto simp: list_all_iff dest: in_set_dropD)
  then show ?case by (simp add: subseq_order.order_trans [OF _ suffix_imp_subseq [OF suffix_drop]])
qed simp_all

lemma whole_feed:
  "observes feed wakes \<Longrightarrow> list_all (\<lambda>e. \<not> is_stats e) feed \<Longrightarrow> snd (ws_loop wakes) = NoPublisher \<Longrightarrow>
   lagged_by wakes = 0 \<Longrightarrow> filter (\<lambda>e. \<not> is_stats e) (fst (ws_loop wakes)) = feed"
proof (induction wakes arbitrary: feed rule: ws_loop.induct)
  case (2 b s taken wakes)
  then show ?case
    by (cases "stats_update b s") (auto simp: shown_def dest: stats_update_is_count split: if_splits)
next
  case (3 e taken wakes)
  then show ?case by (cases feed) (auto simp: shown_def split: if_splits)
qed simp_all

fun is_message :: "string \<Rightarrow> dashboard_event \<Rightarrow> bool" where
  "is_message d (MessageEvent c u p x) = (x = d)"
| "is_message d e = False"

lemma is_message_event [simp]: "is_message d (message_event now x m) \<longleftrightarrow> direction_text x = d"
  by (simp add: message_event_def Let_def)

lemma direction_text_eq [simp]:
  "direction_text d = ''inbound'' \<longleftrightarrow> d = Inbound" "direction_text d = ''outbound'' \<longleftrightarrow> d = Outbound"
  by (cases d; simp)+

lemma counters_count_events:
  "st_messages_in st < 2 ^ 64 \<Longrightarrow> st_messages_in (fold recorded hs st)
     = (st_messages_in st + length (filter (is_message ''inbound'') (map published hs))) mod 2 ^ 64"
  "st_messages_out st < 2 ^ 64 \<Longrightarrow> st_messages_out (fold recorded hs st)
     = (st_messages_out st + length (filter (is_message ''outbound'') (map published hs))) mod 2 ^ 64"
proof (induction hs arbitrary: st)
  case (Cons h hs)
  have bound: "st_messages_in (recorded h st) < 2 ^ 64" if "st_messages_in st < 2 ^ 64" for st
  proof (cases h)
    case (Traffic now d m)
    with that show ?thesis by (cases d) (simp_all add: record_inbound_def record_outbound_def fetch_add_def)
  qed (use that in simp)
  have bound': "st_messages_out (recorded h st) < 2 ^ 64" if "st_messages_out st < 2 ^ 64" for st
  proof (cases h)
    case (Traffic now d m)
    with that show ?thesis by (cases d) (simp_all add: record_inbound_def record_outbound_def fetch_add_def)
  qed (use that in simp)
  have inb: "st_messages_in (recorded h st) mod 2 ^ 64
      = (st_messages_in st + (if is_message ''inbound'' (published h) then 1 else 0)) mod 2 ^ 64" for st
  proof (cases h)
    case (Traffic now d m)
    then show ?thesis
      by (cases d) (simp_all add: record_inbound_def record_outbound_def fetch_add_def)
  qed simp
  have outb: "st_messages_out (recorded h st) mod 2 ^ 64
      = (st_messages_out st + (if is_message ''outbound'' (published h) then 1 else 0)) mod 2 ^ 64" for st
  proof (cases h)
    case (Traffic now d m)
    then show ?thesis
      by (cases d) (simp_all add: record_inbound_def record_outbound_def fetch_add_def)
  qed simp
  {
    case 1
    let ?n = "length (filter (is_message ''inbound'') (map published hs))"
    have "st_messages_in (fold recorded (h # hs) st) = (st_messages_in (recorded h st) + ?n) mod 2 ^ 64"
      using Cons.IH(1) [OF bound [OF 1]] by simp
    also have "\<dots> = (st_messages_in (recorded h st) mod 2 ^ 64 + ?n) mod 2 ^ 64" by (simp only: mod_add_left_eq)
    also have "\<dots> = (st_messages_in st + length (filter (is_message ''inbound'') (map published (h # hs)))) mod 2 ^ 64"
      by (simp only: inb mod_add_left_eq) simp
    finally show ?case .
  next
    case 2
    let ?n = "length (filter (is_message ''outbound'') (map published hs))"
    have "st_messages_out (fold recorded (h # hs) st) = (st_messages_out (recorded h st) + ?n) mod 2 ^ 64"
      using Cons.IH(2) [OF bound' [OF 2]] by simp
    also have "\<dots> = (st_messages_out (recorded h st) mod 2 ^ 64 + ?n) mod 2 ^ 64" by (simp only: mod_add_left_eq)
    also have "\<dots> = (st_messages_out st + length (filter (is_message ''outbound'') (map published (h # hs)))) mod 2 ^ 64"
      by (simp only: outb mod_add_left_eq) simp
    finally show ?case .
  }
qed simp_all

text \<open>The live dashboard shows what happened. Whatever wakes its loop, the events it passes on are a
  subsequence of those the gateway published, in their order, each at most once. A receiver that
  never lags and hears the publishers go has shown all of them, and then the numbers of messages it
  showed in either direction are the gateway's counters (modulo \<open>2\<^sup>6\<^sup>4\<close>).\<close>

theorem live_feed_is_the_traffic:
  assumes "observes (map published hs) wakes"
  shows "subseq (filter (\<lambda>e. \<not> is_stats e) (fst (ws_loop wakes))) (map published hs)
    \<and> (snd (ws_loop wakes) = NoPublisher \<and> lagged_by wakes = 0 \<longrightarrow>
        filter (\<lambda>e. \<not> is_stats e) (fst (ws_loop wakes)) = map published hs
        \<and> length (filter (is_message ''inbound'') (fst (ws_loop wakes))) mod 2 ^ 64
            = st_messages_in (fold recorded hs new_stats)
        \<and> length (filter (is_message ''outbound'') (fst (ws_loop wakes))) mod 2 ^ 64
            = st_messages_out (fold recorded hs new_stats))"
proof -
  have none: "list_all (\<lambda>e. \<not> is_stats e) (map published hs)" by (simp add: list_all_iff)
  have msg: "filter (is_message d) es = filter (is_message d) (filter (\<lambda>e. \<not> is_stats e) es)" for d es
    by (induction es) (auto elim!: is_stats.elims)
  show ?thesis
    using shown_runs_are_published [OF assms none] whole_feed [OF assms none]
      counters_count_events [of new_stats hs]
    by (simp add: msg [of "''inbound''" "fst (ws_loop wakes)"] msg [of "''outbound''" "fst (ws_loop wakes)"])
       (simp add: new_stats_def)
qed

text \<open>The first tick comes at once, and reads the health of every channel. One channel that keeps its
  health behind a lock is enough: the socket ends there, before it has shown anything.\<close>

lemma live_feed_dies_at_its_first_tick:
  assumes "\<exists>ch \<in> set (sv_channels s). read_health ch = None"
  shows "ws_loop (Tick b s taken # wakes) = ([], SocketPanics)"
proof -
  have "read_all chs = None" if "\<exists>ch \<in> set chs. read_health ch = None" for chs
    using that by (induction chs) (auto simp del: read_health.simps split: Option.bind_split)
  with assms have "read_all (sv_channels s) = None" by blast
  then show ?thesis by (simp add: stats_update_def)
qed

end
