(* ===== verification/Spec2Isabelle.thy ===== *)
theory Spec2Isabelle
  imports Gate Shell_Tool Hot_Config Openai_Api Sandbox Text_Tools Cron Delivery Dashboard Skills Event_Types Assembly Calendar Net_Tools Conversation Config_File Adapters Audit_Sink Startup Agent_Setup Drain Live_Dashboard
begin

text \<open>
  A verification library for rustynail, a gateway between chat platforms and language models,
  and for quarry, the research program it runs for a sender under that sender's spending caps.

  \<^bold>\<open>The program.\<close> A message enters through an adapter of \<open>src/channels\<close> (a webhook of the HTTP
  server, a polling loop, or a socket) and is queued. The gateway, \<open>src/gateway/mod.rs\<close>, takes the
  queue one message after the other: duplicates are dropped, a reply to a pending plan goes to the
  approval gate, the rate limiter has its say, the message is remembered and put to a model
  (\<open>src/agents\<close>, \<open>src/tools\<close>, \<open>src/skills\<close>), and the answer is formatted, cut into chunks and given
  to the adapter it came from. \<open>src/quarry\<close> starts a child process for a sender: the caps in the
  sender's words (\<open>caps.rs\<close>) are held against the operator's policy (\<open>policy.rs\<close>), the plan is put
  to the sender (\<open>gate.rs\<close>, \<open>approval.rs\<close>), the binary is checked (\<open>verify.rs\<close>), the run is
  supervised and its event stream read (\<open>supervisor.rs\<close>, \<open>event.rs\<close>), and a receipt is made of how
  it ended (\<open>receipt.rs\<close>). \<open>src/config/mod.rs\<close> and \<open>src/main.rs\<close> put all of it together.

  \<^bold>\<open>The shared vocabulary.\<close> \<open>Prelude\<close>: results (\<open>Ok\<close> and \<open>Err\<close> are the right and the left of a sum),
  integers of 64 bits with their wrap-around, decimal notation, ordered maps. \<open>Rust_Str\<close>: strings
  are lists of UTF-8 bytes; characters, slices that panic off a boundary, trimming, searching,
  splitting. \<open>F64\<close>, \<open>F64_Ops\<close>: IEEE doubles as rationals with rounding to even, infinities and NaN.
  \<open>Bounded_Log\<close>: the last elements of a log.

  \<^bold>\<open>quarry.\<close> \<open>Event\<close> models \<open>event.rs\<close>: wire types, their decoding and the record of a run; \<open>Event_Types\<close>
  shows that whatever is read fits the types of the source. \<open>Caps\<close> models every scanner of
  \<open>caps.rs\<close>; a panic is \<open>None\<close>. Its lemmas show what a parse may return, that an amount reads back,
  and on which texts the parser returns at all. \<open>Audit_Log\<close> has the events of \<open>src/audit/mod.rs\<close>.
  \<open>Policy\<close>: entries, resolution and scopes; no grant exceeds its entry, and no two tenants share a
  key. \<open>Approval\<close>: the registry of pending plans as a transition system over \<open>begin\<close>, replies, waits
  and the clock, with an invariant proved over all its steps; no wait returns approval without a
  yes in time, and every wait ends. \<open>Verify\<close>: the check of a binary and its manifest. \<open>Supervisor\<close>:
  claiming a slot under interleaving, the environment of the child, the reader of its stream, the
  order of checks before a spawn, the classification of every end, and the reaper; \<open>Drain\<close>: how long
  the pipes of a child that is gone are read, and what is read of them. \<open>Gate\<close> composes
  the approvals with the supervisor, \<open>Receipt\<close> and \<open>Dashboard\<close> what the sender is told.

  \<^bold>\<open>The gateway.\<close> \<open>Messages\<close>, \<open>Chunker\<close>, \<open>Formatter\<close>, \<open>Gateway_Edge\<close> (duplicates, rates, preferences),
  \<open>Stores\<close> and \<open>Backends\<close> (conversation memory and its databases), \<open>Hot_Config\<close>, \<open>Agents\<close>, \<open>Skills\<close>,
  \<open>Cron\<close>, \<open>Openai_Api\<close>, \<open>Tool_Result\<close> and the tools (\<open>Shell_Tool\<close>, \<open>Sandbox\<close>, \<open>Text_Tools\<close>, \<open>Calendar\<close>,
  \<open>Net_Tools\<close>) model a file each, named in their own headers. \<open>Pipeline\<close> is \<open>handle_message_inner\<close> on
  a record of the gateway's state, composed of the operations of these. \<open>Channels\<close> has the payload,
  the signature check and the request of every adapter; \<open>Delivery\<close> follows a message from a platform
  through the pipeline and back. \<open>Http\<close> is the server, every handler and the route table as one
  function on the server's state; \<open>Http_Guard\<close> shows what it lets in; \<open>Webchat\<close> has the sockets of the
  chat, \<open>Live_Dashboard\<close> the one that shows the gateway's events. \<open>Conversation\<close> follows the queue of
  messages: senders are kept apart, and no answer depends on what the memory holds. \<open>Adapters\<close> has the
  life of every adapter and the loops its tasks run (Socket Mode, long polling, the inbox, the token
  of Teams): which tasks stopping ends, how the loops pace themselves, that no update is taken twice.

  \<^bold>\<open>The process.\<close> \<open>Config\<close> loads the configuration from the environment and \<open>Config_File\<close> from a file,
  section by section; with nothing in it, the two agree. \<open>Assembly\<close> builds the gateway of it, runs the
  queue, stops it, and reports on a configuration; \<open>Startup\<close> has the adapters and the tools of MCP
  servers it starts with, the order of it all, the reloads, and the status command; \<open>Agent_Setup\<close> the
  making of agents with their prompt and tools. \<open>Audit_Sink\<close> is the logger and its background writer
  as a transition system: what was logged is in the file, in order, when the queue is empty.

  \<^bold>\<open>How the model corresponds to the code.\<close> A struct is a record with the same fields, an enum a
  datatype, a method a function from the state to the state; definitions have the names of the
  source where these are free. Shared state behind locks is passed explicitly; where operations of
  several tasks interleave (slots, approvals, sockets) the steps are an inductive relation and the
  properties hold in every reachable state. Errors are values; a panic is \<open>None\<close>. Clocks, identifiers
  and random choices are arguments.

  \<^bold>\<open>Interfaces.\<close> The locales state what one component relies on in another and are interpreted on
  the models: \<open>ordered_map\<close> (insertion and lookup), \<open>caps_policy\<close> (a policy decides), \<open>slot_counter\<close>
  (claim and release), \<open>plan_gate\<close> (a gate that settles plans), \<open>history_store\<close> (a bounded log per
  user, interpreted on the store in memory and shown for Redis under the laws of its commands),
  \<open>splitter\<close> (a loop that makes progress), \<open>signature_scheme\<close>, \<open>addressed_by_user\<close>.

  \<^bold>\<open>Bounds and termination.\<close> Loops of the source are recursive functions that end by a measure on what
  is left to read or to wait for. The one loop that may not end, the chunker's, is a
  \<open>partial_function\<close>: \<open>None\<close> is a loop that runs for ever; it is shown to return for every limit of at
  least four bytes and every character to be no wider, and not to for some smaller ones. Integers of
  32 and 64 bits wrap, saturate or are checked where the source has them do so; lengths of lists
  and counters that cannot reach their bound are natural numbers. No definition uses fuel.

  \<^bold>\<open>Parameters.\<close> What is not under \<open>src\<close> is an argument: JSON and YAML text, HMAC and SHA-256, time
  zones and the rendering of instants, letter case beyond ASCII, the file system, processes, the
  network, the model, Redis, the row order of a database, exponential and square root, the HTML
  parser, the extractors of axum. Where a property needs a law of one of them, the law is a
  hypothesis with the documented behaviour, and a witness instantiates it.

  \<^bold>\<open>Not modelled.\<close> Tracing, the registry of metrics, and the printing of help by the command line parser;
  the protocol of the MCP server and its clients, the client of Discord's gateway, and the wire of
  sockets; the models and agents of agenkit and its vector memory, of which the code uses the calls
  that are parameters here; the reading of YAML text into a tree. They are I/O or belong to libraries.
\<close>

end
